(* ===== verification/Prelude.thy ===== *)
theory Prelude
  imports Complex_Main
begin

text \<open>
  Shared vocabulary of the development: results of code that may raise, actions that
  also change a state, and Python dictionaries as association lists, with the rules
  the component proofs lean on.
\<close>

named_theorems res_simps
  \<comment> \<open>inversion and computation of results\<close>
named_theorems act_simps
  \<comment> \<open>unfolding of actions\<close>

section \<open>Results: a value or a raised exception\<close>

definition bind_res :: "'e + 'a \<Rightarrow> ('a \<Rightarrow> 'e + 'b) \<Rightarrow> 'e + 'b" where
  "bind_res r f = (case r of Inl e \<Rightarrow> Inl e | Inr x \<Rightarrow> f x)"

definition map_err :: "('e \<Rightarrow> 'f) \<Rightarrow> 'e + 'a \<Rightarrow> 'f + 'a" where
  "map_err g r = (case r of Inl e \<Rightarrow> Inl (g e) | Inr x \<Rightarrow> Inr x)"

lemma bind_res_simps [simp, res_simps]:
  "bind_res (Inl e) f = Inl e"
  "bind_res (Inr x) f = f x"
  by (simp_all add: bind_res_def)

lemma map_err_simps [simp, res_simps]:
  "map_err g (Inl e) = Inl (g e)"
  "map_err g (Inr x) = Inr x"
  by (simp_all add: map_err_def)

lemma bind_res_Inr_iff [res_simps]:
  "bind_res r f = Inr y \<longleftrightarrow> (\<exists>x. r = Inr x \<and> f x = Inr y)"
  by (cases r) simp_all

lemma bind_res_Inl_iff [res_simps]:
  "bind_res r f = Inl e \<longleftrightarrow> r = Inl e \<or> (\<exists>x. r = Inr x \<and> f x = Inl e)"
  by (cases r) simp_all

lemma map_err_Inr_iff [simp, res_simps]: "map_err g r = Inr y \<longleftrightarrow> r = Inr y"
  by (cases r) simp_all

lemma map_err_Inl_iff [res_simps]: "map_err g r = Inl e \<longleftrightarrow> (\<exists>d. r = Inl d \<and> e = g d)"
  by (cases r) auto

lemma bind_res_assoc: "bind_res (bind_res r f) g = bind_res r (\<lambda>x. bind_res (f x) g)"
  by (cases r) simp_all

section \<open>Actions: a result together with the state it leaves behind\<close>

type_synonym ('s, 'e, 'a) action = "'s \<Rightarrow> ('e + 'a) \<times> 's"

definition act_return :: "'a \<Rightarrow> ('s, 'e, 'a) action" where
  "act_return x = (\<lambda>s. (Inr x, s))"

definition act_raise :: "'e \<Rightarrow> ('s, 'e, 'a) action" where
  "act_raise e = (\<lambda>s. (Inl e, s))"

definition act_lift :: "'e + 'a \<Rightarrow> ('s, 'e, 'a) action" where
  "act_lift r = (\<lambda>s. (r, s))"

definition act_bind :: "('s, 'e, 'a) action \<Rightarrow> ('a \<Rightarrow> ('s, 'e, 'b) action) \<Rightarrow> ('s, 'e, 'b) action" where
  "act_bind m f = (\<lambda>s. case m s of (Inl e, s') \<Rightarrow> (Inl e, s') | (Inr x, s') \<Rightarrow> f x s')"

text \<open>The clean-up of a \<open>finally\<close> block or of a context manager: it always runs, and an
  exception it raises replaces the outcome of the body.\<close>

definition act_finally :: "('s, 'e, 'a) action \<Rightarrow> ('s, 'e, unit) action \<Rightarrow> ('s, 'e, 'a) action" where
  "act_finally m c = (\<lambda>s. case m s of (r, s') \<Rightarrow>
     (case c s' of (Inl e, s'') \<Rightarrow> (Inl e, s'') | (Inr _, s'') \<Rightarrow> (r, s'')))"

lemma act_run [simp, act_simps]:
  "act_return x s = (Inr x, s)"
  "act_raise e s = (Inl e, s)"
  "act_lift r s = (r, s)"
  by (simp_all add: act_return_def act_raise_def act_lift_def)

lemma act_bind_run [act_simps]:
  "m s = (Inr x, s') \<Longrightarrow> act_bind m f s = f x s'"
  "m s = (Inl e, s') \<Longrightarrow> act_bind m f s = (Inl e, s')"
  by (simp_all add: act_bind_def)

lemma act_bind_InrE:
  assumes "act_bind m f s = (Inr y, t)"
  obtains x s' where "m s = (Inr x, s')" and "f x s' = (Inr y, t)"
  using assms by (auto simp: act_bind_def split: prod.splits sum.splits)

lemma act_bind_InlE:
  assumes "act_bind m f s = (Inl e, t)"
  obtains "m s = (Inl e, t)"
  | x s' where "m s = (Inr x, s')" and "f x s' = (Inl e, t)"
  using assms by (auto simp: act_bind_def split: prod.splits sum.splits)

lemma act_finally_run [act_simps]:
  "m s = (r, s') \<Longrightarrow> c s' = (Inr u, s'') \<Longrightarrow> act_finally m c s = (r, s'')"
  "m s = (r, s') \<Longrightarrow> c s' = (Inl e, s'') \<Longrightarrow> act_finally m c s = (Inl e, s'')"
  by (simp_all add: act_finally_def)

lemma act_bind_return [simp]: "act_bind (act_return x) f = f x"
  by (simp add: act_bind_def act_return_def)

lemma act_bind_raise [simp]: "act_bind (act_raise e) f = act_raise e"
  by (simp add: act_bind_def act_raise_def)

lemma act_bind_lift: "act_bind (act_lift r) f s = (case r of Inl e \<Rightarrow> (Inl e, s) | Inr x \<Rightarrow> f x s)"
  by (simp add: act_bind_def split: sum.split)

lemma act_bind_assoc: "act_bind (act_bind m f) g = act_bind m (\<lambda>x. act_bind (f x) g)"
  by (rule ext) (simp add: act_bind_def split: prod.split sum.split)

section \<open>Python dictionaries\<close>

text \<open>A dictionary keeps insertion order; a second store under a key keeps the key's place.\<close>

type_synonym ('k, 'v) dict = "('k \<times> 'v) list"

definition dict_get :: "('k, 'v) dict \<Rightarrow> 'k \<Rightarrow> 'v option" where
  "dict_get d k = map_of d k"

fun dict_set :: "('k, 'v) dict \<Rightarrow> 'k \<Rightarrow> 'v \<Rightarrow> ('k, 'v) dict" where
  "dict_set [] k v = [(k, v)]"
| "dict_set ((k', v') # d) k v = (if k' = k then (k, v) # d else (k', v') # dict_set d k v)"

definition dict_of_pairs :: "('k \<times> 'v) list \<Rightarrow> ('k, 'v) dict" where
  "dict_of_pairs ps = foldl (\<lambda>d p. dict_set d (fst p) (snd p)) [] ps"

lemma dict_get_Nil [simp]: "dict_get [] k = None"
  by (simp add: dict_get_def)

lemma dict_get_Cons [simp]: "dict_get ((k', v) # d) k = (if k' = k then Some v else dict_get d k)"
  by (simp add: dict_get_def)

lemma dict_get_set [simp]: "dict_get (dict_set d k v) k' = (if k' = k then Some v else dict_get d k')"
  by (induction d k v rule: dict_set.induct) auto

lemma keys_dict_set: "fst ` set (dict_set d k v) = insert k (fst ` set d)"
  by (induction d k v rule: dict_set.induct) auto

lemma distinct_dict_set: "distinct (map fst d) \<Longrightarrow> distinct (map fst (dict_set d k v))"
proof (induction d k v rule: dict_set.induct)
  case (2 k' v' d k v)
  then show ?case
    using keys_dict_set [of d k v] by (auto simp flip: set_map)
qed simp

lemma dict_of_pairs_snoc:
  "dict_of_pairs (ps @ [p]) = dict_set (dict_of_pairs ps) (fst p) (snd p)"
  by (simp add: dict_of_pairs_def)

lemma distinct_dict_of_pairs: "distinct (map fst (dict_of_pairs ps))"
  by (induction ps rule: rev_induct)
     (simp_all add: dict_of_pairs_snoc distinct_dict_set, simp add: dict_of_pairs_def)

text \<open>The last of several pairs with one key wins.\<close>

lemma dict_get_of_pairs: "dict_get (dict_of_pairs ps) k = map_of (rev ps) k"
proof (induction ps rule: rev_induct)
  case Nil
  show ?case by (simp add: dict_of_pairs_def)
next
  case (snoc p ps)
  then show ?case by (cases p) (simp add: dict_of_pairs_snoc)
qed

lemma dict_get_SomeD: "dict_get d k = Some v \<Longrightarrow> (k, v) \<in> set d"
  by (simp add: dict_get_def map_of_SomeD)

section \<open>Generic list and set facts\<close>

lemma ball_weaken: "\<forall>x \<in> S. P x \<Longrightarrow> (\<And>x. P x \<Longrightarrow> Q x) \<Longrightarrow> \<forall>x \<in> S. Q x"
  by blast

lemma ball_not_mem: "\<forall>x \<in> S. P x \<Longrightarrow> \<not> P y \<Longrightarrow> y \<notin> S"
  by blast

lemma takeWhile_neq_id: "c \<notin> set xs \<Longrightarrow> takeWhile (\<lambda>x. x \<noteq> c) xs = xs"
  by (induction xs) auto

lemma takeWhile_neq_append:
  "c \<notin> set xs \<Longrightarrow> takeWhile (\<lambda>x. x \<noteq> c) (xs @ c # ys) = xs"
  by (induction xs) auto

lemma dropWhile_neq_append:
  "c \<notin> set xs \<Longrightarrow> dropWhile (\<lambda>x. x \<noteq> c) (xs @ c # ys) = c # ys"
  by (induction xs) auto

lemma dropWhile_neq_id: "c \<notin> set xs \<Longrightarrow> dropWhile (\<lambda>x. x \<noteq> c) xs = []"
  by (induction xs) auto

lemma set_takeWhile_neq: "x \<in> set (takeWhile (\<lambda>x. x \<noteq> c) xs) \<Longrightarrow> x \<in> set xs \<and> x \<noteq> c"
  by (auto dest: set_takeWhileD)

lemma set_takeWhile_subset: "set (takeWhile P xs) \<subseteq> set xs"
  by (auto dest: set_takeWhileD)

lemma set_dropWhile_subset: "set (dropWhile P xs) \<subseteq> set xs"
  by (auto dest: set_dropWhileD)

lemma dropWhile_Cons_head: "dropWhile P xs = y # ys \<Longrightarrow> \<not> P y"
  by (metis hd_dropWhile list.discI list.sel(1))

end
