(* ===== verification/Py_Str.thy ===== *)
theory Py_Str
  imports Prelude
begin

text \<open>
  Python strings as lists of code points, and the string methods the program calls:
  \<open>strip\<close>, \<open>rstrip\<close>, \<open>lower\<close>, \<open>partition\<close>, \<open>rpartition\<close>, \<open>startswith\<close>, \<open>isdigit\<close>, \<open>int\<close>
  of a digit string. A code point is an \<open>int\<close>, so a string may hold lone surrogates, as a
  Python string may. \<open>bytes\<close> is a list of integers below 256.
\<close>

type_synonym pystr = "int list"
type_synonym bytes = "int list"

definition lit :: "string \<Rightarrow> pystr" where
  "lit s = map of_char s"

lemma lit_Nil [simp]: "lit [] = []"
  by (simp add: lit_def)

lemma lit_append [simp]: "lit (s @ t) = lit s @ lit t"
  by (simp add: lit_def)

lemma inj_lit: "lit s = lit t \<longleftrightarrow> s = t"
  unfolding lit_def by (rule inj_map_eq_map) (simp add: inj_def)

section \<open>White space and strip\<close>

definition is_space :: "int \<Rightarrow> bool" where
  "is_space c \<longleftrightarrow> 9 \<le> c \<and> c \<le> 13 \<or> 28 \<le> c \<and> c \<le> 32 \<or> c = 133 \<or> c = 160 \<or> c = 5760 \<or>
     8192 \<le> c \<and> c \<le> 8202 \<or> c = 8232 \<or> c = 8233 \<or> c = 8239 \<or> c = 8287 \<or> c = 12288"

definition lstrip_by :: "(int \<Rightarrow> bool) \<Rightarrow> pystr \<Rightarrow> pystr" where
  "lstrip_by p s = dropWhile p s"

definition rstrip_by :: "(int \<Rightarrow> bool) \<Rightarrow> pystr \<Rightarrow> pystr" where
  "rstrip_by p s = rev (dropWhile p (rev s))"

definition py_strip :: "pystr \<Rightarrow> pystr" where
  "py_strip s = rstrip_by is_space (lstrip_by is_space s)"

lemma rstrip_by_last: "rstrip_by p s \<noteq> [] \<Longrightarrow> \<not> p (last (rstrip_by p s))"
  unfolding rstrip_by_def by (simp add: last_rev hd_dropWhile)

lemma rstrip_by_snoc [simp]:
  "rstrip_by p (s @ [c]) = (if p c then rstrip_by p s else s @ [c])"
  by (simp add: rstrip_by_def)

lemma rstrip_by_Nil [simp]: "rstrip_by p [] = []"
  by (simp add: rstrip_by_def)

lemma rstrip_by_id: "s = [] \<or> \<not> p (last s) \<Longrightarrow> rstrip_by p s = s"
  by (cases s rule: rev_cases) auto

lemma set_rstrip_by: "set (rstrip_by p s) \<subseteq> set s"
  unfolding rstrip_by_def using set_dropWhile_subset [of p "rev s"] by simp

lemma set_lstrip_by: "set (lstrip_by p s) \<subseteq> set s"
  unfolding lstrip_by_def by (rule set_dropWhile_subset)

lemma set_py_strip: "set (py_strip s) \<subseteq> set s"
  unfolding py_strip_def using set_rstrip_by set_lstrip_by by (meson subset_trans)

lemma py_strip_id:
  assumes "s \<noteq> []" and "\<not> is_space (hd s)" and "\<not> is_space (last s)"
  shows "py_strip s = s"
proof -
  from assms(1,2) have "lstrip_by is_space s = s"
    by (cases s) (simp_all add: lstrip_by_def)
  with assms(3) show ?thesis by (simp add: py_strip_def rstrip_by_id)
qed

lemma py_strip_Nil [simp]: "py_strip [] = []"
  by (simp add: py_strip_def lstrip_by_def)

lemma rstrip_by_eq_Nil_iff: "rstrip_by p s = [] \<longleftrightarrow> (\<forall>c \<in> set s. p c)"
  by (simp add: rstrip_by_def dropWhile_eq_Nil_conv)

lemma py_strip_eq_Nil_iff: "py_strip s = [] \<longleftrightarrow> (\<forall>c \<in> set s. is_space c)"
proof
  assume "py_strip s = []"
  then have "\<forall>c \<in> set (dropWhile is_space s). is_space c"
    by (simp add: py_strip_def rstrip_by_eq_Nil_iff lstrip_by_def)
  then show "\<forall>c \<in> set s. is_space c"
    by (metis dropWhile_eq_Nil_conv hd_dropWhile list.set_sel(1))
next
  assume "\<forall>c \<in> set s. is_space c"
  then have "lstrip_by is_space s = []" by (simp add: lstrip_by_def dropWhile_eq_Nil_conv)
  then show "py_strip s = []" by (simp only: py_strip_def rstrip_by_Nil)
qed

section \<open>Lower case\<close>

text \<open>
  Code points from 256 on that have a lower-case form, as \<open>(first, last, step, distance)\<close>:
  the simple mapping of the Unicode database of Python 3.12. Two context-dependent mappings
  exist: U+0130 becomes two code points (below), and a word-final capital sigma becomes
  U+03C2 in Python, where this table gives U+03C3.
\<close>

definition lower_table :: "(int \<times> int \<times> int \<times> int) list" where
  "lower_table = [
   (256, 302, 2, 1), (306, 310, 2, 1), (313, 327, 2, 1), (330, 374, 2, 1), (376, 376, 1, -121), (377,
   381, 2, 1), (385, 385, 1, 210), (386, 388, 2, 1), (390, 390, 1, 206), (391, 391, 1, 1), (393, 394,
   1, 205), (395, 395, 1, 1), (398, 398, 1, 79), (399, 399, 1, 202), (400, 400, 1, 203), (401, 401, 1,
   1), (403, 403, 1, 205), (404, 404, 1, 207), (406, 406, 1, 211), (407, 407, 1, 209), (408, 408, 1,
   1), (412, 412, 1, 211), (413, 413, 1, 213), (415, 415, 1, 214), (416, 420, 2, 1), (422, 422, 1,
   218), (423, 423, 1, 1), (425, 425, 1, 218), (428, 428, 1, 1), (430, 430, 1, 218), (431, 431, 1, 1),
   (433, 434, 1, 217), (435, 437, 2, 1), (439, 439, 1, 219), (440, 440, 1, 1), (444, 444, 1, 1), (452,
   452, 1, 2), (453, 453, 1, 1), (455, 455, 1, 2), (456, 456, 1, 1), (458, 458, 1, 2), (459, 475, 2,
   1), (478, 494, 2, 1), (497, 497, 1, 2), (498, 500, 2, 1), (502, 502, 1, -97), (503, 503, 1, -56),
   (504, 542, 2, 1), (544, 544, 1, -130), (546, 562, 2, 1), (570, 570, 1, 10795), (571, 571, 1, 1),
   (573, 573, 1, -163), (574, 574, 1, 10792), (577, 577, 1, 1), (579, 579, 1, -195), (580, 580, 1, 69),
   (581, 581, 1, 71), (582, 590, 2, 1), (880, 882, 2, 1), (886, 886, 1, 1), (895, 895, 1, 116), (902,
   902, 1, 38), (904, 906, 1, 37), (908, 908, 1, 64), (910, 911, 1, 63), (913, 929, 1, 32), (931, 939,
   1, 32), (975, 975, 1, 8), (984, 1006, 2, 1), (1012, 1012, 1, -60), (1015, 1015, 1, 1), (1017, 1017,
   1, -7), (1018, 1018, 1, 1), (1021, 1023, 1, -130), (1024, 1039, 1, 80), (1040, 1071, 1, 32), (1120,
   1152, 2, 1), (1162, 1214, 2, 1), (1216, 1216, 1, 15), (1217, 1229, 2, 1), (1232, 1326, 2, 1), (1329,
   1366, 1, 48), (4256, 4293, 1, 7264), (4295, 4295, 1, 7264), (4301, 4301, 1, 7264), (5024, 5103, 1,
   38864), (5104, 5109, 1, 8), (7312, 7354, 1, -3008), (7357, 7359, 1, -3008), (7680, 7828, 2, 1),
   (7838, 7838, 1, -7615), (7840, 7934, 2, 1), (7944, 7951, 1, -8), (7960, 7965, 1, -8), (7976, 7983,
   1, -8), (7992, 7999, 1, -8), (8008, 8013, 1, -8), (8025, 8031, 2, -8), (8040, 8047, 1, -8), (8072,
   8079, 1, -8), (8088, 8095, 1, -8), (8104, 8111, 1, -8), (8120, 8121, 1, -8), (8122, 8123, 1, -74),
   (8124, 8124, 1, -9), (8136, 8139, 1, -86), (8140, 8140, 1, -9), (8152, 8153, 1, -8), (8154, 8155, 1,
   -100), (8168, 8169, 1, -8), (8170, 8171, 1, -112), (8172, 8172, 1, -7), (8184, 8185, 1, -128),
   (8186, 8187, 1, -126), (8188, 8188, 1, -9), (8486, 8486, 1, -7517), (8490, 8490, 1, -8383), (8491,
   8491, 1, -8262), (8498, 8498, 1, 28), (8544, 8559, 1, 16), (8579, 8579, 1, 1), (9398, 9423, 1, 26),
   (11264, 11311, 1, 48), (11360, 11360, 1, 1), (11362, 11362, 1, -10743), (11363, 11363, 1, -3814),
   (11364, 11364, 1, -10727), (11367, 11371, 2, 1), (11373, 11373, 1, -10780), (11374, 11374, 1,
   -10749), (11375, 11375, 1, -10783), (11376, 11376, 1, -10782), (11378, 11378, 1, 1), (11381, 11381,
   1, 1), (11390, 11391, 1, -10815), (11392, 11490, 2, 1), (11499, 11501, 2, 1), (11506, 11506, 1, 1),
   (42560, 42604, 2, 1), (42624, 42650, 2, 1), (42786, 42798, 2, 1), (42802, 42862, 2, 1), (42873,
   42875, 2, 1), (42877, 42877, 1, -35332), (42878, 42886, 2, 1), (42891, 42891, 1, 1), (42893, 42893,
   1, -42280), (42896, 42898, 2, 1), (42902, 42920, 2, 1), (42922, 42922, 1, -42308), (42923, 42923, 1,
   -42319), (42924, 42924, 1, -42315), (42925, 42925, 1, -42305), (42926, 42926, 1, -42308), (42928,
   42928, 1, -42258), (42929, 42929, 1, -42282), (42930, 42930, 1, -42261), (42931, 42931, 1, 928),
   (42932, 42946, 2, 1), (42948, 42948, 1, -48), (42949, 42949, 1, -42307), (42950, 42950, 1, -35384),
   (42951, 42953, 2, 1), (42960, 42960, 1, 1), (42966, 42968, 2, 1), (42997, 42997, 1, 1), (65313,
   65338, 1, 32), (66560, 66599, 1, 40), (66736, 66771, 1, 40), (66928, 66938, 1, 39), (66940, 66954,
   1, 39), (66956, 66962, 1, 39), (66964, 66965, 1, 39), (68736, 68786, 1, 64), (71840, 71871, 1, 32),
   (93760, 93791, 1, 32), (125184, 125217, 1, 34)]"

fun lower_shift :: "(int \<times> int \<times> int \<times> int) list \<Rightarrow> int \<Rightarrow> int" where
  "lower_shift [] c = 0"
| "lower_shift ((a, b, s, d) # t) c =
     (if a \<le> c \<and> c \<le> b \<and> (c - a) mod s = 0 then d else lower_shift t c)"

definition lower_cp :: "int \<Rightarrow> pystr" where
  "lower_cp c =
     (if 65 \<le> c \<and> c \<le> 90 then [c + 32]
      else if c < 128 then [c]
      else if 192 \<le> c \<and> c \<le> 222 \<and> c \<noteq> 215 then [c + 32]
      else if c < 256 then [c]
      else if c = 304 then [105, 775]
      else [c + lower_shift lower_table c])"

definition py_lower :: "pystr \<Rightarrow> pystr" where
  "py_lower s = concat (map lower_cp s)"

lemma py_lower_Nil [simp]: "py_lower [] = []"
  by (simp add: py_lower_def)

lemma py_lower_Cons: "py_lower (c # s) = lower_cp c @ py_lower s"
  by (simp add: py_lower_def)

lemma py_lower_append [simp]: "py_lower (s @ t) = py_lower s @ py_lower t"
  by (simp add: py_lower_def)

lemma lower_cp_neq_Nil [simp]: "lower_cp c \<noteq> []"
  by (simp add: lower_cp_def)

lemma py_lower_eq_Nil_iff [simp]: "py_lower s = [] \<longleftrightarrow> s = []"
  by (cases s) (simp_all add: py_lower_Cons)

lemma lower_table_range:
  "list_all (\<lambda>(a, b, s, d). a = 8490 \<and> b = 8490 \<and> d = -8383 \<or> 223 \<le> a + d) lower_table"
  by code_simp

lemma lower_shift_range:
  assumes "list_all (\<lambda>(a, b, s, d). a = 8490 \<and> b = 8490 \<and> d = -8383 \<or> 223 \<le> a + d) t"
    and "223 \<le> c"
  shows "c + lower_shift t c = 107 \<or> 223 \<le> c + lower_shift t c"
  using assms by (induction t c rule: lower_shift.induct) auto

text \<open>The only code point outside ASCII whose lower case meets ASCII (other than U+0130)
  is the Kelvin sign.\<close>

lemma lower_cp_nonascii:
  assumes "128 \<le> c" and "d \<in> set (lower_cp c)"
  shows "128 \<le> d \<or> d = 107 \<or> d = 105"
  using assms lower_shift_range [OF lower_table_range, of c]
  by (auto simp: lower_cp_def split: if_splits)

lemma lower_cp_ascii: "c < 128 \<Longrightarrow> lower_cp c = [if 65 \<le> c \<and> c \<le> 90 then c + 32 else c]"
  by (simp add: lower_cp_def)

lemma lower_cp_not_upper: "d \<in> set (lower_cp c) \<Longrightarrow> \<not> (65 \<le> d \<and> d \<le> 90)"
  using lower_cp_nonascii [of c d] by (cases "c < 128") (auto simp: lower_cp_ascii)

lemma py_lower_not_upper: "d \<in> set (py_lower s) \<Longrightarrow> \<not> (65 \<le> d \<and> d \<le> 90)"
  by (auto simp: py_lower_def dest: lower_cp_not_upper)

text \<open>A character that is neither a letter nor \<open>i\<close>, \<open>k\<close> occurs in the lower-case string
  exactly when it occurs in the string.\<close>

lemma mem_py_lower_delim:
  assumes "0 \<le> d" and "d < 65 \<or> 90 < d \<and> d < 97 \<or> 122 < d \<and> d < 128"
  shows "d \<in> set (py_lower s) \<longleftrightarrow> d \<in> set s"
proof (induction s)
  case (Cons c s)
  have "d \<in> set (lower_cp c) \<longleftrightarrow> d = c"
  proof (cases "c < 128")
    case True
    with assms show ?thesis by (auto simp: lower_cp_ascii)
  next
    case False
    with assms show ?thesis using lower_cp_nonascii [of c d] by auto
  qed
  with Cons.IH show ?case by (simp add: py_lower_Cons)
qed simp

definition is_ascii :: "pystr \<Rightarrow> bool" where
  "is_ascii s \<longleftrightarrow> (\<forall>c \<in> set s. 0 \<le> c \<and> c < 128)"

definition has_upper :: "pystr \<Rightarrow> bool" where
  "has_upper s \<longleftrightarrow> (\<exists>c \<in> set s. 65 \<le> c \<and> c \<le> 90)"

lemma py_lower_ascii_id:
  assumes "is_ascii s" and "\<not> has_upper s"
  shows "py_lower s = s"
  using assms
proof (induction s)
  case (Cons c s)
  then have "lower_cp c = [c]" and "py_lower s = s"
    by (auto simp: is_ascii_def has_upper_def lower_cp_ascii)
  then show ?case by (simp add: py_lower_Cons)
qed simp

lemma py_lower_ascii_map:
  "is_ascii s \<Longrightarrow> py_lower s = map (\<lambda>c. if 65 \<le> c \<and> c \<le> 90 then c + 32 else c) s"
  by (induction s) (auto simp: is_ascii_def py_lower_Cons lower_cp_ascii)

lemma not_has_upper_py_lower [simp]: "\<not> has_upper (py_lower s)"
  by (auto simp: has_upper_def dest: py_lower_not_upper)

section \<open>Splitting at a character\<close>

definition py_partition :: "int \<Rightarrow> pystr \<Rightarrow> pystr \<times> bool \<times> pystr" where
  "py_partition c s =
     (case dropWhile (\<lambda>x. x \<noteq> c) s of
        [] \<Rightarrow> (s, False, [])
      | _ # t \<Rightarrow> (takeWhile (\<lambda>x. x \<noteq> c) s, True, t))"

definition py_rpartition :: "int \<Rightarrow> pystr \<Rightarrow> pystr \<times> bool \<times> pystr" where
  "py_rpartition c s =
     (case dropWhile (\<lambda>x. x \<noteq> c) (rev s) of
        [] \<Rightarrow> ([], False, s)
      | _ # t \<Rightarrow> (rev t, True, rev (takeWhile (\<lambda>x. x \<noteq> c) (rev s))))"

fun py_split :: "int \<Rightarrow> pystr \<Rightarrow> pystr list" where
  "py_split c [] = [[]]"
| "py_split c (x # s) =
     (if x = c then [] # py_split c s
      else (case py_split c s of [] \<Rightarrow> [[x]] | p # ps \<Rightarrow> (x # p) # ps))"

definition py_startswith :: "pystr \<Rightarrow> pystr \<Rightarrow> bool" where
  "py_startswith s p \<longleftrightarrow> take (length p) s = p"

lemma py_partition_absent [simp]: "c \<notin> set s \<Longrightarrow> py_partition c s = (s, False, [])"
  by (simp add: py_partition_def dropWhile_neq_id)

lemma py_partition_append [simp]: "c \<notin> set s \<Longrightarrow> py_partition c (s @ c # t) = (s, True, t)"
  by (simp add: py_partition_def dropWhile_neq_append takeWhile_neq_append)

lemma py_rpartition_absent [simp]: "c \<notin> set s \<Longrightarrow> py_rpartition c s = ([], False, s)"
  by (simp add: py_rpartition_def dropWhile_neq_id)

lemma py_partition_cases:
  obtains "c \<notin> set s" and "py_partition c s = (s, False, [])"
  | a b where "s = a @ c # b" and "c \<notin> set a" and "py_partition c s = (a, True, b)"
proof (cases "c \<in> set s")
  case True
  then obtain a b where "s = a @ c # b" "c \<notin> set a" by (meson split_list_first)
  then show ?thesis using that(2) by simp
qed (use that(1) in simp)

lemma py_rpartition_append [simp]: "c \<notin> set t \<Longrightarrow> py_rpartition c (s @ c # t) = (s, True, t)"
  by (simp add: py_rpartition_def dropWhile_neq_append takeWhile_neq_append)

lemma py_rpartition_cases:
  obtains "c \<notin> set s" and "py_rpartition c s = ([], False, s)"
  | a b where "s = a @ c # b" and "c \<notin> set b" and "py_rpartition c s = (a, True, b)"
proof (cases "c \<in> set s")
  case True
  then obtain a b where "s = a @ c # b" "c \<notin> set b" by (meson split_list_last)
  then show ?thesis using that(2) by simp
qed (use that(1) in simp)

lemma py_startswith_append [simp]: "py_startswith (p @ s) p"
  by (simp add: py_startswith_def)

lemma py_startswith_iff: "py_startswith s p \<longleftrightarrow> (\<exists>t. s = p @ t)"
  by (metis append_take_drop_id append_eq_conv_conj py_startswith_def)

section \<open>Digit strings\<close>

definition ascii_digit :: "int \<Rightarrow> bool" where
  "ascii_digit c \<longleftrightarrow> 48 \<le> c \<and> c \<le> 57"

text \<open>\<open>str.isdigit\<close> on a string of code points below 256, which is what a header decoded as
  Latin-1 holds: the three superscript digits count as digits.\<close>

definition latin1_isdigit :: "pystr \<Rightarrow> bool" where
  "latin1_isdigit s \<longleftrightarrow>
     s \<noteq> [] \<and> (\<forall>c \<in> set s. ascii_digit c \<or> c = 178 \<or> c = 179 \<or> c = 185)"

definition digits_value :: "pystr \<Rightarrow> int" where
  "digits_value s = foldl (\<lambda>n c. 10 * n + (c - 48)) 0 s"

definition max_str_digits :: nat where
  "max_str_digits = 4300"

lemma digits_value_nonneg: "\<forall>c \<in> set s. ascii_digit c \<Longrightarrow> 0 \<le> digits_value s"
  by (induction s rule: rev_induct) (auto simp: digits_value_def ascii_digit_def)

end
