(* ===== verification/Contexts.thy ===== *)
theory Contexts
  imports Py_Str
begin

text \<open>
  \<open>backend/src/app/tenants/contexts.py\<close>, \<open>core/deps.py\<close> and \<open>tenants/schemas.py\<close>: the
  three request contexts, one per door, as three record types that no function converts
  into one another, the shared tenant value, and the owner's response schema.
\<close>

record tenant =
  tenant_tenant_id :: pystr

record owner_ctx =
  owner_tenant_id :: pystr
  owner_user_id :: pystr

record visitor_ctx =
  visitor_tenant_id :: pystr
  visitor_query :: pystr

record caller_ctx =
  caller_tenant_id :: pystr

record owner_identity =
  oi_tenant_id :: pystr
  oi_user_id :: pystr

end
