(* ===== verification/Json.thy ===== *)
theory Json
  imports Py_Str
begin

text \<open>
  The values \<open>json.loads\<close> produces and \<open>json.dumps\<close>-style responses carry: the Python
  values \<open>None\<close>, \<open>bool\<close>, \<open>int\<close>, \<open>float\<close>, \<open>str\<close>, \<open>list\<close> and \<open>dict\<close>. The claims of a decoded
  token and the entries of a key set are such dictionaries too. A float is a double:
  a rational with a finite value, an infinity, or not-a-number.
\<close>

datatype pyfloat = FFin rat | FPosInf | FNegInf | FNaN

datatype json =
    JNull
  | JBool bool
  | JInt int
  | JFloat pyfloat
  | JStr pystr
  | JArr "json list"
  | JObj "(pystr \<times> json) list"

type_synonym pydict = "(pystr, json) dict"

text \<open>\<open>isinstance(x, str) and x\<close>: the non-empty string a value is, if it is one.\<close>

definition nonempty_str :: "json option \<Rightarrow> pystr option" where
  "nonempty_str v = (case v of Some (JStr s) \<Rightarrow> if s \<noteq> [] then Some s else None | _ \<Rightarrow> None)"

lemma nonempty_str_Some_iff: "nonempty_str v = Some s \<longleftrightarrow> v = Some (JStr s) \<and> s \<noteq> []"
  by (auto simp: nonempty_str_def split: option.splits json.splits)

lemma nonempty_str_simps [simp]:
  "nonempty_str None = None"
  "nonempty_str (Some (JStr s)) = (if s = [] then None else Some s)"
  "nonempty_str (Some (JInt i)) = None"
  "nonempty_str (Some JNull) = None"
  by (simp_all add: nonempty_str_def)

section \<open>Doubles\<close>

text \<open>Rounding of an exact value to the nearest double, ties to the even significand.\<close>

text \<open>The number of binary digits of a positive integer.\<close>

function bit_length :: "int \<Rightarrow> int" where
  "bit_length n = (if n \<le> 0 then 0 else 1 + bit_length (n div 2))"
  by pat_completeness auto
termination
  by (relation "measure nat") auto

declare bit_length.simps [simp del]

definition pow2 :: "int \<Rightarrow> rat" where
  "pow2 e = (if 0 \<le> e then 2 ^ nat e else 1 / 2 ^ nat (- e))"

definition round_half_even :: "rat \<Rightarrow> int" where
  "round_half_even q =
     (let f = \<lfloor>q\<rfloor>; r = q - of_int f
      in if r < 1 / 2 then f else if 1 / 2 < r then f + 1 else if even f then f else f + 1)"

definition round_pos_double :: "rat \<Rightarrow> pyfloat" where
  "round_pos_double q =
     (let (n, d) = quotient_of q;
          e0 = bit_length n - bit_length d - 53;
          e1 = (if q < pow2 (e0 + 53) then e0 else e0 + 1);
          e = max (-1074) e1;
          m = round_half_even (q / pow2 e);
          v = of_int m * pow2 e
      in if v < pow2 1024 then FFin v else FPosInf)"

definition to_double :: "rat \<Rightarrow> pyfloat" where
  "to_double q =
     (if q = 0 then FFin 0
      else if 0 < q then round_pos_double q
      else (case round_pos_double (- q) of
              FFin v \<Rightarrow> FFin (- v) | FPosInf \<Rightarrow> FNegInf | f \<Rightarrow> f))"

text \<open>Comparison \<open>a > b\<close> of Python numbers (\<open>int\<close>, \<open>bool\<close> and \<open>float\<close> compare exactly).\<close>

fun float_gt :: "pyfloat \<Rightarrow> pyfloat \<Rightarrow> bool" where
  "float_gt FNaN b = False"
| "float_gt a FNaN = False"
| "float_gt (FFin x) (FFin y) = (y < x)"
| "float_gt FPosInf b = (b \<noteq> FPosInf)"
| "float_gt a FNegInf = (a \<noteq> FNegInf)"
| "float_gt a b = False"

text \<open>\<open>isinstance(x, int | float)\<close> with the number it is; in Python a \<open>bool\<close> is an \<open>int\<close>.\<close>

definition py_number :: "json option \<Rightarrow> pyfloat option" where
  "py_number v = (case v of
       Some (JInt i) \<Rightarrow> Some (FFin (of_int i))
     | Some (JBool b) \<Rightarrow> Some (FFin (if b then 1 else 0))
     | Some (JFloat f) \<Rightarrow> Some f
     | _ \<Rightarrow> None)"

lemma py_number_simps [simp]:
  "py_number None = None"
  "py_number (Some (JInt i)) = Some (FFin (of_int i))"
  "py_number (Some (JFloat f)) = Some f"
  "py_number (Some (JStr s)) = None"
  by (simp_all add: py_number_def)

end
