(* ===== verification/Errors.thy ===== *)
theory Errors
  imports Json
begin

text \<open>
  Exceptions, and \<open>backend/src/app/core/errors.py\<close>: the AppError hierarchy, the problem
  details every error response carries, and the handler registered for AppError.
\<close>

section \<open>Exceptions\<close>

text \<open>The classes of the hierarchy; \<open>AppErrorBase\<close> is the base class itself.\<close>

datatype app_error_class =
    AppErrorBase | BadRequestError | AuthenticationError | RateLimitedError
  | TenantAccessError | PayloadTooLargeError | NotFoundError | IngestionError
  | GuardrailRefusal

record app_error =
  err_class :: app_error_class
  err_detail :: pystr

text \<open>Exceptions that are not AppErrors: of the interpreter and the standard library, and of
  the libraries the program calls.\<close>

datatype py_exc =
    ValueError
  | UnicodeDecodeError
  | JSONDecodeError
  | RecursionError
  | RuntimeError
  | PyJWTError
  | HTTPError
  | PostgresError
  | WeaviateError
  | OtherExc pystr

datatype exc = AppExc app_error | PyExc py_exc

text \<open>Python's class tree: \<open>except ValueError\<close> would also catch the two decode errors.\<close>

fun is_value_error :: "py_exc \<Rightarrow> bool" where
  "is_value_error ValueError = True"
| "is_value_error UnicodeDecodeError = True"
| "is_value_error JSONDecodeError = True"
| "is_value_error _ = False"

definition raise_app :: "app_error_class \<Rightarrow> string \<Rightarrow> exc + 'a" where
  "raise_app c d = Inl (AppExc \<lparr>err_class = c, err_detail = lit d\<rparr>)"

lemma raise_app_not_Inr [simp]: "raise_app c d \<noteq> Inr x" "bind_res (raise_app c d) f = raise_app c d"
  by (simp_all add: raise_app_def)

lemma raise_app_eq_Inl_iff [simp]:
  "raise_app c d = Inl e \<longleftrightarrow> e = AppExc \<lparr>err_class = c, err_detail = lit d\<rparr>"
  "Inl e = raise_app c d \<longleftrightarrow> e = AppExc \<lparr>err_class = c, err_detail = lit d\<rparr>"
  by (auto simp: raise_app_def)

instantiation app_error_class :: enum
begin

definition enum_app_error_class :: "app_error_class list" where
  "enum_app_error_class =
     [AppErrorBase, BadRequestError, AuthenticationError, RateLimitedError, TenantAccessError,
      PayloadTooLargeError, NotFoundError, IngestionError, GuardrailRefusal]"

definition enum_all_app_error_class :: "(app_error_class \<Rightarrow> bool) \<Rightarrow> bool" where
  "enum_all_app_error_class P = list_all P enum_class.enum"

definition enum_ex_app_error_class :: "(app_error_class \<Rightarrow> bool) \<Rightarrow> bool" where
  "enum_ex_app_error_class P = list_ex P enum_class.enum"

instance
proof
  show univ: "(UNIV :: app_error_class set) = set enum_class.enum"
    by (auto simp: enum_app_error_class_def intro: app_error_class.exhaust)
  show "distinct (enum_class.enum :: app_error_class list)"
    by (simp add: enum_app_error_class_def)
  show "enum_class.enum_all P = Ball UNIV P" for P :: "app_error_class \<Rightarrow> bool"
    by (simp add: enum_all_app_error_class_def list_all_iff flip: univ)
  show "enum_class.enum_ex P = Bex UNIV P" for P :: "app_error_class \<Rightarrow> bool"
    by (simp add: enum_ex_app_error_class_def list_ex_iff flip: univ)
qed

end

section \<open>Class attributes\<close>

fun status_code :: "app_error_class \<Rightarrow> int" where
  "status_code AppErrorBase = 500"
| "status_code BadRequestError = 400"
| "status_code AuthenticationError = 401"
| "status_code RateLimitedError = 429"
| "status_code TenantAccessError = 403"
| "status_code PayloadTooLargeError = 413"
| "status_code NotFoundError = 404"
| "status_code IngestionError = 422"
| "status_code GuardrailRefusal = 422"

fun err_title :: "app_error_class \<Rightarrow> pystr" where
  "err_title AppErrorBase = lit ''Internal Server Error''"
| "err_title BadRequestError = lit ''Bad Request''"
| "err_title AuthenticationError = lit ''Authentication Failed''"
| "err_title RateLimitedError = lit ''Too Many Requests''"
| "err_title TenantAccessError = lit ''Tenant Access Denied''"
| "err_title PayloadTooLargeError = lit ''Payload Too Large''"
| "err_title NotFoundError = lit ''Resource Not Found''"
| "err_title IngestionError = lit ''Ingestion Failed''"
| "err_title GuardrailRefusal = lit ''Guardrail Refusal''"

definition problem_base :: pystr where
  "problem_base = lit ''https://github.com/lotodee/honest-agent/problems''"

fun problem_type :: "app_error_class \<Rightarrow> pystr" where
  "problem_type AppErrorBase = lit ''about:blank''"
| "problem_type BadRequestError = problem_base @ lit ''/bad-request''"
| "problem_type AuthenticationError = problem_base @ lit ''/authentication''"
| "problem_type RateLimitedError = problem_base @ lit ''/rate-limited''"
| "problem_type TenantAccessError = problem_base @ lit ''/tenant-access''"
| "problem_type PayloadTooLargeError = problem_base @ lit ''/payload-too-large''"
| "problem_type NotFoundError = problem_base @ lit ''/not-found''"
| "problem_type IngestionError = problem_base @ lit ''/ingestion''"
| "problem_type GuardrailRefusal = problem_base @ lit ''/guardrail-refusal''"

section \<open>Problem details\<close>

record problem_detail =
  pd_type :: pystr
  pd_title :: pystr
  pd_status :: int
  pd_detail :: pystr
  pd_instance :: pystr

text \<open>What a client receives: the status line, the media type, and the JSON content.\<close>

record response =
  resp_status :: int
  resp_media_type :: pystr
  resp_content :: json

definition dump_problem :: "problem_detail \<Rightarrow> json" where
  "dump_problem p = JObj
     [(lit ''type'', JStr (pd_type p)), (lit ''title'', JStr (pd_title p)),
      (lit ''status'', JInt (pd_status p)), (lit ''detail'', JStr (pd_detail p)),
      (lit ''instance'', JStr (pd_instance p))]"

definition problem_response :: "int \<Rightarrow> pystr \<Rightarrow> pystr \<Rightarrow> pystr \<Rightarrow> pystr \<Rightarrow> response" where
  "problem_response status title ptype detail inst =
     (let problem = \<lparr>pd_type = ptype, pd_title = title, pd_status = status,
                     pd_detail = detail, pd_instance = inst\<rparr>
      in \<lparr>resp_status = status, resp_media_type = lit ''application/problem+json'',
          resp_content = dump_problem problem\<rparr>)"

definition app_error_response :: "app_error \<Rightarrow> pystr \<Rightarrow> response" where
  "app_error_response e inst =
     problem_response (status_code (err_class e)) (err_title (err_class e))
       (problem_type (err_class e)) (err_detail e) inst"

definition handle_app_error :: "pystr \<Rightarrow> exc \<Rightarrow> exc + response" where
  "handle_app_error path e = (case e of
       AppExc a \<Rightarrow> Inr (app_error_response a path)
     | PyExc x \<Rightarrow> Inl (PyExc x))"

section \<open>Facts\<close>

lemma status_code_4xx: "c \<noteq> AppErrorBase \<Longrightarrow> 400 \<le> status_code c \<and> status_code c < 500"
  by (cases c) simp_all

lemma app_error_response_status [simp]:
  "resp_status (app_error_response e p) = status_code (err_class e)"
  by (simp add: app_error_response_def problem_response_def Let_def)

text \<open>Reading a member of a JSON object, as a client does.\<close>

definition json_member :: "json \<Rightarrow> string \<Rightarrow> json option" where
  "json_member j k = (case j of JObj d \<Rightarrow> dict_get d (lit k) | _ \<Rightarrow> None)"

lemma json_member_JObj: "json_member (JObj d) k = dict_get d (lit k)"
  by (simp add: json_member_def)

text \<open>Every AppError becomes an RFC 9457 problem response whose body agrees with its
  status line: the media type, the five members, the status member equal to the HTTP status,
  a 4xx status for every error class but the base, and a type URI that no two classes
  share.\<close>

theorem app_error_problem_response:
  "\<forall>a b path.
     handle_app_error path (AppExc a) = Inr (app_error_response a path)
   \<and> resp_media_type (app_error_response a path) = lit ''application/problem+json''
   \<and> json_member (resp_content (app_error_response a path)) ''status''
       = Some (JInt (resp_status (app_error_response a path)))
   \<and> json_member (resp_content (app_error_response a path)) ''detail'' = Some (JStr (err_detail a))
   \<and> json_member (resp_content (app_error_response a path)) ''instance'' = Some (JStr path)
   \<and> json_member (resp_content (app_error_response a path)) ''type''
       = Some (JStr (problem_type (err_class a)))
   \<and> (err_class a = AppErrorBase \<or> 400 \<le> resp_status (app_error_response a path)
        \<and> resp_status (app_error_response a path) < 500)
   \<and> (problem_type (err_class a) = problem_type (err_class b) \<longleftrightarrow> err_class a = err_class b)"
proof -
  have member: "json_member (resp_content (app_error_response a path)) k =
      (if k = ''type'' then Some (JStr (problem_type (err_class a)))
       else if k = ''title'' then Some (JStr (err_title (err_class a)))
       else if k = ''status'' then Some (JInt (status_code (err_class a)))
       else if k = ''detail'' then Some (JStr (err_detail a))
       else if k = ''instance'' then Some (JStr path) else None)" for a path k
    by (auto simp: app_error_response_def problem_response_def dump_problem_def Let_def
        json_member_JObj inj_lit)
  have inj: "problem_type c = problem_type d \<longleftrightarrow> c = d" for c d
    by (cases c; cases d) (simp_all add: problem_base_def inj_lit flip: lit_append)
  show ?thesis
    using status_code_4xx
    by (auto simp: member inj handle_app_error_def)
       (simp_all add: app_error_response_def problem_response_def Let_def)
qed

end
