(* ===== verification/Agent.thy ===== *)
theory Agent
  imports Contexts Errors
begin

text \<open>
  \<open>backend/src/app/agent\<close> (\<open>schemas.py\<close>, \<open>service.py\<close>, \<open>adapters.py\<close>, \<open>model.py\<close>) and
  \<open>retrieval/service.py\<close>: the answer with its verdict, the stubbed retrieval it is grounded
  in, and the two adapters through which the doors reach it.
\<close>

section \<open>Schemas\<close>

record source =
  src_document_id :: pystr
  src_chunk_id :: pystr
  src_score :: pyfloat

text \<open>The discriminated union; the literal \<open>kind\<close> of each member is its constructor.\<close>

datatype verdict =
    GroundedAnswer (ga_answer: pystr) (ga_sources: "source list")
  | HonestRefusal (hr_reason: pystr)

record answer_result =
  ar_answer :: pystr
  ar_verdict :: verdict

fun verdict_kind :: "verdict \<Rightarrow> pystr" where
  "verdict_kind (GroundedAnswer a ss) = lit ''grounded''"
| "verdict_kind (HonestRefusal r) = lit ''refusal''"

definition dump_source :: "source \<Rightarrow> json" where
  "dump_source s = JObj
     [(lit ''document_id'', JStr (src_document_id s)), (lit ''chunk_id'', JStr (src_chunk_id s)),
      (lit ''score'', JFloat (src_score s))]"

fun dump_verdict :: "verdict \<Rightarrow> json" where
  "dump_verdict (GroundedAnswer a ss) = JObj
     [(lit ''kind'', JStr (lit ''grounded'')), (lit ''answer'', JStr a),
      (lit ''sources'', JArr (map dump_source ss))]"
| "dump_verdict (HonestRefusal r) = JObj
     [(lit ''kind'', JStr (lit ''refusal'')), (lit ''reason'', JStr r)]"

definition dump_answer :: "answer_result \<Rightarrow> json" where
  "dump_answer r = JObj
     [(lit ''answer'', JStr (ar_answer r)), (lit ''verdict'', dump_verdict (ar_verdict r))]"

section \<open>The capabilities\<close>

definition retrieve :: "pystr \<Rightarrow> pystr \<Rightarrow> source list" where
  "retrieve tenant_id query =
     [\<lparr>src_document_id = lit ''stub-document'', src_chunk_id = lit ''stub-chunk'', src_score = FFin 1\<rparr>]"

definition answer :: "pystr \<Rightarrow> pystr \<Rightarrow> answer_result" where
  "answer tenant_id query =
     (let sources = retrieve tenant_id query;
          text = lit ''(stub) grounded answer; real grounding and refusal land on Day 6.''
      in \<lparr>ar_answer = text, ar_verdict = GroundedAnswer text sources\<rparr>)"

text \<open>The two adapters. They call \<open>answer\<close>, which as shipped is a stub that ignores the tenant and
  the query; so that what the doors hand to it can be told, the adapters and everything built
  on them take the function they call as the argument \<open>core\<close>. The program is the instance
  \<open>core = answer\<close>; what is proved of the doors holds for every \<open>core\<close>, and a door that handed
  on another tenant or another query would fail it.\<close>

type_synonym answering_core = "pystr \<Rightarrow> pystr \<Rightarrow> answer_result"

definition answer_in_process :: "answering_core \<Rightarrow> visitor_ctx \<Rightarrow> answer_result" where
  "answer_in_process core ctx = core (visitor_tenant_id ctx) (visitor_query ctx)"

definition answer_for_external_caller :: "answering_core \<Rightarrow> caller_ctx \<Rightarrow> pystr \<Rightarrow> answer_result" where
  "answer_for_external_caller core ctx query = core (caller_tenant_id ctx) query"

text \<open>A core that lets every tenant and query show in the answer, for the examples.\<close>

definition echo_core :: answering_core where
  "echo_core tenant_id query =
     \<lparr>ar_answer = tenant_id @ lit '': '' @ query, ar_verdict = HonestRefusal (lit ''an echo'')\<rparr>"

section \<open>The model interface\<close>

text \<open>What a provider of a language model offers; the service does not call one yet.\<close>

record 's model_provider =
  mp_model_name :: pystr
  mp_complete :: "pystr \<Rightarrow> pystr \<Rightarrow> ('s, exc, pystr) action"
  mp_embed :: "pystr list \<Rightarrow> ('s, exc, pyfloat list list) action"

section \<open>Facts\<close>

lemma inj_dump_source: "dump_source a = dump_source b \<longleftrightarrow> a = b"
  by (auto simp: dump_source_def)

lemma inj_dump_verdict: "dump_verdict v = dump_verdict w \<longleftrightarrow> v = w"
  by (cases v; cases w) (auto simp: inj_lit inj_map_eq_map inj_def inj_dump_source)

lemma dump_answer_members:
  "json_member (dump_answer r) ''answer'' = Some (JStr (ar_answer r))"
  "json_member (dump_answer r) ''verdict'' = Some (dump_verdict (ar_verdict r))"
  by (simp_all add: dump_answer_def json_member_JObj inj_lit)

lemma dump_verdict_kind: "json_member (dump_verdict v) ''kind'' = Some (JStr (verdict_kind v))"
  by (cases v) (simp_all add: json_member_JObj)

text \<open>The answer a client reads back carries its verdict: the dumped object determines
  the answer result, its verdict member carries the discriminator of the verdict, and every
  answer of the service is grounded, its text and the verdict's text are the same, and it
  names at least one source.\<close>

theorem answer_carries_verdict:
  "\<forall>r r' tenant query.
     (dump_answer r = dump_answer r' \<longleftrightarrow> r = r')
   \<and> (\<exists>v. json_member (dump_answer r) ''verdict'' = Some v
        \<and> json_member v ''kind'' = Some (JStr (verdict_kind (ar_verdict r))))
   \<and> ar_verdict (answer tenant query)
       = GroundedAnswer (ar_answer (answer tenant query)) (retrieve tenant query)
   \<and> ga_sources (ar_verdict (answer tenant query)) \<noteq> []"
  by (auto simp: dump_answer_members dump_verdict_kind answer_def Let_def retrieve_def)
     (auto simp: dump_answer_def inj_dump_verdict)

end
