(* ===== verification/Widget_Keys.thy ===== *)
theory Widget_Keys
  imports Contexts Errors
begin

text \<open>
  \<open>backend/src/app/tenants/widget_keys.py\<close>: the widget-key record, the store interface and
  its two implementations. \<open>asyncpg\<close>'s \<open>fetchrow\<close> is a parameter.
\<close>

section \<open>Records and stores\<close>

record widget_key_record =
  wk_tenant_id :: pystr
  wk_allowed_hosts :: "pystr set"

type_synonym key_lookup = "pystr \<Rightarrow> exc + widget_key_record option"

definition in_memory_lookup :: "(pystr, widget_key_record) dict \<Rightarrow> key_lookup" where
  "in_memory_lookup records widget_key = Inr (dict_get records widget_key)"

record key_row =
  row_tenant_id :: pystr
  row_allowed_hosts :: "pystr list"

type_synonym fetchrow = "pystr \<Rightarrow> pystr list \<Rightarrow> exc + key_row option"

definition lookup_sql :: pystr where
  "lookup_sql = lit ''SELECT tenant_id, allowed_hosts FROM widget_keys WHERE key = $1''"

definition postgres_lookup :: "fetchrow \<Rightarrow> key_lookup" where
  "postgres_lookup fetch widget_key =
     bind_res (fetch lookup_sql [widget_key]) (\<lambda>row.
       case row of
         None \<Rightarrow> Inr None
       | Some r \<Rightarrow> Inr (Some \<lparr>wk_tenant_id = row_tenant_id r,
                               wk_allowed_hosts = set (map py_lower (row_allowed_hosts r))\<rparr>))"

section \<open>The interface\<close>

text \<open>What the gate relies on: a record found under a key names the tenant the key is
  registered to, and a key that is not found is registered to nobody.\<close>

locale widget_key_store =
  fixes lookup :: key_lookup
    and owner_of :: "pystr \<Rightarrow> pystr option"
  assumes lookup_owner: "lookup k = Inr (Some r) \<Longrightarrow> owner_of k = Some (wk_tenant_id r)"
    and lookup_unknown: "lookup k = Inr None \<Longrightarrow> owner_of k = None"
begin

lemma lookup_same_tenant:
  assumes "lookup k = Inr (Some r)" and "lookup k' = Inr (Some r')" and "owner_of k = owner_of k'"
  shows "wk_tenant_id r = wk_tenant_id r'"
  using assms lookup_owner by fastforce

end

text \<open>A store that also keeps its host names in lower case, as the hosts the gate compares
  them with are.\<close>

locale normalized_key_store = widget_key_store +
  assumes hosts_lower: "lookup k = Inr (Some r) \<Longrightarrow> h \<in> wk_allowed_hosts r \<Longrightarrow> \<not> has_upper h"

definition row_owner :: "fetchrow \<Rightarrow> pystr \<Rightarrow> pystr option" where
  "row_owner fetch k = (case fetch lookup_sql [k] of
       Inr (Some r) \<Rightarrow> Some (row_tenant_id r) | _ \<Rightarrow> None)"

interpretation in_memory: widget_key_store
  "in_memory_lookup records" "\<lambda>k. map_option wk_tenant_id (dict_get records k)"
  for records
  by unfold_locales (simp_all add: in_memory_lookup_def)

interpretation postgres: normalized_key_store "postgres_lookup fetch" "row_owner fetch"
  for fetch
  by unfold_locales
     (auto simp: postgres_lookup_def row_owner_def res_simps split: option.splits)

end
