(* ===== verification/Rate_Limit.thy ===== *)
theory Rate_Limit
  imports Py_Str
begin

text \<open>
  \<open>backend/src/app/tenants/rate_limit.py\<close>: the limiter interface and the stub that allows
  every request. A limiter may keep state (of any type \<open>'s\<close>), which \<open>check\<close> updates.
\<close>

type_synonym 's limiter = "pystr \<Rightarrow> pystr option \<Rightarrow> 's \<Rightarrow> bool \<times> 's"

definition allow_all_check :: "'s limiter" where
  "allow_all_check widget_key client_ip s = (True, s)"

text \<open>The contract of a limiter that never rejects and keeps no state.\<close>

locale unlimited =
  fixes check :: "'s limiter"
  assumes allows: "fst (check k ip s)"
    and stateless: "snd (check k ip s) = s"
begin

lemma check_eq: "check k ip s = (True, s)"
  using allows [of k ip s] stateless [of k ip s] by (cases "check k ip s") simp

end

interpretation allow_all: unlimited allow_all_check
  by unfold_locales (simp_all add: allow_all_check_def)

end
