(* ===== verification/Py_Url.thy ===== *)
theory Py_Url
  imports Errors
begin

text \<open>
  \<open>urllib.parse.urlsplit\<close> of Python 3.12 (3.12.9 and later, with the bracketed-host check),
  as far as the program reads its result: the scheme, the network location, and the
  \<open>hostname\<close> and \<open>port\<close> properties. Splitting raises ValueError on unbalanced brackets, on
  a bracketed host that is no IPv6 or IPvFuture literal, and on a network location that
  contains a delimiter under NFKC normalization.
\<close>

section \<open>Bracketed hosts\<close>

definition hex_digit :: "int \<Rightarrow> bool" where
  "hex_digit c \<longleftrightarrow> 48 \<le> c \<and> c \<le> 57 \<or> 65 \<le> c \<and> c \<le> 70 \<or> 97 \<le> c \<and> c \<le> 102"

definition octet_ok :: "pystr \<Rightarrow> bool" where
  "octet_ok s \<longleftrightarrow> s \<noteq> [] \<and> (\<forall>c \<in> set s. ascii_digit c) \<and> length s \<le> 3
     \<and> (s = [48] \<or> hd s \<noteq> 48) \<and> digits_value s \<le> 255"

definition ipv4_ok :: "pystr \<Rightarrow> bool" where
  "ipv4_ok s \<longleftrightarrow> (let octets = py_split 46 s in length octets = 4 \<and> (\<forall>x \<in> set octets. octet_ok x))"

definition hextet_ok :: "pystr \<Rightarrow> bool" where
  "hextet_ok s \<longleftrightarrow> s \<noteq> [] \<and> (\<forall>c \<in> set s. hex_digit c) \<and> length s \<le> 4"

text \<open>An IPv4 suffix stands for two hexadecimal parts; only their validity matters here.\<close>

definition expand_ipv4_suffix :: "pystr list \<Rightarrow> pystr list option" where
  "expand_ipv4_suffix parts =
     (if 46 \<in> set (last parts)
      then (if ipv4_ok (last parts) then Some (butlast parts @ [[48], [48]]) else None)
      else Some parts)"

fun empty_positions :: "nat \<Rightarrow> pystr list \<Rightarrow> nat list" where
  "empty_positions i [] = []"
| "empty_positions i (p # ps) = (if p = [] then i # empty_positions (Suc i) ps else empty_positions (Suc i) ps)"

definition ipv6_parts_ok :: "pystr list \<Rightarrow> bool" where
  "ipv6_parts_ok parts =
     (let n = length parts in
      n \<le> 9 \<and>
      (case empty_positions 1 (butlast (tl parts)) of
         [] \<Rightarrow> n = 8 \<and> hd parts \<noteq> [] \<and> last parts \<noteq> [] \<and> (\<forall>p \<in> set parts. hextet_ok p)
       | [i] \<Rightarrow>
           (let hi = (if hd parts = [] then i - 1 else i);
                lo = (if last parts = [] then n - i - 2 else n - i - 1)
            in (hd parts = [] \<longrightarrow> hi = 0) \<and> (last parts = [] \<longrightarrow> lo = 0) \<and> hi + lo < 8
               \<and> (\<forall>p \<in> set (take hi parts). hextet_ok p)
               \<and> (\<forall>p \<in> set (drop (n - lo) parts). hextet_ok p))
       | _ \<Rightarrow> False))"

definition ipv6_ok :: "pystr \<Rightarrow> bool" where
  "ipv6_ok s =
     (case py_partition 37 s of (addr, sep, scope) \<Rightarrow>
        \<not> (sep \<and> (scope = [] \<or> 37 \<in> set scope)) \<and> addr \<noteq> [] \<and>
        (let parts = py_split 58 addr in
         3 \<le> length parts \<and>
         (case expand_ipv4_suffix parts of None \<Rightarrow> False | Some ps \<Rightarrow> ipv6_parts_ok ps)))"

text \<open>The pattern \<open>v[a-fA-F0-9]+\..+\<close>.\<close>

definition ipvfuture_ok :: "pystr \<Rightarrow> bool" where
  "ipvfuture_ok s =
     (case s of
        [] \<Rightarrow> False
      | c # t \<Rightarrow> c = 118 \<and> (let h = takeWhile hex_digit t; r = dropWhile hex_digit t
                 in h \<noteq> [] \<and> (case r of [] \<Rightarrow> False | d # u \<Rightarrow> d = 46 \<and> u \<noteq> [] \<and> 10 \<notin> set u)))"

definition bracketed_host_ok :: "pystr \<Rightarrow> bool" where
  "bracketed_host_ok h = (if py_startswith h [118] then ipvfuture_ok h else ipv6_ok h)"

definition bracketed_netloc_ok :: "pystr \<Rightarrow> bool" where
  "bracketed_netloc_ok nl =
     (case py_rpartition 64 nl of (_, _, hp) \<Rightarrow>
      (case py_partition 91 hp of (pre_br, open_br, bracketed) \<Rightarrow>
         if open_br
         then pre_br = [] \<and>
              (case py_partition 93 bracketed of (host, _, port) \<Rightarrow>
                 (port = [] \<or> hd port = 58) \<and> bracketed_host_ok host)
         else (case py_partition 58 hp of (host, _, _) \<Rightarrow> bracketed_host_ok host)))"

text \<open>The code points whose NFKC form contains one of \<open>/ ? # @ :\<close>.\<close>

definition nfkc_delims :: "int list" where
  "nfkc_delims = [8263, 8264, 8265, 8448, 8449, 8453, 8454, 10868, 65043, 65046, 65109, 65110,
     65119, 65131, 65283, 65295, 65306, 65311, 65312]"

definition netloc_ok :: "pystr \<Rightarrow> bool" where
  "netloc_ok nl \<longleftrightarrow>
     (91 \<in> set nl \<longleftrightarrow> 93 \<in> set nl) \<and>
     (91 \<in> set nl \<longrightarrow> bracketed_netloc_ok nl) \<and>
     (\<forall>c \<in> set nl. c \<notin> set nfkc_delims)"

section \<open>urlsplit\<close>

record split_result =
  sr_scheme :: pystr
  sr_netloc :: pystr

definition alpha :: "int \<Rightarrow> bool" where
  "alpha c \<longleftrightarrow> 65 \<le> c \<and> c \<le> 90 \<or> 97 \<le> c \<and> c \<le> 122"

definition scheme_char :: "int \<Rightarrow> bool" where
  "scheme_char c \<longleftrightarrow> alpha c \<or> ascii_digit c \<or> c = 43 \<or> c = 45 \<or> c = 46"

definition clean_url :: "pystr \<Rightarrow> pystr" where
  "clean_url url = filter (\<lambda>c. c \<noteq> 9 \<and> c \<noteq> 10 \<and> c \<noteq> 13) (lstrip_by (\<lambda>c. 0 \<le> c \<and> c \<le> 32) url)"

definition split_scheme :: "pystr \<Rightarrow> pystr \<times> pystr" where
  "split_scheme url =
     (case py_partition 58 url of (s, colon, rest) \<Rightarrow>
        if colon \<and> s \<noteq> [] \<and> alpha (hd s) \<and> (\<forall>c \<in> set s. scheme_char c)
        then (py_lower s, rest) else ([], url))"

definition netloc_end :: "int \<Rightarrow> bool" where
  "netloc_end c \<longleftrightarrow> c = 47 \<or> c = 63 \<or> c = 35"

definition split_netloc :: "pystr \<Rightarrow> pystr" where
  "split_netloc url =
     (if py_startswith url [47, 47] then takeWhile (\<lambda>c. \<not> netloc_end c) (drop 2 url) else [])"

definition urlsplit :: "pystr \<Rightarrow> py_exc + split_result" where
  "urlsplit url =
     (case split_scheme (clean_url url) of (scheme, rest) \<Rightarrow>
        (let nl = split_netloc rest
         in if netloc_ok nl then Inr \<lparr>sr_scheme = scheme, sr_netloc = nl\<rparr> else Inl ValueError))"

section \<open>The hostname and port properties\<close>

definition hostinfo :: "pystr \<Rightarrow> pystr \<times> pystr" where
  "hostinfo nl =
     (case py_rpartition 64 nl of (_, _, hi) \<Rightarrow>
      (case py_partition 91 hi of (_, open_br, bracketed) \<Rightarrow>
         if open_br
         then (case py_partition 93 bracketed of (host, _, after) \<Rightarrow>
                 (case py_partition 58 after of (_, _, port) \<Rightarrow> (host, port)))
         else (case py_partition 58 hi of (host, _, port) \<Rightarrow> (host, port))))"

definition hostname :: "split_result \<Rightarrow> pystr option" where
  "hostname r =
     (let h = fst (hostinfo (sr_netloc r)) in
      if h = [] then None
      else (case py_partition 37 h of (name, percent, zone) \<Rightarrow>
              Some (py_lower name @ (if percent then 37 # zone else []))))"

definition url_port :: "split_result \<Rightarrow> py_exc + int option" where
  "url_port r =
     (let p = snd (hostinfo (sr_netloc r)) in
      if p = [] then Inr None
      else if \<not> (\<forall>c \<in> set p. ascii_digit c) \<or> max_str_digits < length p then Inl ValueError
      else if digits_value p \<le> 65535 then Inr (Some (digits_value p)) else Inl ValueError)"

section \<open>Facts\<close>

lemma set_hostinfo: "set (fst (hostinfo nl)) \<subseteq> set nl - {64}"
proof -
  obtain u b hi where r: "py_rpartition 64 nl = (u, b, hi)" by (cases "py_rpartition 64 nl")
  have hi: "set hi \<subseteq> set nl - {64}"
    using r by (cases rule: py_rpartition_cases [of 64 nl]) auto
  obtain x o' br where p: "py_partition 91 hi = (x, o', br)" by (cases "py_partition 91 hi")
  have br: "set br \<subseteq> set hi"
    using p by (cases rule: py_partition_cases [of 91 hi]) auto
  obtain h1 s1 a1 where q: "py_partition 93 br = (h1, s1, a1)" by (cases "py_partition 93 br")
  have h1: "set h1 \<subseteq> set br"
    using q by (cases rule: py_partition_cases [of 93 br]) auto
  obtain h2 s2 a2 where w: "py_partition 58 hi = (h2, s2, a2)" by (cases "py_partition 58 hi")
  have h2: "set h2 \<subseteq> set hi"
    using w by (cases rule: py_partition_cases [of 58 hi]) auto
  show ?thesis
    using hi br h1 h2 by (auto simp: hostinfo_def r p q w split: prod.splits)
qed

lemma hostname_shape:
  assumes "hostname r = Some h"
  shows "\<exists>name z. h = py_lower name @ z \<and> (z = [] \<or> hd z = 37) \<and> 37 \<notin> set name
     \<and> set name \<union> set z \<subseteq> set (sr_netloc r) - {64} \<and> h \<noteq> []"
proof -
  let ?h = "fst (hostinfo (sr_netloc r))"
  obtain name pc zone where p: "py_partition 37 ?h = (name, pc, zone)" by (cases "py_partition 37 ?h")
  have h: "h = py_lower name @ (if pc then 37 # zone else [])" and ne: "?h \<noteq> []"
    using assms by (auto simp: hostname_def Let_def p split: if_splits)
  have parts: "?h = name @ (if pc then 37 # zone else []) \<and> 37 \<notin> set name"
    using p by (cases rule: py_partition_cases [of 37 ?h]) auto
  have subs: "set name \<union> set (if pc then 37 # zone else []) \<subseteq> set (sr_netloc r) - {64}"
    using set_hostinfo [of "sr_netloc r"] parts by (auto split: if_splits)
  from parts ne have "h \<noteq> []" by (auto simp: h split: if_splits)
  with h parts subs show ?thesis
    by (intro exI [of _ name] exI [of _ "if pc then 37 # zone else []"]) auto
qed

lemma urlsplit_netloc:
  assumes "urlsplit u = Inr r" and "c \<in> set (sr_netloc r)"
  shows "\<not> netloc_end c"
  using assms
  by (auto simp: urlsplit_def Let_def split_netloc_def split: prod.splits if_splits dest: set_takeWhileD)

text \<open>A host never holds a path, query, fragment or user-info delimiter.\<close>

lemma hostname_delims:
  assumes "urlsplit u = Inr r" and "hostname r = Some h" and "d \<in> {35, 47, 63, 64}"
  shows "d \<notin> set h"
proof -
  obtain name z where h: "h = py_lower name @ z"
    and sub: "set name \<union> set z \<subseteq> set (sr_netloc r) - {64}"
    using hostname_shape [OF assms(2)] by blast
  have "d \<notin> set (sr_netloc r) - {64}"
    using assms(3) urlsplit_netloc [OF assms(1), of d] by (auto simp: netloc_end_def)
  then have "d \<notin> set name" and "d \<notin> set z" using sub by auto
  moreover have "d \<in> set (py_lower name) \<longleftrightarrow> d \<in> set name"
    using assms(3) by (intro mem_py_lower_delim) auto
  ultimately show ?thesis by (simp add: h)
qed

text \<open>The part of a host before a zone identifier is in lower case.\<close>

lemma hostname_lower:
  assumes "hostname r = Some h"
  shows "\<not> has_upper (takeWhile (\<lambda>c. c \<noteq> 37) h)"
proof -
  obtain name z where h: "h = py_lower name @ z" and z: "z = [] \<or> hd z = 37" and n: "37 \<notin> set name"
    using hostname_shape [OF assms] by blast
  have n': "37 \<notin> set (py_lower name)" using n by (simp add: mem_py_lower_delim)
  have "takeWhile (\<lambda>c. c \<noteq> 37) h = py_lower name"
  proof (cases z)
    case Nil
    with n' show ?thesis by (simp add: h takeWhile_neq_id)
  next
    case (Cons c t)
    with z n' show ?thesis by (simp add: h takeWhile_neq_append)
  qed
  then show ?thesis by simp
qed

end
