(* ===== verification/Origins.thy ===== *)
theory Origins
  imports Py_Url
begin

text \<open>
  \<open>backend/src/app/core/origins.py\<close>: exact-host matching of Origin and Referer values and
  of Host headers. Host sets are \<open>frozenset[str]\<close>; \<open>urlsplit\<close> may raise ValueError, which
  none of these functions catches.
\<close>

section \<open>The four functions\<close>

definition rstrip_dots :: "pystr \<Rightarrow> pystr" where
  "rstrip_dots s = rstrip_by (\<lambda>c. c = 46) s"

definition origin_host :: "pystr \<Rightarrow> py_exc + pystr option" where
  "origin_host value =
     (let candidate = py_strip value in
      if candidate = [] \<or> py_lower candidate = lit ''null'' then Inr None
      else bind_res (urlsplit candidate) (\<lambda>parts.
        if sr_scheme parts = [] then Inr None
        else (case hostname parts of
                None \<Rightarrow> Inr None
              | Some h \<Rightarrow> Inr (Some (rstrip_dots h)))))"

definition host_allowed :: "pystr \<Rightarrow> pystr set \<Rightarrow> py_exc + bool" where
  "host_allowed value allowed_hosts =
     bind_res (origin_host value) (\<lambda>host.
       Inr (case host of None \<Rightarrow> False | Some h \<Rightarrow> h \<in> allowed_hosts))"

definition authority_host :: "pystr \<Rightarrow> py_exc + pystr option" where
  "authority_host value =
     (let candidate = py_strip value in
      if candidate = [] \<or> py_lower candidate = lit ''null'' then Inr None
      else bind_res (urlsplit (lit ''//'' @ candidate)) (\<lambda>parts.
        (case hostname parts of
           None \<Rightarrow> Inr None
         | Some h \<Rightarrow> Inr (Some (rstrip_dots h)))))"

definition authority_allowed :: "pystr \<Rightarrow> pystr set \<Rightarrow> py_exc + bool" where
  "authority_allowed value allowed_hosts =
     bind_res (authority_host value) (\<lambda>host.
       Inr (case host of None \<Rightarrow> False | Some h \<Rightarrow> h \<in> allowed_hosts))"

section \<open>What a resolved host looks like\<close>

definition host_shape :: "pystr \<Rightarrow> bool" where
  "host_shape h \<longleftrightarrow> set h \<inter> {35, 47, 63, 64} = {} \<and> (h = [] \<or> last h \<noteq> 46)
     \<and> \<not> has_upper (takeWhile (\<lambda>c. c \<noteq> 37) h)"

lemma takeWhile_rstrip_prefix: "\<exists>t. s = rstrip_by p s @ t"
proof -
  have "s = rev (dropWhile p (rev s)) @ rev (takeWhile p (rev s))"
    by (metis rev_append rev_rev_ident takeWhile_dropWhile_id)
  then show ?thesis unfolding rstrip_by_def by blast
qed

lemma set_takeWhile_prefix: "set (takeWhile P xs) \<subseteq> set (takeWhile P (xs @ ys))"
  by (cases "\<forall>x \<in> set xs. P x") (auto simp: takeWhile_append1 takeWhile_append2 dest: set_takeWhileD)

lemma hostname_rstrip_shape:
  assumes u: "urlsplit u = Inr r" and h: "hostname r = Some h"
  shows "host_shape (rstrip_dots h)"
proof -
  obtain t where t: "h = rstrip_dots h @ t"
    using takeWhile_rstrip_prefix [of h] unfolding rstrip_dots_def by blast
  have "set (rstrip_dots h) \<inter> {35, 47, 63, 64} = {}"
    using hostname_delims [OF u h] set_rstrip_by [of "\<lambda>c. c = 46" h]
    unfolding rstrip_dots_def by blast
  moreover have "rstrip_dots h = [] \<or> last (rstrip_dots h) \<noteq> 46"
    using rstrip_by_last [of "\<lambda>c. c = 46" h] by (auto simp: rstrip_dots_def)
  moreover have "set (takeWhile (\<lambda>c. c \<noteq> 37) (rstrip_dots h)) \<subseteq> set (takeWhile (\<lambda>c. c \<noteq> 37) h)"
    using set_takeWhile_prefix [of "\<lambda>c. c \<noteq> 37" "rstrip_dots h" t] t by simp
  ultimately show ?thesis
    using hostname_lower [OF h] unfolding host_shape_def has_upper_def by blast
qed

lemma origin_host_shape: "origin_host v = Inr (Some h) \<Longrightarrow> host_shape h"
  by (auto simp: origin_host_def Let_def res_simps split: if_splits option.splits
      intro: hostname_rstrip_shape)

lemma authority_host_shape: "authority_host v = Inr (Some h) \<Longrightarrow> host_shape h"
  by (auto simp: authority_host_def Let_def res_simps split: if_splits option.splits
      intro: hostname_rstrip_shape)

lemma host_allowed_True_iff:
  "host_allowed v H = Inr True \<longleftrightarrow> (\<exists>h \<in> H. origin_host v = Inr (Some h))"
  by (auto simp: host_allowed_def res_simps split: option.splits)

lemma authority_allowed_True_iff:
  "authority_allowed v H = Inr True \<longleftrightarrow> (\<exists>h \<in> H. authority_host v = Inr (Some h))"
  by (auto simp: authority_allowed_def res_simps split: option.splits)

lemma host_allowed_Inl_iff: "host_allowed v H = Inl e \<longleftrightarrow> origin_host v = Inl e"
  by (auto simp: host_allowed_def res_simps)

lemma authority_allowed_Inl_iff: "authority_allowed v H = Inl e \<longleftrightarrow> authority_host v = Inl e"
  by (auto simp: authority_allowed_def res_simps)

lemma origin_host_error: "origin_host v = Inl e \<Longrightarrow> e = ValueError"
  by (auto simp: origin_host_def Let_def res_simps urlsplit_def split: if_splits option.splits prod.splits)

lemma authority_host_error: "authority_host v = Inl e \<Longrightarrow> e = ValueError"
  by (auto simp: authority_host_def Let_def res_simps urlsplit_def split: if_splits option.splits prod.splits)

section \<open>Well-formed origins\<close>

text \<open>A plain host name: letters, digits, hyphens and dots.\<close>

definition host_char :: "int \<Rightarrow> bool" where
  "host_char c \<longleftrightarrow> alpha c \<or> ascii_digit c \<or> c = 45 \<or> c = 46"

definition plain_host :: "pystr \<Rightarrow> bool" where
  "plain_host h \<longleftrightarrow> h \<noteq> [] \<and> (\<forall>c \<in> set h. host_char c)"

definition plain_scheme :: "pystr \<Rightarrow> bool" where
  "plain_scheme s \<longleftrightarrow> s \<noteq> [] \<and> alpha (hd s) \<and> (\<forall>c \<in> set s. scheme_char c)"

text \<open>What may follow the host: a port, and a path, query or fragment of visible ASCII.\<close>

definition plain_port :: "pystr \<Rightarrow> bool" where
  "plain_port p \<longleftrightarrow> p = [] \<or> (\<exists>n. p = 58 # n \<and> (\<forall>c \<in> set n. ascii_digit c))"

definition plain_tail :: "pystr \<Rightarrow> bool" where
  "plain_tail t \<longleftrightarrow> t = [] \<or> netloc_end (hd t) \<and> (\<forall>c \<in> set t. 33 \<le> c \<and> c \<le> 126)"

lemmas char_defs = host_char_def alpha_def ascii_digit_def scheme_char_def netloc_end_def

lemma plain_strip:
  assumes "s \<noteq> []" and "\<forall>c \<in> set s. 33 \<le> c \<and> c \<le> 126"
  shows "py_strip s = s" and "clean_url s = s"
proof -
  have "hd s \<in> set s" and "last s \<in> set s" using assms(1) by simp_all
  with assms(2) have "33 \<le> hd s \<and> hd s \<le> 126" and "33 \<le> last s \<and> last s \<le> 126" by blast+
  with assms(1) show "py_strip s = s" by (intro py_strip_id) (auto simp: is_space_def)
  have "lstrip_by (\<lambda>c. 0 \<le> c \<and> c \<le> 32) s = s"
    using assms by (cases s) (auto simp: lstrip_by_def)
  moreover have "filter (\<lambda>c. c \<noteq> 9 \<and> c \<noteq> 10 \<and> c \<noteq> 13) s = s"
    using assms(2) by (auto intro!: filter_True)
  ultimately show "clean_url s = s" by (simp add: clean_url_def)
qed

lemma plain_netloc_chars:
  assumes "plain_host h" and "plain_port p"
  shows "\<forall>c \<in> set (h @ p). host_char c \<or> ascii_digit c \<or> c = 58"
  using assms by (auto simp: plain_host_def plain_port_def)

lemma plain_netloc:
  assumes "plain_host h" and "plain_port p" and "plain_tail t"
  shows "split_netloc (lit ''//'' @ h @ p @ t) = h @ p"
    and "netloc_ok (h @ p)"
    and "hostname \<lparr>sr_scheme = s, sr_netloc = h @ p\<rparr> = Some (py_lower h)"
proof -
  have nl: "\<forall>c \<in> set (h @ p). \<not> netloc_end c \<and> 45 \<le> c \<and> c \<le> 122 \<and> c \<noteq> 64 \<and> c \<noteq> 91 \<and> c \<noteq> 93"
    by (rule ball_weaken [OF plain_netloc_chars [OF assms(1,2)]]) (auto simp: char_defs)
  have "takeWhile (\<lambda>c. \<not> netloc_end c) ((h @ p) @ t) = h @ p"
    using nl assms(3) by (cases t) (auto simp: plain_tail_def)
  then show "split_netloc (lit ''//'' @ h @ p @ t) = h @ p"
    by (simp add: split_netloc_def lit_def py_startswith_def)
  show "netloc_ok (h @ p)"
  proof -
    have "\<forall>c \<in> set (h @ p). c \<notin> set nfkc_delims"
      by (rule ball_weaken [OF nl]) (auto simp: nfkc_delims_def)
    moreover have "91 \<notin> set (h @ p)" and "93 \<notin> set (h @ p)"
      by (rule ball_not_mem [OF nl], simp)+
    ultimately show ?thesis by (simp add: netloc_ok_def)
  qed
  have hc: "\<forall>c \<in> set h. host_char c" and "h \<noteq> []" using assms(1) by (simp_all add: plain_host_def)
  have no_colon: "58 \<notin> set h" and "37 \<notin> set h"
    by (rule ball_not_mem [OF hc], simp add: char_defs)+
  have "64 \<notin> set (h @ p)" and "91 \<notin> set (h @ p)"
    by (rule ball_not_mem [OF nl], simp add: char_defs)+
  moreover have "fst (py_partition 58 (h @ p)) = h"
    using no_colon assms(2) by (auto simp: plain_port_def)
  ultimately have "fst (hostinfo (h @ p)) = h"
    by (cases "py_partition 58 (h @ p)") (simp add: hostinfo_def)
  then show "hostname \<lparr>sr_scheme = s, sr_netloc = h @ p\<rparr> = Some (py_lower h)"
    using \<open>37 \<notin> set h\<close> \<open>h \<noteq> []\<close> by (simp add: hostname_def)
qed

lemma plain_visible:
  assumes "plain_host h" and "plain_port p" and "plain_tail t"
  shows "\<forall>c \<in> set (h @ p @ t). 33 \<le> c \<and> c \<le> 126"
proof -
  have "\<forall>c \<in> set t. 33 \<le> c \<and> c \<le> 126" using assms(3) by (auto simp: plain_tail_def)
  moreover have "host_char c \<or> ascii_digit c \<or> c = 58 \<Longrightarrow> 33 \<le> c \<and> c \<le> 126" for c
    by (auto simp: char_defs)
  ultimately show ?thesis using plain_netloc_chars [OF assms(1,2)] by auto
qed

lemma origin_host_plain:
  assumes sc: "plain_scheme sc" and h: "plain_host h" and p: "plain_port p" and t: "plain_tail t"
  shows "origin_host (sc @ lit ''://'' @ h @ p @ t) = Inr (Some (rstrip_dots (py_lower h)))"
proof -
  let ?v = "sc @ lit ''://'' @ h @ p @ t"
  have vis: "\<forall>c \<in> set ?v. 33 \<le> c \<and> c \<le> 126"
  proof -
    have "\<forall>c \<in> set sc. scheme_char c" using sc by (simp add: plain_scheme_def)
    then have "\<forall>c \<in> set sc. 33 \<le> c \<and> c \<le> 126" by (rule ball_weaken) (auto simp: char_defs)
    then show ?thesis using plain_visible [OF h p t] by (auto simp: lit_def)
  qed
  have v: "?v = sc @ 58 # lit ''//'' @ h @ p @ t" by (simp add: lit_def)
  have strip: "py_strip ?v = ?v" "clean_url ?v = ?v"
    using plain_strip [OF _ vis] sc by (auto simp: plain_scheme_def)
  have "58 \<notin> set sc" using sc by (fastforce simp: plain_scheme_def char_defs)
  then have "split_scheme ?v = (py_lower sc, lit ''//'' @ h @ p @ t)"
    using sc unfolding v by (simp add: split_scheme_def plain_scheme_def)
  then have split: "urlsplit ?v = Inr \<lparr>sr_scheme = py_lower sc, sr_netloc = h @ p\<rparr>"
    using plain_netloc [OF h p t] by (simp add: urlsplit_def strip(2) Let_def del: append_assoc)
  have "58 \<in> set (py_lower ?v)"
    by (subst mem_py_lower_delim) (simp_all add: v)
  moreover have "58 \<notin> set (lit ''null'')" by (simp add: lit_def)
  ultimately have not_null: "py_lower ?v \<noteq> lit ''null''" by metis
  show ?thesis
    unfolding origin_host_def Let_def strip(1)
    using not_null split plain_netloc(3) [OF h p t] sc
    by (simp add: plain_scheme_def del: py_lower_append)
qed

lemma authority_host_plain:
  assumes h: "plain_host h" and p: "plain_port p" and not_null: "py_lower (h @ p) \<noteq> lit ''null''"
  shows "authority_host (h @ p) = Inr (Some (rstrip_dots (py_lower h)))"
proof -
  have t: "plain_tail []" by (simp add: plain_tail_def)
  have vis: "\<forall>c \<in> set (h @ p). 33 \<le> c \<and> c \<le> 126" using plain_visible [OF h p t] by simp
  have ne: "h @ p \<noteq> []" using h by (simp add: plain_host_def)
  have strip: "py_strip (h @ p) = h @ p" by (rule plain_strip [OF ne vis])
  have "\<forall>c \<in> set (lit ''//'' @ h @ p). 33 \<le> c \<and> c \<le> 126" using vis by (simp add: lit_def)
  then have clean: "clean_url (lit ''//'' @ h @ p) = lit ''//'' @ h @ p"
    by (intro plain_strip) (simp_all add: lit_def)
  have "split_scheme (lit ''//'' @ h @ p) = ([], lit ''//'' @ h @ p)"
    by (cases rule: py_partition_cases [of 58 "lit ''//'' @ h @ p"])
       (auto simp: split_scheme_def lit_def Cons_eq_append_conv alpha_def)
  then have split: "urlsplit (lit ''//'' @ h @ p) = Inr \<lparr>sr_scheme = [], sr_netloc = h @ p\<rparr>"
    using plain_netloc [OF h p t] by (simp add: urlsplit_def clean Let_def)
  show ?thesis
    unfolding authority_host_def Let_def strip
    using not_null ne split plain_netloc(3) [OF h p t]
    by (simp del: py_lower_append)
qed

section \<open>Properties\<close>

text \<open>C34: exact-host matching. An origin made of a scheme, a plain host, an optional port and an
  optional path, query or fragment is allowed exactly when its host, in lower case and
  without trailing dots, is an element of the allowlist: neither a listed host used as a
  prefix or suffix of another name nor anything outside the host part counts. The same holds
  of a Host header made of a plain host and an optional port.\<close>

theorem origin_match_exact:
  assumes "plain_scheme scheme" and "plain_host host" and "plain_port port" and "plain_tail rest"
    and "py_lower (host @ port) \<noteq> lit ''null''"
  shows "host_allowed (scheme @ lit ''://'' @ host @ port @ rest) H = Inr (rstrip_dots (py_lower host) \<in> H)
     \<and> authority_allowed (host @ port) H = Inr (rstrip_dots (py_lower host) \<in> H)"
  using assms
  by (simp add: host_allowed_def authority_allowed_def origin_host_plain authority_host_plain)

theorem origin_match_exact_witness:
  "host_allowed (lit ''https://allowed.com.evil.com'') {lit ''allowed.com''} = Inr False
 \<and> host_allowed (lit ''https://evil-allowed.com'') {lit ''allowed.com''} = Inr False
 \<and> host_allowed (lit ''https://evil.com/?q=allowed.com'') {lit ''allowed.com''} = Inr False
 \<and> host_allowed (lit ''HTTPS://Allowed.COM.:8443/page'') {lit ''allowed.com''} = Inr True"
proof -
  have port: "plain_port []" "plain_port (lit '':8443'')"
    by (simp_all add: plain_port_def lit_def ascii_digit_def)
  have scheme: "plain_scheme (lit ''https'')" "plain_scheme (lit ''HTTPS'')"
    by (simp_all add: plain_scheme_def lit_def char_defs)
  have tail: "plain_tail []" "plain_tail (lit ''/?q=allowed.com'')" "plain_tail (lit ''/page'')"
    by (simp_all add: plain_tail_def lit_def char_defs)
  have host: "plain_host (lit ''allowed.com.evil.com'')" "plain_host (lit ''evil-allowed.com'')"
    "plain_host (lit ''evil.com'')" "plain_host (lit ''Allowed.COM.'')"
    by (simp_all add: plain_host_def lit_def char_defs)
  note exact = origin_match_exact [where H = "{lit ''allowed.com''}", THEN conjunct1]
  have low: "rstrip_dots (py_lower (lit ''allowed.com.evil.com'')) \<noteq> lit ''allowed.com''"
    "rstrip_dots (py_lower (lit ''evil-allowed.com'')) \<noteq> lit ''allowed.com''"
    "rstrip_dots (py_lower (lit ''evil.com'')) \<noteq> lit ''allowed.com''"
    "rstrip_dots (py_lower (lit ''Allowed.COM.'')) = lit ''allowed.com''"
    by (simp_all add: lit_def py_lower_Cons lower_cp_def rstrip_dots_def rstrip_by_def)
  have nn: "py_lower (lit ''allowed.com.evil.com'' @ []) \<noteq> lit ''null''"
    "py_lower (lit ''evil-allowed.com'' @ []) \<noteq> lit ''null''"
    "py_lower (lit ''evil.com'' @ []) \<noteq> lit ''null''"
    "py_lower (lit ''Allowed.COM.'' @ lit '':8443'') \<noteq> lit ''null''"
    by (simp_all add: lit_def py_lower_Cons lower_cp_def)
  show ?thesis
    using exact [OF scheme(1) host(1) port(1) tail(1) nn(1)]
      exact [OF scheme(1) host(2) port(1) tail(1) nn(2)]
      exact [OF scheme(1) host(3) port(1) tail(2) nn(3)]
      exact [OF scheme(2) host(4) port(2) tail(3) nn(4)] low
    by (simp add: lit_def)
qed

text \<open>Whatever string is allowed, the listed host it resolved to holds no \<open>/\<close>, \<open>?\<close>, \<open>#\<close> or
  \<open>@\<close>, does not end in a dot, and has no upper-case letter before a zone index; a list with
  only other entries admits nothing. Blank values and \<open>null\<close> in any case are never allowed.\<close>

theorem allowed_host_shape:
  "(host_allowed v H = Inr True \<longleftrightarrow> host_allowed v {h \<in> H. host_shape h} = Inr True)
 \<and> (authority_allowed v H = Inr True \<longleftrightarrow> authority_allowed v {h \<in> H. host_shape h} = Inr True)
 \<and> host_allowed v {h. \<not> host_shape h} \<noteq> Inr True \<and> authority_allowed v {h. \<not> host_shape h} \<noteq> Inr True
 \<and> (if py_strip v = [] \<or> py_lower (py_strip v) = lit ''null''
    then host_allowed v H = Inr False \<and> authority_allowed v H = Inr False else True)"
  using origin_host_shape [of v] authority_host_shape [of v]
  by (auto simp: host_allowed_True_iff authority_allowed_True_iff)
     (simp_all add: host_allowed_def authority_allowed_def origin_host_def authority_host_def)

text \<open>Where the four functions differ from their documentation. A value with an unbalanced
  bracket raises ValueError, it does not resolve to None; the host of an origin that is only
  a dot is the empty string, not None; a zone index keeps its upper-case letters.\<close>

theorem origin_host_edge_cases:
  "origin_host (lit ''https://['') = Inl ValueError
 \<and> authority_host (lit ''['') = Inl ValueError
 \<and> origin_host (lit ''http://.'') = Inr (Some [])
 \<and> origin_host (lit ''http://[fe80::1%EN0]'') = Inr (Some (lit ''fe80::1%EN0''))"
  by code_simp

end
