(* ===== verification/Py_Json.thy ===== *)
theory Py_Json
  imports Errors
begin

text \<open>
  \<open>json.loads\<close> on \<open>bytes\<close>, as CPython 3.12 runs it: the detection of the encoding, the
  decoders with the \<open>surrogatepass\<close> handler, and the scanner with its recursion limit.
  What a caller can see raised is JSONDecodeError for malformed text, UnicodeDecodeError for
  malformed bytes, ValueError for an integer of more than 4300 digits, and RecursionError
  for arrays and objects nested deeper than the interpreter allows (a parameter).
\<close>

section \<open>Decoders\<close>

definition cont_byte :: "int \<Rightarrow> bool" where
  "cont_byte b \<longleftrightarrow> 128 \<le> b \<and> b \<le> 191"

text \<open>UTF-8; with \<open>surr\<close> the encodings of surrogates are let through.\<close>

fun utf8_decode :: "bool \<Rightarrow> bytes \<Rightarrow> pystr option" where
  "utf8_decode surr [] = Some []"
| "utf8_decode surr (b # bs) =
     (if 0 \<le> b \<and> b < 128 then map_option ((#) b) (utf8_decode surr bs)
      else if 194 \<le> b \<and> b \<le> 223 then
        (case bs of
           c1 # r \<Rightarrow>
             if cont_byte c1
             then map_option ((#) ((b - 192) * 64 + (c1 - 128))) (utf8_decode surr r) else None
         | _ \<Rightarrow> None)
      else if 224 \<le> b \<and> b \<le> 239 then
        (case bs of
           c1 # c2 # r \<Rightarrow>
             if cont_byte c1 \<and> cont_byte c2 \<and> (b = 224 \<longrightarrow> 160 \<le> c1) \<and> (b = 237 \<longrightarrow> surr \<or> c1 < 160)
             then map_option ((#) ((b - 224) * 4096 + (c1 - 128) * 64 + (c2 - 128))) (utf8_decode surr r)
             else None
         | _ \<Rightarrow> None)
      else if 240 \<le> b \<and> b \<le> 244 then
        (case bs of
           c1 # c2 # c3 # r \<Rightarrow>
             if cont_byte c1 \<and> cont_byte c2 \<and> cont_byte c3 \<and> (b = 240 \<longrightarrow> 144 \<le> c1) \<and> (b = 244 \<longrightarrow> c1 < 144)
             then map_option
                ((#) ((b - 240) * 262144 + (c1 - 128) * 4096 + (c2 - 128) * 64 + (c3 - 128)))
                (utf8_decode surr r)
             else None
         | _ \<Rightarrow> None)
      else None)"

text \<open>The 16-bit and 32-bit units of a byte string, least or most significant byte first;
  \<open>None\<close> if bytes are left over.\<close>

fun units16 :: "bool \<Rightarrow> bytes \<Rightarrow> int list option" where
  "units16 le [] = Some []"
| "units16 le [a] = None"
| "units16 le (a # b # r) = map_option ((#) (if le then a + 256 * b else 256 * a + b)) (units16 le r)"

fun join_surrogates :: "int list \<Rightarrow> pystr" where
  "join_surrogates [] = []"
| "join_surrogates [u] = [u]"
| "join_surrogates (u # v # r) =
     (if 55296 \<le> u \<and> u \<le> 56319 \<and> 56320 \<le> v \<and> v \<le> 57343
      then (65536 + (u - 55296) * 1024 + (v - 56320)) # join_surrogates r
      else u # join_surrogates (v # r))"

definition utf16_decode :: "bool \<Rightarrow> bytes \<Rightarrow> pystr option" where
  "utf16_decode le b = map_option join_surrogates (units16 le b)"

fun utf32_decode :: "bool \<Rightarrow> bytes \<Rightarrow> pystr option" where
  "utf32_decode le [] = Some []"
| "utf32_decode le (a # b # c # d # r) =
     (let u = (if le then a + 256 * b + 65536 * c + 16777216 * d
               else 16777216 * a + 65536 * b + 256 * c + d)
      in if u \<le> 1114111 then map_option ((#) u) (utf32_decode le r) else None)"
| "utf32_decode le _ = None"

section \<open>Detection of the encoding\<close>

datatype encoding = Utf8 | Utf8Sig | Utf16 | Utf16LE | Utf16BE | Utf32 | Utf32LE | Utf32BE

definition detect_encoding :: "bytes \<Rightarrow> encoding" where
  "detect_encoding b =
     (if py_startswith b [0, 0, 254, 255] \<or> py_startswith b [255, 254, 0, 0] then Utf32
      else if py_startswith b [254, 255] \<or> py_startswith b [255, 254] then Utf16
      else if py_startswith b [239, 187, 191] then Utf8Sig
      else if 4 \<le> length b then
        (if b ! 0 = 0 then (if b ! 1 \<noteq> 0 then Utf16BE else Utf32BE)
         else if b ! 1 = 0 then (if b ! 2 \<noteq> 0 \<or> b ! 3 \<noteq> 0 then Utf16LE else Utf32LE)
         else Utf8)
      else if length b = 2 then
        (if b ! 0 = 0 then Utf16BE else if b ! 1 = 0 then Utf16LE else Utf8)
      else Utf8)"

text \<open>A byte-order mark decides the byte order of \<open>utf-16\<close> and \<open>utf-32\<close> and is dropped.\<close>

definition decode_bytes :: "encoding \<Rightarrow> bytes \<Rightarrow> pystr option" where
  "decode_bytes enc b = (case enc of
       Utf8 \<Rightarrow> utf8_decode True b
     | Utf8Sig \<Rightarrow> utf8_decode True (drop 3 b)
     | Utf16 \<Rightarrow> utf16_decode (hd b = 255) (drop 2 b)
     | Utf16LE \<Rightarrow> utf16_decode True b
     | Utf16BE \<Rightarrow> utf16_decode False b
     | Utf32 \<Rightarrow> utf32_decode (hd b = 255) (drop 4 b)
     | Utf32LE \<Rightarrow> utf32_decode True b
     | Utf32BE \<Rightarrow> utf32_decode False b)"

section \<open>The scanner\<close>

text \<open>Each scanner takes the text from the current position on and returns a value with the
  text that is left.\<close>

type_synonym 'a scan = "py_exc + 'a \<times> pystr"

definition json_ws :: "int \<Rightarrow> bool" where
  "json_ws c \<longleftrightarrow> c = 32 \<or> c = 9 \<or> c = 10 \<or> c = 13"

definition skip_ws :: "pystr \<Rightarrow> pystr" where
  "skip_ws s = dropWhile json_ws s"

definition hex_value :: "int \<Rightarrow> int option" where
  "hex_value c =
     (if 48 \<le> c \<and> c \<le> 57 then Some (c - 48)
      else if 97 \<le> c \<and> c \<le> 102 then Some (c - 87)
      else if 65 \<le> c \<and> c \<le> 70 then Some (c - 55)
      else None)"

fun hex4 :: "pystr \<Rightarrow> (int \<times> pystr) option" where
  "hex4 (a # b # c # d # r) =
     (case (hex_value a, hex_value b, hex_value c, hex_value d) of
        (Some w, Some x, Some y, Some z) \<Rightarrow> Some (4096 * w + 256 * x + 16 * y + z, r)
      | _ \<Rightarrow> None)"
| "hex4 _ = None"

definition simple_escape :: "int \<Rightarrow> int option" where
  "simple_escape c =
     (if c = 34 then Some 34 else if c = 92 then Some 92 else if c = 47 then Some 47
      else if c = 98 then Some 8 else if c = 102 then Some 12 else if c = 110 then Some 10
      else if c = 114 then Some 13 else if c = 116 then Some 9 else None)"

text \<open>A \<open>\u\<close> escape; a high surrogate followed by the escape of a low one is one code point.\<close>

definition unicode_escape :: "pystr \<Rightarrow> int scan" where
  "unicode_escape s = (case hex4 s of
       None \<Rightarrow> Inl JSONDecodeError
     | Some (u, r) \<Rightarrow>
         if 55296 \<le> u \<and> u \<le> 56319 \<and> py_startswith r [92, 117]
         then (case hex4 (drop 2 r) of
                 None \<Rightarrow> Inl JSONDecodeError
               | Some (v, r') \<Rightarrow>
                   if 56320 \<le> v \<and> v \<le> 57343
                   then Inr (65536 + (u - 55296) * 1024 + (v - 56320), r')
                   else Inr (u, r))
         else Inr (u, r))"

lemma hex4_rest: "hex4 s = Some (u, r) \<Longrightarrow> length r < length s"
  by (cases s rule: hex4.cases) (auto split: option.splits)

lemma unicode_escape_rest: "unicode_escape s = Inr (u, r) \<Longrightarrow> length r < length s"
  by (auto simp: unicode_escape_def split: option.splits if_splits dest!: hex4_rest)

text \<open>The text after the opening quote; control characters are refused (strict mode).\<close>

function scan_string :: "pystr \<Rightarrow> pystr scan" where
  "scan_string [] = Inl JSONDecodeError"
| "scan_string (c # s) =
     (if c = 34 then Inr ([], s)
      else if c = 92 then
        (case s of
           [] \<Rightarrow> Inl JSONDecodeError
         | e # s' \<Rightarrow>
             if e = 117
             then (case unicode_escape s' of
                     Inl x \<Rightarrow> Inl x
                   | Inr (u, r) \<Rightarrow> bind_res (scan_string r) (\<lambda>(t, r'). Inr (u # t, r')))
             else (case simple_escape e of
                     None \<Rightarrow> Inl JSONDecodeError
                   | Some d \<Rightarrow> bind_res (scan_string s') (\<lambda>(t, r'). Inr (d # t, r'))))
      else if 0 \<le> c \<and> c \<le> 31 then Inl JSONDecodeError
      else bind_res (scan_string s) (\<lambda>(t, r'). Inr (c # t, r')))"
  by pat_completeness auto
termination
  by (relation "measure length") (auto dest: unicode_escape_rest)

text \<open>Numbers: an integer part, then a fraction and an exponent if they are complete.\<close>

text \<open>The double nearest to a decimal number; with an exponent out of the range of doubles
  the result is known without computing the power.\<close>

definition float_of_digits :: "bool \<Rightarrow> pystr \<Rightarrow> pystr \<Rightarrow> int \<Rightarrow> pyfloat" where
  "float_of_digits neg ip fp e =
     (let m = digits_value (ip @ fp); x = e - int (length fp) in
      if m = 0 \<or> x + int (length (ip @ fp)) < - 400 then FFin 0
      else if 400 < x then (if neg then FNegInf else FPosInf)
      else (let q = (if 0 \<le> x then of_int m * 10 ^ nat x else of_int m / 10 ^ nat (- x))
            in to_double (if neg then - q else q)))"

definition scan_fraction :: "pystr \<Rightarrow> pystr \<times> pystr" where
  "scan_fraction s = (case s of
       d # c # r \<Rightarrow> if d = 46 \<and> ascii_digit c
                  then (c # takeWhile ascii_digit r, dropWhile ascii_digit r) else ([], s)
     | _ \<Rightarrow> ([], s))"

definition signed_exponent :: "bool \<Rightarrow> pystr \<Rightarrow> (int \<times> pystr) option" where
  "signed_exponent neg r =
     (let ds = takeWhile ascii_digit r in
      if ds = [] then None
      else Some (if neg then - digits_value ds else digits_value ds, dropWhile ascii_digit r))"

definition scan_exponent :: "pystr \<Rightarrow> (int \<times> pystr) option" where
  "scan_exponent s = (case s of
       e # r \<Rightarrow>
         if e = 101 \<or> e = 69
         then (case r of
                 c # r' \<Rightarrow> if c = 43 \<or> c = 45 then signed_exponent (c = 45) r' else signed_exponent False r
               | [] \<Rightarrow> None)
         else None
     | [] \<Rightarrow> None)"

definition scan_digits :: "bool \<Rightarrow> pystr \<Rightarrow> json scan" where
  "scan_digits neg s = (case s of
       c # r \<Rightarrow>
         if ascii_digit c
         then
           (let ip = (if c = 48 then [c] else c # takeWhile ascii_digit r);
                r1 = (if c = 48 then r else dropWhile ascii_digit r);
                (fp, r2) = scan_fraction r1
            in case scan_exponent r2 of
                 Some (e, r3) \<Rightarrow> Inr (JFloat (float_of_digits neg ip fp e), r3)
               | None \<Rightarrow>
                   if fp \<noteq> [] then Inr (JFloat (float_of_digits neg ip fp 0), r2)
                   else if max_str_digits < length ip then Inl ValueError
                   else Inr (JInt (if neg then - digits_value ip else digits_value ip), r2))
         else Inl JSONDecodeError
     | [] \<Rightarrow> Inl JSONDecodeError)"

definition scan_number :: "pystr \<Rightarrow> json scan" where
  "scan_number s = (case s of
       c # r \<Rightarrow> if c = 45 then scan_digits True r else scan_digits False s
     | [] \<Rightarrow> Inl JSONDecodeError)"

section \<open>Arrays and objects\<close>

text \<open>
  The loops over the elements take the scanner of one value as an argument. Their guard
  that the value scanner has consumed text is always true (\<open>scan_once_rest\<close> below); it is
  what makes them total functions.
\<close>

function scan_elements :: "(pystr \<Rightarrow> json scan) \<Rightarrow> pystr \<Rightarrow> json list scan" where
  "scan_elements sc s =
     (case sc s of
        Inl x \<Rightarrow> Inl x
      | Inr (v, r) \<Rightarrow>
          if length r < length s then
            (case skip_ws r of
               [] \<Rightarrow> Inl JSONDecodeError
             | c # r' \<Rightarrow>
                 if c = 93 then Inr ([v], r')
                 else if c \<noteq> 44 then Inl JSONDecodeError
                 else bind_res (scan_elements sc (skip_ws r')) (\<lambda>(vs, t). Inr (v # vs, t)))
          else Inl JSONDecodeError)"
  by pat_completeness auto
termination
proof (relation "measure (\<lambda>(sc, s). length s)", goal_cases)
  case (2 sc s vr v r c r')
  have "length (skip_ws r') \<le> length r'" and "length (skip_ws r) \<le> length r"
    by (simp_all add: skip_ws_def length_dropWhile_le)
  with 2 show ?case by simp
qed simp

definition scan_array :: "(pystr \<Rightarrow> json scan) \<Rightarrow> pystr \<Rightarrow> json scan" where
  "scan_array sc s =
     (case skip_ws s of
        [] \<Rightarrow> Inl JSONDecodeError
      | c # r \<Rightarrow>
          if c = 93 then Inr (JArr [], r)
          else bind_res (scan_elements sc (skip_ws s)) (\<lambda>(vs, t). Inr (JArr vs, t)))"

text \<open>The members of an object, from the text after the quote that opens a key.\<close>

function scan_members :: "(pystr \<Rightarrow> json scan) \<Rightarrow> pystr \<Rightarrow> (pystr \<times> json) list scan" where
  "scan_members sc s =
     (case scan_string s of
        Inl x \<Rightarrow> Inl x
      | Inr (key, r) \<Rightarrow>
          (case skip_ws r of
             [] \<Rightarrow> Inl JSONDecodeError
           | c # r1 \<Rightarrow>
               if c \<noteq> 58 then Inl JSONDecodeError
               else (case sc (skip_ws r1) of
                  Inl x \<Rightarrow> Inl x
                | Inr (v, r2) \<Rightarrow>
                    if length r2 < length s then
                      (case skip_ws r2 of
                         [] \<Rightarrow> Inl JSONDecodeError
                       | d # r3 \<Rightarrow>
                           if d = 125 then Inr ([(key, v)], r3)
                           else if d \<noteq> 44 then Inl JSONDecodeError
                           else (case skip_ws r3 of
                              [] \<Rightarrow> Inl JSONDecodeError
                            | q # r4 \<Rightarrow>
                                if q \<noteq> 34 then Inl JSONDecodeError
                                else bind_res (scan_members sc r4) (\<lambda>(ms, t). Inr ((key, v) # ms, t))))
                    else Inl JSONDecodeError)))"
  by pat_completeness auto
termination
proof (relation "measure (\<lambda>(sc, s). length s)", goal_cases)
  case (2 sc s kr key r c r1 vr v r2 d r3 q r4)
  have "length (skip_ws r3) \<le> length r3" and "length (skip_ws r2) \<le> length r2"
    by (simp_all add: skip_ws_def length_dropWhile_le)
  with 2 show ?case by simp
qed simp

definition scan_object :: "(pystr \<Rightarrow> json scan) \<Rightarrow> pystr \<Rightarrow> json scan" where
  "scan_object sc s =
     (case skip_ws s of
        [] \<Rightarrow> Inl JSONDecodeError
      | c # r \<Rightarrow>
          if c = 125 then Inr (JObj [], r)
          else if c \<noteq> 34 then Inl JSONDecodeError
          else bind_res (scan_members sc r) (\<lambda>(ms, t). Inr (JObj (dict_of_pairs ms), t)))"

text \<open>One value. The first argument counts the levels of nesting the interpreter still
  allows.\<close>

definition scan_container :: "(pystr \<Rightarrow> json scan) option \<Rightarrow> int \<Rightarrow> pystr \<Rightarrow> json scan" where
  "scan_container sub c r = (case sub of
       None \<Rightarrow> Inl RecursionError
     | Some sc \<Rightarrow> if c = 123 then scan_object sc r else scan_array sc r)"

definition scan_value :: "(pystr \<Rightarrow> json scan) option \<Rightarrow> pystr \<Rightarrow> json scan" where
  "scan_value sub s = (case s of
       [] \<Rightarrow> Inl JSONDecodeError
     | c # r \<Rightarrow>
         if c = 34 then bind_res (scan_string r) (\<lambda>(t, r'). Inr (JStr t, r'))
         else if c = 123 \<or> c = 91 then scan_container sub c r
         else if py_startswith s (lit ''null'') then Inr (JNull, drop 4 s)
         else if py_startswith s (lit ''true'') then Inr (JBool True, drop 4 s)
         else if py_startswith s (lit ''false'') then Inr (JBool False, drop 5 s)
         else if py_startswith s (lit ''NaN'') then Inr (JFloat FNaN, drop 3 s)
         else if py_startswith s (lit ''Infinity'') then Inr (JFloat FPosInf, drop 8 s)
         else if py_startswith s (lit ''-Infinity'') then Inr (JFloat FNegInf, drop 9 s)
         else scan_number s)"

primrec scan_once :: "nat \<Rightarrow> pystr \<Rightarrow> json scan" where
  "scan_once 0 s = scan_value None s"
| "scan_once (Suc d) s = scan_value (Some (scan_once d)) s"

definition json_decode :: "nat \<Rightarrow> pystr \<Rightarrow> py_exc + json" where
  "json_decode limit s =
     bind_res (scan_once limit (skip_ws s)) (\<lambda>(v, r).
       if skip_ws r = [] then Inr v else Inl JSONDecodeError)"

definition json_loads :: "nat \<Rightarrow> bytes \<Rightarrow> py_exc + json" where
  "json_loads limit b = (case decode_bytes (detect_encoding b) b of
       None \<Rightarrow> Inl UnicodeDecodeError
     | Some s \<Rightarrow> json_decode limit s)"

declare scan_string.simps(2) [simp del] scan_elements.simps [simp del] scan_members.simps [simp del]

end
