(* ===== verification/Json_Facts.thy ===== *)
theory Json_Facts
  imports Py_Json
begin

text \<open>
  Facts about the JSON reader: every scanner consumes text, so the guards of the element
  loops never fail; which exceptions can come out; and the reading of a request body of
  the shape the widget sends.
\<close>

section \<open>Every scanner consumes text\<close>

definition consumes :: "(pystr \<Rightarrow> 'a scan) \<Rightarrow> bool" where
  "consumes sc \<longleftrightarrow> (\<forall>s v r. sc s = Inr (v, r) \<longrightarrow> length r < length s)"

lemma consumesD: "consumes sc \<Longrightarrow> sc s = Inr (v, r) \<Longrightarrow> length r < length s"
  by (simp add: consumes_def)

lemma length_skip_ws: "length (skip_ws s) \<le> length s"
  by (simp add: skip_ws_def length_dropWhile_le)

lemma skip_ws_Cons_le: "skip_ws s = c # r \<Longrightarrow> length r < length s"
  using length_skip_ws [of s] by simp

lemma scan_string_rest: "scan_string s = Inr (t, r) \<Longrightarrow> length r < length s"
proof (induction s arbitrary: t r rule: scan_string.induct)
  case (2 c s)
  consider "c = 34" | e s' where "c = 92" and "s = e # s'" | "c \<noteq> 34" and "c \<noteq> 92" and "\<not> (0 \<le> c \<and> c \<le> 31)"
    using "2.prems" by (auto simp: scan_string.simps(2) split: if_splits list.splits)
  then show ?case
  proof cases
    case 1
    with "2.prems" show ?thesis by (simp add: scan_string.simps(2))
  next
    case (2 e s')
    show ?thesis
    proof (cases "e = 117")
      case True
      with "2.prems" 2 obtain u r1 t' where "unicode_escape s' = Inr (u, r1)"
        and "scan_string r1 = Inr (t', r)"
        by (auto simp: scan_string.simps(2) res_simps split: sum.splits)
      with "2.IH"(1) 2 True show ?thesis by (fastforce dest: unicode_escape_rest)
    next
      case False
      with "2.prems" 2 obtain d t' where "simple_escape e = Some d" and "scan_string s' = Inr (t', r)"
        by (auto simp: scan_string.simps(2) res_simps split: option.splits)
      with "2.IH"(2) 2 False show ?thesis by fastforce
    qed
  next
    case 3
    with "2.prems" obtain t' where "scan_string s = Inr (t', r)"
      by (auto simp: scan_string.simps(2) res_simps)
    with "2.IH"(3) 3 show ?thesis by fastforce
  qed
qed simp

lemma scan_fraction_rest: "length (snd (scan_fraction s)) \<le> length s"
  by (auto simp: scan_fraction_def length_dropWhile_le le_SucI split: list.splits)

lemma signed_exponent_rest: "signed_exponent neg s = Some (e, r) \<Longrightarrow> length r \<le> length s"
  by (auto simp: signed_exponent_def Let_def length_dropWhile_le split: if_splits)

lemma scan_exponent_rest: "scan_exponent s = Some (e, r) \<Longrightarrow> length r \<le> length s"
  by (auto simp: scan_exponent_def split: list.splits if_splits dest!: signed_exponent_rest)

lemma scan_digits_rest:
  assumes "scan_digits neg s = Inr (v, r)"
  shows "length r < length s"
proof (cases s)
  case (Cons c u)
  let ?r1 = "if c = 48 then u else dropWhile ascii_digit u"
  obtain fp r2 where fr: "scan_fraction ?r1 = (fp, r2)" by (cases "scan_fraction ?r1")
  have "length r2 \<le> length ?r1" using scan_fraction_rest [of ?r1] fr by simp
  moreover have "length ?r1 \<le> length u" by (simp add: length_dropWhile_le)
  moreover have "length r \<le> length r2"
    using assms Cons fr
    by (auto simp: scan_digits_def Let_def split: if_splits option.splits prod.splits
        dest: scan_exponent_rest)
  ultimately show ?thesis by (simp add: Cons)
qed (use assms in \<open>simp add: scan_digits_def\<close>)

lemma scan_number_rest: "scan_number s = Inr (v, r) \<Longrightarrow> length r < length s"
  by (auto simp: scan_number_def split: list.splits if_splits dest: scan_digits_rest)

lemma scan_elements_rest: "scan_elements sc s = Inr (vs, r) \<Longrightarrow> length r < length s"
proof (induction sc s arbitrary: vs r rule: scan_elements.induct)
  case (1 sc s)
  from "1.prems" obtain v r1 c r2 where v: "sc s = Inr (v, r1)" and less: "length r1 < length s"
    and c: "skip_ws r1 = c # r2" and cs: "c = 93 \<and> r = r2 \<or>
      c \<noteq> 93 \<and> c = 44 \<and> (\<exists>vs'. scan_elements sc (skip_ws r2) = Inr (vs', r))"
    by (subst (asm) scan_elements.simps) (auto simp: res_simps split: sum.splits list.splits if_splits)
  have "length r2 < length s" using skip_ws_Cons_le [OF c] less by simp
  with cs show ?case
    using "1.IH" [OF v refl less c] length_skip_ws [of r2] by force
qed

lemma scan_members_rest: "scan_members sc s = Inr (ms, r) \<Longrightarrow> length r < length s"
proof (induction sc s arbitrary: ms r rule: scan_members.induct)
  case (1 sc s)
  from "1.prems" obtain key r1 r2 v r3 d r4 where key: "scan_string s = Inr (key, r1)"
    and colon: "skip_ws r1 = 58 # r2" and v: "sc (skip_ws r2) = Inr (v, r3)"
    and less: "length r3 < length s" and d: "skip_ws r3 = d # r4"
    and ds: "d = 125 \<and> r = r4 \<or> d \<noteq> 125 \<and> d = 44 \<and>
      (\<exists>r5 ms'. skip_ws r4 = 34 # r5 \<and> scan_members sc r5 = Inr (ms', r))"
    by (subst (asm) scan_members.simps) (auto simp: res_simps split: sum.splits list.splits if_splits)
  have r4: "length r4 < length s" using skip_ws_Cons_le [OF d] less by simp
  from ds show ?case
  proof (elim disjE conjE exE)
    fix r5 ms'
    assume "d \<noteq> 125" "d = 44" and r5: "skip_ws r4 = 34 # r5" and rec: "scan_members sc r5 = Inr (ms', r)"
    have "length r < length r5"
      using "1.IH" [OF key refl colon _ v refl less d _ _ r5 _ rec] \<open>d \<noteq> 125\<close> \<open>d = 44\<close> by simp
    with r4 skip_ws_Cons_le [OF r5] show ?thesis by simp
  qed (use r4 in simp)
qed

lemma scan_array_rest: "scan_array sc s = Inr (v, r) \<Longrightarrow> length r < length s"
  using length_skip_ws [of s]
  by (auto simp: scan_array_def res_simps split: list.splits if_splits
      dest!: scan_elements_rest)

lemma scan_object_rest: "scan_object sc s = Inr (v, r) \<Longrightarrow> length r < length s"
  using length_skip_ws [of s]
  by (auto simp: scan_object_def res_simps split: list.splits if_splits
      dest!: scan_members_rest)

lemma scan_container_rest: "scan_container sub c s = Inr (v, r) \<Longrightarrow> length r < length s"
  by (auto simp: scan_container_def split: option.splits if_splits
      dest: scan_object_rest scan_array_rest)

lemma scan_value_rest: "scan_value sub s = Inr (v, r) \<Longrightarrow> length r < length s"
  by (auto simp: scan_value_def res_simps split: list.splits if_splits
      dest: scan_string_rest scan_container_rest scan_number_rest)

lemma scan_once_consumes: "consumes (scan_once d)"
  by (cases d) (auto simp: consumes_def dest: scan_value_rest)

text \<open>So the loops are exactly the loops of the source: the guard can be dropped.\<close>

lemma scan_elements_unguarded:
  assumes "consumes sc"
  shows "scan_elements sc s =
     bind_res (sc s) (\<lambda>(v, r). case skip_ws r of
         [] \<Rightarrow> Inl JSONDecodeError
       | c # r' \<Rightarrow> if c = 93 then Inr ([v], r')
                  else if c \<noteq> 44 then Inl JSONDecodeError
                  else bind_res (scan_elements sc (skip_ws r')) (\<lambda>(vs, t). Inr (v # vs, t)))"
  by (subst scan_elements.simps)
     (auto simp: bind_res_def consumesD [OF assms] split: sum.splits list.splits prod.splits)

lemma scan_members_unguarded:
  assumes "consumes sc"
  shows "scan_members sc s =
     bind_res (scan_string s) (\<lambda>(key, r). case skip_ws r of
         [] \<Rightarrow> Inl JSONDecodeError
       | c # r1 \<Rightarrow> if c \<noteq> 58 then Inl JSONDecodeError
           else bind_res (sc (skip_ws r1)) (\<lambda>(v, r2). case skip_ws r2 of
               [] \<Rightarrow> Inl JSONDecodeError
             | d # r3 \<Rightarrow> if d = 125 then Inr ([(key, v)], r3)
                 else if d \<noteq> 44 then Inl JSONDecodeError
                 else (case skip_ws r3 of
                     [] \<Rightarrow> Inl JSONDecodeError
                   | q # r4 \<Rightarrow> if q \<noteq> 34 then Inl JSONDecodeError
                       else bind_res (scan_members sc r4) (\<lambda>(ms, t). Inr ((key, v) # ms, t)))))"
proof -
  have less: "length r2 < length s"
    if "scan_string s = Inr (key, r)" and "skip_ws r = c # r1" and "sc (skip_ws r1) = Inr (v, r2)"
    for key r c r1 v r2
    using scan_string_rest [OF that(1)] skip_ws_Cons_le [OF that(2)] length_skip_ws [of r1]
      consumesD [OF assms that(3)] by simp
  show ?thesis
    by (subst scan_members.simps)
       (auto simp: bind_res_def split: sum.splits list.splits prod.splits dest: less)
qed

section \<open>Which exceptions come out\<close>

definition raises_only :: "py_exc set \<Rightarrow> (pystr \<Rightarrow> 'a scan) \<Rightarrow> bool" where
  "raises_only E sc \<longleftrightarrow> (\<forall>s e. sc s = Inl e \<longrightarrow> e \<in> E)"

lemma raises_onlyD: "raises_only E sc \<Longrightarrow> sc s = Inl e \<Longrightarrow> e \<in> E"
  by (simp add: raises_only_def)

definition scan_errors :: "py_exc set" where
  "scan_errors = {JSONDecodeError, ValueError, RecursionError}"

lemma unicode_escape_error: "unicode_escape s = Inl e \<Longrightarrow> e = JSONDecodeError"
  by (auto simp: unicode_escape_def split: option.splits if_splits)

lemma scan_string_error: "scan_string s = Inl e \<Longrightarrow> e = JSONDecodeError"
proof (induction s arbitrary: e rule: scan_string.induct)
  case (2 c s)
  from "2.prems" show ?case
    by (subst (asm) scan_string.simps(2))
       (auto simp: res_simps split: if_splits list.splits sum.splits option.splits prod.splits
         dest: unicode_escape_error intro: "2.IH")
qed simp

lemma scan_number_error: "scan_number s = Inl e \<Longrightarrow> e \<in> scan_errors"
  by (auto simp: scan_number_def scan_digits_def scan_errors_def Let_def
      split: list.splits if_splits prod.splits option.splits)

lemma JSONDecodeError_in_scan_errors [simp]: "JSONDecodeError \<in> scan_errors" "RecursionError \<in> scan_errors"
  by (simp_all add: scan_errors_def)

lemma scan_elements_error:
  "scan_elements sc s = Inl e \<Longrightarrow> raises_only scan_errors sc \<Longrightarrow> e \<in> scan_errors"
proof (induction sc s arbitrary: e rule: scan_elements.induct)
  case (1 sc s)
  from "1.prems"(1) show ?case
    by (subst (asm) scan_elements.simps)
       (auto simp: res_simps split: sum.splits list.splits if_splits prod.splits
         intro: "1.IH" "1.prems"(2) raises_onlyD [OF "1.prems"(2)])
qed

lemma scan_members_error:
  "scan_members sc s = Inl e \<Longrightarrow> raises_only scan_errors sc \<Longrightarrow> e \<in> scan_errors"
proof (induction sc s arbitrary: e rule: scan_members.induct)
  case (1 sc s)
  note sc = raises_onlyD [OF "1.prems"(2)]
  consider "e \<in> scan_errors"
    | key r1 r2 v r3 r4 r5 where "scan_string s = Inr (key, r1)" and "skip_ws r1 = 58 # r2"
      and "sc (skip_ws r2) = Inr (v, r3)" and "length r3 < length s" and "skip_ws r3 = 44 # r4"
      and "skip_ws r4 = 34 # r5" and "scan_members sc r5 = Inl e"
    using "1.prems"(1)
    by (subst (asm) scan_members.simps)
       (auto simp: res_simps split: sum.splits list.splits if_splits prod.splits
         dest: scan_string_error sc)
  then show ?case
  proof cases
    case 2
    show ?thesis
      using "1.IH" [OF 2(1) refl 2(2) _ 2(3) refl 2(4) 2(5) _ _ 2(6) _ 2(7) "1.prems"(2)] by simp
  qed
qed

lemma scan_value_error:
  assumes "scan_value sub s = Inl e" and "\<And>sc. sub = Some sc \<Longrightarrow> raises_only scan_errors sc"
  shows "e \<in> scan_errors"
proof -
  have cont: "scan_container sub c r = Inl e \<Longrightarrow> e \<in> scan_errors" for c r
    using assms(2)
    by (auto simp: scan_container_def scan_object_def scan_array_def res_simps
        split: option.splits if_splits list.splits prod.splits
        dest: scan_members_error scan_elements_error)
  show ?thesis
    using assms(1)
    by (auto simp: scan_value_def res_simps split: list.splits if_splits prod.splits
        dest: scan_string_error scan_number_error cont)
qed

lemma scan_once_errors: "raises_only scan_errors (scan_once d)"
proof (induction d)
  case 0
  show ?case unfolding raises_only_def by (auto dest: scan_value_error)
next
  case (Suc d)
  then show ?case unfolding raises_only_def [of _ "scan_once (Suc d)"] by (auto dest: scan_value_error)
qed

lemma json_loads_error:
  "json_loads limit b = Inl e \<Longrightarrow> e \<in> insert UnicodeDecodeError scan_errors"
  by (auto simp: json_loads_def json_decode_def res_simps split: option.splits if_splits prod.splits
      dest: raises_onlyD [OF scan_once_errors])

text \<open>More nesting than the interpreter allows is a RecursionError, whatever follows.\<close>

lemma scan_once_deep:
  "limit < n \<Longrightarrow> scan_once limit (replicate n 91 @ s) = Inl RecursionError"
proof (induction limit arbitrary: n)
  case 0
  then obtain m where "n = Suc m" by (cases n) simp_all
  then show ?case by (simp add: scan_value_def scan_container_def)
next
  case (Suc limit)
  then obtain m where n: "n = Suc (Suc m)" by (cases n; cases "n - 1") auto
  have "scan_once limit (replicate (Suc m) 91 @ s) = Inl RecursionError"
    by (rule Suc.IH) (use Suc.prems n in simp)
  then have "scan_elements (scan_once limit) (91 # replicate m 91 @ s) = Inl RecursionError"
    by (subst scan_elements.simps) simp
  then show ?case
    by (simp add: n scan_value_def scan_container_def scan_array_def skip_ws_def json_ws_def)
qed

section \<open>Encoding and reading a query\<close>

definition utf8_encode_cp :: "int \<Rightarrow> bytes" where
  "utf8_encode_cp c =
     (if c < 128 then [c]
      else if c < 2048 then [192 + c div 64, 128 + c mod 64]
      else if c < 65536 then [224 + c div 4096, 128 + c div 64 mod 64, 128 + c mod 64]
      else [240 + c div 262144, 128 + c div 4096 mod 64, 128 + c div 64 mod 64, 128 + c mod 64])"

definition utf8_encode :: "pystr \<Rightarrow> bytes" where
  "utf8_encode s = concat (map utf8_encode_cp s)"

definition code_points :: "pystr \<Rightarrow> bool" where
  "code_points s \<longleftrightarrow> (\<forall>c \<in> set s. 0 \<le> c \<and> c \<le> 1114111)"

lemma utf8_encode_Cons [simp]: "utf8_encode (c # s) = utf8_encode_cp c @ utf8_encode s"
  by (simp add: utf8_encode_def)

lemma utf8_encode_Nil [simp]: "utf8_encode [] = []"
  by (simp add: utf8_encode_def)

lemma utf8_encode_append [simp]: "utf8_encode (s @ t) = utf8_encode s @ utf8_encode t"
  by (simp add: utf8_encode_def)

lemma base64_digits:
  fixes c :: int
  shows "c div 64 * 64 + c mod 64 = c"
    and "c div 4096 * 64 + c div 64 mod 64 = c div 64"
    and "c div 262144 * 64 + c div 4096 mod 64 = c div 4096"
    and "0 \<le> c mod 64" and "c mod 64 \<le> 63"
proof -
  have d: "c div 4096 = c div 64 div 64" "c div 262144 = c div 4096 div 64"
    using zdiv_zmult2_eq [of 64 c 64] zdiv_zmult2_eq [of 64 c 4096] by simp_all
  show "c div 64 * 64 + c mod 64 = c" by simp
  show "c div 4096 * 64 + c div 64 mod 64 = c div 64" unfolding d(1) by simp
  show "c div 262144 * 64 + c div 4096 mod 64 = c div 4096" unfolding d(2) by simp
  show "0 \<le> c mod 64" "c mod 64 \<le> 63" by (simp_all flip: zless_add1_eq)
qed

lemma utf8_decode_encode_cp:
  assumes "0 \<le> c" and "c \<le> 1114111"
  shows "utf8_decode True (utf8_encode_cp c @ bs) = map_option ((#) c) (utf8_decode True bs)"
proof -
  define q h g r s t where "q = c div 64" and "h = c div 4096" and "g = c div 262144"
    and "r = c mod 64" and "s = c div 64 mod 64" and "t = c div 4096 mod 64"
  note defs = q_def h_def g_def r_def s_def t_def
  have enc: "utf8_encode_cp c =
     (if c < 128 then [c] else if c < 2048 then [192 + q, 128 + r]
      else if c < 65536 then [224 + h, 128 + s, 128 + r]
      else [240 + g, 128 + t, 128 + s, 128 + r])"
    by (simp add: utf8_encode_cp_def defs)
  have eqs: "q * 64 + r = c" "h * 64 + s = q" "g * 64 + t = h"
    unfolding defs by (rule base64_digits)+
  have bounds: "0 \<le> r" "r \<le> 63" "0 \<le> s" "s \<le> 63" "0 \<le> t" "t \<le> 63"
    unfolding defs by (rule base64_digits)+
  consider "c < 128" | "128 \<le> c" "c < 2048" | "2048 \<le> c" "c < 65536" | "65536 \<le> c" by linarith
  then show ?thesis
  proof cases
    case 1
    with assms show ?thesis by (simp add: enc)
  next
    case 2
    with eqs bounds have "2 \<le> q" "q < 32" by linarith+
    with 2 eqs(1) bounds show ?thesis by (simp add: enc cont_byte_def)
  next
    case 3
    with eqs bounds have "0 \<le> h" "h < 16" "h = 0 \<longrightarrow> 32 \<le> s" "h * 4096 + s * 64 + r = c"
      by linarith+
    with 3 bounds show ?thesis by (simp add: enc cont_byte_def)
  next
    case 4
    with eqs bounds assms have "0 \<le> g" "g \<le> 4" "g = 0 \<longrightarrow> 16 \<le> t" "g = 4 \<longrightarrow> t < 16"
      "g * 262144 + t * 4096 + s * 64 + r = c"
      by linarith+
    with 4 bounds show ?thesis by (simp add: enc cont_byte_def)
  qed
qed

lemma utf8_decode_encode: "code_points s \<Longrightarrow> utf8_decode True (utf8_encode s) = Some s"
  by (induction s) (auto simp: code_points_def utf8_decode_encode_cp)

text \<open>Text that stands for itself between the quotes of a JSON string.\<close>

definition plain_text :: "pystr \<Rightarrow> bool" where
  "plain_text s \<longleftrightarrow> (\<forall>c \<in> set s. 32 \<le> c \<and> c \<le> 1114111 \<and> c \<noteq> 34 \<and> c \<noteq> 92)"

lemma scan_string_plain: "plain_text q \<Longrightarrow> scan_string (q @ 34 # r) = Inr (q, r)"
  by (induction q) (auto simp: plain_text_def scan_string.simps(2))

text \<open>The body \<open>{"query":"..."}\<close>, and the same with further members after the query.\<close>

definition query_text :: "pystr \<Rightarrow> pystr" where
  "query_text q = [123, 34] @ lit ''query'' @ [34, 58, 34] @ q @ [34, 125]"

lemma plain_text_lit_query [simp]: "plain_text (lit ''query'')"
  by (simp add: plain_text_def lit_def)

lemma scan_members_query:
  assumes "plain_text q" and "sc (34 # q @ [34, 125]) = Inr (JStr q, [125])"
  shows "scan_members sc (lit ''query'' @ [34, 58, 34] @ q @ [34, 125]) = Inr ([(lit ''query'', JStr q)], [])"
proof -
  have "scan_string (lit ''query'' @ 34 # 58 # 34 # q @ [34, 125]) = Inr (lit ''query'', 58 # 34 # q @ [34, 125])"
    by (rule scan_string_plain) simp
  with assms(2) show ?thesis
    by (subst scan_members.simps) (simp add: skip_ws_def json_ws_def)
qed

lemma scan_value_quoted:
  "plain_text q \<Longrightarrow> scan_value sub (34 # q @ 34 # r) = Inr (JStr q, r)"
  by (simp add: scan_value_def scan_string_plain)

lemma json_loads_query:
  assumes "plain_text q"
  shows "json_loads (Suc d) (utf8_encode (query_text q)) = Inr (JObj [(lit ''query'', JStr q)])"
proof -
  have cp: "code_points (query_text q)"
    using assms by (force simp: code_points_def plain_text_def query_text_def lit_def)
  have enc: "detect_encoding (utf8_encode (query_text q)) = Utf8"
    by (simp add: query_text_def lit_def utf8_encode_cp_def detect_encoding_def py_startswith_def)
  have str: "scan_once d (34 # q @ [34, 125]) = Inr (JStr q, [125])"
    using scan_value_quoted [OF assms] by (cases d) simp_all
  have "scan_object (scan_once d) (34 # lit ''query'' @ [34, 58, 34] @ q @ [34, 125])
      = Inr (JObj [(lit ''query'', JStr q)], [])"
    using scan_members_query [of q "scan_once d", OF assms str]
    by (simp add: scan_object_def skip_ws_def json_ws_def dict_of_pairs_def)
  then have "json_decode (Suc d) (query_text q) = Inr (JObj [(lit ''query'', JStr q)])"
    by (simp add: json_decode_def query_text_def skip_ws_def json_ws_def scan_value_def scan_container_def)
  then show ?thesis
    by (simp add: json_loads_def enc decode_bytes_def utf8_decode_encode [OF cp])
qed

end
