(* ===== verification/Gate.thy ===== *)
theory Gate
  imports Widget_Keys Rate_Limit Origins Json_Facts
begin

text \<open>
  \<open>backend/src/app/tenants/gate.py\<close>: the visitor gate. \<open>authorize\<close> runs its checks in the
  order of the source and passes on the state of the rate limiter; the middleware wraps it
  around the widget path. The nesting limit of the JSON reader is the first argument.
\<close>

section \<open>The gate\<close>

record 's visitor_gate =
  g_store :: key_lookup
  g_rate_limiter :: "'s limiter"
  g_max_body_bytes :: int

text \<open>The keyword arguments of \<open>authorize\<close>.\<close>

record visit =
  v_widget_key :: "pystr option"
  v_origin :: "pystr option"
  v_referer :: "pystr option"
  v_client_ip :: "pystr option"
  v_body :: bytes

definition check_listed :: "pystr \<Rightarrow> pystr set \<Rightarrow> exc + unit" where
  "check_listed value allowed_hosts =
     bind_res (map_err PyExc (host_allowed value allowed_hosts)) (\<lambda>ok.
       if \<not> ok then raise_app TenantAccessError ''origin not allowed'' else Inr ())"

definition check_origin :: "pystr option \<Rightarrow> pystr option \<Rightarrow> pystr set \<Rightarrow> exc + unit" where
  "check_origin origin referer allowed_hosts =
     (case origin of
        Some v \<Rightarrow> check_listed v allowed_hosts
      | None \<Rightarrow>
          (case referer of
             Some v \<Rightarrow> check_listed v allowed_hosts
           | None \<Rightarrow> raise_app TenantAccessError ''request carries no origin or referer''))"

definition sanitize_query :: "nat \<Rightarrow> bytes \<Rightarrow> exc + pystr" where
  "sanitize_query limit body =
     (case json_loads limit body of
        Inl e \<Rightarrow> if e = JSONDecodeError
                 then raise_app BadRequestError ''request body is not valid json''
                 else Inl (PyExc e)
      | Inr payload \<Rightarrow>
          (case payload of
             JObj d \<Rightarrow>
               (case dict_get d (lit ''query'') of
                  Some (JStr query) \<Rightarrow>
                    if py_strip query = []
                    then raise_app BadRequestError ''request must carry a non-empty query''
                    else Inr query
                | _ \<Rightarrow> raise_app BadRequestError ''request must carry a non-empty query'')
           | _ \<Rightarrow> raise_app BadRequestError ''request body must be a json object''))"

definition authorize :: "nat \<Rightarrow> 's visitor_gate \<Rightarrow> visit \<Rightarrow> ('s, exc, visitor_ctx) action" where
  "authorize limit gate a = (\<lambda>s.
     if g_max_body_bytes gate < int (length (v_body a))
     then (raise_app PayloadTooLargeError ''request body exceeds the visitor limit'', s)
     else if v_widget_key a = None \<or> v_widget_key a = Some []
     then (raise_app AuthenticationError ''missing widget key'', s)
     else
       (let key = the (v_widget_key a) in
        case g_store gate key of
          Inl e \<Rightarrow> (Inl e, s)
        | Inr None \<Rightarrow> (raise_app AuthenticationError ''unknown widget key'', s)
        | Inr (Some record) \<Rightarrow>
            (case check_origin (v_origin a) (v_referer a) (wk_allowed_hosts record) of
               Inl e \<Rightarrow> (Inl e, s)
             | Inr _ \<Rightarrow>
                 (case g_rate_limiter gate key (v_client_ip a) s of (allowed, s') \<Rightarrow>
                    if \<not> allowed
                    then (raise_app RateLimitedError ''rate limit exceeded'', s')
                    else (bind_res (sanitize_query limit (v_body a)) (\<lambda>query.
                            Inr \<lparr>visitor_tenant_id = wk_tenant_id record, visitor_query = query\<rparr>), s')))))"

section \<open>The middleware\<close>

text \<open>A request as the middleware sees it: \<open>request.headers.get\<close>, the outcome of
  \<open>await request.body()\<close>, and the slot of \<open>request.state\<close> the gate fills.\<close>

record http_request =
  rq_path :: pystr
  rq_header :: "pystr \<Rightarrow> pystr option"
  rq_body :: "exc + bytes"
  rq_client_host :: "pystr option"
  rq_visitor_context :: "visitor_ctx option"

definition WIDGET_PATH_PREFIX :: pystr where
  "WIDGET_PATH_PREFIX = lit ''/v1/widget''"

definition WIDGET_KEY_HEADER :: pystr where
  "WIDGET_KEY_HEADER = lit ''x-widget-key''"

text \<open>\<open>int(declared)\<close> for a string of Latin-1 digits: a superscript digit, or more digits
  than the interpreter converts, is a ValueError.\<close>

definition int_of_latin1_digits :: "pystr \<Rightarrow> py_exc + int" where
  "int_of_latin1_digits s =
     (if (\<forall>c \<in> set s. ascii_digit c) \<and> length s \<le> max_str_digits
      then Inr (digits_value s) else Inl ValueError)"

definition declared_too_large :: "int \<Rightarrow> pystr option \<Rightarrow> py_exc + bool" where
  "declared_too_large limit declared =
     (case declared of
        None \<Rightarrow> Inr False
      | Some d \<Rightarrow>
          if latin1_isdigit d
          then bind_res (int_of_latin1_digits d) (\<lambda>n. Inr (limit < n))
          else Inr False)"

definition visit_of :: "http_request \<Rightarrow> bytes \<Rightarrow> visit" where
  "visit_of request body =
     \<lparr>v_widget_key = rq_header request WIDGET_KEY_HEADER,
      v_origin = rq_header request (lit ''origin''),
      v_referer = rq_header request (lit ''referer''),
      v_client_ip = rq_client_host request,
      v_body = body\<rparr>"

definition visitor_gate_middleware ::
  "nat \<Rightarrow> 's visitor_gate \<Rightarrow> http_request \<Rightarrow> (http_request \<Rightarrow> ('s, exc, response) action)
     \<Rightarrow> ('s, exc, response) action" where
  "visitor_gate_middleware limit gate request call_next =
     (if \<not> py_startswith (rq_path request) WIDGET_PATH_PREFIX
      then call_next request
      else
        (case declared_too_large (g_max_body_bytes gate) (rq_header request (lit ''content-length'')) of
           Inl e \<Rightarrow> act_raise (PyExc e)
         | Inr True \<Rightarrow>
             act_return (app_error_response
               \<lparr>err_class = PayloadTooLargeError,
                err_detail = lit ''declared body exceeds the visitor limit''\<rparr> (rq_path request))
         | Inr False \<Rightarrow>
             act_bind (act_lift (rq_body request)) (\<lambda>body s.
               case authorize limit gate (visit_of request body) s of
                 (Inl (AppExc e), s') \<Rightarrow> (Inr (app_error_response e (rq_path request)), s')
               | (Inl (PyExc x), s') \<Rightarrow> (Inl (PyExc x), s')
               | (Inr context, s') \<Rightarrow>
                   call_next (request\<lparr>rq_visitor_context := Some context\<rparr>) s')))"

end
