(* ===== verification/Gate_Facts.thy ===== *)
theory Gate_Facts
  imports Gate
begin

text \<open>
  What the visitor gate guarantees: when it accepts and with what context, what each
  refusal means, that the limiter is consulted once and only for a known key with an allowed
  origin, that the tenant comes from the key alone, and what reaches the application behind
  the middleware.
\<close>

section \<open>The origin a request presents\<close>

definition presented_origin :: "visit \<Rightarrow> pystr option" where
  "presented_origin a = (case v_origin a of Some v \<Rightarrow> Some v | None \<Rightarrow> v_referer a)"

lemma check_listed_Inr_iff:
  "check_listed v H = Inr u \<longleftrightarrow> (\<exists>h \<in> H. origin_host v = Inr (Some h))"
  by (auto simp: check_listed_def host_allowed_def res_simps split: option.splits)

lemma check_listed_Inl_iff:
  "check_listed v H = Inl e \<longleftrightarrow>
     (\<exists>host. origin_host v = Inr host \<and> (case host of None \<Rightarrow> True | Some h \<Rightarrow> h \<notin> H)
        \<and> e = AppExc \<lparr>err_class = TenantAccessError, err_detail = lit ''origin not allowed''\<rparr>)
   \<or> origin_host v = Inl ValueError \<and> e = PyExc ValueError"
proof (cases "origin_host v")
  case (Inl x)
  then show ?thesis
    using origin_host_error [OF Inl] by (auto simp: check_listed_def host_allowed_def)
next
  case (Inr host)
  then show ?thesis
    by (cases host) (auto simp: check_listed_def host_allowed_def)
qed

lemma check_origin_presented:
  "check_origin (v_origin a) (v_referer a) H =
     (case presented_origin a of
        Some v \<Rightarrow> check_listed v H
      | None \<Rightarrow> raise_app TenantAccessError ''request carries no origin or referer'')"
  by (simp add: check_origin_def presented_origin_def split: option.splits)

lemma check_origin_Inr_iff:
  "check_origin (v_origin a) (v_referer a) H = Inr u \<longleftrightarrow>
     (\<exists>v. presented_origin a = Some v \<and> (\<exists>h \<in> H. origin_host v = Inr (Some h)))"
  by (auto simp: check_origin_presented check_listed_Inr_iff split: option.splits)

lemma check_origin_Inl_PyExc:
  "check_origin (v_origin a) (v_referer a) H = Inl (PyExc x) \<longleftrightarrow>
     (\<exists>v. presented_origin a = Some v \<and> origin_host v = Inl ValueError \<and> x = ValueError)"
  by (auto simp: check_origin_presented check_listed_Inl_iff split: option.splits)

section \<open>The query a body carries\<close>

definition carries_query :: "json \<Rightarrow> pystr \<Rightarrow> bool" where
  "carries_query payload q \<longleftrightarrow> (\<exists>d. payload = JObj d \<and> dict_get d (lit ''query'') = Some (JStr q))
     \<and> (\<exists>c \<in> set q. \<not> is_space c)"

lemma sanitize_query_Inr_iff:
  "sanitize_query limit body = Inr q \<longleftrightarrow>
     (\<exists>payload. json_loads limit body = Inr payload \<and> carries_query payload q)"
  by (auto simp: sanitize_query_def carries_query_def py_strip_eq_Nil_iff
      split: sum.splits json.splits option.splits if_splits)

lemma sanitize_query_AppExc:
  assumes "sanitize_query limit body = Inl (AppExc e)"
  shows "err_class e = BadRequestError \<and>
     (json_loads limit body = Inl JSONDecodeError \<or>
      (\<exists>payload. json_loads limit body = Inr payload \<and> (\<forall>q. \<not> carries_query payload q)))"
  using assms
  by (auto simp: sanitize_query_def carries_query_def py_strip_eq_Nil_iff
      split: sum.splits json.splits option.splits if_splits)

lemma sanitize_query_PyExc:
  "sanitize_query limit body = Inl (PyExc x) \<longleftrightarrow>
     json_loads limit body = Inl x \<and> x \<noteq> JSONDecodeError"
  by (auto simp: sanitize_query_def split: sum.splits json.splits option.splits if_splits)

section \<open>Outcomes of authorize\<close>

text \<open>A request that gets past the size, key and origin checks, with the record of its key.\<close>

definition admitted :: "'s visitor_gate \<Rightarrow> visit \<Rightarrow> pystr \<Rightarrow> widget_key_record \<Rightarrow> bool" where
  "admitted gate a k r \<longleftrightarrow> int (length (v_body a)) \<le> g_max_body_bytes gate
     \<and> v_widget_key a = Some k \<and> k \<noteq> [] \<and> g_store gate k = Inr (Some r)
     \<and> (\<exists>v. presented_origin a = Some v \<and> (\<exists>h \<in> wk_allowed_hosts r. origin_host v = Inr (Some h)))"

lemma authorize_cases:
  obtains (size) "g_max_body_bytes gate < int (length (v_body a))"
      and "authorize limit gate a s = (raise_app PayloadTooLargeError ''request body exceeds the visitor limit'', s)"
  | (no_key) "int (length (v_body a)) \<le> g_max_body_bytes gate"
      and "v_widget_key a = None \<or> v_widget_key a = Some []"
      and "authorize limit gate a s = (raise_app AuthenticationError ''missing widget key'', s)"
  | (store) k e where "v_widget_key a = Some k" and "k \<noteq> []" and "g_store gate k = Inl e"
      and "authorize limit gate a s = (Inl e, s)"
  | (unknown) k where "int (length (v_body a)) \<le> g_max_body_bytes gate"
      and "v_widget_key a = Some k" and "k \<noteq> []" and "g_store gate k = Inr None"
      and "authorize limit gate a s = (raise_app AuthenticationError ''unknown widget key'', s)"
  | (origin) k r e where "int (length (v_body a)) \<le> g_max_body_bytes gate"
      and "v_widget_key a = Some k" and "k \<noteq> []" and "g_store gate k = Inr (Some r)"
      and "check_origin (v_origin a) (v_referer a) (wk_allowed_hosts r) = Inl e"
      and "authorize limit gate a s = (Inl e, s)"
  | (limited) k r s' where "admitted gate a k r"
      and "g_rate_limiter gate k (v_client_ip a) s = (False, s')"
      and "authorize limit gate a s = (raise_app RateLimitedError ''rate limit exceeded'', s')"
  | (body) k r s' where "admitted gate a k r"
      and "g_rate_limiter gate k (v_client_ip a) s = (True, s')"
      and "authorize limit gate a s =
        (bind_res (sanitize_query limit (v_body a)) (\<lambda>q.
           Inr \<lparr>visitor_tenant_id = wk_tenant_id r, visitor_query = q\<rparr>), s')"
proof (cases "g_max_body_bytes gate < int (length (v_body a))")
  case True
  then show thesis using size by (simp add: authorize_def)
next
  case fits: False
  show thesis
  proof (cases "v_widget_key a = None \<or> v_widget_key a = Some []")
    case True
    with fits show thesis using no_key by (simp add: authorize_def)
  next
    case False
    then obtain k where k: "v_widget_key a = Some k" "k \<noteq> []" by auto
    consider e where "g_store gate k = Inl e" | "g_store gate k = Inr None"
      | r where "g_store gate k = Inr (Some r)"
      by (metis sum.exhaust option.exhaust)
    then show thesis
    proof cases
      case 1
      with fits k show thesis using store by (simp add: authorize_def)
    next
      case 2
      with fits k show thesis using unknown by (simp add: authorize_def)
    next
      case (3 r)
      show thesis
      proof (cases "check_origin (v_origin a) (v_referer a) (wk_allowed_hosts r)")
        case (Inl e)
        with fits k 3 show thesis using origin by (simp add: authorize_def)
      next
        case (Inr u)
        then have adm: "admitted gate a k r"
          using fits k 3 by (auto simp: admitted_def check_origin_Inr_iff)
        obtain ok s' where "g_rate_limiter gate k (v_client_ip a) s = (ok, s')"
          by (cases "g_rate_limiter gate k (v_client_ip a) s")
        with fits k 3 Inr adm show thesis
          using limited [of k r s'] body [of k r s'] by (cases ok) (simp_all add: authorize_def)
      qed
    qed
  qed
qed

lemma authorize_admitted:
  assumes "admitted gate a k r"
  shows "authorize limit gate a s =
    (case g_rate_limiter gate k (v_client_ip a) s of (ok, s') \<Rightarrow>
       if \<not> ok then (raise_app RateLimitedError ''rate limit exceeded'', s')
       else (bind_res (sanitize_query limit (v_body a)) (\<lambda>q.
               Inr \<lparr>visitor_tenant_id = wk_tenant_id r, visitor_query = q\<rparr>), s'))"
proof -
  have "check_origin (v_origin a) (v_referer a) (wk_allowed_hosts r) = Inr ()"
    using assms by (simp add: admitted_def check_origin_Inr_iff)
  then show ?thesis using assms by (simp add: authorize_def admitted_def)
qed

lemma authorize_Inr_iff:
  "authorize limit gate a s = (Inr ctx, s') \<longleftrightarrow>
     (\<exists>k r q. admitted gate a k r \<and> g_rate_limiter gate k (v_client_ip a) s = (True, s')
        \<and> sanitize_query limit (v_body a) = Inr q
        \<and> ctx = \<lparr>visitor_tenant_id = wk_tenant_id r, visitor_query = q\<rparr>)"
    (is "?l \<longleftrightarrow> ?r")
proof
  assume ?l
  then show ?r
    by (cases rule: authorize_cases [where limit = limit and gate = gate and a = a and s = s])
       (auto simp: res_simps)
next
  assume ?r
  then show ?l by (auto simp: authorize_admitted)
qed

text \<open>C1: the gate accepts a request exactly when the body fits, the key is known, the presented
  origin (the Origin if there is one, else the Referer) resolves to a host on that key's
  list, the limiter allows it, and the body is a JSON object whose query is a string that is
  not blank; the context then holds the tenant of the key's record and that query.\<close>

theorem authorize_accepts_iff:
  "authorize limit gate a s = (Inr ctx, s') \<longleftrightarrow>
     (\<exists>k r v h payload.
        int (length (v_body a)) \<le> g_max_body_bytes gate
      \<and> v_widget_key a = Some k \<and> k \<noteq> [] \<and> g_store gate k = Inr (Some r)
      \<and> presented_origin a = Some v \<and> origin_host v = Inr (Some h) \<and> h \<in> wk_allowed_hosts r
      \<and> g_rate_limiter gate k (v_client_ip a) s = (True, s')
      \<and> json_loads limit (v_body a) = Inr payload \<and> carries_query payload (visitor_query ctx)
      \<and> visitor_tenant_id ctx = wk_tenant_id r)"
  unfolding authorize_Inr_iff admitted_def sanitize_query_Inr_iff
  by (cases ctx) (auto; blast)

text \<open>What every refusal of the gate means.\<close>

definition refusal_justified :: "nat \<Rightarrow> 's visitor_gate \<Rightarrow> visit \<Rightarrow> 's \<Rightarrow> 's \<Rightarrow> app_error_class \<Rightarrow> bool" where
  "refusal_justified limit gate a s s' c =
     (case c of
        PayloadTooLargeError \<Rightarrow> g_max_body_bytes gate < int (length (v_body a)) \<and> s' = s
      | AuthenticationError \<Rightarrow>
          int (length (v_body a)) \<le> g_max_body_bytes gate \<and> s' = s
          \<and> (v_widget_key a = None \<or> v_widget_key a = Some []
             \<or> (\<exists>k. v_widget_key a = Some k \<and> g_store gate k = Inr None))
      | TenantAccessError \<Rightarrow>
          s' = s \<and> (\<exists>k r. v_widget_key a = Some k \<and> g_store gate k = Inr (Some r)
             \<and> (\<forall>v. presented_origin a = Some v \<longrightarrow>
                  (\<exists>host. origin_host v = Inr host \<and> host \<notin> Some ` wk_allowed_hosts r)))
      | RateLimitedError \<Rightarrow>
          (\<exists>k r. admitted gate a k r \<and> g_rate_limiter gate k (v_client_ip a) s = (False, s'))
      | BadRequestError \<Rightarrow>
          (\<exists>k r. admitted gate a k r \<and> g_rate_limiter gate k (v_client_ip a) s = (True, s'))
          \<and> (json_loads limit (v_body a) = Inl JSONDecodeError \<or>
             (\<exists>payload. json_loads limit (v_body a) = Inr payload \<and> (\<forall>q. \<not> carries_query payload q)))
      | _ \<Rightarrow> False)"

lemma authorize_AppExc_justified:
  assumes store: "\<And>k e. g_store gate k \<noteq> Inl (AppExc e)"
    and run: "authorize limit gate a s = (Inl (AppExc e), s')"
  shows "refusal_justified limit gate a s s' (err_class e)"
proof (cases rule: authorize_cases [where limit = limit and gate = gate and a = a and s = s])
  case (origin k r x)
  have e: "check_origin (v_origin a) (v_referer a) (wk_allowed_hosts r) = Inl (AppExc e)" and "s' = s"
    using run origin by auto
  have "err_class e = TenantAccessError \<and> (\<forall>v. presented_origin a = Some v \<longrightarrow>
      (\<exists>host. origin_host v = Inr host \<and> host \<notin> Some ` wk_allowed_hosts r))"
  proof (cases "presented_origin a")
    case None
    with e show ?thesis by (auto simp: check_origin_presented)
  next
    case (Some v)
    with e obtain host where "origin_host v = Inr host"
      and "case host of None \<Rightarrow> True | Some h \<Rightarrow> h \<notin> wk_allowed_hosts r" and "err_class e = TenantAccessError"
      by (auto simp: check_origin_presented check_listed_Inl_iff)
    with Some show ?thesis by (auto split: option.splits)
  qed
  with origin \<open>s' = s\<close> show ?thesis by (simp add: refusal_justified_def)
next
  case (body k r s2)
  then have "sanitize_query limit (v_body a) = Inl (AppExc e)" and "s' = s2"
    using run by (cases "sanitize_query limit (v_body a)"; simp)+
  with body(1,2) show ?thesis
    using sanitize_query_AppExc [of limit "v_body a" e] by (auto simp: refusal_justified_def)
qed (use run store in \<open>auto simp: refusal_justified_def\<close>)

text \<open>C21: every refusal is the right one. If the store itself does not raise AppErrors, an
  AppError raised by the gate is of one of five classes, and each class is raised only for
  its own reason: too large a body, a missing or unknown key, an absent or unlisted origin,
  a limiter that said no, a body that is no JSON object with a non-blank query. The first
  three leave the limiter untouched, and the last is reached only past all other checks.\<close>

theorem authorize_refusals_justified:
  assumes "\<And>k e. g_store gate k \<noteq> Inl (AppExc e)"
    and "authorize limit gate a s = (Inl (AppExc e), s')"
  shows "refusal_justified limit gate a s s' (err_class e)"
  using assms by (rule authorize_AppExc_justified)

section \<open>The rate limiter\<close>

lemma admitted_unique: "admitted gate a k r \<Longrightarrow> admitted gate a k' r' \<Longrightarrow> k' = k \<and> r' = r"
  by (auto simp: admitted_def)

lemma admitted_key: "admitted gate a k r \<Longrightarrow> v_widget_key a = Some k"
  by (simp add: admitted_def)

lemma authorize_not_admitted:
  assumes "\<nexists>k r. admitted gate a k r"
  shows "snd (authorize limit gate a s) = s"
  by (cases rule: authorize_cases [where limit = limit and gate = gate and a = a and s = s])
     (use assms in simp_all)

text \<open>C22: the limiter is consulted once, with the presented key and client address, exactly when
  the body fits, the key is known and the origin is on its list; otherwise its state is
  unchanged. For a request that gets that far its verdict decides: RateLimitedError if and
  only if it refuses, whatever the body holds.\<close>

theorem limiter_consulted_once:
  "snd (authorize limit gate a s) =
     (if \<exists>k r. admitted gate a k r
      then snd (g_rate_limiter gate (the (v_widget_key a)) (v_client_ip a) s) else s)
   \<and> (\<forall>k r. admitted gate a k r \<longrightarrow>
        (\<not> fst (g_rate_limiter gate k (v_client_ip a) s) \<longleftrightarrow>
         (\<exists>e. fst (authorize limit gate a s) = Inl (AppExc e) \<and> err_class e = RateLimitedError)))"
proof -
  have verdict: "\<not> fst (g_rate_limiter gate k (v_client_ip a) s) \<longleftrightarrow>
      (\<exists>e. fst (authorize limit gate a s) = Inl (AppExc e) \<and> err_class e = RateLimitedError)"
    and state: "snd (authorize limit gate a s) = snd (g_rate_limiter gate k (v_client_ip a) s)"
    if adm: "admitted gate a k r" for k r
  proof -
    obtain ok s' where lim: "g_rate_limiter gate k (v_client_ip a) s = (ok, s')"
      by (cases "g_rate_limiter gate k (v_client_ip a) s")
    show "snd (authorize limit gate a s) = snd (g_rate_limiter gate k (v_client_ip a) s)"
      by (simp add: authorize_admitted [OF adm] lim)
    show "\<not> fst (g_rate_limiter gate k (v_client_ip a) s) \<longleftrightarrow>
        (\<exists>e. fst (authorize limit gate a s) = Inl (AppExc e) \<and> err_class e = RateLimitedError)"
      using sanitize_query_AppExc [of limit "v_body a"]
      by (cases ok; cases "sanitize_query limit (v_body a)")
         (auto simp: authorize_admitted [OF adm] lim)
  qed
  show ?thesis
    using verdict state admitted_key authorize_not_admitted [of gate a limit s] by fastforce
qed

section \<open>The tenant comes from the key\<close>

context widget_key_store
begin

lemma authorize_tenant:
  assumes "g_store gate = lookup" and "authorize limit gate a s = (Inr ctx, s')"
  shows "\<exists>k. v_widget_key a = Some k \<and> owner_of k = Some (visitor_tenant_id ctx)"
  using assms lookup_owner by (fastforce simp: authorize_Inr_iff admitted_def)

lemma authorize_unregistered:
  assumes "g_store gate = lookup" and "\<And>e. lookup k \<noteq> Inl e"
    and "v_widget_key a = Some k" and "owner_of k = None"
  shows "\<exists>e. fst (authorize limit gate a s) = Inl (AppExc e)
     \<and> err_class e \<in> {AuthenticationError, PayloadTooLargeError}"
proof -
  have "lookup k = Inr None"
    using assms(2,4) lookup_owner by (cases "lookup k") (auto split: option.splits, metis option.exhaust option.simps(3))
  with assms(1,3) show ?thesis by (auto simp: authorize_def)
qed

end

text \<open>On the Postgres store the tenant of an accepted visitor is the tenant of the row the
  presented key selects, so two accepted requests with the same key get the same tenant
  whatever their origins, addresses and bodies say.\<close>

theorem visitor_tenant_from_key:
  assumes "g_store gate = postgres_lookup fetch"
    and "authorize limit gate a s = (Inr ctx, s')"
    and "authorize limit' gate b t = (Inr ctx', t')"
    and "v_widget_key a = v_widget_key b"
  shows "\<exists>k. v_widget_key a = Some k \<and> row_owner fetch k = Some (visitor_tenant_id ctx)
     \<and> visitor_tenant_id ctx' = visitor_tenant_id ctx"
  using postgres.authorize_tenant [OF assms(1,2)] postgres.authorize_tenant [OF assms(1,3)] assms(4)
  by auto

end
