(* ===== verification/Gate_Http.thy ===== *)
theory Gate_Http
  imports Gate_Facts
begin

text \<open>
  The gate as middleware: what reaches the application behind it, what a client is answered
  when nothing does, which exceptions escape unanswered, and that a well-formed request from
  a registered site is served. The witnesses at the end run the gate on a concrete store.
\<close>

section \<open>The declared length\<close>

lemma sum_bool_cases:
  obtains x where "(d :: 'e + bool) = Inl x" | "d = Inr True" | "d = Inr False"
  by (cases d) auto

lemma int_of_latin1_digits_error: "int_of_latin1_digits d = Inl x \<Longrightarrow> x = ValueError"
  by (auto simp: int_of_latin1_digits_def split: if_splits)

lemma declared_too_large_error: "declared_too_large m d = Inl x \<Longrightarrow> x = ValueError"
  by (auto simp: declared_too_large_def res_simps split: option.splits if_splits
      dest: int_of_latin1_digits_error)

section \<open>The path guard\<close>

definition gated :: "http_request \<Rightarrow> bool" where
  "gated request \<longleftrightarrow> py_startswith (rq_path request) WIDGET_PATH_PREFIX"

lemma middleware_ungated: "\<not> gated request \<Longrightarrow> visitor_gate_middleware limit gate request next = next request"
  by (simp add: visitor_gate_middleware_def gated_def)

lemma middleware_declared_large:
  assumes "gated request"
    and "declared_too_large (g_max_body_bytes gate) (rq_header request (lit ''content-length'')) = Inr True"
  shows "visitor_gate_middleware limit gate request next s =
    (Inr (app_error_response \<lparr>err_class = PayloadTooLargeError,
       err_detail = lit ''declared body exceeds the visitor limit''\<rparr> (rq_path request)), s)"
  using assms by (simp add: visitor_gate_middleware_def gated_def)

lemma middleware_declared_invalid:
  assumes "gated request"
    and "declared_too_large (g_max_body_bytes gate) (rq_header request (lit ''content-length'')) = Inl x"
  shows "visitor_gate_middleware limit gate request next s = (Inl (PyExc x), s)"
  using assms by (simp add: visitor_gate_middleware_def gated_def)

lemma middleware_gated:
  assumes "gated request"
    and "declared_too_large (g_max_body_bytes gate) (rq_header request (lit ''content-length'')) = Inr False"
  shows "visitor_gate_middleware limit gate request next s =
    (case rq_body request of
       Inl e \<Rightarrow> (Inl e, s)
     | Inr body \<Rightarrow>
         (case authorize limit gate (visit_of request body) s of
            (Inl (AppExc e), s') \<Rightarrow> (Inr (app_error_response e (rq_path request)), s')
          | (Inl (PyExc x), s') \<Rightarrow> (Inl (PyExc x), s')
          | (Inr context, s') \<Rightarrow> next (request\<lparr>rq_visitor_context := Some context\<rparr>) s'))"
  using assms
  by (simp add: visitor_gate_middleware_def gated_def act_bind_lift split: sum.split)

text \<open>The request the application receives, if it receives one.\<close>

definition passes :: "nat \<Rightarrow> 's visitor_gate \<Rightarrow> http_request \<Rightarrow> 's \<Rightarrow> visitor_ctx \<Rightarrow> 's \<Rightarrow> bool" where
  "passes limit gate request s ctx s' \<longleftrightarrow>
     declared_too_large (g_max_body_bytes gate) (rq_header request (lit ''content-length'')) = Inr False
   \<and> (\<exists>body. rq_body request = Inr body \<and> authorize limit gate (visit_of request body) s = (Inr ctx, s'))"

lemma middleware_passes:
  assumes "gated request" and "passes limit gate request s ctx s'"
  shows "visitor_gate_middleware limit gate request next s = next (request\<lparr>rq_visitor_context := Some ctx\<rparr>) s'"
  using assms by (auto simp: passes_def middleware_gated)

definition answered_or_failed :: "exc + response \<Rightarrow> bool" where
  "answered_or_failed r \<longleftrightarrow> (case r of
       Inr resp \<Rightarrow> (\<exists>e path. resp = app_error_response e path)
     | Inl e \<Rightarrow> True)"

lemma middleware_blocks:
  assumes "gated request" and "\<nexists>ctx s'. passes limit gate request s ctx s'"
  shows "\<exists>r s'. answered_or_failed r \<and> (\<forall>next. visitor_gate_middleware limit gate request next s = (r, s'))"
proof -
  let ?d = "declared_too_large (g_max_body_bytes gate) (rq_header request (lit ''content-length''))"
  show ?thesis
  proof (cases ?d rule: sum_bool_cases)
    case (1 x)
    show ?thesis
      using middleware_declared_invalid [OF assms(1) 1]
      by (intro exI [of _ "Inl (PyExc x)"] exI [of _ s]) (simp add: answered_or_failed_def)
  next
    case 2
    show ?thesis
      using middleware_declared_large [OF assms(1) 2] by (fastforce simp: answered_or_failed_def)
  next
    case 3
    note mw = middleware_gated [OF assms(1) 3]
    show ?thesis
    proof (cases "rq_body request")
      case (Inl e)
      then show ?thesis by (auto simp: mw answered_or_failed_def)
    next
      case (Inr body)
      obtain r s' where a: "authorize limit gate (visit_of request body) s = (r, s')"
        by (cases "authorize limit gate (visit_of request body) s")
      show ?thesis
      proof (cases r)
        case (Inr ctx)
        with a 3 assms(2) \<open>rq_body request = Inr body\<close> show ?thesis by (auto simp: passes_def)
      next
        case (Inl e)
        then show ?thesis
          by (cases e) (auto simp: mw a \<open>rq_body request = Inr body\<close> answered_or_failed_def)
      qed
    qed
  qed
qed

text \<open>C25: on the widget path the application runs only behind the gate. For every request, either
  the declared length is acceptable and \<open>authorize\<close> accepted the body, and then the
  application is called once, with that context in the request and the state the limiter
  left; or the application is not called at all, and the client is answered with a problem
  response unless an exception escapes. Paths outside the prefix are passed on unchanged.\<close>

theorem middleware_guards_widget_path:
  "(gated request \<longrightarrow>
      (\<exists>ctx s'. passes limit gate request s ctx s' \<and>
         (\<forall>next. visitor_gate_middleware limit gate request next s
            = next (request\<lparr>rq_visitor_context := Some ctx\<rparr>) s'))
    \<or> (\<exists>r s'. answered_or_failed r \<and>
         (\<forall>next. visitor_gate_middleware limit gate request next s = (r, s'))))
   \<and> (\<not> gated request \<longrightarrow>
      (\<forall>next. visitor_gate_middleware limit gate request next s = next request s))"
proof (cases "\<exists>ctx s'. passes limit gate request s ctx s'")
  case True
  then obtain ctx s' where p: "passes limit gate request s ctx s'" by blast
  have "gated request \<Longrightarrow> \<forall>next. visitor_gate_middleware limit gate request next s
      = next (request\<lparr>rq_visitor_context := Some ctx\<rparr>) s'"
    using middleware_passes [OF _ p] by simp
  with p show ?thesis by (simp add: middleware_ungated) blast
next
  case False
  then show ?thesis using middleware_blocks [of request limit gate s] by (auto simp: middleware_ungated)
qed

section \<open>Exceptions that escape\<close>

lemma authorize_PyExc:
  assumes "authorize limit gate a s = (Inl (PyExc x), s')"
  shows "(\<exists>k. v_widget_key a = Some k \<and> g_store gate k = Inl (PyExc x))
     \<or> (\<exists>v. presented_origin a = Some v \<and> origin_host v = Inl ValueError \<and> x = ValueError)
     \<or> (\<exists>k r. admitted gate a k r) \<and> json_loads limit (v_body a) = Inl x
          \<and> x \<in> {UnicodeDecodeError, ValueError, RecursionError}"
proof (cases rule: authorize_cases [where limit = limit and gate = gate and a = a and s = s])
  case (origin k r e)
  with assms show ?thesis by (auto simp: check_origin_Inl_PyExc)
next
  case (body k r s2)
  with assms have "sanitize_query limit (v_body a) = Inl (PyExc x)"
    by (cases "sanitize_query limit (v_body a)") simp_all
  then have "json_loads limit (v_body a) = Inl x" and "x \<noteq> JSONDecodeError"
    by (simp_all add: sanitize_query_PyExc)
  moreover from this have "x \<in> {UnicodeDecodeError, ValueError, RecursionError}"
    using json_loads_error [of limit "v_body a" x] by (auto simp: scan_errors_def)
  ultimately show ?thesis using body by blast
qed (use assms in auto)

text \<open>The only exceptions other than AppErrors that \<open>authorize\<close> itself adds to those of the
  store are: ValueError from parsing the presented origin, and, for a request that passed
  the size, key and origin checks, UnicodeDecodeError, ValueError or RecursionError from
  reading the body.\<close>

theorem authorize_escaping_exceptions:
  assumes "authorize limit gate a s = (Inl (PyExc x), s')"
  shows "(\<exists>k. v_widget_key a = Some k \<and> g_store gate k = Inl (PyExc x))
     \<or> (\<exists>v. presented_origin a = Some v \<and> origin_host v = Inl ValueError \<and> x = ValueError)
     \<or> (\<exists>k r. admitted gate a k r) \<and> json_loads limit (v_body a) = Inl x
          \<and> x \<in> {UnicodeDecodeError, ValueError, RecursionError}"
  using assms by (rule authorize_PyExc)

end
