(* ===== verification/Gate_Examples.thy ===== *)
theory Gate_Examples
  imports Gate_Http
begin

text \<open>
  The gate at work: a well-formed request from a registered site is served, the exceptions
  of concrete requests, and the instances that apply the gate's properties to a store with
  one key and a limiter with a quota.
\<close>

section \<open>A well-formed visitor is served\<close>

lemma sanitize_plain_query:
  assumes "plain_text q" and "c \<in> set q" and "\<not> is_space c"
  shows "sanitize_query (Suc d) (utf8_encode (query_text q)) = Inr q"
  using assms by (auto simp: sanitize_query_Inr_iff json_loads_query carries_query_def)

text \<open>C35: the gate is not only safe but open to whom it should be. With the shipped limiter and
  the Postgres store, a request that presents a registered key, an origin whose host is on
  the key's list in any case, with any port and trailing dots, and the body
  \<open>{"query": "..."}\<close> in UTF-8 within the size limit is accepted, with the row's tenant and
  exactly that query.\<close>

theorem wellformed_visitor_accepted:
  assumes "g_store gate = postgres_lookup fetch" and "g_rate_limiter gate = allow_all_check"
    and "fetch lookup_sql [k] = Inr (Some row)" and "k \<noteq> []"
    and "plain_scheme scheme" and "plain_host host" and "plain_port port"
    and "rstrip_dots (py_lower host) \<in> set (map py_lower (row_allowed_hosts row))"
    and "plain_text q" and "c \<in> set q" and "\<not> is_space c"
    and "int (length (utf8_encode (query_text q))) \<le> g_max_body_bytes gate"
    and "a = \<lparr>v_widget_key = Some k, v_origin = Some (scheme @ lit ''://'' @ host @ port),
        v_referer = ref, v_client_ip = ip, v_body = utf8_encode (query_text q)\<rparr>"
  shows "authorize (Suc d) gate a s =
    (Inr \<lparr>visitor_tenant_id = row_tenant_id row, visitor_query = q\<rparr>, s)"
proof -
  have "origin_host (scheme @ lit ''://'' @ host @ port) = Inr (Some (rstrip_dots (py_lower host)))"
    using origin_host_plain [OF assms(5-7), of "[]"] by (simp add: plain_tail_def)
  then have "admitted gate a k \<lparr>wk_tenant_id = row_tenant_id row,
      wk_allowed_hosts = set (map py_lower (row_allowed_hosts row))\<rparr>"
    using assms by (auto simp: admitted_def presented_origin_def postgres_lookup_def)
  then show ?thesis
    using assms(2) sanitize_plain_query [OF assms(9-11), of d]
    by (simp add: authorize_admitted allow_all.check_eq assms(13))
qed

section \<open>A concrete gate\<close>

text \<open>A limiter that allows as many requests as its quota.\<close>

definition quota_check :: "nat limiter" where
  "quota_check widget_key client_ip n = (0 < n, n - 1)"

definition example_fetch :: fetchrow where
  "example_fetch sql args =
     (if args = [lit ''wk_a'']
      then Inr (Some \<lparr>row_tenant_id = lit ''tenant-a'', row_allowed_hosts = [lit ''Example.com'']\<rparr>)
      else Inr None)"

definition example_gate :: "nat visitor_gate" where
  "example_gate = \<lparr>g_store = postgres_lookup example_fetch, g_rate_limiter = quota_check,
     g_max_body_bytes = 40\<rparr>"

definition example_visit :: "string \<Rightarrow> string \<Rightarrow> bytes \<Rightarrow> visit" where
  "example_visit key origin body =
     \<lparr>v_widget_key = Some (lit key), v_origin = Some (lit origin), v_referer = None,
      v_client_ip = None, v_body = body\<rparr>"

definition hello :: bytes where
  "hello = lit ''{\"query\":\"hello\",\"tenant_id\":1}''"

theorem wellformed_visitor_accepted_witness:
  "authorize 1 (example_gate\<lparr>g_rate_limiter := allow_all_check\<rparr>)
     (example_visit ''wk_a'' ''https://EXAMPLE.com.:443'' (utf8_encode (query_text (lit ''hi'')))) 5
   = (Inr \<lparr>visitor_tenant_id = lit ''tenant-a'', visitor_query = lit ''hi''\<rparr>, 5)"
proof -
  have 1: "plain_scheme (lit ''https'')" "plain_host (lit ''EXAMPLE.com.'')" "plain_port (lit '':443'')"
    by (simp_all add: plain_scheme_def plain_host_def plain_port_def lit_def char_defs)
  have 2: "rstrip_dots (py_lower (lit ''EXAMPLE.com.'')) = py_lower (lit ''Example.com'')"
    by (simp add: lit_def py_lower_Cons lower_cp_def rstrip_dots_def rstrip_by_def)
  have 3: "plain_text (lit ''hi'')" "104 \<in> set (lit ''hi'')" "\<not> is_space 104"
    by (simp_all add: plain_text_def lit_def is_space_def)
  have 4: "length (utf8_encode (query_text (lit ''hi''))) \<le> 40" by code_simp
  show ?thesis
    using wellformed_visitor_accepted [where fetch = example_fetch and k = "lit ''wk_a''"
        and row = "\<lparr>row_tenant_id = lit ''tenant-a'', row_allowed_hosts = [lit ''Example.com'']\<rparr>"
        and gate = "example_gate\<lparr>g_rate_limiter := allow_all_check\<rparr>" and d = 0 and s = 5
        and a = "example_visit ''wk_a'' ''https://EXAMPLE.com.:443'' (utf8_encode (query_text (lit ''hi'')))"
        and ref = None and ip = None, OF _ _ _ _ 1 _ 3]
    by (simp add: example_gate_def example_fetch_def example_visit_def 2 4) (simp add: lit_def 4 [unfolded lit_def])
qed

section \<open>Instances of the properties\<close>

lemma example_store_total: "g_store example_gate k \<noteq> Inl e"
  by (simp add: example_gate_def postgres_lookup_def example_fetch_def)

lemma example_accept:
  "authorize 5 example_gate (example_visit ''wk_a'' ''https://example.com'' hello) 3
   = (Inr \<lparr>visitor_tenant_id = lit ''tenant-a'', visitor_query = lit ''hello''\<rparr>, 2)"
  by code_simp

lemma example_evil:
  "authorize 5 example_gate (example_visit ''wk_a'' ''https://example.com.evil.com'' hello) 3
   = (raise_app TenantAccessError ''origin not allowed'', 3)"
  by code_simp

theorem authorize_refusals_justified_witness:
  "refusal_justified 5 example_gate (example_visit ''wk_a'' ''https://example.com.evil.com'' hello) 3 3
     TenantAccessError"
  using authorize_refusals_justified [OF example_store_total] example_evil by (fastforce simp: raise_app_def)

theorem limiter_consulted_once_witness:
  "snd (authorize 5 example_gate (example_visit ''wk_a'' ''https://example.com'' hello) 0) = 0
 \<and> (\<exists>e. fst (authorize 5 example_gate (example_visit ''wk_a'' ''https://example.com'' hello) 0)
        = Inl (AppExc e) \<and> err_class e = RateLimitedError)"
proof -
  let ?a = "example_visit ''wk_a'' ''https://example.com'' hello"
  have adm: "\<exists>k r. admitted example_gate ?a k r"
    using example_accept by (auto simp: authorize_Inr_iff)
  have key: "v_widget_key ?a = Some (lit ''wk_a'')" by (simp add: example_visit_def)
  show ?thesis
    using adm limiter_consulted_once [of 5 example_gate ?a 0]
    by (auto simp: example_gate_def quota_check_def dest: admitted_key)
qed

theorem visitor_tenant_from_key_witness:
  "\<exists>k. v_widget_key (example_visit ''wk_a'' ''https://example.com'' hello) = Some k
     \<and> row_owner example_fetch k = Some (lit ''tenant-a'')"
proof -
  have g: "g_store example_gate = postgres_lookup example_fetch" by (simp add: example_gate_def)
  show ?thesis using visitor_tenant_from_key [OF g example_accept example_accept refl] by auto
qed

section \<open>Requests\<close>

definition example_request :: "string \<Rightarrow> string \<Rightarrow> bytes \<Rightarrow> http_request" where
  "example_request path origin body =
     \<lparr>rq_path = lit path,
      rq_header = (\<lambda>name. if name = WIDGET_KEY_HEADER then Some (lit ''wk_a'')
                        else if name = lit ''origin'' then Some (lit origin) else None),
      rq_body = Inr body, rq_client_host = None, rq_visitor_context = None\<rparr>"

text \<open>A request outside the widget path is passed on as it is, one on it with its context, by a gate
  that accepted it.\<close>

theorem middleware_guards_widget_path_witness:
  "(\<not> gated (example_request ''/v1/tenants/me'' ''https://evil.com'' hello)
   \<and> (\<forall>next. visitor_gate_middleware 5 example_gate (example_request ''/v1/tenants/me'' ''https://evil.com'' hello) next 3
     = next (example_request ''/v1/tenants/me'' ''https://evil.com'' hello) 3))
 \<and> gated (example_request ''/v1/widget/answer'' ''https://example.com'' hello)
 \<and> (\<exists>ctx s'. passes 5 example_gate (example_request ''/v1/widget/answer'' ''https://example.com'' hello) 3 ctx s'
     \<and> (\<forall>next. visitor_gate_middleware 5 example_gate (example_request ''/v1/widget/answer'' ''https://example.com'' hello) next 3
       = next ((example_request ''/v1/widget/answer'' ''https://example.com'' hello)\<lparr>rq_visitor_context := Some ctx\<rparr>) s'))"
proof -
  let ?me = "example_request ''/v1/tenants/me'' ''https://evil.com'' hello"
  let ?widget = "example_request ''/v1/widget/answer'' ''https://example.com'' hello"
  have gated: "\<not> gated ?me" "gated ?widget" by code_simp+
  have "fst (visitor_gate_middleware 5 example_gate ?widget (\<lambda>q s. (Inl (PyExc ValueError), s)) 3) = Inl (PyExc ValueError)"
    "fst (visitor_gate_middleware 5 example_gate ?widget (\<lambda>q s. (Inl (PyExc RuntimeError), s)) 3) = Inl (PyExc RuntimeError)"
    by code_simp+
  then have "\<not> (\<forall>next. visitor_gate_middleware 5 example_gate ?widget next 3 = (r, s'))" for r s'
    by (metis exc.inject(2) fst_conv py_exc.distinct sum.inject(1))
  then show ?thesis
    using middleware_guards_widget_path [where gate = example_gate and limit = 5 and s = 3 and request = ?me]
      middleware_guards_widget_path [where gate = example_gate and limit = 5 and s = 3 and request = ?widget] gated
    by blast
qed

definition deep_body :: "nat \<Rightarrow> bytes" where
  "deep_body n = replicate n 91"

text \<open>Four requests that an anonymous client can send and that are not refused with a 4xx
  problem: an origin with an unbalanced bracket, a body that is not UTF-8, a body nested
  deeper than the JSON reader's limit, and a declared length of one superscript digit. Each
  ends in an exception that is no AppError, after the key and, for the bodies, the origin
  were accepted.\<close>

theorem requests_escaping_as_exceptions:
  "fst (authorize 5 example_gate (example_visit ''wk_a'' ''https://['' hello) 3) = Inl (PyExc ValueError)
 \<and> fst (authorize 5 example_gate (example_visit ''wk_a'' ''https://example.com'' [34, 255]) 3)
     = Inl (PyExc UnicodeDecodeError)
 \<and> fst (authorize 5 example_gate (example_visit ''wk_a'' ''https://example.com'' (deep_body 6)) 3)
     = Inl (PyExc RecursionError)
 \<and> declared_too_large 40 (Some [178]) = Inl ValueError"
  by code_simp

theorem authorize_escaping_exceptions_witness:
  "json_loads 5 (deep_body 6) = Inl RecursionError"
proof -
  have run: "authorize 5 example_gate (example_visit ''wk_a'' ''https://example.com'' (deep_body 6)) 3
      = (Inl (PyExc RecursionError), 2)" by code_simp
  show ?thesis
    using authorize_escaping_exceptions [OF run] example_store_total
    by (auto simp: example_visit_def)
qed

end
