(* ===== verification/Json_Limits.thy ===== *)
theory Json_Limits
  imports Json_Facts
begin

text \<open>
  What the recursion limit of the JSON reader and the size of its input decide: a limit of
  the length of the input is never reached, a result obtained without reaching the limit is
  the result for every higher limit, and a string read is shorter than the text it is read
  from.
\<close>

section \<open>A higher limit changes nothing but a RecursionError\<close>

definition extends_scan :: "(pystr \<Rightarrow> 'a scan) \<Rightarrow> (pystr \<Rightarrow> 'a scan) \<Rightarrow> bool" where
  "extends_scan sc sc' \<longleftrightarrow> (\<forall>s. sc s \<noteq> Inl RecursionError \<longrightarrow> sc' s = sc s)"

lemma extends_scanD: "extends_scan sc sc' \<Longrightarrow> sc s \<noteq> Inl RecursionError \<Longrightarrow> sc' s = sc s"
  by (simp add: extends_scan_def)

lemma bind_res_extends:
  "(r \<noteq> Inl RecursionError \<Longrightarrow> r' = r) \<Longrightarrow> bind_res r f \<noteq> Inl RecursionError \<Longrightarrow> bind_res r' f = bind_res r f"
  by (cases "r = Inl RecursionError") simp_all

lemma scan_elements_extends:
  "extends_scan sc sc' \<Longrightarrow> scan_elements sc s \<noteq> Inl RecursionError \<Longrightarrow> scan_elements sc' s = scan_elements sc s"
proof (induction sc s rule: scan_elements.induct)
  case (1 sc s)
  have same: "sc' s = sc s"
    using "1.prems" by (intro extends_scanD) (auto simp: scan_elements.simps)
  show ?case
  proof (cases "sc s")
    case (Inl e)
    with same show ?thesis by (simp add: scan_elements.simps)
  next
    case (Inr p)
    obtain v r where p: "p = (v, r)" by (cases p)
    show ?thesis
    proof (cases "\<exists>r'. length r < length s \<and> skip_ws r = 44 # r'")
      case False
      with Inr p same show ?thesis
        by (subst (1 2) scan_elements.simps) (auto split: list.split)
    next
      case True
      then obtain r' where less: "length r < length s" and c: "skip_ws r = 44 # r'" by blast
      have "scan_elements sc (skip_ws r') \<noteq> Inl RecursionError"
        using "1.prems"(2) Inr p less c by (subst (asm) scan_elements.simps) auto
      then have "scan_elements sc' (skip_ws r') = scan_elements sc (skip_ws r')"
        using "1.IH" [OF _ p [symmetric] less c _ _ "1.prems"(1)] Inr p by simp
      with Inr p same less c show ?thesis
        by (subst (1 2) scan_elements.simps) simp
    qed
  qed
qed

lemma scan_members_extends:
  "extends_scan sc sc' \<Longrightarrow> scan_members sc s \<noteq> Inl RecursionError \<Longrightarrow> scan_members sc' s = scan_members sc s"
proof (induction sc s rule: scan_members.induct)
  case (1 sc s)
  show ?case
  proof (cases "\<exists>key r r1. scan_string s = Inr (key, r) \<and> skip_ws r = 58 # r1")
    case False
    then show ?thesis by (subst (1 2) scan_members.simps) (auto split: sum.split list.split)
  next
    case True
    then obtain key r r1 where key: "scan_string s = Inr (key, r)" and colon: "skip_ws r = 58 # r1" by blast
    have same: "sc' (skip_ws r1) = sc (skip_ws r1)"
      using "1.prems" key colon by (intro extends_scanD) (auto simp: scan_members.simps)
    show ?thesis
    proof (cases "\<exists>v r2 r3 r4. sc (skip_ws r1) = Inr (v, r2) \<and> length r2 < length s
        \<and> skip_ws r2 = 44 # r3 \<and> skip_ws r3 = 34 # r4")
      case False
      with key colon same show ?thesis
        by (subst (1 2) scan_members.simps) (auto split: sum.split list.split)
    next
      case True
      then obtain v r2 r3 r4 where v: "sc (skip_ws r1) = Inr (v, r2)" and less: "length r2 < length s"
        and comma: "skip_ws r2 = 44 # r3" and quote: "skip_ws r3 = 34 # r4" by blast
      have "scan_members sc r4 \<noteq> Inl RecursionError"
        using "1.prems"(2) key colon v less comma quote by (subst (asm) scan_members.simps) auto
      then have "scan_members sc' r4 = scan_members sc r4"
        using "1.IH" [OF key refl colon _ v refl less comma _ _ quote _ "1.prems"(1)] by simp
      with key colon same v less comma quote show ?thesis
        by (subst (1 2) scan_members.simps) simp
    qed
  qed
qed

lemma scan_container_extends:
  assumes "extends_scan sc sc'" and "scan_container (Some sc) c s \<noteq> Inl RecursionError"
  shows "scan_container (Some sc') c s = scan_container (Some sc) c s"
proof -
  have "scan_object sc' s = scan_object sc s" if "scan_object sc s \<noteq> Inl RecursionError"
  proof (cases "skip_ws s")
    case (Cons c r)
    then show ?thesis
      using that bind_res_extends [OF scan_members_extends [OF assms(1), of r]]
      by (simp add: scan_object_def split: if_splits)
  qed (simp add: scan_object_def)
  moreover have "scan_array sc' s = scan_array sc s" if "scan_array sc s \<noteq> Inl RecursionError"
  proof (cases "skip_ws s")
    case (Cons c r)
    then show ?thesis
      using that bind_res_extends [OF scan_elements_extends [OF assms(1), of "c # r"]]
      by (simp add: scan_array_def split: if_splits)
  qed (simp add: scan_array_def)
  ultimately show ?thesis using assms(2) by (cases "c = 123") (simp_all add: scan_container_def)
qed

lemma scan_value_extends:
  assumes "extends_scan sc sc'"
  shows "extends_scan (scan_value (Some sc)) (scan_value (Some sc'))"
  unfolding extends_scan_def
  by (auto simp: scan_value_def scan_container_extends [OF assms] split: list.split)

lemma scan_value_None_extends: "extends_scan (scan_value None) (scan_value sub)"
  by (auto simp: extends_scan_def scan_value_def scan_container_def split: list.split)

lemma scan_once_Suc: "extends_scan (scan_once d) (scan_once (Suc d))"
proof (induction d)
  case 0
  show ?case
    using scan_value_None_extends [of "Some (scan_once 0)"] unfolding extends_scan_def scan_once.simps by blast
next
  case (Suc d)
  from scan_value_extends [OF this] show ?case unfolding extends_scan_def scan_once.simps by blast
qed

lemma scan_once_mono:
  "d \<le> e \<Longrightarrow> scan_once d s \<noteq> Inl RecursionError \<Longrightarrow> scan_once e s = scan_once d s"
proof (induction rule: dec_induct)
  case (step n)
  then show ?case using extends_scanD [OF scan_once_Suc, of n s] by simp
qed simp

lemma json_loads_mono:
  assumes "json_loads limit b \<noteq> Inl RecursionError" and "limit \<le> limit'"
  shows "json_loads limit' b = json_loads limit b"
proof (cases "decode_bytes (detect_encoding b) b")
  case (Some s)
  then have "scan_once limit (skip_ws s) \<noteq> Inl RecursionError"
    using assms(1) by (auto simp: json_loads_def json_decode_def)
  from scan_once_mono [OF assms(2) this] Some show ?thesis
    by (simp add: json_loads_def json_decode_def)
qed (simp add: json_loads_def)

section \<open>The limit is not reached on short inputs\<close>

definition shallow :: "nat \<Rightarrow> (pystr \<Rightarrow> 'a scan) \<Rightarrow> bool" where
  "shallow n sc \<longleftrightarrow> (\<forall>s. length s \<le> n \<longrightarrow> sc s \<noteq> Inl RecursionError)"

lemma shallowD: "shallow n sc \<Longrightarrow> length s \<le> n \<Longrightarrow> sc s \<noteq> Inl RecursionError"
  by (simp add: shallow_def)

lemma scan_string_no_recursion: "scan_string s \<noteq> Inl RecursionError"
  using scan_string_error [of s RecursionError] by auto

lemma scan_number_no_recursion: "scan_number s \<noteq> Inl RecursionError"
proof -
  have "scan_number s = Inl e \<Longrightarrow> e \<noteq> RecursionError" for e
    by (auto simp: scan_number_def scan_digits_def Let_def
        split: list.splits if_splits prod.splits option.splits)
  then show ?thesis by blast
qed

lemma scan_elements_shallow:
  "shallow n sc \<Longrightarrow> length s \<le> n \<Longrightarrow> scan_elements sc s \<noteq> Inl RecursionError"
proof (induction sc s rule: scan_elements.induct)
  case (1 sc s)
  show ?case
  proof
    assume "scan_elements sc s = Inl RecursionError"
    then obtain v r r' where v: "sc s = Inr (v, r)" and less: "length r < length s"
      and c: "skip_ws r = 44 # r'" and rec: "scan_elements sc (skip_ws r') = Inl RecursionError"
      using shallowD [OF "1.prems"]
      by (subst (asm) scan_elements.simps) (auto simp: res_simps split: sum.splits list.splits if_splits prod.splits)
    have "length (skip_ws r') \<le> n"
      using length_skip_ws [of r'] skip_ws_Cons_le [OF c] less "1.prems"(2) by simp
    from "1.IH" [OF v refl less c _ _ "1.prems"(1) this] rec show False by simp
  qed
qed

lemma scan_members_shallow:
  "shallow n sc \<Longrightarrow> length s \<le> n \<Longrightarrow> scan_members sc s \<noteq> Inl RecursionError"
proof (induction sc s rule: scan_members.induct)
  case (1 sc s)
  show ?case
  proof
    assume run: "scan_members sc s = Inl RecursionError"
    obtain key r r1 where key: "scan_string s = Inr (key, r)" and colon: "skip_ws r = 58 # r1"
      using run scan_string_no_recursion [of s]
      by (subst (asm) scan_members.simps) (auto split: sum.splits list.splits if_splits)
    have "length (skip_ws r1) \<le> n"
      using scan_string_rest [OF key] skip_ws_Cons_le [OF colon] length_skip_ws [of r1] "1.prems"(2) by simp
    then have "sc (skip_ws r1) \<noteq> Inl RecursionError" by (rule shallowD [OF "1.prems"(1)])
    then obtain v r2 r3 r4 where v: "sc (skip_ws r1) = Inr (v, r2)" and less: "length r2 < length s"
      and comma: "skip_ws r2 = 44 # r3" and quote: "skip_ws r3 = 34 # r4"
      and rec: "scan_members sc r4 = Inl RecursionError"
      using run key colon
      by (subst (asm) scan_members.simps) (auto simp: res_simps split: sum.splits list.splits if_splits prod.splits)
    have "length r4 \<le> n"
      using skip_ws_Cons_le [OF comma] skip_ws_Cons_le [OF quote] less "1.prems"(2) by simp
    from "1.IH" [OF key refl colon _ v refl less comma _ _ quote _ "1.prems"(1) this] rec show False by simp
  qed
qed

lemma scan_value_shallow:
  assumes "shallow n sc"
  shows "shallow (Suc n) (scan_value (Some sc))"
  unfolding shallow_def
proof (intro allI impI)
  fix s :: pystr
  assume len: "length s \<le> Suc n"
  have "scan_object sc r \<noteq> Inl RecursionError" if "length r \<le> n" for r
    using that length_skip_ws [of r] scan_members_shallow [OF assms]
    by (auto simp: scan_object_def res_simps split: list.split prod.splits)
  moreover have "scan_array sc r \<noteq> Inl RecursionError" if "length r \<le> n" for r
    using that length_skip_ws [of r] scan_elements_shallow [OF assms]
    by (auto simp: scan_array_def res_simps split: list.split prod.splits)
  ultimately show "scan_value (Some sc) s \<noteq> Inl RecursionError"
    using len scan_string_no_recursion scan_number_no_recursion
    by (auto simp: scan_value_def scan_container_def res_simps split: list.split prod.splits)
qed

lemma scan_once_shallow: "shallow d (scan_once d)"
proof (induction d)
  case 0
  show ?case by (simp add: shallow_def scan_value_def)
next
  case (Suc d)
  from scan_value_shallow [OF this] show ?case by (simp add: shallow_def)
qed

section \<open>The text is no longer than the bytes\<close>

lemma utf8_decode_step:
  assumes "\<And>t r. utf8_decode surr r = Some t \<Longrightarrow> length r \<le> length bs \<Longrightarrow> length t \<le> length r"
    and "utf8_decode surr (b # bs) = Some s"
  shows "length s \<le> Suc (length bs)"
proof -
  have tail: "length t \<le> length bs" if "utf8_decode surr r = Some t" and "length r \<le> length bs" for t r
    using assms(1) [OF that] that(2) by simp
  from assms(2) show ?thesis
    by (subst (asm) utf8_decode.simps) (auto split: if_splits list.splits dest!: tail)
qed

lemma utf8_decode_length: "utf8_decode surr b = Some s \<Longrightarrow> length s \<le> length b"
proof (induction b arbitrary: s rule: length_induct)
  case (1 b)
  show ?case
  proof (cases b)
    case (Cons c bs)
    have "length t \<le> length r" if "utf8_decode surr r = Some t" and "length r \<le> length bs" for t r
      using "1.IH" that Cons by simp
    from utf8_decode_step [OF this] "1.prems" Cons show ?thesis by simp
  qed (use "1.prems" in simp)
qed

lemma units16_length: "units16 le b = Some us \<Longrightarrow> length us \<le> length b"
  by (induction le b arbitrary: us rule: units16.induct) (auto intro: le_SucI)

lemma join_surrogates_length: "length (join_surrogates us) \<le> length us"
  by (induction us rule: join_surrogates.induct) (auto intro: le_SucI)

lemma utf16_decode_length: "utf16_decode le b = Some s \<Longrightarrow> length s \<le> length b"
  using units16_length join_surrogates_length by (fastforce simp: utf16_decode_def intro: order_trans)

lemma utf32_decode_length: "utf32_decode le b = Some s \<Longrightarrow> length s \<le> length b"
proof (induction le b arbitrary: s rule: utf32_decode.induct)
  case (2 le a b c d r)
  then obtain u t where "s = u # t" "utf32_decode le r = Some t" by (auto simp: Let_def split: if_splits)
  with 2 show ?case by (fastforce simp: Let_def split: if_splits)
qed simp_all

lemma decode_bytes_length: "decode_bytes enc b = Some s \<Longrightarrow> length s \<le> length b"
  by (cases enc)
     (auto simp: decode_bytes_def dest!: utf8_decode_length utf16_decode_length utf32_decode_length)

lemma json_loads_shallow:
  assumes "length b \<le> limit"
  shows "json_loads limit b \<noteq> Inl RecursionError"
proof (cases "decode_bytes (detect_encoding b) b")
  case (Some s)
  then have "length (skip_ws s) \<le> limit"
    using decode_bytes_length [OF Some] length_skip_ws [of s] assms by simp
  from shallowD [OF scan_once_shallow this] Some show ?thesis
    by (auto simp: json_loads_def json_decode_def res_simps split: prod.splits if_splits)
qed (simp add: json_loads_def)

section \<open>The strings read\<close>

lemma scan_string_length: "scan_string s = Inr (t, r) \<Longrightarrow> length t + length r < length s"
proof (induction s arbitrary: t r rule: scan_string.induct)
  case (2 c s)
  consider "c = 34" | e s' where "c = 92" and "s = e # s'" | "c \<noteq> 34" and "c \<noteq> 92" and "\<not> (0 \<le> c \<and> c \<le> 31)"
    using "2.prems" by (auto simp: scan_string.simps(2) split: if_splits list.splits)
  then show ?case
  proof cases
    case 1
    with "2.prems" show ?thesis by (simp add: scan_string.simps(2))
  next
    case (2 e s')
    show ?thesis
    proof (cases "e = 117")
      case True
      with "2.prems" 2 obtain u r1 t' where "unicode_escape s' = Inr (u, r1)"
        and "scan_string r1 = Inr (t', r)" and "t = u # t'"
        by (auto simp: scan_string.simps(2) res_simps split: sum.splits)
      with "2.IH"(1) 2 True show ?thesis by (fastforce dest: unicode_escape_rest)
    next
      case False
      with "2.prems" 2 obtain d t' where "simple_escape e = Some d" and "scan_string s' = Inr (t', r)"
        and "t = d # t'"
        by (auto simp: scan_string.simps(2) res_simps split: option.splits)
      with "2.IH"(2) 2 False show ?thesis by fastforce
    qed
  next
    case 3
    with "2.prems" obtain t' where "scan_string s = Inr (t', r)" and "t = c # t'"
      by (auto simp: scan_string.simps(2) res_simps)
    with "2.IH"(3) 3 show ?thesis by fastforce
  qed
qed simp

definition str_length :: "json \<Rightarrow> nat" where
  "str_length v = (case v of JStr t \<Rightarrow> length t | _ \<Rightarrow> 0)"

lemma scan_number_no_string: "scan_number s = Inr (v, r) \<Longrightarrow> str_length v = 0"
  by (auto simp: scan_number_def scan_digits_def Let_def str_length_def
      split: list.splits if_splits prod.splits option.splits)

lemma scan_container_no_string: "scan_container sub c s = Inr (v, r) \<Longrightarrow> str_length v = 0"
  by (auto simp: scan_container_def scan_object_def scan_array_def str_length_def res_simps
      split: option.splits if_splits list.splits prod.splits)

lemma scan_once_str_length: "scan_once d s = Inr (v, r) \<Longrightarrow> str_length v \<le> length s"
proof -
  have "str_length v \<le> length s" if "scan_value sub s = Inr (v, r)" for sub
    using that
    by (auto simp: scan_value_def res_simps split: list.splits if_splits
        dest!: scan_string_length scan_container_no_string scan_number_no_string)
       (auto simp: str_length_def)
  then show "scan_once d s = Inr (v, r) \<Longrightarrow> str_length v \<le> length s" by (cases d) auto
qed

lemma scan_members_str_length:
  assumes "\<And>s v r. sc s = Inr (v, r) \<Longrightarrow> str_length v \<le> length s"
  shows "scan_members sc s = Inr (ms, t) \<Longrightarrow> (k, v) \<in> set ms \<Longrightarrow> str_length v \<le> length s"
  using assms
proof (induction sc s arbitrary: ms t rule: scan_members.induct)
  case (1 sc s)
  from "1.prems"(1) obtain key r1 r2 w r3 d r4 where key: "scan_string s = Inr (key, r1)"
    and colon: "skip_ws r1 = 58 # r2" and w: "sc (skip_ws r2) = Inr (w, r3)"
    and less: "length r3 < length s" and d: "skip_ws r3 = d # r4"
    and ds: "d = 125 \<and> ms = [(key, w)] \<or> d \<noteq> 125 \<and> d = 44 \<and>
      (\<exists>r5 ms'. skip_ws r4 = 34 # r5 \<and> scan_members sc r5 = Inr (ms', t) \<and> ms = (key, w) # ms')"
    by (subst (asm) scan_members.simps) (auto simp: res_simps split: sum.splits list.splits if_splits)
  have w_len: "str_length w \<le> length s"
    using "1.prems"(3) [OF w] length_skip_ws [of r2] skip_ws_Cons_le [OF colon] scan_string_rest [OF key] by simp
  from ds show ?case
  proof (elim disjE conjE exE)
    fix r5 ms'
    assume "d \<noteq> 125" "d = 44" and r5: "skip_ws r4 = 34 # r5" and rec: "scan_members sc r5 = Inr (ms', t)"
      and ms: "ms = (key, w) # ms'"
    have len: "length r5 \<le> length s" using skip_ws_Cons_le [OF d] skip_ws_Cons_le [OF r5] less by simp
    have "str_length v \<le> length r5" if "(k, v) \<in> set ms'"
      using "1.IH" [OF key refl colon _ w refl less d _ _ r5 _ rec that] "1.prems"(3) \<open>d \<noteq> 125\<close> \<open>d = 44\<close> by simp
    with len w_len ms "1.prems"(2) show ?thesis by force
  qed (use w_len "1.prems"(2) in simp)
qed

lemma json_loads_member_length:
  assumes "json_loads limit b = Inr (JObj d)" and "dict_get d k = Some (JStr t)"
  shows "length t \<le> length b"
proof -
  obtain s r where s: "decode_bytes (detect_encoding b) b = Some s"
    and run: "scan_once limit (skip_ws s) = Inr (JObj d, r)"
    using assms(1) by (auto simp: json_loads_def json_decode_def res_simps split: option.splits prod.splits if_splits)
  obtain n where limit: "limit = Suc n"
    using run by (cases limit)
      (auto simp: scan_value_def scan_container_def res_simps scan_number_def scan_digits_def Let_def
        split: list.splits if_splits prod.splits option.splits)
  obtain q where q: "skip_ws s = 123 # q" and obj: "scan_object (scan_once n) q = Inr (JObj d, r)"
    using run limit
    by (auto simp: scan_value_def scan_container_def scan_array_def res_simps scan_number_def scan_digits_def Let_def
        split: list.splits if_splits prod.splits option.splits)
  have len: "length q \<le> length b"
    using length_skip_ws [of s] decode_bytes_length [OF s] q by simp
  show ?thesis
  proof (cases "\<exists>u ms. skip_ws q = 34 # u \<and> scan_members (scan_once n) u = Inr (ms, r) \<and> d = dict_of_pairs ms")
    case True
    then obtain u ms where u: "skip_ws q = 34 # u" and ms: "scan_members (scan_once n) u = Inr (ms, r)"
      and d: "d = dict_of_pairs ms" by blast
    have "(k, JStr t) \<in> set ms" using assms(2) d by (auto simp: dict_get_of_pairs dest: map_of_SomeD)
    from scan_members_str_length [OF scan_once_str_length ms this]
    have "length t \<le> length u" by (simp add: str_length_def)
    with skip_ws_Cons_le [OF u] len show ?thesis by simp
  next
    case False
    with obj have "d = []" by (auto simp: scan_object_def res_simps split: list.splits if_splits)
    with assms(2) show ?thesis by simp
  qed
qed

end
