(* ===== verification/Gate_Limits.thy ===== *)
theory Gate_Limits
  imports Gate_Examples Json_Limits
begin

text \<open>
  The visitor gate and the two limits it depends on: the body limit of the settings bounds
  the query that reaches the core, and the recursion limit of the interpreter decides
  whether a body is read to its end.
\<close>

section \<open>The recursion limit\<close>

lemma sanitize_query_mono:
  assumes "sanitize_query limit body \<noteq> Inl (PyExc RecursionError)" and "limit \<le> limit'"
  shows "sanitize_query limit' body = sanitize_query limit body"
proof -
  have "json_loads limit body \<noteq> Inl RecursionError"
    using assms(1) by (auto simp: sanitize_query_PyExc)
  from json_loads_mono [OF this assms(2)] show ?thesis by (simp add: sanitize_query_def)
qed

lemma sanitize_query_shallow: "length body \<le> limit \<Longrightarrow> sanitize_query limit body \<noteq> Inl (PyExc RecursionError)"
  by (simp add: sanitize_query_PyExc json_loads_shallow)

lemma authorize_mono:
  assumes "fst (authorize limit gate a s) \<noteq> Inl (PyExc RecursionError)" and "limit \<le> limit'"
  shows "authorize limit' gate a s = authorize limit gate a s"
proof (cases "\<exists>k r. admitted gate a k r")
  case True
  then obtain k r where adm: "admitted gate a k r" by blast
  obtain ok s' where rl: "g_rate_limiter gate k (v_client_ip a) s = (ok, s')"
    by (cases "g_rate_limiter gate k (v_client_ip a) s")
  have "ok \<Longrightarrow> sanitize_query limit (v_body a) \<noteq> Inl (PyExc RecursionError)"
    using assms(1) rl by (auto simp: authorize_admitted [OF adm])
  then have "ok \<Longrightarrow> sanitize_query limit' (v_body a) = sanitize_query limit (v_body a)"
    using sanitize_query_mono [OF _ assms(2)] by blast
  then show ?thesis using rl by (simp add: authorize_admitted [OF adm])
next
  case False
  then have "check_origin (v_origin a) (v_referer a) (wk_allowed_hosts r) \<noteq> Inr u"
    if "int (length (v_body a)) \<le> g_max_body_bytes gate" "v_widget_key a = Some k" "k \<noteq> []"
      "g_store gate k = Inr (Some r)" for k r u
    using that by (auto simp: admitted_def check_origin_Inr_iff)
  then show ?thesis
    by (auto simp: authorize_def split: sum.split option.split prod.split)
qed

text \<open>C24: the gate reads every body to its end when the interpreter allows as many levels of nesting
  as the body limit has bytes: then a RecursionError can only come out of the key store. And
  the recursion limit matters for nothing else: an outcome reached without a RecursionError
  is the outcome under every higher limit.\<close>

theorem gate_reads_within_limit:
  shows "(g_max_body_bytes gate \<le> int limit \<and> fst (authorize limit gate a s) = Inl (PyExc RecursionError)
       \<longrightarrow> (\<exists>k. v_widget_key a = Some k \<and> g_store gate k = Inl (PyExc RecursionError)))
   \<and> (fst (authorize limit gate a s) \<noteq> Inl (PyExc RecursionError) \<and> limit \<le> limit'
       \<longrightarrow> authorize limit' gate a s = authorize limit gate a s)"
proof (intro conjI impI; elim conjE)
  assume lim: "g_max_body_bytes gate \<le> int limit"
    and run: "fst (authorize limit gate a s) = Inl (PyExc RecursionError)"
  show "\<exists>k. v_widget_key a = Some k \<and> g_store gate k = Inl (PyExc RecursionError)"
  proof (cases rule: authorize_cases [where limit = limit and gate = gate and a = a and s = s])
    case (body k r s')
    then have "length (v_body a) \<le> limit" using lim by (simp add: admitted_def)
    then have "sanitize_query limit (v_body a) \<noteq> Inl (PyExc RecursionError)" by (rule sanitize_query_shallow)
    with body run show ?thesis by (auto simp: res_simps)
  next
    case (origin k r e)
    with run show ?thesis by (auto simp: check_origin_Inl_PyExc)
  next
    case (store k e)
    with run show ?thesis by auto
  qed (use run in \<open>auto simp: raise_app_def\<close>)
qed (rule authorize_mono)

theorem gate_reads_within_limit_witness:
  "fst (authorize 40 example_gate (example_visit ''wk_a'' ''https://example.com'' (deep_body 40)) 3)
     \<noteq> Inl (PyExc RecursionError)
 \<and> authorize 99 example_gate (example_visit ''wk_a'' ''https://example.com'' hello) 3
     = (Inr \<lparr>visitor_tenant_id = lit ''tenant-a'', visitor_query = lit ''hello''\<rparr>, 2)"
  using gate_reads_within_limit [of example_gate 40 "example_visit ''wk_a'' ''https://example.com'' (deep_body 40)" 3 40]
    gate_reads_within_limit [of example_gate 5 "example_visit ''wk_a'' ''https://example.com'' hello" 3 99]
    example_accept example_store_total
  by (auto simp: example_gate_def)

section \<open>The body limit\<close>

text \<open>C23: what reaches the core is bounded: the query of an accepted visitor has no more code points
  than the body has bytes, which are no more than the limit of the settings, and it has at
  least one character that is not white space.\<close>

theorem accepted_query_bounded:
  assumes "authorize limit gate a s = (Inr ctx, s')"
  shows "length (visitor_query ctx) \<le> length (v_body a)
     \<and> int (length (v_body a)) \<le> g_max_body_bytes gate
     \<and> 0 < length (py_strip (visitor_query ctx))"
proof -
  obtain k r q where adm: "admitted gate a k r" and q: "sanitize_query limit (v_body a) = Inr q"
    and ctx: "ctx = \<lparr>visitor_tenant_id = wk_tenant_id r, visitor_query = q\<rparr>"
    using assms by (auto simp: authorize_Inr_iff)
  obtain payload where load: "json_loads limit (v_body a) = Inr payload" and carries: "carries_query payload q"
    using q by (auto simp: sanitize_query_Inr_iff)
  then obtain d where "json_loads limit (v_body a) = Inr (JObj d)" "dict_get d (lit ''query'') = Some (JStr q)"
    by (auto simp: carries_query_def)
  then have "length q \<le> length (v_body a)" by (rule json_loads_member_length)
  with adm carries show ?thesis
    by (auto simp: ctx admitted_def carries_query_def py_strip_eq_Nil_iff)
qed

theorem accepted_query_bounded_witness:
  "length (lit ''hello'') \<le> length hello \<and> int (length hello) \<le> 40 \<and> 0 < length (py_strip (lit ''hello''))"
  using accepted_query_bounded [OF example_accept] by (simp add: example_visit_def example_gate_def)

end
