(* ===== verification/Bearer.thy ===== *)
theory Bearer
  imports Errors
begin

text \<open>
  \<open>backend/src/app/core/bearer.py\<close>: the \<open>Authorization: Bearer\<close> header, shared by the
  owner door and the MCP door.
\<close>

definition parse_bearer :: "pystr option \<Rightarrow> exc + pystr" where
  "parse_bearer header = (case header of
       None \<Rightarrow> raise_app AuthenticationError ''missing authorization header''
     | Some h \<Rightarrow>
         (case py_partition 32 h of (scheme, _, value) \<Rightarrow>
            (let token = py_strip value
             in if py_lower scheme \<noteq> lit ''bearer'' \<or> token = []
                then raise_app AuthenticationError ''malformed authorization header''
                else Inr token)))"

text \<open>The only strings whose lower case is \<open>bearer\<close> are its ASCII case variants.\<close>

lemma lower_cp_single_ascii:
  assumes "lower_cp c = [d]" and "d < 128" and "d \<noteq> 107" and "d \<noteq> 105"
  shows "c = d \<or> c = d - 32 \<and> 65 \<le> c \<and> c \<le> 90"
proof (cases "c < 128")
  case True
  with assms(1) show ?thesis by (auto simp: lower_cp_ascii split: if_splits)
next
  case False
  then have "128 \<le> d \<or> d = 107 \<or> d = 105"
    using assms(1) lower_cp_nonascii [of c d] by simp
  with assms show ?thesis by auto
qed

lemma py_lower_Cons_eq:
  assumes "py_lower (c # s) = d # t" and "d < 128" and "d \<noteq> 107" and "d \<noteq> 105"
  shows "lower_cp c = [d] \<and> py_lower s = t"
proof -
  have "length (lower_cp c) = 1 \<or> c = 304" by (simp add: lower_cp_def)
  then show ?thesis
  proof
    assume "length (lower_cp c) = 1"
    then obtain x where "lower_cp c = [x]" by (auto simp: length_Suc_conv)
    with assms(1) show ?thesis by (simp add: py_lower_Cons)
  next
    assume "c = 304"
    with assms show ?thesis by (simp add: py_lower_Cons lower_cp_def)
  qed
qed

lemma py_lower_eq_plain:
  assumes "py_lower s = t" and "\<forall>d \<in> set t. 97 \<le> d \<and> d < 128 \<and> d \<noteq> 107 \<and> d \<noteq> 105"
  shows "length s = length t \<and> list_all2 (\<lambda>c d. c = d \<or> c = d - 32) s t"
  using assms
proof (induction t arbitrary: s)
  case (Cons d t)
  then obtain c s' where s: "s = c # s'" by (cases s) auto
  have eq: "lower_cp c = [d] \<and> py_lower s' = t"
    using Cons.prems s by (intro py_lower_Cons_eq) auto
  then have "c = d \<or> c = d - 32" using Cons.prems(2) lower_cp_single_ascii [of c d] by auto
  with Cons eq s show ?case by auto
qed simp

lemma parse_bearer_Inr_iff:
  "parse_bearer header = Inr token \<longleftrightarrow>
     (\<exists>scheme found value. header \<noteq> None \<and> py_partition 32 (the header) = (scheme, found, value)
        \<and> py_lower scheme = lit ''bearer'' \<and> token = py_strip value \<and> token \<noteq> [])"
  by (auto simp: parse_bearer_def Let_def split: option.splits prod.splits)

lemma parse_bearer_total:
  "(\<exists>t. parse_bearer h = Inr t) \<or> (\<exists>d. parse_bearer h = Inl (AppExc \<lparr>err_class = AuthenticationError, err_detail = d\<rparr>))"
  by (auto simp: parse_bearer_def Let_def split: option.splits prod.splits)

text \<open>A bearer header is accepted exactly when it is an ASCII case variant of the word
  Bearer, one space, and a rest that is not all white space; the token is that rest with
  its surrounding white space removed. Everything else is an AuthenticationError.\<close>

theorem parse_bearer_spec:
  "\<forall>header token.
     (parse_bearer header = Inr token \<longleftrightarrow>
        (\<exists>w value. header = Some (w @ 32 # value)
           \<and> list_all2 (\<lambda>c d. c = d \<or> c = d - 32) w (lit ''bearer'')
           \<and> token = py_strip value \<and> (\<exists>c \<in> set value. \<not> is_space c)))
   \<and> ((\<exists>t. parse_bearer header = Inr t) \<or>
      (\<exists>d. parse_bearer header = Inl (AppExc \<lparr>err_class = AuthenticationError, err_detail = d\<rparr>)))"
proof -
  have bearer: "lit ''bearer'' = [98, 101, 97, 114, 101, 114]" by (simp add: lit_def)
  have lower: "py_lower w = lit ''bearer''"
    and no_space: "32 \<notin> set w" if "list_all2 (\<lambda>c d. c = d \<or> c = d - 32) w (lit ''bearer'')" for w
    using that by (auto simp: bearer list_all2_Cons2 py_lower_Cons lower_cp_def)
  have variant: "list_all2 (\<lambda>c d. c = d \<or> c = d - 32) w (lit ''bearer'')"
    if "py_lower w = lit ''bearer''" for w
    using py_lower_eq_plain [OF that] by (simp add: bearer)
  have fwd: "\<exists>w value. header = Some (w @ 32 # value)
      \<and> list_all2 (\<lambda>c d. c = d \<or> c = d - 32) w (lit ''bearer'')
      \<and> token = py_strip value \<and> (\<exists>c \<in> set value. \<not> is_space c)"
    if ok: "parse_bearer header = Inr token" for header token
  proof -
    from ok obtain h scheme found "value" where h: "header = Some h"
      and part: "py_partition 32 h = (scheme, found, value)"
      and sch: "py_lower scheme = lit ''bearer''" and tok: "token = py_strip value" "token \<noteq> []"
      by (auto simp: parse_bearer_Inr_iff)
    have "h = scheme @ 32 # value"
      using part tok by (cases rule: py_partition_cases [of 32 h]) auto
    with h variant [OF sch] tok show ?thesis by (auto simp: py_strip_eq_Nil_iff)
  qed
  have bwd: "parse_bearer (Some (w @ 32 # value)) = Inr (py_strip value)"
    if "list_all2 (\<lambda>c d. c = d \<or> c = d - 32) w (lit ''bearer'')"
      and "\<exists>c \<in> set value. \<not> is_space c" for w "value"
    using lower [OF that(1)] no_space [OF that(1)] that(2)
    by (auto simp: parse_bearer_Inr_iff py_strip_eq_Nil_iff)
  from fwd bwd parse_bearer_total show ?thesis by blast
qed

end
