(* ===== verification/Jwt_Api.thy ===== *)
theory Jwt_Api
  imports Bearer Json
begin

text \<open>
  The interface of the JWT library, a parameter of the two token verifiers: what it may
  return or raise is left open, and what its documentation promises is stated here as named
  predicates, which the properties that need them take as hypotheses.
\<close>

section \<open>The calls\<close>

text \<open>A key is either a shared secret or a public key of the library's own type.\<close>

datatype 'k jwt_key = SecretKey pystr | PublicKey 'k

record decode_options =
  do_algorithms :: "pystr list"
  do_issuer :: pystr
  do_audience :: pystr
  do_leeway :: int
  do_require :: "pystr list"

text \<open>\<open>get_unverified_header(token)\<close>; \<open>decode(token, key, ...)\<close>, whose first argument is the
  library's reading of the clock; \<open>encode(claims, key, algorithm)\<close>; and
  \<open>PyJWK.from_dict(entry).key\<close>.\<close>

record 'k jwt_api =
  unverified_header :: "pystr \<Rightarrow> py_exc + pydict"
  jwt_decode :: "pyfloat \<Rightarrow> pystr \<Rightarrow> 'k jwt_key \<Rightarrow> decode_options \<Rightarrow> py_exc + pydict"
  jwt_encode :: "pydict \<Rightarrow> 'k jwt_key \<Rightarrow> pystr \<Rightarrow> py_exc + pystr"
  jwk_from_dict :: "pydict \<Rightarrow> py_exc + 'k"

text \<open>\<open>except jwt.PyJWTError\<close> around a call: that class becomes an AuthenticationError.\<close>

definition guard_jwt :: "string \<Rightarrow> py_exc + 'a \<Rightarrow> exc + 'a" where
  "guard_jwt detail r = (case r of
       Inr x \<Rightarrow> Inr x
     | Inl e \<Rightarrow> if e = PyJWTError then raise_app AuthenticationError detail else Inl (PyExc e))"

lemma guard_jwt_Inr_iff [simp, res_simps]: "guard_jwt d r = Inr x \<longleftrightarrow> r = Inr x"
  by (simp add: guard_jwt_def split: sum.split)

lemma guard_jwt_PyExc_iff: "guard_jwt d r = Inl (PyExc x) \<longleftrightarrow> r = Inl x \<and> x \<noteq> PyJWTError"
  by (auto simp: guard_jwt_def split: sum.split)

lemma guard_jwt_AppExc_iff:
  "guard_jwt d r = Inl (AppExc e) \<longleftrightarrow>
     r = Inl PyJWTError \<and> e = \<lparr>err_class = AuthenticationError, err_detail = lit d\<rparr>"
  by (auto simp: guard_jwt_def split: sum.split)

lemma guard_jwt_simps [simp]:
  "guard_jwt d (Inr x) = Inr x"
  "guard_jwt d (Inl PyJWTError) = raise_app AuthenticationError d"
  by (simp_all add: guard_jwt_def)

section \<open>The algorithms, leeway and requirements of the two verifiers\<close>

definition CLOCK_SKEW_LEEWAY_SECONDS :: int where
  "CLOCK_SKEW_LEEWAY_SECONDS = 10"

definition REQUIRED_CLAIMS :: "pystr list" where
  "REQUIRED_CLAIMS = [lit ''exp'', lit ''iss'', lit ''aud'']"

definition pinned_options :: "pystr list \<Rightarrow> pystr \<Rightarrow> pystr \<Rightarrow> decode_options" where
  "pinned_options algorithms issuer audience =
     \<lparr>do_algorithms = algorithms, do_issuer = issuer, do_audience = audience,
      do_leeway = CLOCK_SKEW_LEEWAY_SECONDS, do_require = REQUIRED_CLAIMS\<rparr>"

section \<open>What the documentation promises\<close>

text \<open>The \<open>aud\<close> claim is the audience, or a list that holds it.\<close>

definition names_audience :: "pydict \<Rightarrow> pystr \<Rightarrow> bool" where
  "names_audience claims audience = (case dict_get claims (lit ''aud'') of
       Some (JStr a) \<Rightarrow> a = audience
     | Some (JArr xs) \<Rightarrow> JStr audience \<in> set xs
     | _ \<Rightarrow> False)"

text \<open>\<open>int(q)\<close> of a float truncates towards zero; \<open>int(s)\<close> of an ASCII string takes decimal digits,
  single underscores between them, a sign, and white space around all that.\<close>

definition py_trunc :: "rat \<Rightarrow> int" where
  "py_trunc q = (if 0 \<le> q then \<lfloor>q\<rfloor> else \<lceil>q\<rceil>)"

definition int_of_ascii :: "pystr \<Rightarrow> int option" where
  "int_of_ascii s =
     (let t = py_strip s;
          u = (if t \<noteq> [] \<and> hd t \<in> {43, 45} then tl t else t);
          digits = filter ascii_digit u;
          n = digits_value digits
      in if u \<noteq> [] \<and> ascii_digit (hd u) \<and> ascii_digit (last u) \<and> (\<forall>c \<in> set u. ascii_digit c \<or> c = 95)
           \<and> (\<forall>i < length u - 1. u ! i \<noteq> 95 \<or> u ! Suc i \<noteq> 95) \<and> length digits \<le> max_str_digits
         then Some (if hd t = 45 then - n else n) else None)"

text \<open>The integer the library makes of the \<open>exp\<close> claim with \<open>int\<close>; what it does not convert it
  refuses.\<close>

fun claimed_int :: "json \<Rightarrow> int option" where
  "claimed_int (JInt n) = Some n"
| "claimed_int (JBool b) = Some (if b then 1 else 0)"
| "claimed_int (JFloat (FFin q)) = Some (py_trunc q)"
| "claimed_int (JStr s) = int_of_ascii s"
| "claimed_int _ = None"

text \<open>A string claim that holds other than ASCII characters (\<open>int\<close> knows the digits of other
  scripts too) is left open: of such a token the predicate says nothing.\<close>

definition open_digits :: "json \<Rightarrow> bool" where
  "open_digits v = (case v of JStr s \<Rightarrow> (\<exists>c \<in> set s. 128 \<le> c) | _ \<Rightarrow> False)"

definition not_expired :: "pydict \<Rightarrow> pyfloat \<Rightarrow> int \<Rightarrow> bool" where
  "not_expired claims now leeway = (case dict_get claims (lit ''exp'') of
       None \<Rightarrow> False
     | Some v \<Rightarrow> open_digits v
         \<or> (case claimed_int v of Some n \<Rightarrow> float_gt (FFin (of_int (n + leeway))) now | None \<Rightarrow> False))"

lemma not_expired_int:
  "dict_get claims (lit ''exp'') = Some (JInt n) \<Longrightarrow>
     not_expired claims now leeway \<longleftrightarrow> float_gt (FFin (of_int (n + leeway))) now"
  by (simp add: not_expired_def open_digits_def)

text \<open>\<open>signed token alg key claims\<close>: the token is a JWS with these claims whose signature
  verifies under the key by the algorithm. \<open>decode\<close> returns the claims of a token only if
  it is so signed by one of the algorithms of the list (never the one the token's own
  header asks for, unless it is on the list), was issued by the issuer, names the audience
  and has not expired.\<close>

definition decode_sound ::
  "'k jwt_api \<Rightarrow> (pystr \<Rightarrow> pystr \<Rightarrow> 'k jwt_key \<Rightarrow> pydict \<Rightarrow> bool) \<Rightarrow> bool" where
  "decode_sound api signed \<longleftrightarrow>
     (\<forall>now token key opts claims. jwt_decode api now token key opts = Inr claims \<longrightarrow>
        (\<exists>alg \<in> set (do_algorithms opts). signed token alg key claims)
      \<and> dict_get claims (lit ''iss'') = Some (JStr (do_issuer opts))
      \<and> names_audience claims (do_audience opts)
      \<and> not_expired claims now (do_leeway opts))"

lemma decode_soundD:
  assumes "decode_sound api signed" and "jwt_decode api now token key opts = Inr claims"
  shows "\<exists>alg \<in> set (do_algorithms opts). signed token alg key claims"
    and "dict_get claims (lit ''iss'') = Some (JStr (do_issuer opts))"
    and "names_audience claims (do_audience opts)"
    and "not_expired claims now (do_leeway opts)"
  using assms unfolding decode_sound_def by blast+

end
