(* ===== verification/Settings_Core.thy ===== *)
theory Settings_Core
  imports Errors
begin

text \<open>
  \<open>backend/src/app/core/settings.py\<close>: the typed configuration object, its defaults and
  required fields, the registry of secret fields, and the cached accessor.
\<close>

section \<open>The settings object\<close>

record settings =
  database_url :: pystr
  app_database_url :: pystr
  embedding_dim :: int
  weaviate_url :: pystr
  vertex_credentials_path :: "pystr option"
  gemini_model :: pystr
  supabase_url :: "pystr option"
  supabase_anon_key :: "pystr option"
  supabase_service_role_key :: "pystr option"
  supabase_jwt_issuer :: pystr
  supabase_jwks_url :: pystr
  supabase_jwt_audience :: pystr
  mcp_signing_secret :: pystr
  mcp_token_issuer :: pystr
  mcp_token_audience :: pystr
  mcp_allowed_origins :: "pystr list"
  mcp_allowed_hosts :: "pystr list"
  visitor_max_body_bytes :: int
  logfire_token :: "pystr option"
  sentry_dsn :: "pystr option"
  widget_public_key :: "pystr option"

text \<open>What the settings library reads for a field in the environment and the \<open>.env\<close> files: nothing,
  a value of the field's type, or something its validation refuses.\<close>

datatype 'a reading = Unset | Given 'a | Malformed

text \<open>The readings of the string, integer and string-tuple fields, by name; and what reading the
  sources raises, if it raises: the library's SettingsError when the text of a tuple field is
  no JSON, an error of decoding a \<open>.env\<close> file. The library reads all sources before it
  validates any field.\<close>

record environment =
  env_fault :: "py_exc option"
  env_str :: "pystr \<Rightarrow> pystr reading"
  env_int :: "pystr \<Rightarrow> int reading"
  env_strs :: "pystr \<Rightarrow> pystr list reading"

definition VALIDATION_ERROR :: exc where
  "VALIDATION_ERROR = PyExc (OtherExc (lit ''ValidationError''))"

definition required_field :: "'a reading \<Rightarrow> exc + 'a" where
  "required_field r = (case r of Given v \<Rightarrow> Inr v | Unset \<Rightarrow> Inl VALIDATION_ERROR | Malformed \<Rightarrow> Inl VALIDATION_ERROR)"

definition with_default :: "'a reading \<Rightarrow> 'a \<Rightarrow> exc + 'a" where
  "with_default r d = (case r of Given v \<Rightarrow> Inr v | Unset \<Rightarrow> Inr d | Malformed \<Rightarrow> Inl VALIDATION_ERROR)"

definition or_none :: "'a reading \<Rightarrow> exc + 'a option" where
  "or_none r = (case r of Given v \<Rightarrow> Inr (Some v) | Unset \<Rightarrow> Inr None | Malformed \<Rightarrow> Inl VALIDATION_ERROR)"

definition validate_settings :: "environment \<Rightarrow> exc + settings" where
  "validate_settings env =
     bind_res (required_field (env_str env (lit ''database_url''))) (\<lambda>db.
     bind_res (required_field (env_str env (lit ''app_database_url''))) (\<lambda>app_db.
     bind_res (with_default (env_int env (lit ''embedding_dim'')) 768) (\<lambda>dim.
     bind_res (required_field (env_str env (lit ''weaviate_url''))) (\<lambda>wv.
     bind_res (or_none (env_str env (lit ''vertex_credentials_path''))) (\<lambda>vertex.
     bind_res (with_default (env_str env (lit ''gemini_model'')) (lit ''gemini-2.5-flash'')) (\<lambda>gemini.
     bind_res (or_none (env_str env (lit ''supabase_url''))) (\<lambda>sb_url.
     bind_res (or_none (env_str env (lit ''supabase_anon_key''))) (\<lambda>anon.
     bind_res (or_none (env_str env (lit ''supabase_service_role_key''))) (\<lambda>service_role.
     bind_res (required_field (env_str env (lit ''supabase_jwt_issuer''))) (\<lambda>iss.
     bind_res (required_field (env_str env (lit ''supabase_jwks_url''))) (\<lambda>jwks.
     bind_res (with_default (env_str env (lit ''supabase_jwt_audience'')) (lit ''authenticated'')) (\<lambda>aud.
     bind_res (required_field (env_str env (lit ''mcp_signing_secret''))) (\<lambda>secret.
     bind_res (with_default (env_str env (lit ''mcp_token_issuer'')) (lit ''honest-agent'')) (\<lambda>mcp_iss.
     bind_res (with_default (env_str env (lit ''mcp_token_audience'')) (lit ''honest-agent-mcp'')) (\<lambda>mcp_aud.
     bind_res (with_default (env_strs env (lit ''mcp_allowed_origins'')) []) (\<lambda>origins.
     bind_res (with_default (env_strs env (lit ''mcp_allowed_hosts'')) [lit ''127.0.0.1'', lit ''localhost'']) (\<lambda>hosts.
     bind_res (with_default (env_int env (lit ''visitor_max_body_bytes'')) 65536) (\<lambda>max_body.
     bind_res (or_none (env_str env (lit ''logfire_token''))) (\<lambda>logfire.
     bind_res (or_none (env_str env (lit ''sentry_dsn''))) (\<lambda>sentry.
     bind_res (or_none (env_str env (lit ''widget_public_key''))) (\<lambda>widget.
     Inr \<lparr>database_url = db, app_database_url = app_db, embedding_dim = dim, weaviate_url = wv,
          vertex_credentials_path = vertex, gemini_model = gemini, supabase_url = sb_url,
          supabase_anon_key = anon, supabase_service_role_key = service_role,
          supabase_jwt_issuer = iss, supabase_jwks_url = jwks, supabase_jwt_audience = aud,
          mcp_signing_secret = secret, mcp_token_issuer = mcp_iss, mcp_token_audience = mcp_aud,
          mcp_allowed_origins = origins, mcp_allowed_hosts = hosts, visitor_max_body_bytes = max_body,
          logfire_token = logfire, sentry_dsn = sentry,
          widget_public_key = widget\<rparr>)))))))))))))))))))))"

definition load_settings :: "environment \<Rightarrow> exc + settings" where
  "load_settings env = (case env_fault env of
       Some x \<Rightarrow> Inl (PyExc x)
     | None \<Rightarrow> validate_settings env)"

definition required_names :: "string list" where
  "required_names = [''database_url'', ''app_database_url'', ''weaviate_url'',
     ''supabase_jwt_issuer'', ''supabase_jwks_url'', ''mcp_signing_secret'']"

definition optional_names :: "string list" where
  "optional_names = [''vertex_credentials_path'', ''gemini_model'', ''supabase_url'', ''supabase_anon_key'',
     ''supabase_service_role_key'', ''supabase_jwt_audience'', ''mcp_token_issuer'', ''mcp_token_audience'',
     ''logfire_token'', ''sentry_dsn'', ''widget_public_key'']"

text \<open>What validation asks for: each required field is given, and no other field is malformed.\<close>

definition valid_fields :: "environment \<Rightarrow> bool" where
  "valid_fields env \<longleftrightarrow>
     (\<forall>n \<in> set required_names. \<exists>v. env_str env (lit n) = Given v)
   \<and> (\<forall>n \<in> set optional_names. env_str env (lit n) \<noteq> Malformed)
   \<and> (\<forall>n \<in> {''embedding_dim'', ''visitor_max_body_bytes''}. env_int env (lit n) \<noteq> Malformed)
   \<and> (\<forall>n \<in> {''mcp_allowed_origins'', ''mcp_allowed_hosts''}. env_strs env (lit n) \<noteq> Malformed)"

section \<open>The registry of secrets\<close>

datatype setting_value = SVNone | SVStr pystr | SVInt int | SVStrs "pystr list"

definition opt_value :: "pystr option \<Rightarrow> setting_value" where
  "opt_value v = (case v of None \<Rightarrow> SVNone | Some s \<Rightarrow> SVStr s)"

text \<open>\<open>getattr(settings, name)\<close>; \<open>None\<close> is the AttributeError of an unknown name.\<close>

definition settings_fields :: "settings \<Rightarrow> (pystr, setting_value) dict" where
  "settings_fields s =
     [(lit ''database_url'', SVStr (database_url s)),
      (lit ''app_database_url'', SVStr (app_database_url s)),
      (lit ''embedding_dim'', SVInt (embedding_dim s)),
      (lit ''weaviate_url'', SVStr (weaviate_url s)),
      (lit ''vertex_credentials_path'', opt_value (vertex_credentials_path s)),
      (lit ''gemini_model'', SVStr (gemini_model s)),
      (lit ''supabase_url'', opt_value (supabase_url s)),
      (lit ''supabase_anon_key'', opt_value (supabase_anon_key s)),
      (lit ''supabase_service_role_key'', opt_value (supabase_service_role_key s)),
      (lit ''supabase_jwt_issuer'', SVStr (supabase_jwt_issuer s)),
      (lit ''supabase_jwks_url'', SVStr (supabase_jwks_url s)),
      (lit ''supabase_jwt_audience'', SVStr (supabase_jwt_audience s)),
      (lit ''mcp_signing_secret'', SVStr (mcp_signing_secret s)),
      (lit ''mcp_token_issuer'', SVStr (mcp_token_issuer s)),
      (lit ''mcp_token_audience'', SVStr (mcp_token_audience s)),
      (lit ''mcp_allowed_origins'', SVStrs (mcp_allowed_origins s)),
      (lit ''mcp_allowed_hosts'', SVStrs (mcp_allowed_hosts s)),
      (lit ''visitor_max_body_bytes'', SVInt (visitor_max_body_bytes s)),
      (lit ''logfire_token'', opt_value (logfire_token s)),
      (lit ''sentry_dsn'', opt_value (sentry_dsn s)),
      (lit ''widget_public_key'', opt_value (widget_public_key s))]"

definition SECRET_SETTINGS_FIELDS :: "pystr list" where
  "SECRET_SETTINGS_FIELDS =
     [lit ''supabase_service_role_key'', lit ''mcp_signing_secret'', lit ''vertex_credentials_path'']"

definition secret_string :: "setting_value option \<Rightarrow> pystr list" where
  "secret_string v = (case v of Some (SVStr s) \<Rightarrow> if s \<noteq> [] then [s] else [] | _ \<Rightarrow> [])"

definition secret_values :: "settings \<Rightarrow> pystr set" where
  "secret_values s =
     set (concat (map (\<lambda>name. secret_string (dict_get (settings_fields s) name)) SECRET_SETTINGS_FIELDS))"

section \<open>The cached accessor\<close>

text \<open>\<open>lru_cache(maxsize=1)\<close> on a function of no arguments: the first value returned is kept;
  an exception is not.\<close>

definition get_settings :: "environment \<Rightarrow> (settings option, exc, settings) action" where
  "get_settings env cache = (case cache of
       Some s \<Rightarrow> (Inr s, cache)
     | None \<Rightarrow> (case load_settings env of
           Inl e \<Rightarrow> (Inl e, None)
         | Inr s \<Rightarrow> (Inr s, Some s)))"

section \<open>Facts\<close>

lemma required_field_Inr_iff [simp]: "required_field r = Inr v \<longleftrightarrow> r = Given v"
  by (simp add: required_field_def split: reading.split)

lemma reading_error:
  "required_field r = Inl e \<Longrightarrow> e = VALIDATION_ERROR"
  "with_default q d = Inl e \<Longrightarrow> e = VALIDATION_ERROR"
  "or_none q = Inl e \<Longrightarrow> e = VALIDATION_ERROR"
  by (auto simp: required_field_def with_default_def or_none_def split: reading.splits)

lemma malformed_read [simp]: "with_default Malformed d = Inl VALIDATION_ERROR" "or_none Malformed = Inl VALIDATION_ERROR"
  by (simp_all add: with_default_def or_none_def)

lemma optional_read:
  "(\<exists>v. with_default r d = Inr v) \<longleftrightarrow> r \<noteq> Malformed"
  "(\<exists>v. or_none r = Inr v) \<longleftrightarrow> r \<noteq> Malformed"
  by (auto simp: with_default_def or_none_def split: reading.splits)

lemma bind_error: "bind_res r k = Inl e \<Longrightarrow> (r = Inl e \<Longrightarrow> P) \<Longrightarrow> (\<And>x. k x = Inl e \<Longrightarrow> P) \<Longrightarrow> P"
  by (auto simp: bind_res_Inl_iff)

lemma bind_returns: "\<exists>x. r = Inr x \<Longrightarrow> (\<And>x. \<exists>y. k x = Inr y) \<Longrightarrow> \<exists>y. bind_res r k = Inr y"
  by (auto simp: res_simps)

lemma validate_settings_error: "validate_settings env = Inl e \<Longrightarrow> e = VALIDATION_ERROR"
  unfolding validate_settings_def by (elim bind_error) (auto dest: reading_error)

lemma validate_settings_valid: "\<exists>s. validate_settings env = Inr s" if "valid_fields env"
  unfolding validate_settings_def
  by (intro bind_returns)
     (use that in \<open>simp_all add: optional_read valid_fields_def required_names_def optional_names_def\<close>)

lemma validate_settings_fields: "validate_settings env = Inr s \<Longrightarrow> valid_fields env"
  unfolding validate_settings_def bind_res_Inr_iff
  by (elim exE conjE)
     (auto simp: valid_fields_def required_names_def optional_names_def)

lemma load_settings_Inl_iff:
  "load_settings env = Inl e \<longleftrightarrow>
     (case env_fault env of Some x \<Rightarrow> e = PyExc x | None \<Rightarrow> \<not> valid_fields env \<and> e = VALIDATION_ERROR)"
  using validate_settings_valid [of env] validate_settings_fields [of env] validate_settings_error [of env]
  by (cases "validate_settings env") (auto simp: load_settings_def split: option.split)

lemma load_settings_Inr_iff: "(\<exists>s. load_settings env = Inr s) \<longleftrightarrow> env_fault env = None \<and> valid_fields env"
  using validate_settings_valid [of env] validate_settings_fields [of env]
  by (auto simp: load_settings_def split: option.split)

lemma load_settings_required:
  assumes "load_settings env = Inr s"
  shows "env_str env (lit ''database_url'') = Given (database_url s)
   \<and> env_str env (lit ''app_database_url'') = Given (app_database_url s)
   \<and> env_str env (lit ''weaviate_url'') = Given (weaviate_url s)
   \<and> env_str env (lit ''supabase_jwt_issuer'') = Given (supabase_jwt_issuer s)
   \<and> env_str env (lit ''supabase_jwks_url'') = Given (supabase_jwks_url s)
   \<and> env_str env (lit ''mcp_signing_secret'') = Given (mcp_signing_secret s)"
proof -
  have "validate_settings env = Inr s" using assms by (simp add: load_settings_def split: option.splits)
  then show ?thesis unfolding validate_settings_def bind_res_Inr_iff by (elim exE conjE) auto
qed

lemma secret_values_iff:
  "x \<in> secret_values s \<longleftrightarrow> x \<noteq> [] \<and>
     (supabase_service_role_key s = Some x \<or> mcp_signing_secret s = x \<or> vertex_credentials_path s = Some x)"
  by (auto simp: secret_values_def SECRET_SETTINGS_FIELDS_def settings_fields_def inj_lit
      secret_string_def opt_value_def split: option.splits)

section \<open>Properties\<close>

text \<open>The six required settings have no default. Loading fails with what reading the sources
  raised, or with a validation error, and then one of the six is not given or some field is
  malformed; or it succeeds, and then each of the six is the value the environment provides,
  so no issuer, key set or signing secret is ever assumed.\<close>

theorem settings_required_or_error:
  "case load_settings env of
     Inl e \<Rightarrow> (case env_fault env of
         Some x \<Rightarrow> e = PyExc x
       | None \<Rightarrow> e = PyExc (OtherExc (lit ''ValidationError'')) \<and> \<not> valid_fields env)
   | Inr s \<Rightarrow> valid_fields env
       \<and> env_str env (lit ''database_url'') = Given (database_url s)
       \<and> env_str env (lit ''app_database_url'') = Given (app_database_url s)
       \<and> env_str env (lit ''weaviate_url'') = Given (weaviate_url s)
       \<and> env_str env (lit ''supabase_jwt_issuer'') = Given (supabase_jwt_issuer s)
       \<and> env_str env (lit ''supabase_jwks_url'') = Given (supabase_jwks_url s)
       \<and> env_str env (lit ''mcp_signing_secret'') = Given (mcp_signing_secret s)"
proof (cases "load_settings env")
  case (Inl e)
  then have "case env_fault env of Some x \<Rightarrow> e = PyExc x | None \<Rightarrow> \<not> valid_fields env \<and> e = VALIDATION_ERROR"
    by (simp add: load_settings_Inl_iff)
  with Inl show ?thesis by (simp add: VALIDATION_ERROR_def split: option.splits)
next
  case (Inr s)
  then show ?thesis using load_settings_required [OF Inr] load_settings_Inr_iff [of env] by simp
qed

text \<open>The registry of secrets lists exactly the configured service-role key, MCP signing
  secret and Vertex path, and never the empty string; the two database URLs, which carry
  passwords, do not enter it.\<close>

theorem secret_values_exact:
  "(x \<in> secret_values s \<longleftrightarrow> x \<noteq> [] \<and>
     (supabase_service_role_key s = Some x \<or> mcp_signing_secret s = x \<or> vertex_credentials_path s = Some x))
   \<and> secret_values (s\<lparr>database_url := a, app_database_url := b\<rparr>) = secret_values s"
  by (auto simp: secret_values_iff)

text \<open>The accessor loads the settings once. A success is kept and returned for ever after,
  whatever the environment becomes; a failure is not kept, so a later call loads again.\<close>

theorem get_settings_cached:
  "case get_settings env cache of
     (Inl e, cache') \<Rightarrow> cache = None \<and> cache' = None \<and> load_settings env = Inl e
   | (Inr s, cache') \<Rightarrow> cache' = Some s
       \<and> (cache = Some s \<or> cache = None \<and> load_settings env = Inr s)
       \<and> (\<forall>env'. get_settings env' cache' = (Inr s, cache'))"
  by (auto simp: get_settings_def split: option.split sum.split)

end
