(* ===== verification/Owner_Auth.thy ===== *)
theory Owner_Auth
  imports Jwt_Api Settings_Core Contexts
begin

text \<open>
  \<open>backend/src/app/tenants/owner_auth.py\<close> and the route of \<open>tenants/router.py\<close>: the key
  resolver with its cache, the token verifier, the fetch of the key set, and the dependency
  that turns a request into an owner context. The HTTP client, the JWT library and the clock
  are parameters; \<open>'w\<close> is the state of the world the HTTP client acts on.
\<close>

section \<open>Fetching the key set\<close>

text \<open>What \<open>httpx.get(url, timeout=5.0)\<close> returns, by the two methods the code calls on it.\<close>

record http_response =
  hr_raise_for_status :: "exc + unit"
  hr_json :: "exc + json"

type_synonym 'w http_get = "pystr \<Rightarrow> rat \<Rightarrow> ('w, exc, http_response) action"
type_synonym 'w jwks_fetcher = "('w, exc, pydict list) action"

definition JWKS_FETCH_TIMEOUT_SECONDS :: rat where
  "JWKS_FETCH_TIMEOUT_SECONDS = 5"

definition as_dict :: "json \<Rightarrow> pydict option" where
  "as_dict j = (case j of JObj d \<Rightarrow> Some d | _ \<Rightarrow> None)"

text \<open>\<open>[entry for entry in keys if isinstance(entry, dict)]\<close>: iterating a dict gives its keys
  and a string its characters, none of them a dict; anything else cannot be iterated.\<close>

definition dict_entries :: "json \<Rightarrow> exc + pydict list" where
  "dict_entries keys = (case keys of
       JArr xs \<Rightarrow> Inr (List.map_filter as_dict xs)
     | JObj d \<Rightarrow> Inr []
     | JStr s \<Rightarrow> Inr []
     | _ \<Rightarrow> Inl (PyExc (OtherExc (lit ''TypeError''))))"

definition jwks_entries :: "json \<Rightarrow> exc + pydict list" where
  "jwks_entries payload =
     dict_entries (case payload of
         JObj d \<Rightarrow> (case dict_get d (lit ''keys'') of Some k \<Rightarrow> k | None \<Rightarrow> JArr [])
       | _ \<Rightarrow> JArr [])"

definition jwks_fetch :: "'w http_get \<Rightarrow> pystr \<Rightarrow> 'w jwks_fetcher" where
  "jwks_fetch http jwks_url =
     act_bind (http jwks_url JWKS_FETCH_TIMEOUT_SECONDS) (\<lambda>response.
       act_lift (bind_res (hr_raise_for_status response) (\<lambda>_.
         bind_res (hr_json response) jwks_entries)))"

section \<open>The key resolver\<close>

text \<open>The loop of \<open>_refresh\<close>: entries without a non-empty string \<open>kid\<close> are skipped, a later
  entry replaces an earlier one, and an entry the JWT library rejects ends the loop.\<close>

fun collect_keys :: "'k jwt_api \<Rightarrow> pydict list \<Rightarrow> (pystr, 'k) dict \<Rightarrow> exc + (pystr, 'k) dict" where
  "collect_keys api [] keys = Inr keys"
| "collect_keys api (entry # entries) keys =
     (case nonempty_str (dict_get entry (lit ''kid'')) of
        None \<Rightarrow> collect_keys api entries keys
      | Some kid \<Rightarrow>
          bind_res (map_err PyExc (jwk_from_dict api entry)) (\<lambda>jwk.
            collect_keys api entries (dict_set keys kid jwk)))"

record ('k, 'w) resolver_state =
  rs_keys :: "(pystr, 'k) dict"
  rs_world :: 'w

text \<open>The fetch acts on the world and leaves the cache alone; the cache is replaced as a whole,
  after the loop.\<close>

definition refresh :: "'k jwt_api \<Rightarrow> 'w jwks_fetcher \<Rightarrow> (('k, 'w) resolver_state, exc, unit) action" where
  "refresh api fetch = (\<lambda>s.
     case fetch (rs_world s) of
       (Inl e, w) \<Rightarrow> (Inl e, s\<lparr>rs_world := w\<rparr>)
     | (Inr entries, w) \<Rightarrow>
         (case collect_keys api entries [] of
            Inl e \<Rightarrow> (Inl e, s\<lparr>rs_world := w\<rparr>)
          | Inr keys \<Rightarrow> (Inr (), s\<lparr>rs_keys := keys, rs_world := w\<rparr>)))"

definition resolver_get ::
  "'k jwt_api \<Rightarrow> 'w jwks_fetcher \<Rightarrow> pystr \<Rightarrow> (('k, 'w) resolver_state, exc, 'k) action" where
  "resolver_get api fetch kid = (\<lambda>s.
     case dict_get (rs_keys s) kid of
       Some key \<Rightarrow> (Inr key, s)
     | None \<Rightarrow>
         act_bind (refresh api fetch) (\<lambda>_ s'.
           case dict_get (rs_keys s') kid of
             None \<Rightarrow> (raise_app AuthenticationError ''unknown token signing key'', s')
           | Some rotated \<Rightarrow> (Inr rotated, s')) s)"

section \<open>The verifier\<close>

definition OWNER_ALGORITHMS :: "pystr list" where
  "OWNER_ALGORITHMS = [lit ''ES256'']"

record 'w owner_verifier =
  ov_fetch :: "'w jwks_fetcher"
  ov_issuer :: pystr
  ov_audience :: pystr

text \<open>The two readings of the clock in one verification: the JWT library's, and \<open>time.time()\<close>.\<close>

record clock =
  at_decode :: pyfloat
  at_check :: pyfloat

definition key_id :: "'k jwt_api \<Rightarrow> pystr \<Rightarrow> exc + pystr" where
  "key_id api token =
     bind_res (guard_jwt ''malformed token'' (unverified_header api token)) (\<lambda>header.
       case nonempty_str (dict_get header (lit ''kid'')) of
         None \<Rightarrow> raise_app AuthenticationError ''token missing key id''
       | Some kid \<Rightarrow> Inr kid)"

definition owner_decode :: "'k jwt_api \<Rightarrow> 'w owner_verifier \<Rightarrow> clock \<Rightarrow> pystr \<Rightarrow> 'k \<Rightarrow> exc + pydict" where
  "owner_decode api v now token key =
     guard_jwt ''token verification failed''
       (jwt_decode api (at_decode now) token (PublicKey key)
          (pinned_options OWNER_ALGORITHMS (ov_issuer v) (ov_audience v)))"

text \<open>\<open>time.time() + 10\<close> in floating point.\<close>

fun float_add_int :: "pyfloat \<Rightarrow> int \<Rightarrow> pyfloat" where
  "float_add_int (FFin q) n = to_double (q + of_int n)"
| "float_add_int f n = f"

definition reject_future_iat :: "pyfloat \<Rightarrow> pydict \<Rightarrow> exc + unit" where
  "reject_future_iat now claims =
     (case py_number (dict_get claims (lit ''iat'')) of
        Some issued_at \<Rightarrow>
          if float_gt issued_at (float_add_int now CLOCK_SKEW_LEEWAY_SECONDS)
          then raise_app AuthenticationError ''token issued in the future'' else Inr ()
      | None \<Rightarrow> Inr ())"

definition claimed_tenant_id :: "pydict \<Rightarrow> exc + pystr" where
  "claimed_tenant_id claims =
     (case dict_get claims (lit ''app_metadata'') of
        Some (JObj d) \<Rightarrow>
          (case nonempty_str (dict_get d (lit ''tenant_id'')) of
             Some t \<Rightarrow> Inr t
           | None \<Rightarrow> raise_app AuthenticationError ''token has no tenant in app_metadata'')
      | _ \<Rightarrow> raise_app AuthenticationError ''token has no tenant in app_metadata'')"

definition claimed_user_id :: "pydict \<Rightarrow> exc + pystr" where
  "claimed_user_id claims =
     (case nonempty_str (dict_get claims (lit ''sub'')) of
        Some s \<Rightarrow> Inr s
      | None \<Rightarrow> raise_app AuthenticationError ''token missing subject'')"

definition owner_context :: "pyfloat \<Rightarrow> pydict \<Rightarrow> exc + owner_ctx" where
  "owner_context now claims =
     bind_res (reject_future_iat now claims) (\<lambda>_.
     bind_res (claimed_tenant_id claims) (\<lambda>t.
     bind_res (claimed_user_id claims) (\<lambda>u.
       Inr \<lparr>owner_tenant_id = t, owner_user_id = u\<rparr>)))"

definition owner_verify ::
  "'k jwt_api \<Rightarrow> 'w owner_verifier \<Rightarrow> clock \<Rightarrow> pystr \<Rightarrow> (('k, 'w) resolver_state, exc, owner_ctx) action" where
  "owner_verify api v now token =
     act_bind (act_lift (key_id api token)) (\<lambda>kid.
     act_bind (resolver_get api (ov_fetch v) kid) (\<lambda>key.
       act_lift (bind_res (owner_decode api v now token key) (owner_context (at_check now)))))"

section \<open>The dependency and the route\<close>

definition build_owner_verifier :: "'w http_get \<Rightarrow> settings \<Rightarrow> 'w owner_verifier" where
  "build_owner_verifier http s =
     \<lparr>ov_fetch = jwks_fetch http (supabase_jwks_url s),
      ov_issuer = supabase_jwt_issuer s,
      ov_audience = supabase_jwt_audience s\<rparr>"

text \<open>What lives as long as the process: the two \<open>lru_cache\<close> cells and the resolver inside the
  cached verifier, whose key cache starts empty.\<close>

record ('k, 'w) owner_door =
  od_settings :: "settings option"
  od_verifier :: "'w owner_verifier option"
  od_resolver :: "('k, 'w) resolver_state"

definition live_verifier ::
  "environment \<Rightarrow> 'w http_get \<Rightarrow> (('k, 'w) owner_door, exc, 'w owner_verifier) action" where
  "live_verifier env http = (\<lambda>s.
     case od_verifier s of
       Some v \<Rightarrow> (Inr v, s)
     | None \<Rightarrow>
         (case get_settings env (od_settings s) of
            (Inl e, c) \<Rightarrow> (Inl e, s\<lparr>od_settings := c\<rparr>)
          | (Inr settings, c) \<Rightarrow>
              (let v = build_owner_verifier http settings
               in (Inr v, s\<lparr>od_settings := c, od_verifier := Some v,
                           od_resolver := (od_resolver s)\<lparr>rs_keys := []\<rparr>\<rparr>))))"

definition get_owner_context ::
  "'k jwt_api \<Rightarrow> environment \<Rightarrow> 'w http_get \<Rightarrow> clock \<Rightarrow> pystr option
     \<Rightarrow> (('k, 'w) owner_door, exc, owner_ctx) action" where
  "get_owner_context api env http now authorization =
     act_bind (act_lift (parse_bearer authorization)) (\<lambda>token.
     act_bind (live_verifier env http) (\<lambda>v s.
       case owner_verify api v now token (od_resolver s) of
         (r, rs) \<Rightarrow> (r, s\<lparr>od_resolver := rs\<rparr>)))"

definition read_owner_identity :: "owner_ctx \<Rightarrow> owner_identity" where
  "read_owner_identity owner = \<lparr>oi_tenant_id = owner_tenant_id owner, oi_user_id = owner_user_id owner\<rparr>"

end
