(* ===== verification/Owner_Facts.thy ===== *)
theory Owner_Facts
  imports Owner_Auth
begin

text \<open>
  What the owner door guarantees: when a token is accepted and whose tenant it gets, that the
  algorithm is pinned, which keys the resolver returns and when it fetches, which exceptions
  are refusals and which escape.
\<close>

section \<open>The key set\<close>

definition entry_kid :: "pydict \<Rightarrow> pystr option" where
  "entry_kid entry = nonempty_str (dict_get entry (lit ''kid''))"

text \<open>The key a list of entries publishes under a key id: that of the last entry with that id.\<close>

fun published :: "'k jwt_api \<Rightarrow> pydict list \<Rightarrow> pystr \<Rightarrow> 'k option" where
  "published api [] kid = None"
| "published api (entry # entries) kid =
     (case published api entries kid of
        Some k \<Rightarrow> Some k
      | None \<Rightarrow> if entry_kid entry = Some kid
                then (case jwk_from_dict api entry of Inr k \<Rightarrow> Some k | Inl e \<Rightarrow> None) else None)"

lemma collect_keys_lookup:
  "collect_keys api entries keys0 = Inr keys \<Longrightarrow>
     dict_get keys kid = (case published api entries kid of Some k \<Rightarrow> Some k | None \<Rightarrow> dict_get keys0 kid)"
proof (induction api entries keys0 rule: collect_keys.induct)
  case (2 api entry entries keys0)
  then show ?case
    by (auto simp: entry_kid_def res_simps split: option.splits)
qed simp

lemma collect_keys_error:
  "collect_keys api entries keys0 = Inl e \<Longrightarrow>
     \<exists>entry x. entry \<in> set entries \<and> entry_kid entry \<noteq> None \<and> jwk_from_dict api entry = Inl x \<and> e = PyExc x"
proof (induction api entries keys0 rule: collect_keys.induct)
  case (2 api entry entries keys0)
  consider "entry_kid entry = None" | kid x where "entry_kid entry = Some kid" "jwk_from_dict api entry = Inl x"
    | kid k where "entry_kid entry = Some kid" "jwk_from_dict api entry = Inr k"
    by (metis option.exhaust sum.exhaust)
  then show ?case
  proof cases
    case 1
    with 2 show ?thesis by (fastforce simp: entry_kid_def)
  next
    case (2 kid x)
    with "2.prems" show ?thesis by (auto simp: entry_kid_def)
  next
    case (3 kid k)
    with "2.prems" "2.IH"(2) [of kid k] show ?thesis by (fastforce simp: entry_kid_def)
  qed
qed simp

lemma published_entry:
  "published api entries kid = Some k \<Longrightarrow>
     \<exists>entry. entry \<in> set entries \<and> entry_kid entry = Some kid \<and> jwk_from_dict api entry = Inr k"
  by (induction entries) (auto split: option.splits if_splits sum.splits)

section \<open>The resolver\<close>

lemma resolver_hit: "dict_get (rs_keys s) kid = Some k \<Longrightarrow> resolver_get api fetch kid s = (Inr k, s)"
  by (simp add: resolver_get_def)

lemma resolver_miss:
  assumes "dict_get (rs_keys s) kid = None"
  shows "resolver_get api fetch kid s =
    (case fetch (rs_world s) of
       (Inl e, w) \<Rightarrow> (Inl e, s\<lparr>rs_world := w\<rparr>)
     | (Inr entries, w) \<Rightarrow>
         (case collect_keys api entries [] of
            Inl e \<Rightarrow> (Inl e, s\<lparr>rs_world := w\<rparr>)
          | Inr keys \<Rightarrow>
              (case published api entries kid of
                 None \<Rightarrow> raise_app AuthenticationError ''unknown token signing key''
               | Some k \<Rightarrow> Inr k, s\<lparr>rs_keys := keys, rs_world := w\<rparr>)))"
proof (cases "fetch (rs_world s)")
  case (Pair r w)
  show ?thesis
  proof (cases r)
    case (Inr entries)
    with assms Pair show ?thesis
      by (cases "collect_keys api entries []")
         (auto simp: resolver_get_def refresh_def act_bind_def collect_keys_lookup split: option.split)
  qed (use assms Pair in \<open>simp add: resolver_get_def refresh_def act_bind_def\<close>)
qed

lemmas resolver_cases = resolver_hit resolver_miss

text \<open>C31: the resolver fetches at most once per call, and only when the key id is not cached. A
  cached id costs no fetch and changes nothing. On a miss the one fetch either fails, and the
  cache keeps its content, or replaces the whole cache, and then the answer is the key of the
  last published entry with that very id, never another key.\<close>

theorem resolver_fetches_on_miss_only:
  "case resolver_get api fetch kid s of (r, s') \<Rightarrow>
     if dict_get (rs_keys s) kid \<noteq> None
     then s' = s \<and> Inr (the (dict_get (rs_keys s) kid)) = r
     else rs_world s' = snd (fetch (rs_world s))
       \<and> (case r of
            Inr key \<Rightarrow> (\<exists>entries. fst (fetch (rs_world s)) = Inr entries
               \<and> published api entries kid = Some key \<and> collect_keys api entries [] = Inr (rs_keys s'))
          | Inl e \<Rightarrow> rs_keys s' = rs_keys s
              \<or> (\<exists>entries. fst (fetch (rs_world s)) = Inr entries
                   \<and> published api entries kid = None \<and> collect_keys api entries [] = Inr (rs_keys s')))"
proof (cases "dict_get (rs_keys s) kid")
  case None
  then show ?thesis
    by (auto simp: resolver_miss split: prod.split sum.split option.split)
qed (simp add: resolver_hit)

section \<open>Acceptance\<close>

lemma key_id_Inr_iff:
  "key_id api token = Inr kid \<longleftrightarrow>
     (\<exists>header. unverified_header api token = Inr header
        \<and> dict_get header (lit ''kid'') = Some (JStr kid) \<and> kid \<noteq> [])"
  by (auto simp: key_id_def res_simps nonempty_str_Some_iff split: option.splits)

definition issued_in_future :: "pyfloat \<Rightarrow> pydict \<Rightarrow> bool" where
  "issued_in_future now claims = (case py_number (dict_get claims (lit ''iat'')) of
       Some t \<Rightarrow> float_gt t (float_add_int now CLOCK_SKEW_LEEWAY_SECONDS) | None \<Rightarrow> False)"

definition names_owner :: "pydict \<Rightarrow> owner_ctx \<Rightarrow> bool" where
  "names_owner claims ctx \<longleftrightarrow>
     (\<exists>d. dict_get claims (lit ''app_metadata'') = Some (JObj d)
        \<and> dict_get d (lit ''tenant_id'') = Some (JStr (owner_tenant_id ctx)))
   \<and> owner_tenant_id ctx \<noteq> []
   \<and> dict_get claims (lit ''sub'') = Some (JStr (owner_user_id ctx)) \<and> owner_user_id ctx \<noteq> []"

lemma reject_future_iat_iff: "reject_future_iat now claims = Inr u \<longleftrightarrow> \<not> issued_in_future now claims"
  by (auto simp: reject_future_iat_def issued_in_future_def split: option.split)

lemma claimed_tenant_id_iff:
  "claimed_tenant_id claims = Inr t \<longleftrightarrow>
     (\<exists>d. dict_get claims (lit ''app_metadata'') = Some (JObj d)
        \<and> dict_get d (lit ''tenant_id'') = Some (JStr t)) \<and> t \<noteq> []"
  by (auto simp: claimed_tenant_id_def nonempty_str_def split: option.splits json.splits if_splits)

lemma claimed_user_id_iff:
  "claimed_user_id claims = Inr u \<longleftrightarrow> dict_get claims (lit ''sub'') = Some (JStr u) \<and> u \<noteq> []"
  by (auto simp: claimed_user_id_def nonempty_str_def split: option.splits json.splits if_splits)

lemma owner_context_iff:
  "owner_context now claims = Inr ctx \<longleftrightarrow> \<not> issued_in_future now claims \<and> names_owner claims ctx"
  by (cases ctx)
     (auto simp: owner_context_def res_simps reject_future_iat_iff claimed_tenant_id_iff
       claimed_user_id_iff names_owner_def)

definition owner_options :: "'w owner_verifier \<Rightarrow> decode_options" where
  "owner_options v = pinned_options OWNER_ALGORITHMS (ov_issuer v) (ov_audience v)"

lemma owner_verify_Inr_iff:
  "owner_verify api v now token s = (Inr ctx, s') \<longleftrightarrow>
     (\<exists>kid key claims. key_id api token = Inr kid
        \<and> resolver_get api (ov_fetch v) kid s = (Inr key, s')
        \<and> jwt_decode api (at_decode now) token (PublicKey key) (owner_options v) = Inr claims
        \<and> \<not> issued_in_future (at_check now) claims \<and> names_owner claims ctx)"
  (is "?l \<longleftrightarrow> ?r")
proof
  assume ?l
  then obtain kid key where "key_id api token = Inr kid"
    and "resolver_get api (ov_fetch v) kid s = (Inr key, s')"
    and "bind_res (owner_decode api v now token key) (owner_context (at_check now)) = Inr ctx"
    by (auto simp: owner_verify_def elim!: act_bind_InrE)
  then show ?r
    by (auto simp: res_simps owner_decode_def owner_options_def owner_context_iff)
next
  assume ?r
  then obtain kid key claims where "key_id api token = Inr kid"
    and "resolver_get api (ov_fetch v) kid s = (Inr key, s')"
    and "jwt_decode api (at_decode now) token (PublicKey key) (owner_options v) = Inr claims"
    and "owner_context (at_check now) claims = Inr ctx"
    by (auto simp: owner_context_iff)
  then show ?l
    by (simp add: owner_verify_def act_bind_def owner_decode_def flip: owner_options_def)
qed

text \<open>C7: an owner token is accepted exactly when its header names a non-empty key id, the
  resolver has a key for that id, the JWT library accepts the token under that key with the
  algorithm list ES256, the configured issuer and audience and the three required claims,
  it is not issued more than ten seconds ahead, and the context is what app_metadata and the
  subject claim say, both non-empty strings.\<close>

theorem owner_accepts_iff:
  "owner_verify api v now token s = (Inr ctx, s') \<longleftrightarrow>
     (\<exists>header kid key claims. unverified_header api token = Inr header
        \<and> dict_get header (lit ''kid'') = Some (JStr kid) \<and> kid \<noteq> []
        \<and> resolver_get api (ov_fetch v) kid s = (Inr key, s')
        \<and> jwt_decode api (at_decode now) token (PublicKey key)
             \<lparr>do_algorithms = [lit ''ES256''], do_issuer = ov_issuer v, do_audience = ov_audience v,
              do_leeway = 10, do_require = [lit ''exp'', lit ''iss'', lit ''aud'']\<rparr> = Inr claims
        \<and> \<not> issued_in_future (at_check now) claims \<and> names_owner claims ctx)"
  unfolding owner_verify_Inr_iff key_id_Inr_iff owner_options_def pinned_options_def
    OWNER_ALGORITHMS_def CLOCK_SKEW_LEEWAY_SECONDS_def REQUIRED_CLAIMS_def
  by blast

section \<open>The pinned algorithm\<close>

lemma resolver_get_cached:
  "resolver_get api fetch kid s = (Inr key, s') \<Longrightarrow> dict_get (rs_keys s') kid = Some key"
proof (cases "dict_get (rs_keys s) kid")
  case None
  then show "resolver_get api fetch kid s = (Inr key, s') \<Longrightarrow> dict_get (rs_keys s') kid = Some key"
    by (auto simp: resolver_miss collect_keys_lookup split: prod.splits sum.splits option.splits)
qed (simp add: resolver_hit)

lemma owner_verify_genuine:
  assumes "decode_sound api signed"
    and "owner_verify api v now token s = (Inr ctx, s')"
  shows "\<exists>kid key claims. key_id api token = Inr kid \<and> dict_get (rs_keys s') kid = Some key
     \<and> signed token (lit ''ES256'') (PublicKey key) claims
     \<and> dict_get claims (lit ''iss'') = Some (JStr (ov_issuer v))
     \<and> names_audience claims (ov_audience v)
     \<and> not_expired claims (at_decode now) CLOCK_SKEW_LEEWAY_SECONDS
     \<and> \<not> issued_in_future (at_check now) claims
     \<and> names_owner claims ctx"
proof -
  obtain kid key claims where kid: "key_id api token = Inr kid"
    and get: "resolver_get api (ov_fetch v) kid s = (Inr key, s')"
    and dec: "jwt_decode api (at_decode now) token (PublicKey key) (owner_options v) = Inr claims"
    and names: "names_owner claims ctx" "\<not> issued_in_future (at_check now) claims"
    using assms(2) by (auto simp: owner_verify_Inr_iff)
  show ?thesis
    using decode_soundD [OF assms(1) dec] kid resolver_get_cached [OF get] names
    by (auto simp: owner_options_def pinned_options_def OWNER_ALGORITHMS_def)
qed

text \<open>With a JWT library that keeps its documented promise, an accepted owner token carries
  an ES256 signature that verifies under the key the resolver holds for its key id, was
  issued by the configured issuer for the configured audience, and has not expired. A token
  that is only signed by another algorithm (none, or HMAC with the public key as the secret)
  is never accepted, whatever its header says.\<close>

theorem owner_token_is_genuine:
  assumes "decode_sound api signed"
    and "owner_verify api v now token s = (Inr ctx, s')"
  shows "\<exists>kid key claims. key_id api token = Inr kid \<and> dict_get (rs_keys s') kid = Some key
     \<and> signed token (lit ''ES256'') (PublicKey key) claims
     \<and> dict_get claims (lit ''iss'') = Some (JStr (ov_issuer v))
     \<and> names_audience claims (ov_audience v)
     \<and> not_expired claims (at_decode now) CLOCK_SKEW_LEEWAY_SECONDS
     \<and> names_owner claims ctx"
  using owner_verify_genuine [OF assms] by blast

section \<open>The tenant\<close>

text \<open>The tenant and user come from \<open>app_metadata\<close> and the subject alone. Whatever value
  any other claim but the issue time is given, \<open>user_metadata\<close> included, the context or the
  refusal is the same.\<close>

theorem owner_context_ignores_other_claims:
  assumes "name \<notin> {lit ''app_metadata'', lit ''sub'', lit ''iat''}"
  shows "owner_context now (dict_set claims name val) = owner_context now claims"
  using assms
  by (auto simp: owner_context_def reject_future_iat_def claimed_tenant_id_def claimed_user_id_def)

theorem owner_context_ignores_other_claims_witness:
  "owner_context (FFin 0) (dict_set [(lit ''app_metadata'', JObj [(lit ''tenant_id'', JStr (lit ''tenant-a''))]),
       (lit ''sub'', JStr (lit ''u1''))]
     (lit ''user_metadata'') (JObj [(lit ''tenant_id'', JStr (lit ''tenant-b''))]))
   = Inr \<lparr>owner_tenant_id = lit ''tenant-a'', owner_user_id = lit ''u1''\<rparr>"
  by (subst owner_context_ignores_other_claims)
     (simp_all add: inj_lit owner_context_iff issued_in_future_def names_owner_def, simp_all add: lit_def)

section \<open>Refusals and escaping exceptions\<close>

definition key_unavailable :: "'k jwt_api \<Rightarrow> 'w jwks_fetcher \<Rightarrow> 'w \<Rightarrow> py_exc \<Rightarrow> bool" where
  "key_unavailable api fetch w x \<longleftrightarrow> fst (fetch w) = Inl (PyExc x)
     \<or> (\<exists>entries entry. fst (fetch w) = Inr entries \<and> entry \<in> set entries
          \<and> entry_kid entry \<noteq> None \<and> jwk_from_dict api entry = Inl x)"

lemma resolver_get_Inl:
  assumes "resolver_get api fetch kid s = (Inl e, s')"
  shows "dict_get (rs_keys s) kid = None \<and>
     (case e of
        PyExc x \<Rightarrow> key_unavailable api fetch (rs_world s) x
      | AppExc a \<Rightarrow> err_class a = AuthenticationError \<or> fst (fetch (rs_world s)) = Inl (AppExc a))"
proof (cases "dict_get (rs_keys s) kid")
  case None
  obtain r w where f: "fetch (rs_world s) = (r, w)" by (cases "fetch (rs_world s)")
  show ?thesis
  proof (cases r)
    case (Inl d)
    with assms None f show ?thesis by (auto simp: resolver_miss key_unavailable_def split: exc.split)
  next
    case (Inr entries)
    show ?thesis
    proof (cases "collect_keys api entries []")
      case (Inl d)
      then obtain entry x where "entry \<in> set entries" "entry_kid entry \<noteq> None"
          "jwk_from_dict api entry = Inl x" "d = PyExc x"
        using collect_keys_error [OF Inl] by blast
      then show ?thesis
        using assms None f \<open>r = Inr entries\<close> Inl by (fastforce simp: resolver_miss key_unavailable_def)
    next
      case (Inr keys)
      with assms None f \<open>r = Inr entries\<close> show ?thesis by (auto simp: resolver_miss split: option.splits)
    qed
  qed
qed (use assms in \<open>simp add: resolver_hit\<close>)

lemma owner_context_Inl:
  "owner_context now claims = Inl e \<Longrightarrow> \<exists>a. e = AppExc a \<and> err_class a = AuthenticationError"
  by (auto simp: owner_context_def res_simps reject_future_iat_def claimed_tenant_id_def claimed_user_id_def
      split: option.splits json.splits if_splits)

lemma key_id_Inl:
  "key_id api token = Inl e \<Longrightarrow>
     (\<exists>a. e = AppExc a \<and> err_class a = AuthenticationError)
   \<or> (\<exists>x. e = PyExc x \<and> unverified_header api token = Inl x \<and> x \<noteq> PyJWTError)"
  by (cases e) (auto simp: key_id_def res_simps guard_jwt_PyExc_iff guard_jwt_AppExc_iff split: option.splits)

lemma owner_decode_Inl:
  "owner_decode api v now token key = Inl e \<Longrightarrow>
     (\<exists>a. e = AppExc a \<and> err_class a = AuthenticationError)
   \<or> (\<exists>x. e = PyExc x \<and> x \<noteq> PyJWTError
        \<and> jwt_decode api (at_decode now) token (PublicKey key) (owner_options v) = Inl x)"
  by (cases e) (auto simp: owner_decode_def owner_options_def guard_jwt_PyExc_iff guard_jwt_AppExc_iff)

text \<open>C33: how a verification that fails, fails. Unless the fetch itself raises an AppError, every
  AppError is an AuthenticationError (401). Any other exception comes from one of three
  places: the JWT library raising something else than its own error class; and, on a cache
  miss, the fetch of the key set, or a published entry that the library rejects, whose error
  is not turned into a refusal even when it is of the JWT library's own class.\<close>

theorem owner_failures:
  assumes "\<And>w a. fst (ov_fetch v w) \<noteq> Inl (AppExc a)"
    and "owner_verify api v now token s = (Inl e, s')"
  shows "case e of
     AppExc a \<Rightarrow> err_class a = AuthenticationError
   | PyExc x \<Rightarrow> unverified_header api token = Inl x \<and> x \<noteq> PyJWTError
       \<or> (\<exists>kid. key_id api token = Inr kid \<and> dict_get (rs_keys s) kid = None
            \<and> key_unavailable api (ov_fetch v) (rs_world s) x)
       \<or> (\<exists>key. jwt_decode api (at_decode now) token (PublicKey key) (owner_options v) = Inl x
            \<and> x \<noteq> PyJWTError)"
proof (cases "key_id api token")
  case (Inl d)
  with assms(2) have "d = e" by (simp add: owner_verify_def act_bind_lift)
  then show ?thesis using key_id_Inl [OF Inl] by auto
next
  case kid: (Inr kid)
  obtain r s2 where get: "resolver_get api (ov_fetch v) kid s = (r, s2)"
    by (cases "resolver_get api (ov_fetch v) kid s")
  show ?thesis
  proof (cases r)
    case (Inl d)
    with assms(2) kid get have "d = e" by (simp add: owner_verify_def act_bind_def)
    then show ?thesis
      using resolver_get_Inl [of api "ov_fetch v" kid s d s2] get Inl kid assms(1)
      by (cases e) auto
  next
    case (Inr key)
    with assms(2) kid get have "bind_res (owner_decode api v now token key) (owner_context (at_check now)) = Inl e"
      by (simp add: owner_verify_def act_bind_def)
    then show ?thesis
      using owner_decode_Inl [of api v now token key e] owner_context_Inl [of "at_check now" _ e]
      by (fastforce simp: bind_res_Inl_iff)
  qed
qed

section \<open>Unknown key ids\<close>

text \<open>Verifying one token after another.\<close>

fun verify_each ::
  "'k jwt_api \<Rightarrow> 'w owner_verifier \<Rightarrow> clock \<Rightarrow> pystr list \<Rightarrow> ('k, 'w) resolver_state
     \<Rightarrow> (exc + owner_ctx) list \<times> ('k, 'w) resolver_state" where
  "verify_each api v now [] s = ([], s)"
| "verify_each api v now (t # ts) s =
     (case owner_verify api v now t s of (r, s') \<Rightarrow>
      (case verify_each api v now ts s' of (rs, s'') \<Rightarrow> (r # rs, s'')))"

lemma owner_verify_unknown:
  assumes "key_id api token = Inr kid" and "dict_get (rs_keys s) kid = None"
    and "ov_fetch v (rs_world s) = (Inr entries, w)"
    and "collect_keys api entries [] = Inr keys" and "published api entries kid = None"
  shows "owner_verify api v now token s =
    (raise_app AuthenticationError ''unknown token signing key'', s\<lparr>rs_keys := keys, rs_world := w\<rparr>)"
  using assms by (simp add: owner_verify_def act_bind_def resolver_miss raise_app_def)

text \<open>An unknown key id is not remembered. While the published set lacks the ids the
  presented tokens name, every token of a sequence causes a fetch of its own, however often
  an id repeats; nothing about the token has been verified at that point. This is a fetch
  per request, for requests anyone can send.\<close>

theorem unknown_kids_fetch_every_time:
  assumes "\<And>w. ov_fetch v w = (Inr entries, tick w)"
    and "collect_keys api entries [] = Inr keys"
    and "\<And>t. t \<in> set tokens \<Longrightarrow> \<exists>kid. key_id api t = Inr kid \<and> published api entries kid = None
           \<and> dict_get (rs_keys s) kid = None"
  shows "rs_world (snd (verify_each api v now tokens s)) = (tick ^^ length tokens) (rs_world s)"
  using assms(3)
proof (induction tokens arbitrary: s)
  case (Cons t ts)
  obtain kid where kid: "key_id api t = Inr kid" "published api entries kid = None"
    "dict_get (rs_keys s) kid = None" using Cons.prems [of t] by auto
  let ?s = "s\<lparr>rs_keys := keys, rs_world := tick (rs_world s)\<rparr>"
  have "owner_verify api v now t s = (raise_app AuthenticationError ''unknown token signing key'', ?s)"
    by (rule owner_verify_unknown [OF kid(1,3) assms(1,2) kid(2)])
  then have "snd (verify_each api v now (t # ts) s) = snd (verify_each api v now ts ?s)"
    by (simp split: prod.split)
  moreover have "rs_world (snd (verify_each api v now ts ?s)) = (tick ^^ length ts) (rs_world ?s)"
  proof (rule Cons.IH)
    fix u
    assume "u \<in> set ts"
    then obtain k where "key_id api u = Inr k" and p: "published api entries k = None"
      using Cons.prems [of u] by auto
    moreover have "dict_get (rs_keys ?s) k = None"
      using collect_keys_lookup [OF assms(2), of k] p by simp
    ultimately show "\<exists>kid. key_id api u = Inr kid \<and> published api entries kid = None
      \<and> dict_get (rs_keys ?s) kid = None" by blast
  qed
  ultimately show ?case by (simp add: funpow_swap1)
qed simp

section \<open>The dependency\<close>

text \<open>Across requests: the cached verifier, if there is one, was built from the settings the
  environment gives, which are the cached ones.\<close>

definition door_ok :: "environment \<Rightarrow> 'w http_get \<Rightarrow> ('k, 'w) owner_door \<Rightarrow> bool" where
  "door_ok env http s \<longleftrightarrow>
     (case od_settings s of
        None \<Rightarrow> od_verifier s = None
      | Some st \<Rightarrow> load_settings env = Inr st
          \<and> (od_verifier s = None \<or> od_verifier s = Some (build_owner_verifier http st)))"

lemma live_verifier_ok:
  assumes "door_ok env http s" and "live_verifier env http s = (r, s')"
  shows "door_ok env http s' \<and>
    (case r of Inl e \<Rightarrow> True
     | Inr v \<Rightarrow> \<exists>st. load_settings env = Inr st \<and> v = build_owner_verifier http st)"
  using assms
  by (auto simp: live_verifier_def get_settings_def door_ok_def Let_def
      split: option.splits sum.splits prod.splits)

lemma get_owner_context_ok:
  assumes "door_ok env http s"
  shows "door_ok env http (snd (get_owner_context api env http now hdr s))"
proof (cases "parse_bearer hdr")
  case (Inr token)
  obtain r s2 where lv: "live_verifier env http s = (r, s2)" by (cases "live_verifier env http s")
  then have "door_ok env http s2" using live_verifier_ok [OF assms lv] by simp
  then show ?thesis
    using Inr lv
    by (cases r)
       (auto simp: get_owner_context_def act_bind_def door_ok_def split: prod.splits option.splits)
qed (use assms in \<open>simp add: get_owner_context_def act_bind_def\<close>)


end
