(* ===== verification/Jwks_Threads.thy ===== *)
theory Jwks_Threads
  imports Owner_Facts
begin

text \<open>
  \<open>get_owner_context\<close> runs every verification in a worker thread, and all threads share one
  resolver without a lock. This theory models \<open>JwksKeyResolver.get\<close> and \<open>_refresh\<close> as steps of
  threads that interleave: each read or assignment of \<open>self._keys\<close> is one step, the fetch
  another, and the key set the server publishes may change at any time.
\<close>

section \<open>The step relation\<close>

text \<open>Where a thread is in \<open>get(kid)\<close>; past the fetch it holds the entries it was given, and a call
  that failed the exception it failed with.\<close>

datatype 'k get_point =
    Idle
  | Lookup pystr
  | Fetching pystr
  | Fetched pystr "pydict list"
  | Relookup pystr "pydict list"
  | Returned pystr 'k
  | Refused pystr "pydict list"
  | Failed pystr exc

text \<open>What a call that has ended has returned or raised.\<close>

fun get_outcome :: "'k get_point \<Rightarrow> (exc + 'k) option" where
  "get_outcome (Returned kid k) = Some (Inr k)"
| "get_outcome (Refused kid entries) = Some (raise_app AuthenticationError ''unknown token signing key'')"
| "get_outcome (Failed kid e) = Some (Inl e)"
| "get_outcome _ = None"

record 'k shared =
  sh_keys :: "(pystr, 'k) dict"
  sh_published :: "pydict list"
  sh_served :: "pydict list set"
  sh_threads :: "nat \<Rightarrow> 'k get_point"

definition move :: "nat \<Rightarrow> 'k get_point \<Rightarrow> 'k shared \<Rightarrow> 'k shared" where
  "move t p c = c\<lparr>sh_threads := (sh_threads c)(t := p)\<rparr>"

definition initial_shared :: "pydict list \<Rightarrow> 'k shared" where
  "initial_shared doc = \<lparr>sh_keys = [], sh_published = doc, sh_served = {}, sh_threads = (\<lambda>_. Idle)\<rparr>"

inductive get_step :: "'k jwt_api \<Rightarrow> 'k shared \<Rightarrow> 'k shared \<Rightarrow> bool" for api where
  call: "sh_threads c t = Idle \<Longrightarrow> get_step api c (move t (Lookup kid) c)"
| hit: "sh_threads c t = Lookup kid \<Longrightarrow> dict_get (sh_keys c) kid = Some k
    \<Longrightarrow> get_step api c (move t (Returned kid k) c)"
| miss: "sh_threads c t = Lookup kid \<Longrightarrow> dict_get (sh_keys c) kid = None
    \<Longrightarrow> get_step api c (move t (Fetching kid) c)"
| fetch_ok: "sh_threads c t = Fetching kid
    \<Longrightarrow> get_step api c (move t (Fetched kid (sh_published c))
          (c\<lparr>sh_served := insert (sh_published c) (sh_served c)\<rparr>))"
| fetch_error: "sh_threads c t = Fetching kid \<Longrightarrow> get_step api c (move t (Failed kid e) c)"
| assign: "sh_threads c t = Fetched kid entries \<Longrightarrow> collect_keys api entries [] = Inr keys
    \<Longrightarrow> get_step api c (move t (Relookup kid entries) (c\<lparr>sh_keys := keys\<rparr>))"
| reject: "sh_threads c t = Fetched kid entries \<Longrightarrow> collect_keys api entries [] = Inl e
    \<Longrightarrow> get_step api c (move t (Failed kid e) c)"
| found: "sh_threads c t = Relookup kid entries \<Longrightarrow> dict_get (sh_keys c) kid = Some k
    \<Longrightarrow> get_step api c (move t (Returned kid k) c)"
| unknown: "sh_threads c t = Relookup kid entries \<Longrightarrow> dict_get (sh_keys c) kid = None
    \<Longrightarrow> get_step api c (move t (Refused kid entries) c)"
| finish: "get_outcome (sh_threads c t) \<noteq> None
    \<Longrightarrow> get_step api c (move t Idle c)"
| rotate: "get_step api c (c\<lparr>sh_published := doc\<rparr>)"

inductive reachable :: "'k jwt_api \<Rightarrow> 'k shared \<Rightarrow> 'k shared \<Rightarrow> bool" for api c0 where
  refl: "reachable api c0 c0"
| step: "reachable api c0 c \<Longrightarrow> get_step api c d \<Longrightarrow> reachable api c0 d"

lemma move_simps [simp]:
  "sh_keys (move t p c) = sh_keys c"
  "sh_published (move t p c) = sh_published c"
  "sh_served (move t p c) = sh_served c"
  "sh_threads (move t p c) u = (if u = t then p else sh_threads c u)"
  by (simp_all add: move_def)

section \<open>The invariant\<close>

text \<open>The cache is empty or the collection of one served document, never a mixture of two and
  never half built; threads hold served documents and return published keys.\<close>

definition cache_ok :: "'k jwt_api \<Rightarrow> 'k shared \<Rightarrow> bool" where
  "cache_ok api c \<longleftrightarrow> sh_keys c = [] \<or> (\<exists>doc \<in> sh_served c. collect_keys api doc [] = Inr (sh_keys c))"

fun point_ok :: "'k jwt_api \<Rightarrow> pydict list set \<Rightarrow> 'k get_point \<Rightarrow> bool" where
  "point_ok api served (Fetched kid entries) = (entries \<in> served)"
| "point_ok api served (Relookup kid entries) = (entries \<in> served)"
| "point_ok api served (Refused kid entries) = (entries \<in> served)"
| "point_ok api served (Returned kid k) = (\<exists>doc \<in> served. published api doc kid = Some k)"
| "point_ok api served _ = True"

definition threads_ok :: "'k jwt_api \<Rightarrow> 'k shared \<Rightarrow> bool" where
  "threads_ok api c \<longleftrightarrow> (\<forall>t. point_ok api (sh_served c) (sh_threads c t))"

lemma point_ok_mono: "point_ok api A p \<Longrightarrow> A \<subseteq> B \<Longrightarrow> point_ok api B p"
  by (cases p) auto

lemma cache_ok_lookup:
  "cache_ok api c \<Longrightarrow> dict_get (sh_keys c) kid = Some k \<Longrightarrow>
     \<exists>doc \<in> sh_served c. published api doc kid = Some k"
  by (auto simp: cache_ok_def collect_keys_lookup split: option.splits)

lemma threads_ok_move:
  "threads_ok api c \<Longrightarrow> point_ok api (sh_served c) p \<Longrightarrow> threads_ok api (move t p c)"
  by (simp add: threads_ok_def)

lemma cache_ok_move: "cache_ok api c \<Longrightarrow> cache_ok api (move t p c)"
  by (simp add: cache_ok_def)

lemma served_mono: "get_step api c d \<Longrightarrow> sh_served c \<subseteq> sh_served d"
  by (induction rule: get_step.induct) auto

lemma get_step_ok:
  assumes "get_step api c d" and "cache_ok api c" and "threads_ok api c"
  shows "cache_ok api d \<and> threads_ok api d"
  using assms
proof (induction rule: get_step.induct)
  case (hit c t kid k)
  then show ?case using cache_ok_lookup [of api c kid k] by (simp add: cache_ok_move threads_ok_move)
next
  case (found c t kid entries k)
  then show ?case using cache_ok_lookup [of api c kid k] by (simp add: cache_ok_move threads_ok_move)
next
  case (fetch_ok c t kid)
  let ?c = "c\<lparr>sh_served := insert (sh_published c) (sh_served c)\<rparr>"
  have "threads_ok api ?c"
    using fetch_ok.prems(2) unfolding threads_ok_def by (auto intro: point_ok_mono)
  moreover have "cache_ok api ?c" using fetch_ok.prems(1) by (auto simp: cache_ok_def)
  ultimately show ?case by (simp add: cache_ok_move threads_ok_move)
next
  case (assign c t kid entries keys)
  have e: "entries \<in> sh_served c"
    using assign.prems(2) assign.hyps(1) unfolding threads_ok_def by (metis point_ok.simps(1))
  have "threads_ok api (c\<lparr>sh_keys := keys\<rparr>)" using assign.prems(2) by (simp add: threads_ok_def)
  moreover have "cache_ok api (c\<lparr>sh_keys := keys\<rparr>)" using e assign.hyps(2) by (auto simp: cache_ok_def)
  ultimately show ?case using e by (simp add: cache_ok_move threads_ok_move)
next
  case (unknown c t kid entries)
  have "entries \<in> sh_served c"
    using unknown.prems(2) unknown.hyps(1) unfolding threads_ok_def by (metis point_ok.simps(2))
  with unknown show ?case by (simp add: cache_ok_move threads_ok_move)
next
  case (rotate c doc)
  then show ?case by (simp add: cache_ok_def threads_ok_def)
qed (simp_all add: cache_ok_move threads_ok_move)

lemma reachable_ok:
  "reachable api c0 c \<Longrightarrow> cache_ok api c0 \<Longrightarrow> threads_ok api c0 \<Longrightarrow> cache_ok api c \<and> threads_ok api c"
  by (induction rule: reachable.induct) (auto dest: get_step_ok)

lemma initial_ok: "cache_ok api (initial_shared doc)" "threads_ok api (initial_shared doc)"
  by (simp_all add: initial_shared_def cache_ok_def threads_ok_def)

text \<open>C29: sharing the resolver between threads without a lock never yields a wrong key. In
  every reachable state, whatever the interleaving and however often the published set
  changes, the cache is empty or the collection of exactly one document the server sent, and
  a key a thread returned for a key id is the key some sent document publishes under that
  id.\<close>

theorem threads_return_published_keys:
  assumes "reachable api (initial_shared doc0) c"
  shows "(sh_keys c = [] \<or> (\<exists>doc. doc \<in> sh_served c \<and> collect_keys api doc [] = Inr (sh_keys c)))
     \<and> (sh_threads c t = Returned kid k \<longrightarrow>
          (\<exists>doc. doc \<in> sh_served c \<and> published api doc kid = Some k))"
proof -
  have "cache_ok api c" and th: "threads_ok api c" using reachable_ok [OF assms initial_ok] by auto
  moreover have "point_ok api (sh_served c) (sh_threads c t)" using th by (simp add: threads_ok_def)
  ultimately show ?thesis by (auto simp: cache_ok_def)
qed

section \<open>A run of one thread\<close>

text \<open>A run in which only thread \<open>t\<close> moves, until its call ends: no other thread's point changes,
  nor does the published document.\<close>

inductive solo_run :: "'k jwt_api \<Rightarrow> nat \<Rightarrow> 'k shared \<Rightarrow> 'k shared \<Rightarrow> bool" for api t c where
  solo_refl: "solo_run api t c c"
| solo_step: "solo_run api t c d \<Longrightarrow> get_step api d e \<Longrightarrow> get_outcome (sh_threads d t) = None
    \<Longrightarrow> \<forall>u. u \<noteq> t \<longrightarrow> sh_threads e u = sh_threads d u \<Longrightarrow> sh_published e = sh_published d
    \<Longrightarrow> solo_run api t c e"

lemma solo_move:
  "solo_run api t c d \<Longrightarrow> get_step api d (move t p d') \<Longrightarrow> get_outcome (sh_threads d t) = None
     \<Longrightarrow> sh_threads d' = sh_threads d \<Longrightarrow> sh_published d' = sh_published d
     \<Longrightarrow> solo_run api t c (move t p d')"
  by (erule solo_step) simp_all

text \<open>What the sequential \<open>resolver_get\<close> may come to on a cache, when the server publishes a document:
  the one fetch answers with that document, or fails.\<close>

definition resolver_may ::
  "'k jwt_api \<Rightarrow> pydict list \<Rightarrow> (pystr, 'k) dict \<Rightarrow> pystr \<Rightarrow> exc + 'k \<Rightarrow> (pystr, 'k) dict \<Rightarrow> bool" where
  "resolver_may api doc keys kid r keys' \<longleftrightarrow>
     (\<exists>answer. (answer = Inr doc \<or> (\<exists>e. answer = Inl e))
        \<and> resolver_get api (\<lambda>w. (answer, w)) kid \<lparr>rs_keys = keys, rs_world = ()\<rparr> = (r, \<lparr>rs_keys = keys', rs_world = ()\<rparr>))"

lemma resolver_may_hit:
  "dict_get keys kid = Some k \<Longrightarrow> resolver_may api doc keys kid r keys' \<longleftrightarrow> r = Inr k \<and> keys' = keys"
  by (auto simp: resolver_may_def resolver_hit)

lemma resolver_may_miss:
  "dict_get keys kid = None \<Longrightarrow> resolver_may api doc keys kid r keys' \<longleftrightarrow>
     (\<exists>e. r = Inl e \<and> keys' = keys)
   \<or> (\<exists>new. collect_keys api doc [] = Inr new \<and> keys' = new
        \<and> r = (case dict_get new kid of
                None \<Rightarrow> raise_app AuthenticationError ''unknown token signing key'' | Some k \<Rightarrow> Inr k))"
  unfolding resolver_may_def
  by (cases "collect_keys api doc []")
     (auto simp: resolver_miss collect_keys_lookup split: option.split)

section \<open>From the steps to the resolver\<close>

fun solo_at :: "'k jwt_api \<Rightarrow> 'k shared \<Rightarrow> pystr \<Rightarrow> (pystr, 'k) dict \<Rightarrow> 'k get_point \<Rightarrow> bool" where
  "solo_at api c kid keys (Lookup kid') = (kid' = kid \<and> keys = sh_keys c)"
| "solo_at api c kid keys (Fetching kid') = (kid' = kid \<and> keys = sh_keys c \<and> dict_get (sh_keys c) kid = None)"
| "solo_at api c kid keys (Fetched kid' entries) =
     (kid' = kid \<and> keys = sh_keys c \<and> dict_get (sh_keys c) kid = None \<and> entries = sh_published c)"
| "solo_at api c kid keys (Relookup kid' entries) =
     (kid' = kid \<and> dict_get (sh_keys c) kid = None \<and> collect_keys api (sh_published c) [] = Inr keys)"
| "solo_at api c kid keys Idle = False"
| "solo_at api c kid keys p = (\<exists>r. get_outcome p = Some r \<and> resolver_may api (sh_published c) (sh_keys c) kid r keys)"

lemma solo_at_step:
  assumes "get_step api d e" and "get_outcome (sh_threads d t) = None"
    and "\<forall>u. u \<noteq> t \<longrightarrow> sh_threads e u = sh_threads d u"
    and "sh_published d = sh_published c" and "solo_at api c kid (sh_keys d) (sh_threads d t)"
  shows "solo_at api c kid (sh_keys e) (sh_threads e t)"
  using assms
proof (induction rule: get_step.induct)
  case (call d u kid')
  then show ?case by (cases "u = t") auto
next
  case (hit d u kid' k)
  then show ?case by (cases "u = t") (auto simp: resolver_may_hit)
next
  case (miss d u kid')
  then show ?case by (cases "u = t") auto
next
  case (fetch_ok d u kid')
  then show ?case by (cases "u = t") auto
next
  case (fetch_error d u kid' x)
  then show ?case by (cases "u = t") (auto simp: resolver_may_miss)
next
  case (assign d u kid' entries keys)
  then show ?case by (cases "u = t") auto
next
  case (reject d u kid' entries x)
  then show ?case by (cases "u = t") (auto simp: resolver_may_miss)
next
  case (found d u kid' entries k)
  then show ?case by (cases "u = t") (auto simp: resolver_may_miss)
next
  case (unknown d u kid' entries)
  then show ?case by (cases "u = t") (auto simp: resolver_may_miss)
next
  case (finish d u)
  then show ?case by (cases "u = t") auto
qed simp

lemma solo_run_at:
  assumes "solo_run api t c d" and "sh_threads c t = Lookup kid"
  shows "sh_published d = sh_published c \<and> solo_at api c kid (sh_keys d) (sh_threads d t)"
  using assms(1)
proof (induction rule: solo_run.induct)
  case (solo_step d e)
  then show ?case using solo_at_step [of api d e t c kid] by simp
qed (use assms(2) in simp)

lemma solo_at_outcome:
  "solo_at api c kid keys p \<Longrightarrow> get_outcome p = Some r \<Longrightarrow> resolver_may api (sh_published c) (sh_keys c) kid r keys"
  by (cases p) auto

section \<open>From the resolver to the steps\<close>

lemma solo_miss:
  assumes "sh_threads c t = Lookup kid" and "dict_get (sh_keys c) kid = None"
  shows "solo_run api t c (move t (Fetching kid) c)"
  by (rule solo_move [OF solo_refl get_step.miss [OF assms]]) (simp_all add: assms)

lemma solo_fetch:
  assumes "sh_threads c t = Lookup kid" and "dict_get (sh_keys c) kid = None"
  shows "solo_run api t c (move t (Fetched kid (sh_published c))
    ((move t (Fetching kid) c)\<lparr>sh_served := insert (sh_published c) (sh_served c)\<rparr>))"
  by (rule solo_move [OF solo_miss [OF assms]])
     (use get_step.fetch_ok [of "move t (Fetching kid) c" t kid api] in simp_all)

lemma solo_assign:
  assumes "sh_threads c t = Lookup kid" and "dict_get (sh_keys c) kid = None"
    and "collect_keys api (sh_published c) [] = Inr new"
  shows "\<exists>d. solo_run api t c d \<and> sh_keys d = new \<and> sh_threads d t = Relookup kid (sh_published c)"
proof -
  let ?c2 = "move t (Fetched kid (sh_published c))
    ((move t (Fetching kid) c)\<lparr>sh_served := insert (sh_published c) (sh_served c)\<rparr>)"
  let ?d = "move t (Relookup kid (sh_published c)) (?c2\<lparr>sh_keys := new\<rparr>)"
  have "solo_run api t c ?d"
    by (rule solo_move [OF solo_fetch [OF assms(1,2)] get_step.assign [OF _ assms(3)]]) simp_all
  then show ?thesis by (intro exI [of _ ?d]) simp
qed

lemma solo_relookup:
  assumes "solo_run api t c d" and "sh_threads d t = Relookup kid entries"
  shows "\<exists>e. solo_run api t c e \<and> sh_keys e = sh_keys d \<and> get_outcome (sh_threads e t) =
    Some (case dict_get (sh_keys d) kid of
            None \<Rightarrow> raise_app AuthenticationError ''unknown token signing key'' | Some k \<Rightarrow> Inr k)"
proof (cases "dict_get (sh_keys d) kid")
  case None
  have "solo_run api t c (move t (Refused kid entries) d)"
    by (rule solo_move [OF assms(1) get_step.unknown [OF assms(2) None]]) (simp_all add: assms(2))
  with None show ?thesis by (intro exI [of _ "move t (Refused kid entries) d"]) simp
next
  case (Some k)
  have "solo_run api t c (move t (Returned kid k) d)"
    by (rule solo_move [OF assms(1) get_step.found [OF assms(2) Some]]) (simp_all add: assms(2))
  with Some show ?thesis by (intro exI [of _ "move t (Returned kid k) d"]) simp
qed

lemma solo_hit:
  assumes "sh_threads c t = Lookup kid" and "dict_get (sh_keys c) kid = Some k"
  shows "\<exists>d. solo_run api t c d \<and> sh_keys d = sh_keys c \<and> get_outcome (sh_threads d t) = Some (Inr k)"
proof -
  have "solo_run api t c (move t (Returned kid k) c)"
    by (rule solo_move [OF solo_refl get_step.hit [OF assms]]) (simp_all add: assms)
  then show ?thesis by (intro exI [of _ "move t (Returned kid k) c"]) simp
qed

lemma solo_fails:
  assumes "sh_threads c t = Lookup kid" and "dict_get (sh_keys c) kid = None"
  shows "\<exists>d. solo_run api t c d \<and> sh_keys d = sh_keys c \<and> get_outcome (sh_threads d t) = Some (Inl e)"
proof -
  have "solo_run api t c (move t (Failed kid e) (move t (Fetching kid) c))"
    by (rule solo_move [OF solo_miss [OF assms] get_step.fetch_error]) simp_all
  then show ?thesis by (intro exI [of _ "move t (Failed kid e) (move t (Fetching kid) c)"]) simp
qed

lemma solo_ends:
  assumes "sh_threads d t \<noteq> Idle"
  shows "\<exists>e. solo_run api t d e \<and> get_outcome (sh_threads e t) \<noteq> None"
proof (cases "sh_threads d t")
  case (Lookup kid)
  then show ?thesis
    using solo_hit [of d t kid _ api] solo_fails [of d t kid api]
    by (cases "dict_get (sh_keys d) kid") force+
next
  case (Fetching kid)
  have "solo_run api t d (move t (Failed kid e) d)" for e
    by (rule solo_move [OF solo_refl get_step.fetch_error [OF Fetching]]) (simp_all add: Fetching)
  then show ?thesis by (intro exI [of _ "move t (Failed kid undefined) d"]) simp
next
  case (Fetched kid entries)
  show ?thesis
  proof (cases "collect_keys api entries []")
    case (Inl e)
    have "solo_run api t d (move t (Failed kid e) d)"
      by (rule solo_move [OF solo_refl get_step.reject [OF Fetched Inl]]) (simp_all add: Fetched)
    then show ?thesis by (intro exI [of _ "move t (Failed kid e) d"]) simp
  next
    case (Inr new)
    have "solo_run api t d (move t (Relookup kid entries) (d\<lparr>sh_keys := new\<rparr>))"
      by (rule solo_move [OF solo_refl get_step.assign [OF Fetched Inr]]) (simp_all add: Fetched)
    from solo_relookup [OF this] show ?thesis by fastforce
  qed
next
  case (Relookup kid entries)
  from solo_relookup [OF solo_refl this] show ?thesis by fastforce
qed (use assms solo_refl in fastforce)+

text \<open>C30: the steps refine the sequential resolver, and nothing else. A thread that looks up a key id
  and moves alone ends with an outcome (the very key or the very exception) and a cache if and
  only if \<open>resolver_get\<close>, on the same cache, gives that outcome and leaves that cache for a fetch
  that answers with the published document or fails with some exception; and from wherever it
  is on the way it can reach such an end.\<close>

theorem solo_thread_matches_resolver:
  assumes "sh_threads c t = Lookup kid"
  shows "((\<exists>d. solo_run api t c d \<and> get_outcome (sh_threads d t) = Some r \<and> sh_keys d = keys')
      \<longleftrightarrow> (\<exists>answer. (answer = Inr (sh_published c) \<or> (\<exists>e. answer = Inl e))
            \<and> resolver_get api (\<lambda>w. (answer, w)) kid \<lparr>rs_keys = sh_keys c, rs_world = ()\<rparr>
              = (r, \<lparr>rs_keys = keys', rs_world = ()\<rparr>)))
    \<and> (\<forall>d. solo_run api t c d \<longrightarrow> (\<exists>e. solo_run api t d e \<and> get_outcome (sh_threads e t) \<noteq> None))"
proof (rule conjI, fold resolver_may_def, rule iffI)
  show "\<exists>d. solo_run api t c d \<and> get_outcome (sh_threads d t) = Some r \<and> sh_keys d = keys'"
    if may: "resolver_may api (sh_published c) (sh_keys c) kid r keys'"
  proof (cases "dict_get (sh_keys c) kid")
    case (Some k)
    with may solo_hit [OF assms Some, of api] show ?thesis by (auto simp: resolver_may_hit)
  next
    case None
    from may [unfolded resolver_may_miss [OF None]] show ?thesis
    proof (elim disjE exE conjE)
      fix e
      assume "r = Inl e" "keys' = sh_keys c"
      with solo_fails [OF assms None, of api e] show ?thesis by auto
    next
      fix new
      assume new: "collect_keys api (sh_published c) [] = Inr new" "keys' = new"
        and r: "r = (case dict_get new kid of
          None \<Rightarrow> raise_app AuthenticationError ''unknown token signing key'' | Some k \<Rightarrow> Inr k)"
      obtain d where "solo_run api t c d" "sh_keys d = new" "sh_threads d t = Relookup kid (sh_published c)"
        using solo_assign [OF assms None new(1)] by blast
      with solo_relookup [of api t c d kid "sh_published c"] new(2) r show ?thesis by fastforce
    qed
  qed
next
  assume "\<exists>d. solo_run api t c d \<and> get_outcome (sh_threads d t) = Some r \<and> sh_keys d = keys'"
  then obtain d where d: "solo_run api t c d" "get_outcome (sh_threads d t) = Some r" "sh_keys d = keys'" by blast
  from solo_run_at [OF d(1) assms] show "resolver_may api (sh_published c) (sh_keys c) kid r keys'"
    using solo_at_outcome [OF _ d(2)] d(3) by blast
next
  show "\<forall>d. solo_run api t c d \<longrightarrow> (\<exists>e. solo_run api t d e \<and> get_outcome (sh_threads e t) \<noteq> None)"
  proof (intro allI impI)
    fix d
    assume "solo_run api t c d"
    from solo_run_at [OF this assms] have "sh_threads d t \<noteq> Idle" by auto
    then show "\<exists>e. solo_run api t d e \<and> get_outcome (sh_threads e t) \<noteq> None" by (rule solo_ends)
  qed
qed

end
