(* ===== verification/Owner_Examples.thy ===== *)
theory Owner_Examples
  imports Jwks_Threads
begin

text \<open>
  The owner door on a small JWT library with one signed token and a server that counts its
  fetches: instances of the properties, and the interleaving in which a thread refuses a key
  id that the document it has itself just fetched publishes.
\<close>

section \<open>A JWT library and a key server\<close>

definition example_claims :: pydict where
  "example_claims =
     [(lit ''iss'', JStr (lit ''iss'')), (lit ''aud'', JStr (lit ''authenticated'')),
      (lit ''exp'', JInt 2000), (lit ''sub'', JStr (lit ''u1'')),
      (lit ''app_metadata'', JObj [(lit ''tenant_id'', JStr (lit ''tenant-a''))])]"

definition example_decode :: "pyfloat \<Rightarrow> pystr \<Rightarrow> nat jwt_key \<Rightarrow> decode_options \<Rightarrow> py_exc + pydict" where
  "example_decode now token key opts =
     (if token = lit ''good'' \<and> key = PublicKey 1 \<and> lit ''ES256'' \<in> set (do_algorithms opts)
         \<and> do_issuer opts = lit ''iss'' \<and> do_audience opts = lit ''authenticated''
         \<and> float_gt (FFin (of_int (2000 + do_leeway opts))) now
      then Inr example_claims else Inl PyJWTError)"

definition example_jwt :: "nat jwt_api" where
  "example_jwt =
     \<lparr>unverified_header = (\<lambda>token.
        if token = lit ''good'' then Inr [(lit ''kid'', JStr (lit ''k1''))]
        else if token = lit ''forged'' then Inr [(lit ''kid'', JStr (lit ''k9''))]
        else Inl PyJWTError),
      jwt_decode = example_decode,
      jwt_encode = (\<lambda>claims key alg. Inl PyJWTError),
      jwk_from_dict = (\<lambda>entry. case dict_get entry (lit ''n'') of
        Some (JInt n) \<Rightarrow> Inr (nat n) | _ \<Rightarrow> Inl PyJWTError)\<rparr>"

definition example_signed :: "pystr \<Rightarrow> pystr \<Rightarrow> nat jwt_key \<Rightarrow> pydict \<Rightarrow> bool" where
  "example_signed token alg key claims \<longleftrightarrow>
     token = lit ''good'' \<and> alg = lit ''ES256'' \<and> key = PublicKey 1 \<and> claims = example_claims"

definition key_entry :: "string \<Rightarrow> int \<Rightarrow> pydict" where
  "key_entry kid n = [(lit ''kid'', JStr (lit kid)), (lit ''n'', JInt n)]"

definition counting_fetch :: "pydict list \<Rightarrow> nat jwks_fetcher" where
  "counting_fetch entries w = (Inr entries, w + 1)"

definition example_verifier :: "pydict list \<Rightarrow> nat owner_verifier" where
  "example_verifier entries =
     \<lparr>ov_fetch = counting_fetch entries, ov_issuer = lit ''iss'', ov_audience = lit ''authenticated''\<rparr>"

definition noon :: clock where
  "noon = \<lparr>at_decode = FFin 1500, at_check = FFin 1500\<rparr>"

definition cold :: "(nat, nat) resolver_state" where
  "cold = \<lparr>rs_keys = [], rs_world = 0\<rparr>"

lemma example_decode_sound: "decode_sound example_jwt example_signed"
  unfolding decode_sound_def
  by (auto simp: example_jwt_def example_decode_def example_signed_def example_claims_def inj_lit
      names_audience_def not_expired_def split: if_splits)

lemma example_owner_accept:
  "owner_verify example_jwt (example_verifier [key_entry ''k1'' 1]) noon (lit ''good'') cold
   = (Inr \<lparr>owner_tenant_id = lit ''tenant-a'', owner_user_id = lit ''u1''\<rparr>,
      \<lparr>rs_keys = [(lit ''k1'', 1)], rs_world = 1\<rparr>)"
  by code_simp

section \<open>Instances of the properties\<close>

theorem owner_token_is_genuine_witness:
  "\<exists>key claims. example_signed (lit ''good'') (lit ''ES256'') (PublicKey key) claims
     \<and> names_owner claims \<lparr>owner_tenant_id = lit ''tenant-a'', owner_user_id = lit ''u1''\<rparr>"
  using owner_token_is_genuine [OF example_decode_sound example_owner_accept] by blast

lemma counting_fetch_no_AppExc: "fst (ov_fetch (example_verifier es) w) \<noteq> Inl (AppExc a)"
  by (simp add: example_verifier_def counting_fetch_def)

text \<open>An entry the JWT library rejects: its PyJWTError escapes.\<close>

theorem owner_failures_witness:
  "fst (owner_verify example_jwt (example_verifier [[(lit ''kid'', JStr (lit ''k2''))]]) noon (lit ''good'') cold)
     = Inl (PyExc PyJWTError)
 \<and> key_unavailable example_jwt (counting_fetch [[(lit ''kid'', JStr (lit ''k2''))]]) 0 PyJWTError"
proof -
  let ?v = "example_verifier [[(lit ''kid'', JStr (lit ''k2''))]]"
  have run: "owner_verify example_jwt ?v noon (lit ''good'') cold = (Inl (PyExc PyJWTError), cold\<lparr>rs_world := 1\<rparr>)"
    by code_simp
  have "jwt_decode example_jwt t tok k opts = Inl x \<Longrightarrow> x = PyJWTError" for t tok k opts x
    by (simp add: example_jwt_def example_decode_def split: if_splits)
  with run show ?thesis
    using owner_failures [OF counting_fetch_no_AppExc run]
    by (auto simp: example_verifier_def cold_def)
qed

theorem unknown_kids_fetch_every_time_witness:
  "rs_world (snd (verify_each example_jwt (example_verifier [key_entry ''k1'' 1]) noon
     [lit ''forged'', lit ''forged'', lit ''forged''] cold)) = 3"
proof -
  have keys: "collect_keys example_jwt [key_entry ''k1'' 1] [] = Inr [(lit ''k1'', 1)]" by code_simp
  have kid: "key_id example_jwt (lit ''forged'') = Inr (lit ''k9'')"
    and pub: "published example_jwt [key_entry ''k1'' 1] (lit ''k9'') = None" by code_simp+
  have "rs_world (snd (verify_each example_jwt (example_verifier [key_entry ''k1'' 1]) noon
      [lit ''forged'', lit ''forged'', lit ''forged''] cold))
    = (Suc ^^ length [lit ''forged'', lit ''forged'', lit ''forged'']) (rs_world cold)"
    by (rule unknown_kids_fetch_every_time [OF _ keys])
       (use kid pub in \<open>auto simp: example_verifier_def counting_fetch_def cold_def\<close>)
  then show ?thesis by (simp add: cold_def)
qed

definition example_owner_env :: environment where
  "example_owner_env =
     \<lparr>env_fault = None, env_str = (\<lambda>name. if name = lit ''supabase_jwt_audience'' then Unset else Given (lit ''iss'')),
      env_int = (\<lambda>name. Unset), env_strs = (\<lambda>name. Unset)\<rparr>"

definition example_http :: "nat http_get" where
  "example_http url timeout w =
     (Inr \<lparr>hr_raise_for_status = Inr (),
           hr_json = Inr (JObj [(lit ''keys'', JArr [JObj (key_entry ''k1'' 1), JNull])])\<rparr>, w + 1)"

definition fresh_door :: "(nat, nat) owner_door" where
  "fresh_door = \<lparr>od_settings = None, od_verifier = None, od_resolver = cold\<rparr>"


section \<open>A race\<close>

definition old_doc :: "pydict list" where
  "old_doc = []"

definition new_doc :: "pydict list" where
  "new_doc = [key_entry ''k9'' 9]"

text \<open>Thread 3 fetches before a rotation and assigns late, between thread 2's assignment and
  its second look.\<close>

definition race_state :: "nat get_point \<Rightarrow> nat get_point \<Rightarrow> (pystr, nat) dict \<Rightarrow> pydict list
    \<Rightarrow> pydict list set \<Rightarrow> nat shared" where
  "race_state p q keys doc served =
     \<lparr>sh_keys = keys, sh_published = doc, sh_served = served,
      sh_threads = (\<lambda>t. if t = 3 then p else if t = 2 then q else Idle)\<rparr>"

lemma race_moves:
  "move 3 p' (race_state p q keys doc served) = race_state p' q keys doc served"
  "move 2 q' (race_state p q keys doc served) = race_state p q' keys doc served"
  by (auto simp: move_def race_state_def)

lemma race_fields [simp]:
  "sh_keys (race_state p q keys doc served) = keys"
  "sh_published (race_state p q keys doc served) = doc"
  "sh_served (race_state p q keys doc served) = served"
  "sh_threads (race_state p q keys doc served) 3 = p"
  "sh_threads (race_state p q keys doc served) 2 = q"
  "(race_state p q keys doc served)\<lparr>sh_keys := keys'\<rparr> = race_state p q keys' doc served"
  "(race_state p q keys doc served)\<lparr>sh_served := served'\<rparr> = race_state p q keys doc served'"
  "(race_state p q keys doc served)\<lparr>sh_published := doc'\<rparr> = race_state p q keys doc' served"
  by (simp_all add: race_state_def)

lemma race_initial: "initial_shared old_doc = race_state Idle Idle [] old_doc {}"
  by (auto simp: initial_shared_def race_state_def)

lemma race_step1:
  assumes "get_step api (race_state p q keys doc served) (move 3 p' (race_state p q keys' doc served'))"
    and "reachable api c0 (race_state p q keys doc served)"
  shows "reachable api c0 (race_state p' q keys' doc served')"
  using reachable.step [OF assms(2,1)] by (simp add: race_moves)

lemma race_step2:
  assumes "get_step api (race_state p q keys doc served) (move 2 q' (race_state p q keys' doc served'))"
    and "reachable api c0 (race_state p q keys doc served)"
  shows "reachable api c0 (race_state p q' keys' doc served')"
  using reachable.step [OF assms(2,1)] by (simp add: race_moves)

lemma collect_old: "collect_keys example_jwt old_doc [] = Inr []"
  and collect_new: "collect_keys example_jwt new_doc [] = Inr [(lit ''k9'', 9)]"
  and published_new: "published example_jwt new_doc (lit ''k9'') = Some 9"
  by code_simp+

lemma race_midway:
  "reachable example_jwt (initial_shared old_doc)
     (race_state (Fetched (lit ''k9'') old_doc) (Relookup (lit ''k9'') new_doc) [(lit ''k9'', 9)] new_doc
        {new_doc, old_doc})"
    (is "reachable _ ?c0 _")
proof -
  let ?k = "lit ''k9''"
  have "reachable example_jwt ?c0 (race_state Idle Idle [] old_doc {})"
    unfolding race_initial by (rule reachable.refl)
  then have "reachable example_jwt ?c0 (race_state (Lookup ?k) Idle [] old_doc {})"
    by (rule race_step1 [OF get_step.call, rotated]) simp
  then have "reachable example_jwt ?c0 (race_state (Fetching ?k) Idle [] old_doc {})"
    by (rule race_step1 [OF get_step.miss, rotated 2]) simp_all
  then have "reachable example_jwt ?c0 (race_state (Fetched ?k old_doc) Idle [] old_doc {old_doc})"
    using get_step.fetch_ok [of "race_state (Fetching ?k) Idle [] old_doc {}" 3 ?k example_jwt]
    by - (rule race_step1 [where p = "Fetching ?k" and served = "{}" and keys = "[]"], simp_all)
  then have "reachable example_jwt ?c0 (race_state (Fetched ?k old_doc) Idle [] new_doc {old_doc})"
    using reachable.step [OF _ get_step.rotate [of _ "race_state (Fetched ?k old_doc) Idle [] old_doc {old_doc}" new_doc]]
    by simp
  then have "reachable example_jwt ?c0 (race_state (Fetched ?k old_doc) (Lookup ?k) [] new_doc {old_doc})"
    by (rule race_step2 [OF get_step.call, rotated]) simp
  then have "reachable example_jwt ?c0 (race_state (Fetched ?k old_doc) (Fetching ?k) [] new_doc {old_doc})"
    by (rule race_step2 [OF get_step.miss, rotated 2]) simp_all
  then have "reachable example_jwt ?c0
      (race_state (Fetched ?k old_doc) (Fetched ?k new_doc) [] new_doc {new_doc, old_doc})"
    using get_step.fetch_ok [of "race_state (Fetched ?k old_doc) (Fetching ?k) [] new_doc {old_doc}" 2 ?k example_jwt]
    by - (rule race_step2 [where q = "Fetching ?k" and served = "{old_doc}" and keys = "[]"], simp_all)
  then show ?thesis
    using get_step.assign [OF _ collect_new, of "race_state (Fetched ?k old_doc) (Fetched ?k new_doc) [] new_doc {new_doc, old_doc}" 2 ?k]
    by - (rule race_step2 [where q = "Fetched ?k new_doc" and keys = "[]"], simp_all)
qed

lemma race_returns:
  "reachable example_jwt (initial_shared old_doc)
     (race_state (Fetched (lit ''k9'') old_doc) (Returned (lit ''k9'') 9) [(lit ''k9'', 9)] new_doc {new_doc, old_doc})"
  using race_midway by (rule race_step2 [OF get_step.found, rotated 2]) simp_all

lemma race_reachable:
  "reachable example_jwt (initial_shared old_doc)
     (race_state (Relookup (lit ''k9'') old_doc) (Refused (lit ''k9'') new_doc) [] new_doc {new_doc, old_doc})"
    (is "reachable _ ?c0 _")
proof -
  let ?k = "lit ''k9''"
  from race_midway have "reachable example_jwt ?c0
      (race_state (Relookup ?k old_doc) (Relookup ?k new_doc) [] new_doc {new_doc, old_doc})"
    using get_step.assign [OF _ collect_old, of "race_state (Fetched ?k old_doc) (Relookup ?k new_doc) [(?k, 9)] new_doc {new_doc, old_doc}" 3 ?k]
    by - (rule race_step1 [where p = "Fetched ?k old_doc" and keys = "[(?k, 9)]"], simp_all)
  then show ?thesis
    by (rule race_step2 [OF get_step.unknown, rotated 2]) simp_all
qed

text \<open>C32: the second look of a thread may miss a key its own fetch delivered. With two threads
  and one key rotation a state is reachable in which a thread has refused a key id although
  the document it fetched, which the server still publishes, holds a key for that id: another
  thread's older document replaced the cache in between. A valid token is then answered
  with 401.\<close>

theorem rotation_race_refuses_published_key:
  "\<exists>c kid doc. reachable example_jwt (initial_shared old_doc) c
     \<and> sh_threads c 2 = Refused kid doc \<and> doc = sh_published c
     \<and> published example_jwt doc kid = Some 9"
  using race_reachable published_new by fastforce

theorem threads_return_published_keys_witness:
  "\<exists>c doc doc'. reachable example_jwt (initial_shared old_doc) c
     \<and> sh_threads c 2 = Returned (lit ''k9'') 9 \<and> sh_threads c 3 = Fetched (lit ''k9'') old_doc
     \<and> doc \<in> sh_served c \<and> published example_jwt doc (lit ''k9'') = Some 9
     \<and> sh_keys c \<noteq> [] \<and> doc' \<in> sh_served c \<and> collect_keys example_jwt doc' [] = Inr (sh_keys c)"
proof -
  let ?c = "race_state (Fetched (lit ''k9'') old_doc) (Returned (lit ''k9'') 9) [(lit ''k9'', 9)] new_doc {new_doc, old_doc}"
  have points: "sh_threads ?c 2 = Returned (lit ''k9'') 9" "sh_threads ?c 3 = Fetched (lit ''k9'') old_doc"
    "sh_keys ?c \<noteq> []" by simp_all
  then show ?thesis
    using threads_return_published_keys [OF race_returns, of 2 "lit ''k9''" 9] race_returns by blast
qed

theorem solo_thread_matches_resolver_witness:
  "\<exists>d. solo_run example_jwt 1 (move 1 (Lookup (lit ''k9'')) (initial_shared new_doc)) d
     \<and> get_outcome (sh_threads d 1) = Some (Inr 9) \<and> sh_keys d = [(lit ''k9'', 9)]"
proof -
  let ?c = "move 1 (Lookup (lit ''k9'')) (initial_shared new_doc) :: nat shared"
  have th: "sh_threads ?c 1 = Lookup (lit ''k9'')" by simp
  have doc: "sh_published ?c = new_doc" "sh_keys ?c = []" by (simp_all add: initial_shared_def)
  have "resolver_get example_jwt (\<lambda>w. (Inr new_doc, w)) (lit ''k9'') \<lparr>rs_keys = [], rs_world = ()\<rparr>
      = (Inr 9, \<lparr>rs_keys = [(lit ''k9'', 9)], rs_world = ()\<rparr>)"
    by code_simp
  then show ?thesis
    using solo_thread_matches_resolver [OF th, of example_jwt "Inr 9" "[(lit ''k9'', 9)]"]
    unfolding doc by blast
qed

end
