(* ===== verification/Db.thy ===== *)
theory Db
  imports Settings_Core
begin

text \<open>
  \<open>backend/src/app/core/db.py\<close>: the pool of the unprivileged role and \<open>tenant_txn\<close>, the one
  path to tenant data. The database driver is a parameter; what its documentation promises
  about connections, transactions and transaction-local settings is the predicate
  \<open>pool_laws\<close>.
\<close>

section \<open>The driver\<close>

record ('c, 's) pool_api =
  pool_acquire :: "('s, exc, 'c) action"
  pool_release :: "'c \<Rightarrow> ('s, exc, unit) action"
  tx_start :: "'c \<Rightarrow> ('s, exc, unit) action"
  tx_commit :: "'c \<Rightarrow> ('s, exc, unit) action"
  tx_rollback :: "'c \<Rightarrow> ('s, exc, unit) action"
  conn_execute :: "'c \<Rightarrow> pystr \<Rightarrow> pystr list \<Rightarrow> ('s, exc, unit) action"

text \<open>The arguments of \<open>asyncpg.create_pool\<close>.\<close>

record pool_config =
  pc_dsn :: pystr
  pc_min_size :: nat
  pc_max_size :: nat

definition db_pool_config :: "settings \<Rightarrow> pool_config" where
  "db_pool_config s = \<lparr>pc_dsn = app_database_url s, pc_min_size = 5, pc_max_size = 10\<rparr>"

definition create_db_pool :: "(pool_config \<Rightarrow> ('s, exc, 'p) action) \<Rightarrow> settings \<Rightarrow> ('s, exc, 'p) action" where
  "create_db_pool create_pool s = create_pool (db_pool_config s)"

definition close_db_pool :: "('p \<Rightarrow> ('s, exc, unit) action) \<Rightarrow> 'p \<Rightarrow> ('s, exc, unit) action" where
  "close_db_pool close pool = close pool"

section \<open>tenant_txn\<close>

text \<open>\<open>async with conn.transaction()\<close>: commit when the body returns, roll back and re-raise when
  it raises.\<close>

definition with_transaction ::
  "('c, 's) pool_api \<Rightarrow> 'c \<Rightarrow> ('s, exc, 'a) action \<Rightarrow> ('s, exc, 'a) action" where
  "with_transaction api conn body =
     act_bind (tx_start api conn) (\<lambda>_ s.
       case body s of
         (Inr x, s') \<Rightarrow> act_bind (tx_commit api conn) (\<lambda>_. act_return x) s'
       | (Inl e, s') \<Rightarrow> act_bind (tx_rollback api conn) (\<lambda>_. act_raise e) s')"

definition set_tenant_sql :: pystr where
  "set_tenant_sql = lit ''SELECT set_config('' @ [39] @ lit ''app.tenant_id'' @ [39] @ lit '', $1, true)''"

text \<open>The body is what the \<open>async with tenant_txn(...) as conn\<close> statement of a caller holds.\<close>

definition tenant_scope ::
  "('c, 's) pool_api \<Rightarrow> pystr \<Rightarrow> ('c \<Rightarrow> ('s, exc, 'a) action) \<Rightarrow> 'c \<Rightarrow> ('s, exc, 'a) action" where
  "tenant_scope api tenant_id body conn =
     with_transaction api conn
       (act_bind (conn_execute api conn set_tenant_sql [tenant_id]) (\<lambda>_. body conn))"

definition tenant_txn ::
  "('c, 's) pool_api \<Rightarrow> pystr \<Rightarrow> ('c \<Rightarrow> ('s, exc, 'a) action) \<Rightarrow> ('s, exc, 'a) action" where
  "tenant_txn api tenant_id body =
     act_bind (pool_acquire api) (\<lambda>conn.
       act_finally (tenant_scope api tenant_id body conn) (pool_release api conn))"

section \<open>What the driver and the database promise\<close>

text \<open>Two observations of a state: the tenant setting a connection's session has, and which
  connections are checked out. A setting that is the empty string, as PostgreSQL leaves it
  behind a transaction-local one, counts as none: a policy fails on both.\<close>

record ('c, 's) pool_view =
  view_tenant :: "'s \<Rightarrow> 'c \<Rightarrow> pystr option"
  view_held :: "'s \<Rightarrow> 'c \<Rightarrow> bool"

text \<open>An action that leaves every connection but one as it was, and checks none in or out.\<close>

definition confined :: "('c, 's) pool_view \<Rightarrow> 'c \<Rightarrow> ('s, exc, 'a) action \<Rightarrow> bool" where
  "confined v c m \<longleftrightarrow> (\<forall>s r s'. m s = (r, s') \<longrightarrow>
     view_held v s' = view_held v s \<and> (\<forall>d. d \<noteq> c \<longrightarrow> view_tenant v s' d = view_tenant v s d))"

text \<open>\<open>acquire\<close> hands out a connection nobody holds, \<open>release\<close> gives it back; a setting made with
  \<open>set_config(..., true)\<close> is visible on its connection and gone when the transaction ends,
  by commit or by rollback.\<close>

definition pool_laws :: "('c, 's) pool_api \<Rightarrow> ('c, 's) pool_view \<Rightarrow> bool" where
  "pool_laws api v \<longleftrightarrow>
     (\<forall>s r s'. pool_acquire api s = (r, s') \<longrightarrow> view_tenant v s' = view_tenant v s \<and>
        (case r of Inr c \<Rightarrow> \<not> view_held v s c \<and> view_held v s' = (view_held v s)(c := True)
         | Inl e \<Rightarrow> view_held v s' = view_held v s))
   \<and> (\<forall>c s r s'. pool_release api c s = (r, s') \<longrightarrow> view_tenant v s' = view_tenant v s
        \<and> view_held v s' = (view_held v s)(c := False))
   \<and> (\<forall>c s r s'. tx_start api c s = (r, s') \<longrightarrow> view_tenant v s' = view_tenant v s
        \<and> view_held v s' = view_held v s)
   \<and> (\<forall>c s r s' t. conn_execute api c set_tenant_sql [t] s = (r, s') \<longrightarrow>
        view_held v s' = view_held v s \<and>
        (case r of Inr u \<Rightarrow> view_tenant v s' = (view_tenant v s)(c := Some t)
         | Inl e \<Rightarrow> view_tenant v s' = view_tenant v s))
   \<and> (\<forall>c s r s'. (tx_commit api c s = (r, s') \<or> tx_rollback api c s = (r, s')) \<longrightarrow>
        view_held v s' = view_held v s \<and> view_tenant v s' = (view_tenant v s)(c := None))"

text \<open>No connection in the pool carries a tenant.\<close>

definition pool_clean :: "('c, 's) pool_view \<Rightarrow> 's \<Rightarrow> bool" where
  "pool_clean v s \<longleftrightarrow> (\<forall>c. \<not> view_held v s c \<longrightarrow> view_tenant v s c = None)"

lemma pool_lawsD:
  assumes "pool_laws api v"
  shows "pool_acquire api s = (Inr c, s') \<Longrightarrow>
      view_tenant v s' = view_tenant v s \<and> \<not> view_held v s c \<and> view_held v s' = (view_held v s)(c := True)"
    and "pool_acquire api s = (Inl e, s') \<Longrightarrow>
      view_tenant v s' = view_tenant v s \<and> view_held v s' = view_held v s"
    and "pool_release api c s = (r, s') \<Longrightarrow>
      view_tenant v s' = view_tenant v s \<and> view_held v s' = (view_held v s)(c := False)"
    and "tx_start api c s = (r, s') \<Longrightarrow> view_tenant v s' = view_tenant v s \<and> view_held v s' = view_held v s"
    and "conn_execute api c set_tenant_sql [t] s = (Inr u, s') \<Longrightarrow>
      view_held v s' = view_held v s \<and> view_tenant v s' = (view_tenant v s)(c := Some t)"
    and "conn_execute api c set_tenant_sql [t] s = (Inl e, s') \<Longrightarrow>
      view_held v s' = view_held v s \<and> view_tenant v s' = view_tenant v s"
    and "tx_commit api c s = (r, s') \<Longrightarrow>
      view_held v s' = view_held v s \<and> view_tenant v s' = (view_tenant v s)(c := None)"
    and "tx_rollback api c s = (r, s') \<Longrightarrow>
      view_held v s' = view_held v s \<and> view_tenant v s' = (view_tenant v s)(c := None)"
proof -
  note laws = assms [unfolded pool_laws_def]
  show "pool_acquire api s = (Inr c, s') \<Longrightarrow>
      view_tenant v s' = view_tenant v s \<and> \<not> view_held v s c \<and> view_held v s' = (view_held v s)(c := True)"
    using conjunct1 [OF laws] by fastforce
  show "pool_acquire api s = (Inl e, s') \<Longrightarrow>
      view_tenant v s' = view_tenant v s \<and> view_held v s' = view_held v s"
    using conjunct1 [OF laws] by fastforce
  show "pool_release api c s = (r, s') \<Longrightarrow>
      view_tenant v s' = view_tenant v s \<and> view_held v s' = (view_held v s)(c := False)"
    using laws by blast
  show "tx_start api c s = (r, s') \<Longrightarrow> view_tenant v s' = view_tenant v s \<and> view_held v s' = view_held v s"
    using laws by blast
  have set: "conn_execute api c set_tenant_sql [t] s = (r, s') \<longrightarrow> view_held v s' = view_held v s \<and>
      (case r of Inr u \<Rightarrow> view_tenant v s' = (view_tenant v s)(c := Some t)
       | Inl e \<Rightarrow> view_tenant v s' = view_tenant v s)" for r
    using laws by blast
  show "conn_execute api c set_tenant_sql [t] s = (Inr u, s') \<Longrightarrow>
      view_held v s' = view_held v s \<and> view_tenant v s' = (view_tenant v s)(c := Some t)"
    and "conn_execute api c set_tenant_sql [t] s = (Inl e, s') \<Longrightarrow>
      view_held v s' = view_held v s \<and> view_tenant v s' = view_tenant v s"
    using set [of "Inr u"] set [of "Inl e"] by simp_all
  show "tx_commit api c s = (r, s') \<Longrightarrow>
      view_held v s' = view_held v s \<and> view_tenant v s' = (view_tenant v s)(c := None)"
    and "tx_rollback api c s = (r, s') \<Longrightarrow>
      view_held v s' = view_held v s \<and> view_tenant v s' = (view_tenant v s)(c := None)"
    using laws by blast+
qed

section \<open>The steps of one tenant transaction\<close>

lemma with_transaction_view:
  assumes "pool_laws api v" and "confined v c body"
    and "view_tenant v s c = None" and "with_transaction api c body s = (r, s')"
  shows "view_held v s' = view_held v s \<and> view_tenant v s' = view_tenant v s"
proof -
  note laws = pool_lawsD [OF assms(1)]
  obtain r1 s1 where st: "tx_start api c s = (r1, s1)" by (cases "tx_start api c s")
  note v1 = laws(4) [OF st]
  show ?thesis
  proof (cases r1)
    case (Inl e)
    with assms(4) st v1 show ?thesis by (simp add: with_transaction_def act_bind_def)
  next
    case (Inr u)
    obtain r2 s2 where bd: "body s1 = (r2, s2)" by (cases "body s1")
    then have v2: "view_held v s2 = view_held v s1" "\<forall>d. d \<noteq> c \<longrightarrow> view_tenant v s2 d = view_tenant v s1 d"
      using assms(2) unfolding confined_def by blast+
    have "\<exists>r3. tx_commit api c s2 = (r3, s') \<or> tx_rollback api c s2 = (r3, s')"
      using assms(4) st Inr bd
      by (auto simp: with_transaction_def act_bind_def split: sum.splits prod.splits)
    then have "view_held v s' = view_held v s2" "view_tenant v s' = (view_tenant v s2)(c := None)"
      using laws(7,8) by blast+
    with v1 v2 assms(3) show ?thesis by auto
  qed
qed

lemma confined_set_tenant:
  assumes "pool_laws api v" and "confined v c (body c)"
  shows "confined v c (act_bind (conn_execute api c set_tenant_sql [t]) (\<lambda>_. body c))"
  unfolding confined_def
proof (intro allI impI)
  fix s r s'
  assume run: "act_bind (conn_execute api c set_tenant_sql [t]) (\<lambda>_. body c) s = (r, s')"
  note laws = pool_lawsD [OF assms(1)]
  obtain r1 s1 where ex: "conn_execute api c set_tenant_sql [t] s = (r1, s1)"
    by (cases "conn_execute api c set_tenant_sql [t] s")
  show "view_held v s' = view_held v s \<and> (\<forall>d. d \<noteq> c \<longrightarrow> view_tenant v s' d = view_tenant v s d)"
  proof (cases r1)
    case (Inl e)
    with ex run laws(6) [of c t s e s1] show ?thesis by (simp add: act_bind_def)
  next
    case (Inr u)
    with ex run have "body c s1 = (r, s')" by (simp add: act_bind_def)
    with assms(2) have "view_held v s' = view_held v s1"
        "\<forall>d. d \<noteq> c \<longrightarrow> view_tenant v s' d = view_tenant v s1 d"
      unfolding confined_def by blast+
    with laws(5) [of c t s u s1] ex Inr show ?thesis by simp
  qed
qed

text \<open>C17: a tenant transaction leaves no trace in the pool. Whatever its body does on the connection
  it is given, whether it returns or raises, and whatever step of the transaction itself
  fails: afterwards the same connections are checked out as before and every connection has
  the setting it had; in particular a pool in which no idle connection carries a tenant
  stays so.\<close>

theorem tenant_txn_leaves_pool_clean:
  assumes "pool_laws api v" and "\<And>c. confined v c (body c)" and "pool_clean v s"
    and "tenant_txn api tenant_id body s = (r, s')"
  shows "pool_clean v s' \<and> view_held v s' = view_held v s \<and> view_tenant v s' = view_tenant v s"
proof -
  note laws = pool_lawsD [OF assms(1)]
  obtain r1 s1 where acq: "pool_acquire api s = (r1, s1)" by (cases "pool_acquire api s")
  have "view_held v s' = view_held v s \<and> view_tenant v s' = view_tenant v s"
  proof (cases r1)
    case (Inl e)
    with acq assms(4) laws(2) [of s e s1] show ?thesis by (simp add: tenant_txn_def act_bind_def)
  next
    case (Inr c)
    let ?tx = "tenant_scope api tenant_id body c"
    have v1: "view_tenant v s1 = view_tenant v s" "\<not> view_held v s c" "view_held v s1 = (view_held v s)(c := True)"
      using laws(1) acq Inr by auto
    obtain r2 s2 where tx: "?tx s1 = (r2, s2)" by (cases "?tx s1")
    have "view_tenant v s1 c = None" using v1 assms(3) by (simp add: pool_clean_def)
    then have v2: "view_held v s2 = view_held v s1 \<and> view_tenant v s2 = view_tenant v s1"
      using with_transaction_view [OF assms(1) confined_set_tenant [OF assms(1), of c body tenant_id, OF assms(2)]]
        tx unfolding tenant_scope_def by blast
    obtain r3 s3 where rel: "pool_release api c s2 = (r3, s3)" by (cases "pool_release api c s2")
    then have "s' = s3"
      using assms(4) acq Inr tx by (auto simp: tenant_txn_def act_bind_def act_finally_def split: sum.splits)
    with laws(3) [OF rel] v1 v2 show ?thesis by (auto simp: fun_eq_iff)
  qed
  with assms(3) show ?thesis by (simp add: pool_clean_def)
qed

section \<open>The body\<close>

text \<open>What follows the body: commit or rollback, then the release.\<close>

definition tenant_txn_exit ::
  "('c, 's) pool_api \<Rightarrow> 'c \<Rightarrow> (exc + 'a) \<times> 's \<Rightarrow> (exc + 'a) \<times> 's" where
  "tenant_txn_exit api c out =
     act_finally (\<lambda>_. case out of
         (Inr x, s') \<Rightarrow> act_bind (tx_commit api c) (\<lambda>_. act_return x) s'
       | (Inl e, s') \<Rightarrow> act_bind (tx_rollback api c) (\<lambda>_. act_raise e) s')
       (pool_release api c) (snd out)"

text \<open>C18: the body runs only with the tenant set. A tenant transaction either runs its body exactly
  once, on a connection it has checked out and whose session has precisely the given tenant,
  or not at all: if acquiring, starting the transaction or setting the tenant fails, the
  outcome is an exception that does not depend on the body.\<close>

theorem tenant_txn_body_has_tenant:
  fixes api :: "('c, 's) pool_api"
  assumes "pool_laws api v"
  shows "(\<exists>c s1. view_held v s1 c \<and> view_tenant v s1 c = Some tenant_id
        \<and> (\<forall>body :: 'c \<Rightarrow> ('s, exc, 'a) action. tenant_txn api tenant_id body s = tenant_txn_exit api c (body c s1)))
   \<or> (\<exists>e s'. \<forall>body :: 'c \<Rightarrow> ('s, exc, 'a) action. tenant_txn api tenant_id body s = (Inl e, s'))"
proof -
  note laws = pool_lawsD [OF assms]
  obtain r1 s1 where acq: "pool_acquire api s = (r1, s1)" by (cases "pool_acquire api s")
  show ?thesis
  proof (cases r1)
    case (Inl e)
    with acq show ?thesis by (simp add: tenant_txn_def act_bind_def)
  next
    case (Inr c)
    obtain r2 s2 where st: "tx_start api c s1 = (r2, s2)" by (cases "tx_start api c s1")
    obtain r3 s3 where ex: "conn_execute api c set_tenant_sql [tenant_id] s2 = (r3, s3)"
      by (cases "conn_execute api c set_tenant_sql [tenant_id] s2")
    have exit: "\<exists>e s'. \<forall>body :: 'c \<Rightarrow> ('s, exc, 'a) action. tenant_txn api tenant_id body s = (Inl e, s')"
      if "\<And>body :: 'c \<Rightarrow> ('s, exc, 'a) action. tenant_scope api tenant_id body c s1 = (Inl e, t)" for e t
    proof (cases "pool_release api c t")
      case (Pair r4 s4)
      with acq Inr show ?thesis
        by (cases r4) (simp_all add: tenant_txn_def act_bind_def act_finally_def that)
    qed
    show ?thesis
    proof (cases r2)
      case (Inl e)
      then show ?thesis using exit [of e s2] st by (simp add: tenant_scope_def with_transaction_def act_bind_def)
    next
      case start: (Inr u)
      show ?thesis
      proof (cases r3)
        case (Inl e)
        obtain r4 s4 where rb: "tx_rollback api c s3 = (r4, s4)" by (cases "tx_rollback api c s3")
        then show ?thesis
          using exit [of "case r4 of Inl d \<Rightarrow> d | Inr _ \<Rightarrow> e" s4] st start ex Inl
          by (cases r4) (simp_all add: tenant_scope_def with_transaction_def act_bind_def)
      next
        case (Inr w)
        have "view_held v s3 c" and "view_tenant v s3 c = Some tenant_id"
          using laws(1) [of s c s1] laws(4) [OF st] laws(5) [of c tenant_id s2 w s3] acq \<open>r1 = Inr c\<close> ex Inr
          by auto
        moreover have "tenant_txn api tenant_id body s = tenant_txn_exit api c (body c s3)"
          for body :: "'c \<Rightarrow> ('s, exc, 'a) action"
          using acq \<open>r1 = Inr c\<close> st start ex Inr
          by (simp add: tenant_txn_def tenant_txn_exit_def tenant_scope_def with_transaction_def act_bind_def act_finally_def)
        ultimately show ?thesis by blast
      qed
    qed
  qed
qed

end
