(* ===== verification/Rls.thy ===== *)
theory Rls
  imports Errors
begin

text \<open>
  The row-level security of \<open>supabase/migrations/0002_documents.sql\<close> and \<open>0003_chunks.sql\<close>:
  the tenant policy, and the statements of the application role under it. The cast of a
  string to \<open>uuid\<close> is a parameter. The two tables share one contract, the locale
  \<open>tenant_table\<close>.
\<close>

section \<open>The policy\<close>

text \<open>\<open>tenant_id = (SELECT current_setting('app.tenant_id')::uuid)\<close>: in the subselect, reading an
  unset setting and casting a string that is no uuid are errors.\<close>

definition current_tenant :: "(pystr \<Rightarrow> 'u option) \<Rightarrow> pystr option \<Rightarrow> py_exc + 'u" where
  "current_tenant as_uuid setting =
     (case setting of
        None \<Rightarrow> Inl PostgresError
      | Some t \<Rightarrow> (case as_uuid t of None \<Rightarrow> Inl PostgresError | Some u \<Rightarrow> Inr u))"

definition tenant_policy :: "(pystr \<Rightarrow> 'u option) \<Rightarrow> pystr option \<Rightarrow> 'u \<Rightarrow> py_exc + bool" where
  "tenant_policy as_uuid setting tenant_id =
     bind_res (current_tenant as_uuid setting) (\<lambda>u. Inr (tenant_id = u))"

lemma tenant_policy_cases:
  "tenant_policy as_uuid setting i = (case setting of
     None \<Rightarrow> Inl PostgresError
   | Some t \<Rightarrow> (case as_uuid t of None \<Rightarrow> Inl PostgresError | Some u \<Rightarrow> Inr (i = u)))"
  by (simp add: tenant_policy_def current_tenant_def split: option.split)

section \<open>Tables and statements\<close>

record 'u document_row =
  doc_id :: 'u
  doc_tenant_id :: 'u
  doc_object_key :: pystr
  doc_content_hash :: pystr
  doc_status :: pystr
  doc_failure_reason :: "pystr option"
  doc_created_at :: int

record 'u chunk_row =
  chunk_id :: 'u
  chunk_tenant_id :: 'u
  chunk_document_id :: 'u
  chunk_chunk_index :: int
  chunk_text :: pystr
  chunk_section :: "pystr option"
  chunk_content_hash :: pystr
  chunk_embedding :: "pyfloat list"
  chunk_created_at :: int

text \<open>Two rows that a primary key or a UNIQUE constraint keeps apart.\<close>

definition document_conflict :: "'u document_row \<Rightarrow> 'u document_row \<Rightarrow> bool" where
  "document_conflict a b \<longleftrightarrow> doc_id a = doc_id b
     \<or> doc_tenant_id a = doc_tenant_id b \<and> doc_content_hash a = doc_content_hash b"

definition chunk_conflict :: "'u chunk_row \<Rightarrow> 'u chunk_row \<Rightarrow> bool" where
  "chunk_conflict a b \<longleftrightarrow> chunk_id a = chunk_id b
     \<or> chunk_tenant_id a = chunk_tenant_id b \<and> chunk_document_id a = chunk_document_id b
       \<and> chunk_chunk_index a = chunk_chunk_index b"

datatype 'r stmt =
    Select "'r \<Rightarrow> bool"
  | Insert 'r
  | Update "'r \<Rightarrow> bool" "'r \<Rightarrow> 'r"
  | Delete "'r \<Rightarrow> bool"

text \<open>A statement works on the rows its own condition and the policy (USING) both select, and the
  policy must allow every row it writes (WITH CHECK). The policy has to be evaluated on the
  rows that meet the condition; whether it is evaluated on any other is up to the plan (below),
  and changes nothing but whether an error in it shows.\<close>

fun mark_rows :: "('r \<Rightarrow> py_exc + bool) \<Rightarrow> ('r \<Rightarrow> bool) \<Rightarrow> 'r list \<Rightarrow> py_exc + ('r \<times> bool) list" where
  "mark_rows pol p [] = Inr []"
| "mark_rows pol p (r # rs) =
     bind_res (if p r then pol r else Inr False) (\<lambda>b.
     bind_res (mark_rows pol p rs) (\<lambda>ms. Inr ((r, b) # ms)))"

fun check_rows :: "('r \<Rightarrow> py_exc + bool) \<Rightarrow> 'r list \<Rightarrow> py_exc + unit" where
  "check_rows pol [] = Inr ()"
| "check_rows pol (r # rs) =
     bind_res (pol r) (\<lambda>b. if b then check_rows pol rs else Inl PostgresError)"

fun no_conflicts :: "('r \<Rightarrow> 'r \<Rightarrow> bool) \<Rightarrow> 'r list \<Rightarrow> bool" where
  "no_conflicts conf [] = True"
| "no_conflicts conf (r # rs) = ((\<forall>x \<in> set rs. \<not> conf r x) \<and> no_conflicts conf rs)"

text \<open>A statement returns the rows it selects and leaves the table as it makes it, or fails.\<close>

definition exec_stmt ::
  "('r \<Rightarrow> py_exc + bool) \<Rightarrow> ('r \<Rightarrow> 'r \<Rightarrow> bool) \<Rightarrow> 'r stmt \<Rightarrow> 'r list \<Rightarrow> py_exc + ('r list \<times> 'r list)" where
  "exec_stmt pol conf st rows =
     (case st of
        Select p \<Rightarrow> bind_res (mark_rows pol p rows) (\<lambda>ms. Inr (map fst (filter snd ms), rows))
      | Insert new \<Rightarrow> bind_res (check_rows pol [new]) (\<lambda>_.
          if no_conflicts conf (rows @ [new]) then Inr ([], rows @ [new]) else Inl PostgresError)
      | Update p f \<Rightarrow> bind_res (mark_rows pol p rows) (\<lambda>ms.
          bind_res (check_rows pol (map (f \<circ> fst) (filter snd ms))) (\<lambda>_.
            let rows' = map (\<lambda>(r, b). if b then f r else r) ms
            in if no_conflicts conf rows' then Inr ([], rows') else Inl PostgresError))
      | Delete p \<Rightarrow> bind_res (mark_rows pol p rows) (\<lambda>ms. Inr ([], map fst (filter (Not \<circ> snd) ms))))"

text \<open>The plan of a statement may evaluate the policy's subselect \<open>early\<close>: for an index scan before
  any row is looked at, or because it tests a row against the policy before its condition.\<close>

definition exec_planned ::
  "bool \<Rightarrow> (pystr \<Rightarrow> 'u option) \<Rightarrow> pystr option \<Rightarrow> ((pystr \<Rightarrow> 'u option) \<Rightarrow> pystr option \<Rightarrow> 'r \<Rightarrow> py_exc + bool)
     \<Rightarrow> ('r \<Rightarrow> 'r \<Rightarrow> bool) \<Rightarrow> 'r stmt \<Rightarrow> 'r list \<Rightarrow> py_exc + ('r list \<times> 'r list)" where
  "exec_planned early as_uuid setting pol conf st rows =
     bind_res (if early then map_sum id (\<lambda>u. ()) (current_tenant as_uuid setting) else Inr ()) (\<lambda>_.
       exec_stmt (pol as_uuid setting) conf st rows)"

text \<open>A statement that succeeds under any plan does what it does under the one that evaluates the
  policy only where it must.\<close>

lemma exec_planned_Inr: "exec_planned early as_uuid setting pol conf st rows = Inr res \<Longrightarrow>
    exec_stmt (pol as_uuid setting) conf st rows = Inr res"
  by (auto simp: exec_planned_def res_simps)

text \<open>A statement reaches a table when it inserts into it or some row meets its condition.\<close>

fun st_reaches :: "'r stmt \<Rightarrow> 'r list \<Rightarrow> bool" where
  "st_reaches (Select p) rows = (\<exists>r \<in> set rows. p r)"
| "st_reaches (Insert new) rows = True"
| "st_reaches (Update p f) rows = (\<exists>r \<in> set rows. p r)"
| "st_reaches (Delete p) rows = (\<exists>r \<in> set rows. p r)"

text \<open>The statements of one transaction; the first failure ends it and undoes it all.\<close>

fun exec_all ::
  "('r \<Rightarrow> py_exc + bool) \<Rightarrow> ('r \<Rightarrow> 'r \<Rightarrow> bool) \<Rightarrow> 'r stmt list \<Rightarrow> 'r list \<Rightarrow> py_exc + ('r list list \<times> 'r list)" where
  "exec_all pol conf [] rows = Inr ([], rows)"
| "exec_all pol conf (st # sts) rows =
     bind_res (exec_stmt pol conf st rows) (\<lambda>(out, rows').
     bind_res (exec_all pol conf sts rows') (\<lambda>(outs, rows''). Inr (out # outs, rows'')))"

lemma no_conflicts_filter: "no_conflicts conf rows \<Longrightarrow> no_conflicts conf (filter P rows)"
  by (induction rows) auto

section \<open>The contract of a tenant table\<close>

text \<open>Under the setting of a tenant the policy singles out that tenant's rows.\<close>

locale tenant_table =
  fixes row_tenant :: "'r \<Rightarrow> 'u"
    and pol :: "(pystr \<Rightarrow> 'u option) \<Rightarrow> pystr option \<Rightarrow> 'r \<Rightarrow> py_exc + bool"
    and conf :: "'r \<Rightarrow> 'r \<Rightarrow> bool"
  assumes pol_set: "as_uuid t = Some u \<Longrightarrow> pol as_uuid (Some t) r = Inr (row_tenant r = u)"
    and pol_unset: "setting = None \<or> as_uuid (the setting) = None \<Longrightarrow> pol as_uuid setting r = Inl PostgresError"
begin

lemma mark_rows_set:
  "as_uuid t = Some u \<Longrightarrow>
     mark_rows (pol as_uuid (Some t)) p rows = Inr (map (\<lambda>r. (r, row_tenant r = u \<and> p r)) rows)"
  by (induction rows) (simp_all add: pol_set)

lemma check_rows_set:
  "as_uuid t = Some u \<Longrightarrow> check_rows (pol as_uuid (Some t)) rows = Inr x \<Longrightarrow> \<forall>r \<in> set rows. row_tenant r = u"
  by (induction rows) (auto simp: pol_set split: if_splits)

lemma filter_update_others:
  assumes "\<forall>r \<in> set rows. row_tenant r = u \<and> p r \<longrightarrow> row_tenant (f r) = u"
  shows "filter (\<lambda>r. row_tenant r \<noteq> u) (map (\<lambda>r. if row_tenant r = u \<and> p r then f r else r) rows)
    = filter (\<lambda>r. row_tenant r \<noteq> u) rows"
  using assms by (induction rows) auto

lemma exec_stmt_isolated:
  assumes u: "as_uuid t = Some u" and run: "exec_stmt (pol as_uuid (Some t)) conf st rows = Inr (out, rows')"
  shows "filter (\<lambda>r. row_tenant r \<noteq> u) rows' = filter (\<lambda>r. row_tenant r \<noteq> u) rows
    \<and> set out \<subseteq> {r \<in> set rows. row_tenant r = u}"
proof -
  have marks: "mark_rows (pol as_uuid (Some t)) p rows = Inr (map (\<lambda>r. (r, row_tenant r = u \<and> p r)) rows)" for p
    using u by (rule mark_rows_set)
  show ?thesis
  proof (cases st)
    case (Select p)
    from run Select have "out = filter (\<lambda>r. row_tenant r = u \<and> p r) rows" and "rows' = rows"
      by (auto simp: exec_stmt_def marks filter_map comp_def)
    then show ?thesis by auto
  next
    case (Insert new)
    with run have "row_tenant new = u" and "rows' = rows @ [new]" and "out = []"
      by (auto simp: exec_stmt_def res_simps pol_set [of as_uuid, OF u] split: if_splits)
    then show ?thesis by simp
  next
    case (Update p f)
    let ?hit = "filter (\<lambda>r. row_tenant r = u \<and> p r) rows"
    let ?new = "map (\<lambda>r. if row_tenant r = u \<and> p r then f r else r) rows"
    obtain x where chk: "check_rows (pol as_uuid (Some t)) (map f ?hit) = Inr x"
      and rows': "rows' = ?new" and "out = []"
      using run Update
      by (cases "check_rows (pol as_uuid (Some t)) (map f ?hit)")
         (auto simp: exec_stmt_def marks Let_def comp_def filter_map split: if_splits)
    have "\<forall>r \<in> set rows. row_tenant r = u \<and> p r \<longrightarrow> row_tenant (f r) = u"
      using check_rows_set [of as_uuid t u "map f ?hit" x] chk u by auto
    with rows' \<open>out = []\<close> show ?thesis using filter_update_others by simp
  next
    case (Delete p)
    with run have "rows' = filter (\<lambda>r. \<not> (row_tenant r = u \<and> p r)) rows" and "out = []"
      by (auto simp: exec_stmt_def marks filter_map comp_def)
    then show ?thesis by (simp, intro filter_cong) auto
  qed
qed

lemma exec_all_isolated:
  assumes "as_uuid t = Some u" and "exec_all (pol as_uuid (Some t)) conf sts rows = Inr (outs, rows')"
  shows "filter (\<lambda>r. row_tenant r \<noteq> u) rows' = filter (\<lambda>r. row_tenant r \<noteq> u) rows
    \<and> (\<forall>out \<in> set outs. \<forall>r \<in> set out. row_tenant r = u)"
  using assms(2)
proof (induction sts arbitrary: rows outs)
  case (Cons st sts)
  then obtain out rows1 outs1 where run: "exec_stmt (pol as_uuid (Some t)) conf st rows = Inr (out, rows1)"
    and rest: "exec_all (pol as_uuid (Some t)) conf sts rows1 = Inr (outs1, rows')" and "outs = out # outs1"
    by (auto simp: res_simps split: prod.splits)
  then show ?case using exec_stmt_isolated [of as_uuid, OF assms(1) run] Cons.IH [OF rest] by auto
qed simp

text \<open>On a tenant's own rows alone a statement that succeeds does the same.\<close>

lemma filter_update_own:
  assumes "\<forall>r \<in> set rows. row_tenant r = u \<and> p r \<longrightarrow> row_tenant (f r) = u"
  shows "filter (\<lambda>r. row_tenant r = u) (map (\<lambda>r. if row_tenant r = u \<and> p r then f r else r) rows)
    = map (\<lambda>r. if row_tenant r = u \<and> p r then f r else r) (filter (\<lambda>r. row_tenant r = u) rows)"
  using assms by (induction rows) auto

lemma exec_stmt_own_rows:
  assumes u: "as_uuid t = Some u" and run: "exec_stmt (pol as_uuid (Some t)) conf st rows = Inr (out, rows')"
  shows "exec_stmt (pol as_uuid (Some t)) conf st (filter (\<lambda>r. row_tenant r = u) rows)
    = Inr (out, filter (\<lambda>r. row_tenant r = u) rows')"
proof -
  let ?own = "filter (\<lambda>r. row_tenant r = u)"
  have marks: "mark_rows (pol as_uuid (Some t)) p xs = Inr (map (\<lambda>r. (r, row_tenant r = u \<and> p r)) xs)" for p xs
    using u by (rule mark_rows_set)
  show ?thesis
  proof (cases st)
    case (Select p)
    have "filter (\<lambda>r. row_tenant r = u \<and> p r) (?own rows) = filter (\<lambda>r. row_tenant r = u \<and> p r) rows"
      by (auto simp: filter_filter intro: filter_cong)
    with run Select show ?thesis by (auto simp: exec_stmt_def marks filter_map comp_def)
  next
    case (Insert new)
    with run have "row_tenant new = u" "rows' = rows @ [new]" "out = []" "no_conflicts conf (rows @ [new])"
      by (auto simp: exec_stmt_def res_simps pol_set [of as_uuid, OF u] split: if_splits)
    moreover from this have "no_conflicts conf (?own rows @ [new])"
      using no_conflicts_filter [of conf "rows @ [new]" "\<lambda>r. row_tenant r = u"] by simp
    ultimately show ?thesis using Insert by (simp add: exec_stmt_def pol_set [of as_uuid, OF u])
  next
    case (Update p f)
    let ?upd = "\<lambda>r. if row_tenant r = u \<and> p r then f r else r"
    let ?hit = "\<lambda>xs. filter (\<lambda>r. row_tenant r = u \<and> p r) xs"
    have hits: "?hit (?own rows) = ?hit rows" by (auto simp: filter_filter intro: filter_cong)
    obtain x where chk: "check_rows (pol as_uuid (Some t)) (map f (?hit rows)) = Inr x"
      and rows': "rows' = map ?upd rows" and "out = []" and ok: "no_conflicts conf (map ?upd rows)"
      using run Update
      by (cases "check_rows (pol as_uuid (Some t)) (map f (?hit rows))")
         (auto simp: exec_stmt_def marks Let_def comp_def filter_map split: if_splits)
    have "\<forall>r \<in> set rows. row_tenant r = u \<and> p r \<longrightarrow> row_tenant (f r) = u"
      using check_rows_set [of as_uuid t u "map f (?hit rows)" x] chk u by auto
    then have own: "?own (map ?upd rows) = map ?upd (?own rows)" by (rule filter_update_own)
    have "no_conflicts conf (map ?upd (?own rows))"
      using no_conflicts_filter [OF ok, of "\<lambda>r. row_tenant r = u"] unfolding own .
    then show ?thesis
      using chk hits \<open>out = []\<close> unfolding rows' own Update
      by (simp add: exec_stmt_def marks Let_def comp_def filter_map)
  next
    case (Delete p)
    with run have "rows' = filter (\<lambda>r. \<not> (row_tenant r = u \<and> p r)) rows" and "out = []"
      by (auto simp: exec_stmt_def marks filter_map comp_def)
    then show ?thesis
      using Delete by (auto simp: exec_stmt_def marks filter_map comp_def filter_filter intro: filter_cong)
  qed
qed

lemma exec_all_own_rows:
  assumes "as_uuid t = Some u" and "exec_all (pol as_uuid (Some t)) conf sts rows = Inr (outs, rows')"
  shows "exec_all (pol as_uuid (Some t)) conf sts (filter (\<lambda>r. row_tenant r = u) rows)
    = Inr (outs, filter (\<lambda>r. row_tenant r = u) rows')"
  using assms(2)
proof (induction sts arbitrary: rows outs)
  case (Cons st sts)
  then obtain out rows1 outs1 where run: "exec_stmt (pol as_uuid (Some t)) conf st rows = Inr (out, rows1)"
    and rest: "exec_all (pol as_uuid (Some t)) conf sts rows1 = Inr (outs1, rows')" and "outs = out # outs1"
    by (auto simp: res_simps split: prod.splits)
  then show ?case using exec_stmt_own_rows [of as_uuid, OF assms(1) run] Cons.IH [OF rest] by simp
qed simp

lemma mark_rows_unset:
  assumes "setting = None \<or> as_uuid (the setting) = None"
  shows "mark_rows (pol as_uuid setting) p rows
    = (if \<exists>r \<in> set rows. p r then Inl PostgresError else Inr (map (\<lambda>r. (r, False)) rows))"
  by (induction rows) (auto simp: pol_unset [of setting as_uuid, OF assms])

lemma exec_stmt_unset:
  assumes "setting = None \<or> as_uuid (the setting) = None" and "no_conflicts conf rows"
  shows "exec_stmt (pol as_uuid setting) conf st rows
    = (if st_reaches st rows then Inl PostgresError else Inr ([], rows))"
  using assms(2) pol_unset [of setting as_uuid, OF assms(1)]
  by (cases st) (auto simp: exec_stmt_def mark_rows_unset [of setting as_uuid, OF assms(1)] comp_def Let_def)

lemma exec_planned_unset:
  assumes "setting = None \<or> as_uuid (the setting) = None" and "no_conflicts conf rows"
  shows "exec_planned early as_uuid setting pol conf st rows
    = (if early \<or> st_reaches st rows then Inl PostgresError else Inr ([], rows))"
proof -
  have "current_tenant as_uuid setting = Inl PostgresError"
    using assms(1) by (auto simp: current_tenant_def split: option.split)
  then show ?thesis by (simp add: exec_planned_def exec_stmt_unset [of setting as_uuid, OF assms])
qed

end

section \<open>The two tables\<close>

definition document_policy :: "(pystr \<Rightarrow> 'u option) \<Rightarrow> pystr option \<Rightarrow> 'u document_row \<Rightarrow> py_exc + bool" where
  "document_policy as_uuid setting r = tenant_policy as_uuid setting (doc_tenant_id r)"

definition chunk_policy :: "(pystr \<Rightarrow> 'u option) \<Rightarrow> pystr option \<Rightarrow> 'u chunk_row \<Rightarrow> py_exc + bool" where
  "chunk_policy as_uuid setting r = tenant_policy as_uuid setting (chunk_tenant_id r)"

interpretation documents: tenant_table doc_tenant_id document_policy document_conflict
  by unfold_locales (auto simp: document_policy_def tenant_policy_cases split: option.splits)

interpretation chunks: tenant_table chunk_tenant_id chunk_policy chunk_conflict
  by unfold_locales (auto simp: chunk_policy_def tenant_policy_cases split: option.splits)

text \<open>Tenants are isolated in both tables. Whatever statements a transaction runs under the
  setting of one tenant, if it succeeds every row it returned is that tenant's, and the rows
  of all other tenants are unchanged, in content and order: none is read, written, deleted,
  taken over or handed to another tenant.\<close>

theorem rls_isolates_tenants:
  assumes "as_uuid t = Some u"
    and "exec_all (document_policy as_uuid (Some t)) document_conflict sts docs = Inr (outs, docs')"
    and "exec_all (chunk_policy as_uuid (Some t)) chunk_conflict csts chunks = Inr (couts, chunks')"
  shows "filter (\<lambda>r. doc_tenant_id r \<noteq> u) docs' = filter (\<lambda>r. doc_tenant_id r \<noteq> u) docs
     \<and> filter (\<lambda>r. chunk_tenant_id r \<noteq> u) chunks' = filter (\<lambda>r. chunk_tenant_id r \<noteq> u) chunks
     \<and> (\<forall>out \<in> set outs. \<forall>r \<in> set out. doc_tenant_id r = u)
     \<and> (\<forall>out \<in> set couts. \<forall>r \<in> set out. chunk_tenant_id r = u)"
  using documents.exec_all_isolated [of as_uuid, OF assms(1,2)] chunks.exec_all_isolated [of as_uuid, OF assms(1,3)] by blast

text \<open>C38: without a tenant, or with a tenant id that is no uuid, nothing is shown and nothing is
  changed, in either table, by any statement under any plan: a statement that inserts, or whose
  condition some row meets, fails with a database error, because the policy does not evaluate
  to false there but raises; any other returns no row and leaves the table as it is, or fails
  too when its plan evaluates the policy early.\<close>

theorem rls_fails_closed_by_error:
  assumes "setting = None \<or> as_uuid (the setting) = None"
    and "no_conflicts document_conflict docs" and "no_conflicts chunk_conflict chunks"
  shows "exec_planned early as_uuid setting document_policy document_conflict st docs
       = (if early \<or> st_reaches st docs then Inl PostgresError else Inr ([], docs))
     \<and> exec_planned early as_uuid setting chunk_policy chunk_conflict cst chunks
       = (if early \<or> st_reaches cst chunks then Inl PostgresError else Inr ([], chunks))
     \<and> tenant_policy as_uuid setting tenant_id = Inl PostgresError"
  using documents.exec_planned_unset [of setting as_uuid, OF assms(1,2)]
    chunks.exec_planned_unset [of setting as_uuid, OF assms(1,3)] assms(1)
  by (auto simp: tenant_policy_cases split: option.split)

text \<open>C11: a tenant learns nothing about the others. Run on two databases that hold the same rows of
  one tenant, however the rows of the other tenants differ, statements under that tenant's
  setting that succeed on both return the same rows and leave the tenant with the same rows:
  what it sees and does is a function of its own rows alone.\<close>

theorem tenant_sees_own_rows_only:
  assumes "as_uuid t = Some u"
    and "filter (\<lambda>r. doc_tenant_id r = u) docs1 = filter (\<lambda>r. doc_tenant_id r = u) docs2"
    and "filter (\<lambda>r. chunk_tenant_id r = u) chunks1 = filter (\<lambda>r. chunk_tenant_id r = u) chunks2"
    and "exec_all (document_policy as_uuid (Some t)) document_conflict sts docs1 = Inr (outs1, docs1')"
    and "exec_all (document_policy as_uuid (Some t)) document_conflict sts docs2 = Inr (outs2, docs2')"
    and "exec_all (chunk_policy as_uuid (Some t)) chunk_conflict csts chunks1 = Inr (couts1, chunks1')"
    and "exec_all (chunk_policy as_uuid (Some t)) chunk_conflict csts chunks2 = Inr (couts2, chunks2')"
  shows "outs1 = outs2 \<and> couts1 = couts2
     \<and> filter (\<lambda>r. doc_tenant_id r = u) docs1' = filter (\<lambda>r. doc_tenant_id r = u) docs2'
     \<and> filter (\<lambda>r. chunk_tenant_id r = u) chunks1' = filter (\<lambda>r. chunk_tenant_id r = u) chunks2'"
  using documents.exec_all_own_rows [of as_uuid, OF assms(1,4)] documents.exec_all_own_rows [of as_uuid, OF assms(1,5)]
    chunks.exec_all_own_rows [of as_uuid, OF assms(1,6)] chunks.exec_all_own_rows [of as_uuid, OF assms(1,7)] assms(2,3)
  by simp

text \<open>What remains is the primary key, which is not per tenant: an insert that names the id of
  another tenant's document fails where it would succeed without that document.\<close>

theorem foreign_id_shows:
  assumes "as_uuid t = Some u" and "doc_tenant_id mine = u" and "doc_tenant_id other \<noteq> u"
    and "doc_id other = doc_id mine"
  shows "exec_stmt (document_policy as_uuid (Some t)) document_conflict (Insert mine) [other] = Inl PostgresError
     \<and> exec_stmt (document_policy as_uuid (Some t)) document_conflict (Insert mine) [] = Inr ([], [mine])"
  using assms documents.pol_set [of as_uuid, OF assms(1)] by (simp add: exec_stmt_def document_conflict_def)

end
