(* ===== verification/Pool_Tasks.thy ===== *)
theory Pool_Tasks
  imports Db Rls
begin

text \<open>
  Many requests use the pool of \<open>core/db.py\<close> at the same time: every \<open>await\<close> inside \<open>tenant_txn\<close>
  lets other tasks run. This theory splits \<open>tenant_txn\<close> at its awaits into steps of tasks that
  interleave over one pool, and composes it with the policies of theory \<open>Rls\<close>.
\<close>

section \<open>The steps\<close>

text \<open>The body of an \<open>async with tenant_txn(...)\<close> block as the calls it makes on its connection.\<close>

type_synonym ('c, 's) txn_call = "'c \<Rightarrow> ('s, exc, unit) action"

fun run_calls :: "('c, 's) txn_call list \<Rightarrow> 'c \<Rightarrow> ('s, exc, unit) action" where
  "run_calls [] c = act_return ()"
| "run_calls (m # ms) c = act_bind (m c) (\<lambda>_. run_calls ms c)"

text \<open>Where a task is in \<open>tenant_txn\<close>: before \<open>acquire\<close>, before \<open>transaction\<close> starts, before
  \<open>set_config\<close>, in the body, before the rollback, before the release, and past it.\<close>

datatype ('c, 's) txn_point =
    is_Outside: Outside
  | Entering pystr "('c, 's) txn_call list"
  | Acquired pystr 'c "('c, 's) txn_call list"
  | Begun pystr 'c "('c, 's) txn_call list"
  | Inside pystr 'c "('c, 's) txn_call list"
  | Failing pystr 'c exc
  | Ended 'c "exc + unit"
  | Finished "exc + unit"

fun txn_advance ::
  "('c, 's) pool_api \<Rightarrow> ('c, 's) txn_point \<times> 's \<Rightarrow> ('c, 's) txn_point \<times> 's" where
  "txn_advance api (Entering t ms, w) = (case pool_acquire api w of
       (Inr c, w') \<Rightarrow> (Acquired t c ms, w') | (Inl e, w') \<Rightarrow> (Finished (Inl e), w'))"
| "txn_advance api (Acquired t c ms, w) = (case tx_start api c w of
       (Inr _, w') \<Rightarrow> (Begun t c ms, w') | (Inl e, w') \<Rightarrow> (Ended c (Inl e), w'))"
| "txn_advance api (Begun t c ms, w) = (case conn_execute api c set_tenant_sql [t] w of
       (Inr _, w') \<Rightarrow> (Inside t c ms, w') | (Inl e, w') \<Rightarrow> (Failing t c e, w'))"
| "txn_advance api (Inside t c (m # ms), w) = (case m c w of
       (Inr _, w') \<Rightarrow> (Inside t c ms, w') | (Inl e, w') \<Rightarrow> (Failing t c e, w'))"
| "txn_advance api (Inside t c [], w) = (case tx_commit api c w of
       (Inr _, w') \<Rightarrow> (Ended c (Inr ()), w') | (Inl e, w') \<Rightarrow> (Ended c (Inl e), w'))"
| "txn_advance api (Failing t c e, w) = (case tx_rollback api c w of
       (Inr _, w') \<Rightarrow> (Ended c (Inl e), w') | (Inl d, w') \<Rightarrow> (Ended c (Inl d), w'))"
| "txn_advance api (Ended c r, w) = (case pool_release api c w of
       (Inr _, w') \<Rightarrow> (Finished r, w') | (Inl e, w') \<Rightarrow> (Finished (Inl e), w'))"
| "txn_advance api (p, w) = (p, w)"

record ('c, 's) tasks =
  tk_world :: 's
  tk_point :: "nat \<Rightarrow> ('c, 's) txn_point"

text \<open>A task may begin a transaction for any tenant with any of the calls in \<open>calls\<close>, or take the
  next step of the one it is in.\<close>

inductive tasks_step ::
  "('c, 's) pool_api \<Rightarrow> ('c, 's) txn_call set \<Rightarrow> ('c, 's) tasks \<Rightarrow> ('c, 's) tasks \<Rightarrow> bool" for api calls where
  begin_txn: "tk_point k i \<in> {Outside, Finished r} \<Longrightarrow> set ms \<subseteq> calls
    \<Longrightarrow> tasks_step api calls k (k\<lparr>tk_point := (tk_point k)(i := Entering t ms)\<rparr>)"
| advance: "txn_advance api (tk_point k i, tk_world k) = (p, w)
    \<Longrightarrow> tasks_step api calls k \<lparr>tk_world = w, tk_point = (tk_point k)(i := p)\<rparr>"

inductive tasks_reach ::
  "('c, 's) pool_api \<Rightarrow> ('c, 's) txn_call set \<Rightarrow> ('c, 's) tasks \<Rightarrow> ('c, 's) tasks \<Rightarrow> bool" for api calls k0 where
  start: "tasks_reach api calls k0 k0"
| step: "tasks_reach api calls k0 k \<Longrightarrow> tasks_step api calls k l \<Longrightarrow> tasks_reach api calls k0 l"

definition idle_tasks :: "'s \<Rightarrow> ('c, 's) tasks" where
  "idle_tasks w = \<lparr>tk_world = w, tk_point = (\<lambda>_. Outside)\<rparr>"

section \<open>The steps are those of tenant_txn\<close>

text \<open>The state a task that runs alone reaches from a point on.\<close>

lemma advance_finished [simp]: "(txn_advance api ^^ n) (Finished r, w) = (Finished r, w)"
  by (induction n) simp_all

definition reaches_end ::
  "('c, 's) pool_api \<Rightarrow> ('c, 's) txn_point \<times> 's \<Rightarrow> (exc + unit) \<times> 's \<Rightarrow> bool" where
  "reaches_end api pw out \<longleftrightarrow> (\<exists>n. (txn_advance api ^^ n) pw = (Finished (fst out), snd out))"

lemma reaches_end_step:
  assumes "reaches_end api (txn_advance api pw) out"
  shows "reaches_end api pw out"
proof -
  obtain n where "(txn_advance api ^^ n) (txn_advance api pw) = (Finished (fst out), snd out)"
    using assms by (auto simp: reaches_end_def)
  then have "(txn_advance api ^^ Suc n) pw = (Finished (fst out), snd out)"
    by (simp only: funpow_Suc_right comp_apply)
  then show ?thesis unfolding reaches_end_def by blast
qed

lemma reaches_end_unique:
  assumes "reaches_end api pw out" and "reaches_end api pw out'"
  shows "out = out'"
proof -
  obtain n m where n: "(txn_advance api ^^ n) pw = (Finished (fst out), snd out)"
    and m: "(txn_advance api ^^ m) pw = (Finished (fst out'), snd out')"
    using assms by (auto simp: reaches_end_def)
  have "(txn_advance api ^^ (n + m)) pw = (Finished (fst out'), snd out')"
    using m by (simp add: funpow_add)
  moreover have "(txn_advance api ^^ (n + m)) pw = (Finished (fst out), snd out)"
    using n by (simp add: add.commute [of n m] funpow_add)
  ultimately show ?thesis by (simp add: prod_eq_iff)
qed

lemma ended_reaches: "reaches_end api (Ended c r, w) (act_finally (\<lambda>s. (r, s)) (pool_release api c) w)"
  by - (rule reaches_end_step, auto simp: reaches_end_def act_finally_def intro!: exI [of _ 0] split: sum.split prod.split)

lemma failing_reaches:
  "reaches_end api (Failing t c e, w)
     (act_finally (act_bind (tx_rollback api c) (\<lambda>_. act_raise e)) (pool_release api c) w)"
proof -
  obtain r w' where rb: "tx_rollback api c w = (r, w')" by (cases "tx_rollback api c w")
  then show ?thesis
    using ended_reaches [of api c "case r of Inr _ \<Rightarrow> Inl e | Inl d \<Rightarrow> Inl d" w']
    by - (rule reaches_end_step, cases r; simp add: act_finally_def act_bind_def)
qed

lemma inside_reaches: "reaches_end api (Inside t c ms, w) (tenant_txn_exit api c (run_calls ms c w))"
proof (induction ms arbitrary: w)
  case Nil
  obtain r w' where cm: "tx_commit api c w = (r, w')" by (cases "tx_commit api c w")
  then show ?case
    using ended_reaches [of api c r w']
    by - (rule reaches_end_step, cases r; simp add: tenant_txn_exit_def act_finally_def act_bind_def)
next
  case (Cons m ms)
  obtain r w' where call: "m c w = (r, w')" by (cases "m c w")
  show ?case
  proof (cases r)
    case (Inr u)
    with call Cons.IH [of w'] show ?thesis
      by - (rule reaches_end_step, simp add: act_bind_def)
  next
    case (Inl e)
    with call failing_reaches [of api t c e w'] show ?thesis
      by - (rule reaches_end_step, simp add: tenant_txn_exit_def act_finally_def act_bind_def)
  qed
qed

lemma begun_reaches:
  "reaches_end api (Begun t c ms, w)
     (case conn_execute api c set_tenant_sql [t] w of
        (Inr _, w') \<Rightarrow> tenant_txn_exit api c (run_calls ms c w')
      | (Inl e, w') \<Rightarrow> tenant_txn_exit api c (Inl e, w'))"
proof -
  obtain r w' where ex: "conn_execute api c set_tenant_sql [t] w = (r, w')"
    by (cases "conn_execute api c set_tenant_sql [t] w")
  then show ?thesis
    using inside_reaches [of api t c ms w'] failing_reaches [of api t c _ w']
    by - (rule reaches_end_step, cases r; simp add: tenant_txn_exit_def act_finally_def act_bind_def)
qed

lemma acquired_reaches:
  "reaches_end api (Acquired t c ms, w)
     (act_finally (tenant_scope api t (run_calls ms) c) (pool_release api c) w)"
proof -
  obtain r w' where st: "tx_start api c w = (r, w')" by (cases "tx_start api c w")
  show ?thesis
  proof (cases r)
    case (Inl e)
    with st ended_reaches [of api c "Inl e" w'] show ?thesis
      by - (rule reaches_end_step, simp add: tenant_scope_def with_transaction_def act_finally_def act_bind_def)
  next
    case (Inr u)
    obtain q v where ex: "conn_execute api c set_tenant_sql [t] w' = (q, v)"
      by (cases "conn_execute api c set_tenant_sql [t] w'")
    obtain o2 v2 where "run_calls ms c v = (o2, v2)" by (cases "run_calls ms c v")
    with ex Inr st begun_reaches [of api t c ms w'] show ?thesis
      by - (rule reaches_end_step, cases q; simp add: tenant_txn_exit_def tenant_scope_def with_transaction_def
            act_finally_def act_bind_def)
  qed
qed

lemma entering_reaches: "reaches_end api (Entering t ms, w) (tenant_txn api t (run_calls ms) w)"
proof -
  obtain r w' where acq: "pool_acquire api w = (r, w')" by (cases "pool_acquire api w")
  then show ?thesis
    using acquired_reaches [of api t _ ms w']
    by - (rule reaches_end_step, cases r; auto simp: tenant_txn_def act_bind_def reaches_end_def intro: exI [of _ 0])
qed

text \<open>C16: the steps refine \<open>tenant_txn\<close>. A task that enters a transaction and runs without
  interruption comes to an end after finitely many steps, and its outcome and the state it
  leaves are those of \<open>tenant_txn\<close> with the body that makes the same calls; no other end is
  possible.\<close>

theorem solo_task_is_tenant_txn:
  "(\<exists>n. (txn_advance api ^^ n) (Entering t ms, w) = (Finished r, w'))
     = (tenant_txn api t (run_calls ms) w = (r, w'))"
proof
  assume "\<exists>n. (txn_advance api ^^ n) (Entering t ms, w) = (Finished r, w')"
  then have "reaches_end api (Entering t ms, w) (r, w')" by (simp add: reaches_end_def)
  then show "tenant_txn api t (run_calls ms) w = (r, w')"
    by (rule reaches_end_unique [OF entering_reaches])
next
  assume "tenant_txn api t (run_calls ms) w = (r, w')"
  then show "\<exists>n. (txn_advance api ^^ n) (Entering t ms, w) = (Finished r, w')"
    using entering_reaches [of api t ms w] by (simp add: reaches_end_def)
qed

section \<open>The invariant\<close>

text \<open>A call of a body that runs data statements: it works on its connection only and makes no
  tenant setting of its own.\<close>

definition data_call :: "('c, 's) pool_view \<Rightarrow> ('c, 's) txn_call \<Rightarrow> bool" where
  "data_call v m \<longleftrightarrow> (\<forall>c. confined v c (m c)
     \<and> (\<forall>s r s'. m c s = (r, s') \<longrightarrow> view_tenant v s' c = view_tenant v s c))"

lemma data_callD:
  assumes "data_call v m" and "m c s = (r, s')"
  shows "view_held v s' = view_held v s" and "view_tenant v s' = view_tenant v s"
  using assms unfolding data_call_def confined_def by (blast, fastforce simp: fun_eq_iff)

fun conn_of :: "('c, 's) txn_point \<Rightarrow> 'c option" where
  "conn_of (Acquired t c ms) = Some c"
| "conn_of (Begun t c ms) = Some c"
| "conn_of (Inside t c ms) = Some c"
| "conn_of (Failing t c e) = Some c"
| "conn_of (Ended c r) = Some c"
| "conn_of _ = None"

fun calls_of :: "('c, 's) txn_point \<Rightarrow> ('c, 's) txn_call set" where
  "calls_of (Entering t ms) = set ms"
| "calls_of (Acquired t c ms) = set ms"
| "calls_of (Begun t c ms) = set ms"
| "calls_of (Inside t c ms) = set ms"
| "calls_of _ = {}"

text \<open>The tenant setting a task's connection may have at a point.\<close>

fun setting_at :: "('c, 's) txn_point \<Rightarrow> pystr option set" where
  "setting_at (Inside t c ms) = {Some t}"
| "setting_at (Failing t c e) = {None, Some t}"
| "setting_at _ = {None}"

definition point_ok :: "('c, 's) pool_view \<Rightarrow> 's \<Rightarrow> ('c, 's) txn_point \<Rightarrow> bool" where
  "point_ok v w p \<longleftrightarrow> (\<forall>c. conn_of p = Some c \<longrightarrow> view_held v w c \<and> view_tenant v w c \<in> setting_at p)"

definition point_calls_ok :: "('c, 's) pool_view \<Rightarrow> ('c, 's) txn_point \<Rightarrow> bool" where
  "point_calls_ok v p \<longleftrightarrow> (\<forall>m \<in> calls_of p. data_call v m)"

text \<open>What one step of a task does to the pool: its own point stays right, it takes only a
  connection nobody holds and keeps it until it returns it without a tenant, and no other
  connection is touched.\<close>

definition advance_law ::
  "('c, 's) pool_view \<Rightarrow> ('c, 's) txn_point \<Rightarrow> 's \<Rightarrow> ('c, 's) txn_point \<Rightarrow> 's \<Rightarrow> bool" where
  "advance_law v p w p' w' \<longleftrightarrow> point_ok v w' p' \<and> calls_of p' \<subseteq> calls_of p
     \<and> (case (conn_of p, conn_of p') of
          (None, None) \<Rightarrow> view_held v w' = view_held v w \<and> view_tenant v w' = view_tenant v w
        | (None, Some c) \<Rightarrow> \<not> view_held v w c \<and> view_held v w' = (view_held v w)(c := True)
            \<and> view_tenant v w' = view_tenant v w
        | (Some c, None) \<Rightarrow> view_held v w' = (view_held v w)(c := False)
            \<and> view_tenant v w' = view_tenant v w \<and> view_tenant v w c = None
        | (Some c, Some d) \<Rightarrow> d = c \<and> view_held v w' = view_held v w
            \<and> (\<forall>b. b \<noteq> c \<longrightarrow> view_tenant v w' b = view_tenant v w b))"

lemma advance_lawful:
  assumes laws: "pool_laws api v" and clean: "pool_clean v w"
    and ok: "point_ok v w p" and calls: "point_calls_ok v p"
    and run: "txn_advance api (p, w) = (p', w')"
  shows "advance_law v p w p' w'"
proof -
  note law = pool_lawsD [OF laws]
  note defs = advance_law_def point_ok_def
  show ?thesis
  proof (cases p)
    case (Entering t ms)
    obtain r w1 where "pool_acquire api w = (r, w1)" by (cases "pool_acquire api w")
    then show ?thesis
      using run Entering clean law(1) [of w _ w1] law(2) [of w _ w1]
      by (cases r) (auto simp: defs pool_clean_def)
  next
    case (Acquired t c ms)
    obtain r w1 where "tx_start api c w = (r, w1)" by (cases "tx_start api c w")
    then show ?thesis
      using run Acquired ok law(4) [of c w r w1] by (cases r) (auto simp: defs)
  next
    case (Begun t c ms)
    obtain r w1 where "conn_execute api c set_tenant_sql [t] w = (r, w1)"
      by (cases "conn_execute api c set_tenant_sql [t] w")
    then show ?thesis
      using run Begun ok law(5) [of c t w _ w1] law(6) [of c t w _ w1] by (cases r) (auto simp: defs)
  next
    case (Inside t c ms)
    show ?thesis
    proof (cases ms)
      case Nil
      obtain r w1 where "tx_commit api c w = (r, w1)" by (cases "tx_commit api c w")
      then show ?thesis
        using run Inside Nil ok law(7) [of c w r w1] by (cases r) (auto simp: defs)
    next
      case (Cons m ms')
      obtain r w1 where call: "m c w = (r, w1)" by (cases "m c w")
      have "data_call v m" using calls Inside Cons by (simp add: point_calls_ok_def)
      note keep = data_callD [OF this call]
      show ?thesis using run Inside Cons ok call keep by (cases r) (auto simp: defs)
    qed
  next
    case (Failing t c e)
    obtain r w1 where "tx_rollback api c w = (r, w1)" by (cases "tx_rollback api c w")
    then show ?thesis
      using run Failing ok law(8) [of c w r w1] by (cases r) (auto simp: defs)
  next
    case (Ended c r)
    obtain q w1 where "pool_release api c w = (q, w1)" by (cases "pool_release api c w")
    then show ?thesis
      using run Ended ok law(3) [of c w q w1] by (cases q) (auto simp: defs)
  qed (use run ok in \<open>auto simp: defs\<close>)
qed

text \<open>The state of the pool and of all tasks: connections in use are held, by one task each, those
  not in use carry no tenant, and nobody else's connection (\<open>others\<close>, checked out by code that
  is no task) changes hands.\<close>

definition tasks_ok ::
  "('c, 's) pool_view \<Rightarrow> ('c \<Rightarrow> bool) \<Rightarrow> ('c, 's) tasks \<Rightarrow> bool" where
  "tasks_ok v others k \<longleftrightarrow> pool_clean v (tk_world k)
     \<and> (\<forall>i. point_ok v (tk_world k) (tk_point k i) \<and> point_calls_ok v (tk_point k i))
     \<and> (\<forall>i j c. conn_of (tk_point k i) = Some c \<longrightarrow> conn_of (tk_point k j) = Some c \<longrightarrow> i = j)
     \<and> (\<forall>c. view_held v (tk_world k) c \<longleftrightarrow> others c \<or> (\<exists>i. conn_of (tk_point k i) = Some c))
     \<and> (\<forall>c i. others c \<longrightarrow> conn_of (tk_point k i) \<noteq> Some c)"

lemma tasks_ok_idle: "pool_clean v w \<Longrightarrow> tasks_ok v (view_held v w) (idle_tasks w)"
  by (simp add: tasks_ok_def idle_tasks_def point_ok_def point_calls_ok_def)

text \<open>The connection a step leaves untouched.\<close>

lemma advance_frame:
  assumes "advance_law v p w p' w'" and "conn_of p \<noteq> Some d" and "conn_of p' \<noteq> Some d"
  shows "view_held v w' d = view_held v w d" and "view_tenant v w' d = view_tenant v w d"
  using assms by (auto simp: advance_law_def split: option.splits)

lemma advance_takes_free:
  assumes "advance_law v p w p' w'" and "conn_of p' = Some d"
  shows "conn_of p = Some d \<or> \<not> view_held v w d"
  using assms by (auto simp: advance_law_def split: option.splits)

lemma advance_held:
  assumes "advance_law v p w p' w'" and "point_ok v w p"
  shows "view_held v w' d \<longleftrightarrow> conn_of p' = Some d \<or> view_held v w d \<and> conn_of p \<noteq> Some d"
  using assms by (auto simp: advance_law_def point_ok_def split: option.splits)

lemma advance_clean:
  assumes "advance_law v p w p' w'" and "point_ok v w p" and "pool_clean v w"
  shows "pool_clean v w'"
  unfolding pool_clean_def
proof (intro allI impI)
  fix d assume free: "\<not> view_held v w' d"
  then have gone: "conn_of p' \<noteq> Some d" and "\<not> view_held v w d \<or> conn_of p = Some d"
    using advance_held [OF assms(1,2), of d] by simp_all
  then have old: "conn_of p \<noteq> Some d \<Longrightarrow> view_tenant v w d = None"
    using assms(3) by (simp add: pool_clean_def)
  show "view_tenant v w' d = None"
  proof (cases "conn_of p = Some d")
    case True
    with gone assms(1) show ?thesis by (auto simp: advance_law_def split: option.splits)
  next
    case False
    with old show ?thesis using advance_frame(2) [OF assms(1) False gone] by simp
  qed
qed

lemma some_task_upd:
  "(\<exists>j. conn_of ((f(i := p')) j) = Some c) \<longleftrightarrow> conn_of p' = Some c \<or> (\<exists>j. j \<noteq> i \<and> conn_of (f j) = Some c)"
  by (metis fun_upd_apply)

lemma tasks_ok_advance:
  assumes laws: "pool_laws api v" and ok: "tasks_ok v others k"
    and run: "txn_advance api (tk_point k i, tk_world k) = (p', w')"
  shows "tasks_ok v others \<lparr>tk_world = w', tk_point = (tk_point k)(i := p')\<rparr>"
proof -
  let ?w = "tk_world k" and ?p = "tk_point k"
  have clean: "pool_clean v ?w" and pts: "\<And>j. point_ok v ?w (?p j)" "\<And>j. point_calls_ok v (?p j)"
    and one: "\<And>j l c. conn_of (?p j) = Some c \<Longrightarrow> conn_of (?p l) = Some c \<Longrightarrow> j = l"
    and held: "\<And>c. view_held v ?w c \<longleftrightarrow> others c \<or> (\<exists>j. conn_of (?p j) = Some c)"
    and oth: "\<And>c j. others c \<Longrightarrow> conn_of (?p j) \<noteq> Some c"
    using ok unfolding tasks_ok_def by blast+
  have law: "advance_law v (?p i) ?w p' w'"
    by (rule advance_lawful [OF laws clean pts(1) pts(2) run])
  note free = advance_takes_free [OF law]
  have apart: "conn_of p' \<noteq> Some c" if "conn_of (?p j) = Some c" "j \<noteq> i" for c j
    using free [of c] one [of j c i] that held by blast
  have oth': "conn_of p' \<noteq> Some c" if "others c" for c
    using free [of c] oth [OF that, of i] that held by blast
  have pts': "point_ok v w' (?p j)" if "j \<noteq> i" for j
    unfolding point_ok_def
  proof (intro allI impI)
    fix c assume c: "conn_of (?p j) = Some c"
    then have "conn_of (?p i) \<noteq> Some c" "conn_of p' \<noteq> Some c" using one that apart by blast+
    then show "view_held v w' c \<and> view_tenant v w' c \<in> setting_at (?p j)"
      using advance_frame [OF law, of c] pts(1) [of j] c by (simp add: point_ok_def)
  qed
  have new: "point_ok v w' p'" "point_calls_ok v p'"
    using law pts(2) [of i] unfolding advance_law_def point_calls_ok_def by blast+
  have held': "view_held v w' c \<longleftrightarrow> others c \<or> (\<exists>j. conn_of ((?p(i := p')) j) = Some c)" for c
    using advance_held [OF law pts(1), of c] held [of c] oth' [of c] oth [of c i] one [of _ c i]
    unfolding some_task_upd by metis
  have one': "j = l" if "conn_of ((?p(i := p')) j) = Some c" "conn_of ((?p(i := p')) l) = Some c" for j l c
    using that one [of j c l] apart [of j c] apart [of l c] by (simp split: if_splits)
  have all: "point_ok v w' ((?p(i := p')) j) \<and> point_calls_ok v ((?p(i := p')) j)" for j
    using pts' [of j] new pts(2) [of j] by simp
  have oth2: "conn_of ((?p(i := p')) j) \<noteq> Some c" if "others c" for c j
    using oth' [OF that] oth [OF that, of j] by simp
  show ?thesis
    unfolding tasks_ok_def tasks.simps
    using advance_clean [OF law pts(1) clean] all one' held' oth2 by (intro conjI allI impI) blast+
qed

lemma tasks_ok_step:
  assumes "pool_laws api v" and "\<And>m. m \<in> calls \<Longrightarrow> data_call v m"
    and "tasks_step api calls k l" and "tasks_ok v others k"
  shows "tasks_ok v others l"
  using assms(3,4)
proof (cases rule: tasks_step.cases)
  case (begin_txn i r ms t)
  have idle: "conn_of (tk_point k i) = None" using begin_txn(2) by auto
  have calls: "point_calls_ok v (Entering t ms)"
    using begin_txn(3) assms(2) by (auto simp: point_calls_ok_def)
  have "point_ok v (tk_world k) (Entering t ms)" by (simp add: point_ok_def)
  moreover have "(\<exists>j. conn_of (((tk_point k)(i := Entering t ms)) j) = Some c)
      \<longleftrightarrow> (\<exists>j. conn_of (tk_point k j) = Some c)" for c
    unfolding some_task_upd using idle by (metis conn_of.simps(7) option.distinct(1))
  ultimately show ?thesis
    using assms(4) calls unfolding begin_txn(1) tasks_ok_def by (simp del: fun_upd_apply) (simp split: if_splits)
next
  case (advance i p w)
  then show ?thesis using tasks_ok_advance [OF assms(1,4) advance(2)] by simp
qed

lemma tasks_reach_ok:
  assumes "pool_laws api v" and "\<And>m. m \<in> calls \<Longrightarrow> data_call v m"
    and "tasks_reach api calls (idle_tasks w) k" and "pool_clean v w"
  shows "tasks_ok v (view_held v w) k"
  using assms(3)
  by induction (use tasks_ok_idle [OF assms(4)] tasks_ok_step [OF assms(1,2)] in \<open>blast+\<close>)

section \<open>The properties\<close>

text \<open>C12: many tasks on one pool. Whatever the interleaving of tenant transactions, and wherever
  they fail: a connection is never held by two tasks; a task in the body of its transaction
  runs on a connection whose session has precisely that task's tenant; a connection that no
  task holds carries no tenant; and when every task is outside or finished, exactly the
  connections are checked out that were at the start.\<close>

theorem interleaved_txns_never_share:
  assumes "pool_laws api v" and "\<And>m. m \<in> calls \<Longrightarrow> data_call v m"
    and "tasks_reach api calls (idle_tasks w) k" and "pool_clean v w"
  shows "(\<forall>i j c. conn_of (tk_point k i) = Some c \<and> conn_of (tk_point k j) = Some c \<longrightarrow> i = j)
     \<and> (\<forall>i t c ms. tk_point k i = Inside t c ms \<longrightarrow>
          view_held v (tk_world k) c \<and> view_tenant v (tk_world k) c = Some t)
     \<and> (\<forall>c. \<not> view_held v (tk_world k) c \<longrightarrow> view_tenant v (tk_world k) c = None)
     \<and> ((\<forall>i. conn_of (tk_point k i) = None) \<longrightarrow> view_held v (tk_world k) = view_held v w)"
proof -
  have ok: "tasks_ok v (view_held v w) k" by (rule tasks_reach_ok [OF assms(1,2,3,4)])
  have inside: "view_held v (tk_world k) c \<and> view_tenant v (tk_world k) c = Some t"
    if "tk_point k i = Inside t c ms" for i t c ms
  proof -
    have "point_ok v (tk_world k) (Inside t c ms)" using ok that unfolding tasks_ok_def by metis
    then show ?thesis by (simp add: point_ok_def)
  qed
  show ?thesis
    using ok inside unfolding tasks_ok_def pool_clean_def by (auto simp: fun_eq_iff)
qed

text \<open>Tenants stay apart however their transactions interleave. In every reachable state, the
  statements a task runs in the body of its transaction, evaluated by the policies under the
  setting its connection then has and on whatever rows the tables then hold, return only rows
  of that task's tenant and leave those of all others as they are; and no other task is on
  that connection.\<close>

theorem interleaved_txns_isolated:
  assumes "pool_laws api v" and "\<And>m. m \<in> calls \<Longrightarrow> data_call v m"
    and "tasks_reach api calls (idle_tasks w) k" and "pool_clean v w"
    and "tk_point k i = Inside t c ms" and "as_uuid t = Some u"
    and "exec_all (document_policy as_uuid (view_tenant v (tk_world k) c)) document_conflict sts docs = Inr (outs, docs')"
    and "exec_all (chunk_policy as_uuid (view_tenant v (tk_world k) c)) chunk_conflict csts chunks = Inr (couts, chunks')"
  shows "filter (\<lambda>r. doc_tenant_id r \<noteq> u) docs' = filter (\<lambda>r. doc_tenant_id r \<noteq> u) docs
     \<and> filter (\<lambda>r. chunk_tenant_id r \<noteq> u) chunks' = filter (\<lambda>r. chunk_tenant_id r \<noteq> u) chunks
     \<and> (\<forall>out \<in> set outs. \<forall>r \<in> set out. doc_tenant_id r = u)
     \<and> (\<forall>out \<in> set couts. \<forall>r \<in> set out. chunk_tenant_id r = u)
     \<and> (\<forall>j. j \<noteq> i \<longrightarrow> conn_of (tk_point k j) \<noteq> Some c)"
proof -
  have ok: "tasks_ok v (view_held v w) k" by (rule tasks_reach_ok [OF assms(1,2,3,4)])
  then have "point_ok v (tk_world k) (Inside t c ms)" using assms(5) unfolding tasks_ok_def by metis
  then have set: "view_tenant v (tk_world k) c = Some t" by (simp add: point_ok_def)
  have "\<forall>j. j \<noteq> i \<longrightarrow> conn_of (tk_point k j) \<noteq> Some c"
    using ok assms(5) unfolding tasks_ok_def by (metis conn_of.simps(3))
  then show ?thesis
    using documents.exec_all_isolated [of as_uuid, OF assms(6,7) [unfolded set]]
      chunks.exec_all_isolated [of as_uuid, OF assms(6) assms(8) [unfolded set]] by blast
qed

section \<open>Schedules\<close>

text \<open>A schedule names the task that moves next, and what it begins when it is outside.\<close>

fun run_schedule ::
  "('c, 's) pool_api \<Rightarrow> (nat \<times> pystr \<times> ('c, 's) txn_call list) list \<Rightarrow> ('c, 's) tasks \<Rightarrow> ('c, 's) tasks" where
  "run_schedule api [] k = k"
| "run_schedule api ((i, t, ms) # sched) k = run_schedule api sched
     (if is_Outside (tk_point k i) then k\<lparr>tk_point := (tk_point k)(i := Entering t ms)\<rparr>
      else (case txn_advance api (tk_point k i, tk_world k) of
          (p', w') \<Rightarrow> \<lparr>tk_world = w', tk_point = (tk_point k)(i := p')\<rparr>))"

lemma run_schedule_reach:
  assumes "tasks_reach api calls k0 k" and "\<forall>(i, t, ms) \<in> set sched. set ms \<subseteq> calls"
  shows "tasks_reach api calls k0 (run_schedule api sched k)"
  using assms
proof (induction sched arbitrary: k)
  case (Cons e sched)
  obtain i t ms where e: "e = (i, t, ms)" by (cases e)
  let ?k = "if is_Outside (tk_point k i) then k\<lparr>tk_point := (tk_point k)(i := Entering t ms)\<rparr>
      else (case txn_advance api (tk_point k i, tk_world k) of
          (p', w') \<Rightarrow> \<lparr>tk_world = w', tk_point = (tk_point k)(i := p')\<rparr>)"
  have "tasks_step api calls k ?k"
    using Cons.prems(2) e
    by (cases "txn_advance api (tk_point k i, tk_world k)")
       (auto simp: is_Outside_def intro: tasks_step.intros)
  with Cons.prems(1) have "tasks_reach api calls k0 ?k" by (rule tasks_reach.step)
  with Cons.IH Cons.prems(2) e show ?case by simp
qed simp

end
