(* ===== verification/Weaviate.thy ===== *)
theory Weaviate
  imports Origins Settings_Core "HOL-Library.Sublist"
begin

text \<open>
  \<open>backend/src/app/retrieval/weaviate.py\<close>: shard names, the connection arguments, the
  bootstrap of the Chunk collection and its tenants, and the tenant-bound handle. The
  Weaviate client is a parameter; what its documentation promises is \<open>weaviate_laws\<close>.
\<close>

section \<open>Names and connection\<close>

definition CHUNK_COLLECTION :: pystr where
  "CHUNK_COLLECTION = lit ''Chunk''"

definition tenant_name :: "pystr \<Rightarrow> pystr" where
  "tenant_name tenant_id = lit ''tenant_'' @ map (\<lambda>c. if c = 45 then 95 else c) tenant_id"

record weaviate_address =
  wa_host :: pystr
  wa_port :: int
  wa_grpc_port :: int

definition DEFAULT_GRPC_PORT :: int where
  "DEFAULT_GRPC_PORT = 50051"

text \<open>\<open>parts.hostname or "localhost"\<close> and \<open>parts.port or 8080\<close>: port 0 counts as none.\<close>

definition weaviate_address_of :: "settings \<Rightarrow> exc + weaviate_address" where
  "weaviate_address_of s =
     bind_res (map_err PyExc (urlsplit (weaviate_url s))) (\<lambda>parts.
     bind_res (map_err PyExc (url_port parts)) (\<lambda>port.
       Inr \<lparr>wa_host = (case hostname parts of Some h \<Rightarrow> h | None \<Rightarrow> lit ''localhost''),
            wa_port = (case port of Some p \<Rightarrow> if p = 0 then 8080 else p | None \<Rightarrow> 8080),
            wa_grpc_port = DEFAULT_GRPC_PORT\<rparr>))"

text \<open>The client of an address, connected.\<close>

definition connect_weaviate ::
  "(weaviate_address \<Rightarrow> ('s, exc, 'c) action) \<Rightarrow> ('c \<Rightarrow> ('s, exc, unit) action) \<Rightarrow> settings \<Rightarrow> ('s, exc, 'c) action" where
  "connect_weaviate use_async_with_local connect settings =
     act_bind (act_lift (weaviate_address_of settings)) (\<lambda>address.
     act_bind (use_async_with_local address) (\<lambda>client.
     act_bind (connect client) (\<lambda>_. act_return client)))"

section \<open>Bootstrap\<close>

record collection_config =
  cc_name :: pystr
  cc_multi_tenancy :: bool
  cc_auto_tenant_creation :: bool
  cc_self_provided_vectors :: bool
  cc_properties :: "(pystr \<times> pystr) list"

definition chunk_collection_config :: collection_config where
  "chunk_collection_config =
     \<lparr>cc_name = CHUNK_COLLECTION, cc_multi_tenancy = True, cc_auto_tenant_creation = False,
      cc_self_provided_vectors = True,
      cc_properties = [(lit ''document_id'', lit ''text''), (lit ''chunk_index'', lit ''int''),
        (lit ''text'', lit ''text'')]\<rparr>"

record chunk_properties =
  cp_document_id :: pystr
  cp_chunk_index :: int
  cp_text :: pystr

text \<open>The client: the calls on collections, on the tenants of a collection, and on the data of a
  collection bound to one tenant.\<close>

record 's weaviate_api =
  collections_exists :: "pystr \<Rightarrow> ('s, exc, bool) action"
  collections_create :: "collection_config \<Rightarrow> ('s, exc, unit) action"
  tenants_get :: "pystr \<Rightarrow> ('s, exc, pystr list) action"
  tenants_create :: "pystr \<Rightarrow> pystr list \<Rightarrow> ('s, exc, unit) action"
  data_insert :: "pystr \<Rightarrow> pystr \<Rightarrow> chunk_properties \<Rightarrow> pyfloat list \<Rightarrow> ('s, exc, unit) action"
  aggregate_total :: "pystr \<Rightarrow> pystr \<Rightarrow> ('s, exc, int option) action"

definition ensure_collection :: "'s weaviate_api \<Rightarrow> ('s, exc, unit) action" where
  "ensure_collection api =
     act_bind (collections_exists api CHUNK_COLLECTION) (\<lambda>found.
       if \<not> found then collections_create api chunk_collection_config else act_return ())"

definition missing_tenants :: "pystr list \<Rightarrow> pystr list \<Rightarrow> pystr list" where
  "missing_tenants existing tenant_ids =
     filter (\<lambda>name. name \<notin> set existing) (map tenant_name tenant_ids)"

definition bootstrap_chunks :: "'s weaviate_api \<Rightarrow> pystr list \<Rightarrow> ('s, exc, unit) action" where
  "bootstrap_chunks api tenant_ids =
     act_bind (ensure_collection api) (\<lambda>_.
     act_bind (tenants_get api CHUNK_COLLECTION) (\<lambda>existing.
       let missing = missing_tenants existing tenant_ids in
       if missing \<noteq> [] then tenants_create api CHUNK_COLLECTION missing else act_return ()))"

section \<open>The tenant-bound handle\<close>

record tenant_chunks =
  tc_collection :: pystr
  tc_tenant :: pystr

definition new_tenant_chunks :: "pystr \<Rightarrow> tenant_chunks" where
  "new_tenant_chunks tenant_id = \<lparr>tc_collection = CHUNK_COLLECTION, tc_tenant = tenant_name tenant_id\<rparr>"

definition chunks_insert ::
  "'s weaviate_api \<Rightarrow> tenant_chunks \<Rightarrow> pystr \<Rightarrow> int \<Rightarrow> pystr \<Rightarrow> pyfloat list \<Rightarrow> ('s, exc, unit) action" where
  "chunks_insert api h document_id chunk_index text vector =
     data_insert api (tc_collection h) (tc_tenant h)
       \<lparr>cp_document_id = document_id, cp_chunk_index = chunk_index, cp_text = text\<rparr> vector"

definition chunks_count :: "'s weaviate_api \<Rightarrow> tenant_chunks \<Rightarrow> ('s, exc, int) action" where
  "chunks_count api h =
     act_bind (aggregate_total api (tc_collection h) (tc_tenant h)) (\<lambda>total.
       act_return (case total of Some n \<Rightarrow> n | None \<Rightarrow> 0))"

section \<open>Shard names\<close>

lemma tenant_name_eq_iff:
  "tenant_name a = tenant_name b \<longleftrightarrow>
     list_all2 (\<lambda>c d. c = d \<or> c \<in> {45, 95} \<and> d \<in> {45, 95}) a b"
proof -
  have "map (\<lambda>c. if c = 45 then 95 else c :: int) a = map (\<lambda>c. if c = 45 then 95 else c) b
      \<longleftrightarrow> list_all2 (\<lambda>c d. c = d \<or> c \<in> {45, 95} \<and> d \<in> {45, 95}) a b" for a b
  proof (induction a arbitrary: b)
    case (Cons x xs)
    then show ?case by (cases b) auto
  qed simp
  then show ?thesis by (simp add: tenant_name_def)
qed

lemma tenant_name_no_underscore:
  assumes "95 \<notin> set a" and "95 \<notin> set b"
  shows "tenant_name a = tenant_name b \<longleftrightarrow> a = b"
proof -
  have "c = d" if "list_all2 (\<lambda>c d. c = d \<or> c \<in> {45, 95} \<and> d \<in> {45, 95}) c d"
    "95 \<notin> set c" "95 \<notin> set d" for c d :: pystr
    using that by (induction rule: list_all2_induct) auto
  then show ?thesis using assms tenant_name_eq_iff [of a b] by blast
qed

text \<open>Shard names separate tenants as far as the ids do: two ids get the same shard exactly
  when they differ at most in hyphens against underscores, so ids free of underscores, such
  as uuids, never share one; and no shard name contains a hyphen.\<close>

theorem tenant_name_separates:
  "(tenant_name a = tenant_name b \<longleftrightarrow> list_all2 (\<lambda>c d. c = d \<or> c \<in> {45, 95} \<and> d \<in> {45, 95}) a b)
 \<and> (if 95 \<notin> set a \<and> 95 \<notin> set b then tenant_name a = tenant_name b \<longleftrightarrow> a = b else True)
 \<and> 45 \<notin> set (tenant_name a)
 \<and> tenant_name (lit ''a-b'') = tenant_name (lit ''a_b'')"
proof -
  have "tenant_name a = tenant_name b \<longleftrightarrow> a = b" if "95 \<notin> set a \<and> 95 \<notin> set b"
    using that tenant_name_no_underscore by blast
  moreover have "45 \<notin> set (tenant_name a)" by (auto simp: tenant_name_def lit_def)
  moreover have "tenant_name (lit ''a-b'') = tenant_name (lit ''a_b'')" by (simp add: tenant_name_def lit_def)
  ultimately show ?thesis using tenant_name_eq_iff [of a b] by simp
qed

section \<open>What the server promises\<close>

text \<open>Reading calls change nothing and report what there is; creating the collection makes it
  exist without tenants; creating tenants adds them.\<close>

record 's weaviate_view =
  wv_exists :: "'s \<Rightarrow> bool"
  wv_tenants :: "'s \<Rightarrow> pystr set"

definition weaviate_laws :: "'s weaviate_api \<Rightarrow> 's weaviate_view \<Rightarrow> bool" where
  "weaviate_laws api v \<longleftrightarrow>
     (\<forall>s r s'. collections_exists api CHUNK_COLLECTION s = (r, s') \<longrightarrow> s' = s
        \<and> (case r of Inr b \<Rightarrow> b = wv_exists v s | Inl e \<Rightarrow> True))
   \<and> (\<forall>s r s'. tenants_get api CHUNK_COLLECTION s = (r, s') \<longrightarrow> s' = s
        \<and> (case r of Inr ts \<Rightarrow> set ts = wv_tenants v s | Inl e \<Rightarrow> True))
   \<and> (\<forall>s u s'. collections_create api chunk_collection_config s = (Inr u, s') \<longrightarrow>
        wv_exists v s' \<and> wv_tenants v s' = wv_tenants v s)
   \<and> (\<forall>s u s' ts. tenants_create api CHUNK_COLLECTION ts s = (Inr u, s') \<longrightarrow>
        wv_exists v s' = wv_exists v s \<and> wv_tenants v s' = wv_tenants v s \<union> set ts)"

lemma weaviate_lawsD:
  assumes "weaviate_laws api v"
  shows "collections_exists api CHUNK_COLLECTION s = (r, s') \<Longrightarrow> s' = s \<and> (\<forall>b. r = Inr b \<longrightarrow> b = wv_exists v s)"
    and "tenants_get api CHUNK_COLLECTION s = (q, s') \<Longrightarrow> s' = s \<and> (\<forall>ts. q = Inr ts \<longrightarrow> set ts = wv_tenants v s)"
    and "collections_create api chunk_collection_config s = (Inr u, s') \<Longrightarrow>
      wv_exists v s' \<and> wv_tenants v s' = wv_tenants v s"
    and "tenants_create api CHUNK_COLLECTION ts s = (Inr u, s') \<Longrightarrow>
      wv_exists v s' = wv_exists v s \<and> wv_tenants v s' = wv_tenants v s \<union> set ts"
proof -
  note laws = assms [unfolded weaviate_laws_def]
  show "collections_exists api CHUNK_COLLECTION s = (r, s') \<Longrightarrow> s' = s \<and> (\<forall>b. r = Inr b \<longrightarrow> b = wv_exists v s)"
    using conjunct1 [OF laws] by fastforce
  show "tenants_get api CHUNK_COLLECTION s = (q, s') \<Longrightarrow> s' = s \<and> (\<forall>ts. q = Inr ts \<longrightarrow> set ts = wv_tenants v s)"
    using conjunct1 [OF conjunct2 [OF laws]] by fastforce
  show "collections_create api chunk_collection_config s = (Inr u, s') \<Longrightarrow>
      wv_exists v s' \<and> wv_tenants v s' = wv_tenants v s" using laws by blast
  show "tenants_create api CHUNK_COLLECTION ts s = (Inr u, s') \<Longrightarrow>
      wv_exists v s' = wv_exists v s \<and> wv_tenants v s' = wv_tenants v s \<union> set ts" using laws by blast
qed

section \<open>Bootstrap is sound and idempotent\<close>

lemma ensure_collection_ok:
  assumes "weaviate_laws api v" and "ensure_collection api s = (Inr u, s')"
  shows "wv_exists v s' \<and> wv_tenants v s' = wv_tenants v s"
proof -
  note laws = weaviate_lawsD [OF assms(1)]
  obtain found s1 where ex: "collections_exists api CHUNK_COLLECTION s = (Inr found, s1)"
    and run: "(if \<not> found then collections_create api chunk_collection_config else act_return ()) s1 = (Inr u, s')"
    using assms(2) unfolding ensure_collection_def by (rule act_bind_InrE)
  have "s1 = s" and "found = wv_exists v s" using laws(1) [OF ex] by auto
  with run laws(3) [of s u s'] show ?thesis by (auto split: if_splits)
qed

lemma ensure_collection_noop:
  assumes "weaviate_laws api v" and "wv_exists v s"
  shows "ensure_collection api s = (case collections_exists api CHUNK_COLLECTION s of
      (Inl e, _) \<Rightarrow> (Inl e, s) | (Inr _, _) \<Rightarrow> (Inr (), s))"
proof (cases "collections_exists api CHUNK_COLLECTION s")
  case (Pair r s1)
  then have "s1 = s" and "\<forall>b. r = Inr b \<longrightarrow> b" using weaviate_lawsD(1) [OF assms(1) Pair] assms(2) by auto
  with Pair show ?thesis by (cases r) (auto simp: ensure_collection_def act_bind_def)
qed

text \<open>C40: after a successful bootstrap the collection exists, the tenants are those that existed
  before together with the shards of the given ids, and a second bootstrap with the same ids
  (or some of them) changes nothing, whether it succeeds or fails.\<close>

theorem bootstrap_chunks_idempotent:
  assumes "weaviate_laws api v" and "bootstrap_chunks api tenant_ids s = (Inr u, s')"
    and "set ids \<subseteq> set tenant_ids"
  shows "wv_exists v s' \<and> wv_tenants v s' = wv_tenants v s \<union> tenant_name ` set tenant_ids
     \<and> snd (bootstrap_chunks api ids s') = s'"
proof -
  note laws = weaviate_lawsD [OF assms(1)]
  obtain s1 u1 where e: "ensure_collection api s = (Inr u1, s1)"
    and rest: "act_bind (tenants_get api CHUNK_COLLECTION) (\<lambda>existing.
       let missing = missing_tenants existing tenant_ids in
       if missing \<noteq> [] then tenants_create api CHUNK_COLLECTION missing else act_return ()) s1 = (Inr u, s')"
    using assms(2) unfolding bootstrap_chunks_def by (rule act_bind_InrE)
  obtain existing s2 where g: "tenants_get api CHUNK_COLLECTION s1 = (Inr existing, s2)"
    and c: "(if missing_tenants existing tenant_ids \<noteq> []
        then tenants_create api CHUNK_COLLECTION (missing_tenants existing tenant_ids) else act_return ()) s2 = (Inr u, s')"
    using rest unfolding Let_def by (rule act_bind_InrE)
  have v1: "wv_exists v s1" "wv_tenants v s1 = wv_tenants v s" using ensure_collection_ok [OF assms(1) e] by auto
  have s2: "s2 = s1" "set existing = wv_tenants v s" using laws(2) [OF g] v1 by auto
  have missing: "set (missing_tenants existing tenant_ids) = tenant_name ` set tenant_ids - wv_tenants v s"
    using s2 by (auto simp: missing_tenants_def)
  have "wv_exists v s' \<and> wv_tenants v s' = wv_tenants v s \<union> set (missing_tenants existing tenant_ids)"
    using c v1 s2 laws(4) [of "missing_tenants existing tenant_ids" s2 u s'] by (auto split: if_splits)
  then have ex: "wv_exists v s'" and ts: "wv_tenants v s' = wv_tenants v s \<union> tenant_name ` set tenant_ids"
    using missing by auto
  have "snd (bootstrap_chunks api ids s') = s'"
  proof (cases "ensure_collection api s'")
    case (Pair r t)
    have t: "t = s'" using Pair ensure_collection_noop [OF assms(1) ex] by (auto split: prod.splits sum.splits)
    obtain q t2 where g2: "tenants_get api CHUNK_COLLECTION s' = (q, t2)" by (cases "tenants_get api CHUNK_COLLECTION s'")
    have q: "t2 = s'" "\<forall>ts. q = Inr ts \<longrightarrow> set ts = wv_tenants v s'" using laws(2) [OF g2] by auto
    have "missing_tenants xs ids = []" if "set xs = wv_tenants v s'" for xs
      using that ts assms(3) by (auto simp: missing_tenants_def filter_empty_conv)
    with Pair t g2 q show ?thesis
      by (cases r; cases q) (simp_all add: bootstrap_chunks_def act_bind_def Let_def)
  qed
  with ex ts show ?thesis by blast
qed

section \<open>What a tenant-bound handle reaches\<close>

text \<open>The shards of the Chunk collection: for each tenant of it, the chunks in it.\<close>

type_synonym chunk_object = "chunk_properties \<times> pyfloat list"

text \<open>A call bound to a tenant that does not exist fails and makes none
  (\<open>auto_tenant_creation\<close> is off). An insert that returns has added one object to the shard of
  its tenant; one that fails has added it or not; no other shard is touched. Counting
  changes nothing and counts the shard.\<close>

definition shard_laws :: "'s weaviate_api \<Rightarrow> ('s \<Rightarrow> pystr \<Rightarrow> chunk_object list option) \<Rightarrow> bool" where
  "shard_laws api shards \<longleftrightarrow>
     (\<forall>s r s' name p x. data_insert api CHUNK_COLLECTION name p x s = (r, s') \<longrightarrow>
        (\<forall>other. other \<noteq> name \<longrightarrow> shards s' other = shards s other)
      \<and> (case shards s name of
           None \<Rightarrow> r \<noteq> Inr () \<and> shards s' name = None
         | Some objs \<Rightarrow> shards s' name = Some (objs @ [(p, x)]) \<or> r \<noteq> Inr () \<and> shards s' name = Some objs))
   \<and> (\<forall>s r s' name. aggregate_total api CHUNK_COLLECTION name s = (r, s') \<longrightarrow> shards s' = shards s
      \<and> (\<forall>n. r = Inr n \<longrightarrow> (\<exists>objs. shards s name = Some objs \<and> n = Some (int (length objs)))))"

lemma shard_lawsD:
  assumes "shard_laws api shards"
  shows "data_insert api CHUNK_COLLECTION name p x s = (r, s') \<Longrightarrow> other \<noteq> name \<Longrightarrow> shards s' other = shards s other"
    and "data_insert api CHUNK_COLLECTION name p x s = (r, s') \<Longrightarrow> shards s name = None
      \<Longrightarrow> r \<noteq> Inr () \<and> shards s' name = None"
    and "data_insert api CHUNK_COLLECTION name p x s = (r, s') \<Longrightarrow> shards s name = Some objs
      \<Longrightarrow> shards s' name = Some (objs @ [(p, x)]) \<or> r \<noteq> Inr () \<and> shards s' name = Some objs"
    and "aggregate_total api CHUNK_COLLECTION name s = (q, s') \<Longrightarrow> shards s' = shards s
      \<and> (\<forall>n. q = Inr n \<longrightarrow> (\<exists>objs. shards s name = Some objs \<and> n = Some (int (length objs))))"
  using assms unfolding shard_laws_def by (blast, fastforce, fastforce, blast)

text \<open>What code holding handles can do: make one for a tenant id and insert or count through it;
  whether a call returns or raises, it may go on.\<close>

datatype chunk_op =
    Insert_chunk pystr pystr int pystr "pyfloat list"
  | Count_chunks pystr

fun op_tenant :: "chunk_op \<Rightarrow> pystr" where
  "op_tenant (Insert_chunk t d i x v) = t"
| "op_tenant (Count_chunks t) = t"

fun op_object :: "chunk_op \<Rightarrow> chunk_object list" where
  "op_object (Insert_chunk t d i x v) = [(\<lparr>cp_document_id = d, cp_chunk_index = i, cp_text = x\<rparr>, v)]"
| "op_object (Count_chunks t) = []"

fun run_op :: "'s weaviate_api \<Rightarrow> chunk_op \<Rightarrow> 's \<Rightarrow> (exc + int option) \<times> 's" where
  "run_op api (Insert_chunk t d i x v) s =
     act_bind (chunks_insert api (new_tenant_chunks t) d i x v) (\<lambda>_. act_return None) s"
| "run_op api (Count_chunks t) s =
     act_bind (chunks_count api (new_tenant_chunks t)) (\<lambda>n. act_return (Some n)) s"

text \<open>The results, in order, and the state at the end.\<close>

fun run_ops :: "'s weaviate_api \<Rightarrow> chunk_op list \<Rightarrow> 's \<Rightarrow> (exc + int option) list \<times> 's" where
  "run_ops api [] s = ([], s)"
| "run_ops api (op # ops) s =
     (case run_op api op s of (r, s') \<Rightarrow> case run_ops api ops s' of (rs, s'') \<Rightarrow> (r # rs, s''))"

lemma run_op_shard:
  assumes "shard_laws api shards" and "run_op api op s = (r, s')"
  shows "name \<noteq> tenant_name (op_tenant op) \<Longrightarrow> shards s' name = shards s name"
    and "name = tenant_name (op_tenant op) \<Longrightarrow> shards s name = None \<Longrightarrow> (\<exists>e. r = Inl e) \<and> shards s' name = None"
    and "name = tenant_name (op_tenant op) \<Longrightarrow> shards s name = Some objs \<Longrightarrow>
      shards s' name = Some (objs @ op_object op) \<or> (\<exists>e. r = Inl e) \<and> shards s' name = Some objs"
    and "r = Inr (Some n) \<Longrightarrow> name = tenant_name (op_tenant op) \<Longrightarrow>
      \<exists>objs. shards s name = Some objs \<and> n = int (length objs)"
proof -
  note laws = shard_lawsD [OF assms(1)]
  note defs = chunks_insert_def chunks_count_def new_tenant_chunks_def act_bind_def act_return_def
  show "name \<noteq> tenant_name (op_tenant op) \<Longrightarrow> shards s' name = shards s name"
    using assms(2) by (cases op) (auto simp: defs dest: laws(1,4) split: prod.splits sum.splits)
  show "name = tenant_name (op_tenant op) \<Longrightarrow> shards s name = None \<Longrightarrow> (\<exists>e. r = Inl e) \<and> shards s' name = None"
    using assms(2) by (cases op) (auto simp: defs dest: laws(2,4) split: prod.splits sum.splits)
  show "name = tenant_name (op_tenant op) \<Longrightarrow> shards s name = Some objs \<Longrightarrow>
      shards s' name = Some (objs @ op_object op) \<or> (\<exists>e. r = Inl e) \<and> shards s' name = Some objs"
    using assms(2) by (cases op) (auto simp: defs dest: laws(3,4) split: prod.splits sum.splits)
  show "r = Inr (Some n) \<Longrightarrow> name = tenant_name (op_tenant op) \<Longrightarrow>
      \<exists>objs. shards s name = Some objs \<and> n = int (length objs)"
    using assms(2) by (cases op) (fastforce simp: defs dest: laws(4) split: prod.splits sum.splits)+
qed

text \<open>What the operations on a tenant's shard ask to add, and whether they all returned. They are
  those of the handles whose ids have the same shard name.\<close>

definition on_shard_of :: "pystr \<Rightarrow> chunk_op \<Rightarrow> bool" where
  "on_shard_of b op \<longleftrightarrow> tenant_name (op_tenant op) = tenant_name b"

definition objects_of :: "pystr \<Rightarrow> chunk_op list \<Rightarrow> chunk_object list" where
  "objects_of b ops = concat (map op_object (filter (on_shard_of b) ops))"

definition failed_for :: "pystr \<Rightarrow> chunk_op list \<Rightarrow> (exc + int option) list \<Rightarrow> bool" where
  "failed_for b ops rs \<longleftrightarrow> (\<exists>(op, r) \<in> set (zip ops rs). on_shard_of b op \<and> (\<exists>e. r = Inl e))"

lemma objects_of_Cons:
  "objects_of b (op # ops) = (if on_shard_of b op then op_object op else []) @ objects_of b ops"
  by (simp add: objects_of_def)

lemma failed_for_Cons:
  "failed_for b (op # ops) (r # rs) \<longleftrightarrow> on_shard_of b op \<and> (\<exists>e. r = Inl e) \<or> failed_for b ops rs"
  by (auto simp: failed_for_def)

lemma run_ops_shard:
  assumes laws: "shard_laws api shards" and "run_ops api ops s = (rs, s')"
    and "shards s (tenant_name b) = Some objs"
  shows "\<exists>new. shards s' (tenant_name b) = Some (objs @ new) \<and> subseq new (objects_of b ops)
    \<and> (failed_for b ops rs \<or> new = objects_of b ops)"
  using assms(2,3)
proof (induction ops arbitrary: s rs objs)
  case Nil
  then show ?case by (simp add: objects_of_def)
next
  case (Cons op ops)
  obtain r s1 where one: "run_op api op s = (r, s1)" by (cases "run_op api op s")
  obtain rs1 where rest: "run_ops api ops s1 = (rs1, s')" and s': "rs = r # rs1"
    using Cons.prems(1) one by (auto split: prod.splits)
  note step = run_op_shard [OF laws one, where name = "tenant_name b"]
  have "\<exists>now. shards s1 (tenant_name b) = Some (objs @ now)
    \<and> (now = (if on_shard_of b op then op_object op else []) \<or> on_shard_of b op \<and> (\<exists>e. r = Inl e) \<and> now = [])"
  proof (cases "on_shard_of b op")
    case True
    then show ?thesis using step(3) [OF _ Cons.prems(2)] unfolding on_shard_of_def by (metis append_Nil2)
  next
    case False
    then show ?thesis
      using step(1) Cons.prems(2) by (intro exI [of _ "[]"]) (auto simp: on_shard_of_def)
  qed
  then obtain now where now: "shards s1 (tenant_name b) = Some (objs @ now)"
    and kind: "now = (if on_shard_of b op then op_object op else [])
      \<or> on_shard_of b op \<and> (\<exists>e. r = Inl e) \<and> now = []" by blast
  obtain new where new: "shards s' (tenant_name b) = Some ((objs @ now) @ new)" "subseq new (objects_of b ops)"
    "failed_for b ops rs1 \<or> new = objects_of b ops"
    using Cons.IH [OF rest now] by auto
  have "subseq (now @ new) (objects_of b (op # ops))"
    unfolding objects_of_Cons using kind new(2) by (intro list_emb_append_mono) auto
  moreover have "failed_for b (op # ops) rs \<or> now @ new = objects_of b (op # ops)"
    using kind new(3) unfolding s' objects_of_Cons failed_for_Cons by auto
  ultimately show ?case using new(1) by (intro exI [of _ "now @ new"]) simp
qed

lemma run_ops_no_shard:
  assumes laws: "shard_laws api shards" and "run_ops api ops s = (rs, s')"
    and "shards s (tenant_name b) = None"
  shows "shards s' (tenant_name b) = None \<and> (\<forall>(op, r) \<in> set (zip ops rs). on_shard_of b op \<longrightarrow> (\<exists>e. r = Inl e))"
  using assms(2,3)
proof (induction ops arbitrary: s rs)
  case (Cons op ops)
  obtain r s1 where one: "run_op api op s = (r, s1)" by (cases "run_op api op s")
  obtain rs1 where rest: "run_ops api ops s1 = (rs1, s')" and s': "rs = r # rs1"
    using Cons.prems(1) one by (auto split: prod.splits)
  note step = run_op_shard(1,2) [OF laws one, where name = "tenant_name b"]
  have "shards s1 (tenant_name b) = None" and "on_shard_of b op \<longrightarrow> (\<exists>e. r = Inl e)"
    using step Cons.prems(2) unfolding on_shard_of_def by metis+
  then show ?case using Cons.IH [OF rest] s' by auto
qed simp

lemma on_shard_of_plain:
  assumes "95 \<notin> set b" and "\<And>op. op \<in> set ops \<Longrightarrow> 95 \<notin> set (op_tenant op)"
  shows "filter (on_shard_of b) ops = filter (\<lambda>op. op_tenant op = b) ops"
  using tenant_name_no_underscore [OF assms(2) assms(1)] by (auto simp: on_shard_of_def intro: filter_cong)

text \<open>C39: what reaches the shard of a tenant. Whatever code does with handles made for tenant ids, in
  any order, some calls succeeding and some failing: the shard of an id holds what it held
  before and then, in order, objects inserted through handles whose id has the same shard name,
  all of them if no call of such a handle failed; a count is the size of the shard; and for an
  id that was not bootstrapped there is no shard, none is made, and every call through its
  handle fails. Two ids have the same shard name exactly when they differ at most in hyphens
  against underscores. So a tenant's shard is its own when the ids in use have no underscore,
  as uuids have none; of ids like \<open>a-b\<close> and \<open>a_b\<close> each reads and writes the other's shard.\<close>

theorem tenant_chunks_isolated:
  assumes "shard_laws api shards" and "run_ops api ops s = (rs, s')"
  shows "(case shards s (tenant_name b) of
      None \<Rightarrow> shards s' (tenant_name b) = None
        \<and> (\<forall>(op, r) \<in> set (zip ops rs). tenant_name (op_tenant op) = tenant_name b \<longrightarrow> (\<exists>e. r = Inl e))
    | Some objs \<Rightarrow> \<exists>new. shards s' (tenant_name b) = Some (objs @ new) \<and> subseq new (objects_of b ops)
        \<and> (failed_for b ops rs \<or> new = objects_of b ops)
        \<and> (\<forall>n s''. run_op api (Count_chunks b) s' = (Inr (Some n), s'') \<longrightarrow> n = int (length (objs @ new))))
   \<and> (\<forall>a. tenant_name a = tenant_name b \<longleftrightarrow> list_all2 (\<lambda>c d. c = d \<or> c \<in> {45, 95} \<and> d \<in> {45, 95}) a b)
   \<and> (95 \<notin> set b \<and> (\<forall>op \<in> set ops. 95 \<notin> set (op_tenant op)) \<longrightarrow>
        objects_of b ops = concat (map op_object (filter (\<lambda>op. op_tenant op = b) ops)))"
proof (intro conjI)
  have count: "n = int (length xs)"
    if "run_op api (Count_chunks b) s' = (Inr (Some n), s'')" "shards s' (tenant_name b) = Some xs" for n s'' xs
    using run_op_shard(4) [OF assms(1) that(1), where name = "tenant_name b"] that(2) by simp
  show "case shards s (tenant_name b) of
      None \<Rightarrow> shards s' (tenant_name b) = None
        \<and> (\<forall>(op, r) \<in> set (zip ops rs). tenant_name (op_tenant op) = tenant_name b \<longrightarrow> (\<exists>e. r = Inl e))
    | Some objs \<Rightarrow> \<exists>new. shards s' (tenant_name b) = Some (objs @ new) \<and> subseq new (objects_of b ops)
        \<and> (failed_for b ops rs \<or> new = objects_of b ops)
        \<and> (\<forall>n s''. run_op api (Count_chunks b) s' = (Inr (Some n), s'') \<longrightarrow> n = int (length (objs @ new)))"
  proof (cases "shards s (tenant_name b)")
    case None
    with run_ops_no_shard [OF assms None] show ?thesis by (simp add: on_shard_of_def)
  next
    case (Some objs)
    with run_ops_shard [OF assms Some] count show ?thesis by (simp only: option.case) metis
  qed
  show "\<forall>a. tenant_name a = tenant_name b \<longleftrightarrow> list_all2 (\<lambda>c d. c = d \<or> c \<in> {45, 95} \<and> d \<in> {45, 95}) a b"
    using tenant_name_eq_iff by blast
  show "95 \<notin> set b \<and> (\<forall>op \<in> set ops. 95 \<notin> set (op_tenant op)) \<longrightarrow>
      objects_of b ops = concat (map op_object (filter (\<lambda>op. op_tenant op = b) ops))"
    using on_shard_of_plain [of b ops] by (simp add: objects_of_def)
qed

end
