(* ===== verification/Store_Examples.thy ===== *)
theory Store_Examples
  imports Db Rls Weaviate
begin

text \<open>
  Small instances of the three stores: a pool of one connection, a documents table with two
  tenants, and a Weaviate server that remembers its tenants. They apply the properties of
  theories \<open>Db\<close>, \<open>Rls\<close> and \<open>Weaviate\<close> to concrete runs.
\<close>

section \<open>A pool of one connection\<close>

record one_conn =
  oc_held :: bool
  oc_tenant :: "pystr option"

definition one_conn_api :: "(unit, one_conn) pool_api" where
  "one_conn_api =
     \<lparr>pool_acquire = (\<lambda>s. if oc_held s then (Inl (PyExc (OtherExc (lit ''TimeoutError''))), s)
        else (Inr (), s\<lparr>oc_held := True\<rparr>)),
      pool_release = (\<lambda>c s. (Inr (), s\<lparr>oc_held := False\<rparr>)),
      tx_start = (\<lambda>c s. (Inr (), s)),
      tx_commit = (\<lambda>c s. (Inr (), s\<lparr>oc_tenant := None\<rparr>)),
      tx_rollback = (\<lambda>c s. (Inr (), s\<lparr>oc_tenant := None\<rparr>)),
      conn_execute = (\<lambda>c sql args s.
        case args of [t] \<Rightarrow> (Inr (), s\<lparr>oc_tenant := Some t\<rparr>) | _ \<Rightarrow> (Inl (PyExc PostgresError), s))\<rparr>"

definition one_conn_view :: "(unit, one_conn) pool_view" where
  "one_conn_view = \<lparr>view_tenant = (\<lambda>s c. oc_tenant s), view_held = (\<lambda>s c. oc_held s)\<rparr>"

definition idle :: one_conn where
  "idle = \<lparr>oc_held = False, oc_tenant = None\<rparr>"

lemma one_conn_laws: "pool_laws one_conn_api one_conn_view"
  unfolding pool_laws_def by (auto simp: one_conn_api_def one_conn_view_def fun_eq_iff split: if_splits)

text \<open>A body that reads the tenant it runs under and then raises.\<close>

definition failing_body :: "unit \<Rightarrow> (one_conn, exc, unit) action" where
  "failing_body c s = (if oc_tenant s = Some (lit ''t1'') then Inl (PyExc ValueError) else Inr (), s)"

theorem tenant_txn_leaves_pool_clean_witness:
  "tenant_txn one_conn_api (lit ''t1'') failing_body idle = (Inl (PyExc ValueError), idle)
 \<and> pool_clean one_conn_view idle"
proof -
  have conf: "confined one_conn_view c (failing_body c)" for c
    by (simp add: confined_def failing_body_def)
  have clean: "pool_clean one_conn_view idle" by (simp add: pool_clean_def one_conn_view_def idle_def)
  have run: "tenant_txn one_conn_api (lit ''t1'') failing_body idle = (Inl (PyExc ValueError), idle)" by code_simp
  show ?thesis using tenant_txn_leaves_pool_clean [OF one_conn_laws conf clean run] run by blast
qed

theorem tenant_txn_body_has_tenant_witness:
  "\<exists>c s1. view_held one_conn_view s1 c \<and> view_tenant one_conn_view s1 c = Some (lit ''t1'')"
proof -
  have "tenant_txn one_conn_api (lit ''t1'') (\<lambda>c s. (Inr (1 :: nat), s)) idle = (Inr 1, idle)" by code_simp
  then have "\<not> (\<exists>e s'. \<forall>body :: unit \<Rightarrow> (one_conn, exc, nat) action.
      tenant_txn one_conn_api (lit ''t1'') body idle = (Inl e, s'))" by force
  then show ?thesis
    using tenant_txn_body_has_tenant [OF one_conn_laws, of "lit ''t1''" idle] by blast
qed

section \<open>Two tenants' documents\<close>

definition doc :: "nat \<Rightarrow> nat \<Rightarrow> nat document_row" where
  "doc i t = \<lparr>doc_id = i, doc_tenant_id = t, doc_object_key = [], doc_content_hash = [int i],
     doc_status = lit ''queued'', doc_failure_reason = None, doc_created_at = 0\<rparr>"

definition small_uuid :: "pystr \<Rightarrow> nat option" where
  "small_uuid t = (if t = lit ''t1'' then Some 1 else if t = lit ''t2'' then Some 2 else None)"

theorem rls_isolates_tenants_witness:
  "exec_all (document_policy small_uuid (Some (lit ''t1''))) document_conflict
       [Select (\<lambda>r. True), Delete (\<lambda>r. True)] [doc 7 1, doc 8 2] = Inr ([[doc 7 1], []], [doc 8 2])
 \<and> filter (\<lambda>r. doc_tenant_id r \<noteq> 1) [doc 8 2] = filter (\<lambda>r. doc_tenant_id r \<noteq> 1) [doc 7 1, doc 8 2]"
proof -
  have u: "small_uuid (lit ''t1'') = Some 1" by code_simp
  have run: "exec_all (document_policy small_uuid (Some (lit ''t1''))) document_conflict
       [Select (\<lambda>r. True), Delete (\<lambda>r. True)] [doc 7 1, doc 8 2] = Inr ([[doc 7 1], []], [doc 8 2])"
    by (simp add: exec_stmt_def document_policy_def tenant_policy_cases doc_def u)
  have chunks: "exec_all (chunk_policy small_uuid (Some (lit ''t1''))) chunk_conflict [] [] = Inr ([], [])" by simp
  show ?thesis
    using rls_isolates_tenants [where as_uuid = small_uuid, OF u run chunks] run by blast
qed

text \<open>Reading the table without a tenant fails; a condition no row meets shows nothing, or fails too.\<close>

theorem rls_fails_closed_by_error_witness:
  "exec_planned False small_uuid None document_policy document_conflict (Select (\<lambda>r. True)) [doc 7 1] = Inl PostgresError
 \<and> exec_planned False small_uuid (Some (lit ''tenant-a'')) document_policy document_conflict
     (Delete (\<lambda>r. doc_id r = 9)) [doc 7 1] = Inr ([], [doc 7 1])
 \<and> exec_planned True small_uuid (Some (lit ''tenant-a'')) document_policy document_conflict
     (Delete (\<lambda>r. doc_id r = 9)) [doc 7 1] = Inl PostgresError"
proof -
  have none: "(None :: pystr option) = None \<or> small_uuid (the None) = None"
    and bad: "Some (lit ''tenant-a'') = None \<or> small_uuid (the (Some (lit ''tenant-a''))) = None"
    by (simp, code_simp)
  have ok: "no_conflicts document_conflict [doc 7 1]" "no_conflicts chunk_conflict []" by simp_all
  have other: "\<not> st_reaches (Delete (\<lambda>r. doc_id r = 9)) [doc 7 1]" by (simp add: doc_def)
  show ?thesis
    using rls_fails_closed_by_error [where as_uuid = small_uuid and st = "Select (\<lambda>r. True)" and early = False, OF none ok]
      rls_fails_closed_by_error [where as_uuid = small_uuid and st = "Delete (\<lambda>r. doc_id r = 9)" and early = False, OF bad ok]
      rls_fails_closed_by_error [where as_uuid = small_uuid and st = "Delete (\<lambda>r. doc_id r = 9)" and early = True, OF bad ok]
      other by simp
qed

text \<open>The same statements beside two different rows of another tenant.\<close>

theorem tenant_sees_own_rows_only_witness:
  "\<exists>outs docs1 docs2.
     exec_all (document_policy small_uuid (Some (lit ''t1''))) document_conflict
       [Select (\<lambda>r. True), Update (\<lambda>r. True) (doc_status_update (\<lambda>_. lit ''done''))] [doc 7 1, doc 8 2] = Inr (outs, docs1)
   \<and> exec_all (document_policy small_uuid (Some (lit ''t1''))) document_conflict
       [Select (\<lambda>r. True), Update (\<lambda>r. True) (doc_status_update (\<lambda>_. lit ''done''))] [doc 9 2, doc 7 1] = Inr (outs, docs2)
   \<and> filter (\<lambda>r. doc_tenant_id r = 1) docs1 = filter (\<lambda>r. doc_tenant_id r = 1) docs2"
proof -
  let ?sts = "[Select (\<lambda>r. True), Update (\<lambda>r. True) (doc_status_update (\<lambda>_. lit ''done''))]"
  let ?run = "exec_all (document_policy small_uuid (Some (lit ''t1''))) document_conflict ?sts"
  have u: "small_uuid (lit ''t1'') = Some 1" by code_simp
  have same: "filter (\<lambda>r. doc_tenant_id r = 1) [doc 7 1, doc 8 2] = filter (\<lambda>r. doc_tenant_id r = 1) [doc 9 2, doc 7 1]"
    by (simp add: doc_def)
  have none: "exec_all (chunk_policy small_uuid (Some (lit ''t1''))) chunk_conflict [] [] = Inr ([], [])" by simp
  obtain o1 d1 where r1: "?run [doc 7 1, doc 8 2] = Inr (o1, d1)"
    by (simp add: exec_stmt_def document_policy_def tenant_policy_cases doc_def u document_conflict_def Let_def)
  obtain o2 d2 where r2: "?run [doc 9 2, doc 7 1] = Inr (o2, d2)"
    by (simp add: exec_stmt_def document_policy_def tenant_policy_cases doc_def u document_conflict_def Let_def)
  show ?thesis
    using tenant_sees_own_rows_only [where as_uuid = small_uuid, OF u same refl r1 r2 none none] r1 r2 by blast
qed

theorem foreign_id_shows_witness:
  "exec_stmt (document_policy small_uuid (Some (lit ''t1''))) document_conflict (Insert (doc 8 1)) [doc 8 2] = Inl PostgresError
 \<and> exec_stmt (document_policy small_uuid (Some (lit ''t1''))) document_conflict (Insert (doc 8 1)) [] = Inr ([], [doc 8 1])"
proof -
  have u: "small_uuid (lit ''t1'') = Some 1" by code_simp
  show ?thesis by (rule foreign_id_shows [where as_uuid = small_uuid, OF u]) (simp_all add: doc_def)
qed

section \<open>A Weaviate server\<close>

record small_server =
  ss_exists :: bool
  ss_tenants :: "pystr list"

definition small_server_api :: "small_server weaviate_api" where
  "small_server_api =
     \<lparr>collections_exists = (\<lambda>n s. (Inr (ss_exists s), s)),
      collections_create = (\<lambda>cfg s. (Inr (), s\<lparr>ss_exists := True\<rparr>)),
      tenants_get = (\<lambda>n s. (Inr (ss_tenants s), s)),
      tenants_create = (\<lambda>n ts s. (Inr (), s\<lparr>ss_tenants := ss_tenants s @ ts\<rparr>)),
      data_insert = (\<lambda>n t p v s. (Inr (), s)),
      aggregate_total = (\<lambda>n t s. (Inr None, s))\<rparr>"

definition small_server_view :: "small_server weaviate_view" where
  "small_server_view = \<lparr>wv_exists = ss_exists, wv_tenants = (\<lambda>s. set (ss_tenants s))\<rparr>"

lemma small_server_laws: "weaviate_laws small_server_api small_server_view"
  by (auto simp: weaviate_laws_def small_server_api_def small_server_view_def)

theorem bootstrap_chunks_idempotent_witness:
  "\<exists>s'. bootstrap_chunks small_server_api [lit ''a-1'', lit ''b-2''] \<lparr>ss_exists = False, ss_tenants = []\<rparr> = (Inr (), s')
     \<and> wv_exists small_server_view s' \<and> snd (bootstrap_chunks small_server_api [lit ''b-2''] s') = s'"
proof -
  let ?s' = "\<lparr>ss_exists = True, ss_tenants = [lit ''tenant_a_1'', lit ''tenant_b_2'']\<rparr>"
  have run: "bootstrap_chunks small_server_api [lit ''a-1'', lit ''b-2''] \<lparr>ss_exists = False, ss_tenants = []\<rparr> = (Inr (), ?s')"
    by code_simp
  show ?thesis
    using bootstrap_chunks_idempotent [OF small_server_laws run, of "[lit ''b-2'']"] run by simp
qed

section \<open>Its shards\<close>

text \<open>A server that holds the shards of its tenants, by name.\<close>

type_synonym small_shards = "pystr \<Rightarrow> chunk_object list option"

definition small_shards_api :: "small_shards weaviate_api" where
  "small_shards_api =
     \<lparr>collections_exists = (\<lambda>n s. (Inr True, s)),
      collections_create = (\<lambda>cfg s. (Inr (), s)),
      tenants_get = (\<lambda>n s. (Inr [], s)),
      tenants_create = (\<lambda>n ts s. (Inr (), \<lambda>t. if t \<in> set ts \<and> s t = None then Some [] else s t)),
      data_insert = (\<lambda>n t p v s. case s t of
          None \<Rightarrow> (Inl (PyExc (OtherExc (lit ''UnexpectedStatusCodeError''))), s)
        | Some objs \<Rightarrow> (Inr (), s(t \<mapsto> objs @ [(p, v)]))),
      aggregate_total = (\<lambda>n t s. case s t of
          None \<Rightarrow> (Inl (PyExc (OtherExc (lit ''WeaviateQueryError''))), s)
        | Some objs \<Rightarrow> (Inr (Some (int (length objs))), s))\<rparr>"

lemma small_shards_laws: "shard_laws small_shards_api (\<lambda>s. s)"
  by (auto simp: shard_laws_def small_shards_api_def split: option.splits)

definition two_shards :: small_shards where
  "two_shards = [lit ''tenant_a_1'' \<mapsto> [], lit ''tenant_b_2'' \<mapsto> []]"

text \<open>Two tenants, an id that was not bootstrapped, and one that differs from the second tenant's in a
  hyphen only.\<close>

definition mixed_ops :: "chunk_op list" where
  "mixed_ops = [Insert_chunk (lit ''a-1'') (lit ''d1'') 0 (lit ''alpha'') [],
     Insert_chunk (lit ''b-2'') (lit ''d2'') 0 (lit ''beta'') [],
     Insert_chunk (lit ''c-3'') (lit ''d3'') 0 (lit ''gamma'') [],
     Insert_chunk (lit ''a-1'') (lit ''d1'') 1 (lit ''delta'') [],
     Insert_chunk (lit ''b_2'') (lit ''d4'') 0 (lit ''omega'') [], Count_chunks (lit ''b-2'')]"

theorem tenant_chunks_isolated_witness:
  "\<exists>s'. snd (run_ops small_shards_api mixed_ops two_shards) = s'
     \<and> s' (tenant_name (lit ''b-2''))
       = Some [(\<lparr>cp_document_id = lit ''d2'', cp_chunk_index = 0, cp_text = lit ''beta''\<rparr>, []),
               (\<lparr>cp_document_id = lit ''d4'', cp_chunk_index = 0, cp_text = lit ''omega''\<rparr>, [])]
     \<and> s' (tenant_name (lit ''c-3'')) = None"
proof -
  obtain rs s' where run: "run_ops small_shards_api mixed_ops two_shards = (rs, s')"
    by (cases "run_ops small_shards_api mixed_ops two_shards")
  have b: "two_shards (tenant_name (lit ''b-2'')) = Some []" and c: "two_shards (tenant_name (lit ''c-3'')) = None"
    by code_simp+
  have all: "objects_of (lit ''b-2'') mixed_ops =
    [(\<lparr>cp_document_id = lit ''d2'', cp_chunk_index = 0, cp_text = lit ''beta''\<rparr>, []),
     (\<lparr>cp_document_id = lit ''d4'', cp_chunk_index = 0, cp_text = lit ''omega''\<rparr>, [])]"
    by code_simp
  have "(case run_ops small_shards_api mixed_ops two_shards of (rs, s') \<Rightarrow>
      list_all (\<lambda>(op, r). on_shard_of (lit ''b-2'') op \<longrightarrow> (case r of Inl e \<Rightarrow> False | Inr x \<Rightarrow> True)) (zip mixed_ops rs))"
    by code_simp
  then have fine: "\<not> failed_for (lit ''b-2'') mixed_ops rs"
    by (auto simp: run failed_for_def list_all_iff)
  note isolated = tenant_chunks_isolated [OF small_shards_laws run, THEN conjunct1]
  show ?thesis
    using isolated [of "lit ''b-2''"] isolated [of "lit ''c-3''"] fine run by (simp add: b c all)
qed

end
