(* ===== verification/Pool_Examples.thy ===== *)
theory Pool_Examples
  imports Pool_Tasks Store_Examples
begin

text \<open>
  A pool of two connections with two tasks of different tenants, as a concrete instance of
  theory \<open>Pool_Tasks\<close>.
\<close>

section \<open>A pool of two connections\<close>

record two_conns =
  tc_free :: "nat list"
  tc_tenant :: "nat \<Rightarrow> pystr option"

definition two_conns_api :: "(nat, two_conns) pool_api" where
  "two_conns_api =
     \<lparr>pool_acquire = (\<lambda>s. case tc_free s of
          [] \<Rightarrow> (Inl (PyExc (OtherExc (lit ''TimeoutError''))), s)
        | c # cs \<Rightarrow> (Inr c, s\<lparr>tc_free := removeAll c cs\<rparr>)),
      pool_release = (\<lambda>c s. (Inr (), s\<lparr>tc_free := c # removeAll c (tc_free s)\<rparr>)),
      tx_start = (\<lambda>c s. (Inr (), s)),
      tx_commit = (\<lambda>c s. (Inr (), s\<lparr>tc_tenant := (tc_tenant s)(c := None)\<rparr>)),
      tx_rollback = (\<lambda>c s. (Inr (), s\<lparr>tc_tenant := (tc_tenant s)(c := None)\<rparr>)),
      conn_execute = (\<lambda>c sql args s.
        case args of [t] \<Rightarrow> (Inr (), s\<lparr>tc_tenant := (tc_tenant s)(c := Some t)\<rparr>)
        | _ \<Rightarrow> (Inl (PyExc PostgresError), s))\<rparr>"

definition two_conns_view :: "(nat, two_conns) pool_view" where
  "two_conns_view = \<lparr>view_tenant = tc_tenant, view_held = (\<lambda>s c. c \<notin> set (tc_free s))\<rparr>"

definition two_idle :: two_conns where
  "two_idle = \<lparr>tc_free = [0, 1], tc_tenant = (\<lambda>_. None)\<rparr>"

lemma two_conns_laws: "pool_laws two_conns_api two_conns_view"
  unfolding pool_laws_def
  by (auto simp: two_conns_api_def two_conns_view_def fun_eq_iff split: list.splits)

lemma two_idle_clean: "pool_clean two_conns_view two_idle"
  by (simp add: pool_clean_def two_conns_view_def two_idle_def)

text \<open>A query, and a statement the database refuses.\<close>

definition ok_call :: "(nat, two_conns) txn_call" where
  "ok_call c s = (Inr (), s)"

definition bad_call :: "(nat, two_conns) txn_call" where
  "bad_call c s = (Inl (PyExc PostgresError), s)"

lemma two_calls: "m \<in> {ok_call, bad_call} \<Longrightarrow> data_call two_conns_view m"
  by (auto simp: data_call_def confined_def ok_call_def bad_call_def)

section \<open>Two tasks\<close>

text \<open>Task 0 is for \<open>t1\<close> and task 1 for \<open>t2\<close>; both are brought into the body of their transaction,
  step about.\<close>

definition both_inside :: "(nat, two_conns) tasks" where
  "both_inside = run_schedule two_conns_api
     [(0, lit ''t1'', [ok_call]), (1, lit ''t2'', [bad_call]), (0, [], []), (1, [], []),
      (1, [], []), (0, [], []), (1, [], []), (0, [], [])] (idle_tasks two_idle)"

lemma both_inside_reach: "tasks_reach two_conns_api {ok_call, bad_call} (idle_tasks two_idle) both_inside"
  unfolding both_inside_def by (rule run_schedule_reach [OF tasks_reach.start]) simp

lemmas two_run_defs = both_inside_def two_conns_api_def two_idle_def idle_tasks_def

lemma both_inside_points:
  "tk_point both_inside 0 = Inside (lit ''t1'') 0 [ok_call]"
  "tk_point both_inside 1 = Inside (lit ''t2'') 1 [bad_call]"
  by (simp_all add: two_run_defs)

theorem interleaved_txns_never_share_witness:
  "tk_point both_inside 0 = Inside (lit ''t1'') 0 [ok_call]
 \<and> view_tenant two_conns_view (tk_world both_inside) 0 = Some (lit ''t1'')
 \<and> tk_point both_inside 1 = Inside (lit ''t2'') 1 [bad_call]
 \<and> view_tenant two_conns_view (tk_world both_inside) 1 = Some (lit ''t2'')"
  using interleaved_txns_never_share [OF two_conns_laws two_calls both_inside_reach two_idle_clean]
    both_inside_points by blast

theorem interleaved_txns_isolated_witness:
  "exec_all (document_policy small_uuid (view_tenant two_conns_view (tk_world both_inside) 1)) document_conflict
       [Select (\<lambda>r. True), Delete (\<lambda>r. True)] [doc 7 1, doc 8 2] = Inr ([[doc 8 2], []], [doc 7 1])
 \<and> filter (\<lambda>r. doc_tenant_id r \<noteq> 2) [doc 7 1] = filter (\<lambda>r. doc_tenant_id r \<noteq> 2) [doc 7 1, doc 8 2]
 \<and> conn_of (tk_point both_inside 0) \<noteq> Some 1"
proof -
  let ?set = "view_tenant two_conns_view (tk_world both_inside) 1"
  have u: "small_uuid (lit ''t2'') = Some 2" by code_simp
  have t: "?set = Some (lit ''t2'')" by (simp add: two_run_defs two_conns_view_def)
  have run: "exec_all (document_policy small_uuid ?set) document_conflict
       [Select (\<lambda>r. True), Delete (\<lambda>r. True)] [doc 7 1, doc 8 2] = Inr ([[doc 8 2], []], [doc 7 1])"
    unfolding t by (simp add: exec_stmt_def document_policy_def tenant_policy_cases doc_def u)
  have none: "exec_all (chunk_policy small_uuid ?set) chunk_conflict [] [] = Inr ([], [])" by simp
  note all = interleaved_txns_isolated [where as_uuid = small_uuid, OF two_conns_laws two_calls both_inside_reach
      two_idle_clean both_inside_points(2) u run none]
  show ?thesis using run all by (simp add: both_inside_points)
qed

end
