(* ===== verification/Tenant_Data.thy ===== *)
theory Tenant_Data
  imports Db Rls
begin

text \<open>
  \<open>tenant_txn\<close> over the tables it protects: the statements a caller runs in the body of
  \<open>core/db.py\<close>'s transaction, under the policies of the migrations, and what they leave
  committed. A transaction is taken alone: what others commit meanwhile is outside; how
  transactions interleave on the pool is theory \<open>Pool_Tasks\<close>.
\<close>

section \<open>Statements on the two tables\<close>

record 'u tenant_db =
  db_documents :: "'u document_row list"
  db_chunks :: "'u chunk_row list"

datatype 'u db_stmt =
    On_documents "'u document_row stmt"
  | On_chunks "'u chunk_row stmt"

datatype 'u shown =
    Documents "'u document_row list"
  | Chunks "'u chunk_row list"

fun exec_db ::
  "(pystr \<Rightarrow> 'u option) \<Rightarrow> pystr option \<Rightarrow> 'u db_stmt \<Rightarrow> 'u tenant_db \<Rightarrow> py_exc + ('u shown \<times> 'u tenant_db)" where
  "exec_db as_uuid setting (On_documents st) db =
     bind_res (exec_stmt (document_policy as_uuid setting) document_conflict st (db_documents db))
       (\<lambda>(out, rows). Inr (Documents out, db\<lparr>db_documents := rows\<rparr>))"
| "exec_db as_uuid setting (On_chunks st) db =
     bind_res (exec_stmt (chunk_policy as_uuid setting) chunk_conflict st (db_chunks db))
       (\<lambda>(out, rows). Inr (Chunks out, db\<lparr>db_chunks := rows\<rparr>))"

fun exec_db_all ::
  "(pystr \<Rightarrow> 'u option) \<Rightarrow> pystr option \<Rightarrow> 'u db_stmt list \<Rightarrow> 'u tenant_db \<Rightarrow> py_exc + ('u shown list \<times> 'u tenant_db)" where
  "exec_db_all as_uuid setting [] db = Inr ([], db)"
| "exec_db_all as_uuid setting (st # sts) db =
     bind_res (exec_db as_uuid setting st db) (\<lambda>(out, db').
     bind_res (exec_db_all as_uuid setting sts db') (\<lambda>(outs, db''). Inr (out # outs, db'')))"

text \<open>The rows of the tenants other than one, and the results that hold only rows of one.\<close>

definition others :: "'u \<Rightarrow> 'u tenant_db \<Rightarrow> 'u tenant_db" where
  "others u db = \<lparr>db_documents = filter (\<lambda>r. doc_tenant_id r \<noteq> u) (db_documents db),
     db_chunks = filter (\<lambda>r. chunk_tenant_id r \<noteq> u) (db_chunks db)\<rparr>"

fun shows_only :: "'u \<Rightarrow> 'u shown \<Rightarrow> bool" where
  "shows_only u (Documents rows) = (\<forall>r \<in> set rows. doc_tenant_id r = u)"
| "shows_only u (Chunks rows) = (\<forall>r \<in> set rows. chunk_tenant_id r = u)"

lemma exec_db_isolated:
  assumes "as_uuid t = Some u" and "exec_db as_uuid (Some t) st db = Inr (out, db')"
  shows "others u db' = others u db \<and> shows_only u out"
  using assms(2) documents.exec_stmt_isolated [of as_uuid, OF assms(1)]
    chunks.exec_stmt_isolated [of as_uuid, OF assms(1)]
  by (cases st) (fastforce simp: res_simps others_def split: prod.splits)+

lemma exec_db_all_isolated:
  assumes u: "as_uuid t = Some u" and "exec_db_all as_uuid (Some t) sts db = Inr (outs, db')"
  shows "others u db' = others u db \<and> list_all (shows_only u) outs"
  using assms(2)
proof (induction sts arbitrary: db outs)
  case (Cons st sts)
  then obtain out db1 outs1 where run: "exec_db as_uuid (Some t) st db = Inr (out, db1)"
    and rest: "exec_db_all as_uuid (Some t) sts db1 = Inr (outs1, db')" and "outs = out # outs1"
    by (auto simp: res_simps split: prod.splits)
  then show ?case using exec_db_isolated [of as_uuid, OF u run] Cons.IH [OF rest] by simp
qed simp

section \<open>What the driver promises about the rows\<close>

text \<open>The committed tables, and the tables as the transaction open on a connection sees them.\<close>

record ('c, 's, 'u) store_view =
  view_db :: "'s \<Rightarrow> 'u tenant_db"
  view_txn_db :: "'s \<Rightarrow> 'c \<Rightarrow> 'u tenant_db"

text \<open>How a connection runs a statement: the driver's \<open>execute\<close> and \<open>fetch\<close>.\<close>

type_synonym ('c, 's, 'u) run_stmt = "'c \<Rightarrow> 'u db_stmt \<Rightarrow> ('s, exc, 'u shown) action"

text \<open>A transaction begins with the committed tables; a statement that returns has been executed
  under the setting of its connection, on the tables of the transaction; nothing but a
  commit changes what is committed, and a commit that returns has published the tables of
  its transaction. Any call may fail; a commit that fails has taken effect or not.\<close>

definition store_laws ::
  "(pystr \<Rightarrow> 'u option) \<Rightarrow> ('c, 's) pool_api \<Rightarrow> ('c, 's) pool_view \<Rightarrow> ('c, 's, 'u) store_view
     \<Rightarrow> ('c, 's, 'u) run_stmt \<Rightarrow> bool" where
  "store_laws as_uuid api v d run \<longleftrightarrow>
     (\<forall>s r s'. pool_acquire api s = (r, s') \<longrightarrow> view_db d s' = view_db d s)
   \<and> (\<forall>c s r s'. pool_release api c s = (r, s') \<longrightarrow> view_db d s' = view_db d s)
   \<and> (\<forall>c s r s'. tx_start api c s = (r, s') \<longrightarrow> view_db d s' = view_db d s
        \<and> (r = Inr () \<longrightarrow> view_txn_db d s' c = view_db d s))
   \<and> (\<forall>c t s r s'. conn_execute api c set_tenant_sql [t] s = (r, s') \<longrightarrow> view_db d s' = view_db d s
        \<and> view_txn_db d s' c = view_txn_db d s c)
   \<and> (\<forall>c s r s'. tx_commit api c s = (r, s') \<longrightarrow> view_db d s' = view_txn_db d s c
        \<or> r \<noteq> Inr () \<and> view_db d s' = view_db d s)
   \<and> (\<forall>c s r s'. tx_rollback api c s = (r, s') \<longrightarrow> view_db d s' = view_db d s)
   \<and> (\<forall>c st s r s'. run c st s = (r, s') \<longrightarrow> view_db d s' = view_db d s
        \<and> view_held v s' = view_held v s \<and> view_tenant v s' = view_tenant v s
        \<and> (\<forall>out. r = Inr out \<longrightarrow>
             exec_db as_uuid (view_tenant v s c) st (view_txn_db d s c) = Inr (out, view_txn_db d s' c)))"

lemma store_lawsD:
  assumes "store_laws as_uuid api v d run"
  shows "pool_acquire api s = (ra, s') \<Longrightarrow> view_db d s' = view_db d s"
    and "pool_release api c s = (r, s') \<Longrightarrow> view_db d s' = view_db d s"
    and "tx_start api c s = (r, s') \<Longrightarrow> view_db d s' = view_db d s"
    and "tx_start api c s = (Inr u, s') \<Longrightarrow> view_txn_db d s' c = view_db d s"
    and "conn_execute api c set_tenant_sql [t] s = (r, s') \<Longrightarrow>
      view_db d s' = view_db d s \<and> view_txn_db d s' c = view_txn_db d s c"
    and "tx_commit api c s = (Inr u, s') \<Longrightarrow> view_db d s' = view_txn_db d s c"
    and "tx_commit api c s = (r, s') \<Longrightarrow> view_db d s' = view_txn_db d s c \<or> view_db d s' = view_db d s"
    and "tx_rollback api c s = (r, s') \<Longrightarrow> view_db d s' = view_db d s"
    and "run c st s = (rs, s') \<Longrightarrow> view_db d s' = view_db d s \<and> view_tenant v s' = view_tenant v s"
    and "run c st s = (Inr out, s') \<Longrightarrow>
      exec_db as_uuid (view_tenant v s c) st (view_txn_db d s c) = Inr (out, view_txn_db d s' c)"
  using assms by (simp_all add: store_laws_def) (metis | blast)+

section \<open>The body and its transaction\<close>

fun run_stmts :: "('c, 's, 'u) run_stmt \<Rightarrow> 'u db_stmt list \<Rightarrow> 'c \<Rightarrow> ('s, exc, 'u shown list) action" where
  "run_stmts run [] c = act_return []"
| "run_stmts run (st # sts) c =
     act_bind (run c st) (\<lambda>out. act_bind (run_stmts run sts c) (\<lambda>outs. act_return (out # outs)))"

lemma run_stmts_store:
  assumes laws: "store_laws as_uuid api v d run" and "run_stmts run sts c s = (r, s')"
  shows "view_db d s' = view_db d s \<and> view_tenant v s' = view_tenant v s
    \<and> (\<forall>outs. r = Inr outs \<longrightarrow>
         exec_db_all as_uuid (view_tenant v s c) sts (view_txn_db d s c) = Inr (outs, view_txn_db d s' c))"
  using assms(2)
proof (induction sts arbitrary: s r)
  case (Cons st sts)
  obtain r1 s1 where one: "run c st s = (r1, s1)" by (cases "run c st s")
  note v1 = store_lawsD(9) [OF laws one]
  show ?case
  proof (cases r1)
    case (Inl e)
    with Cons.prems one v1 show ?thesis by (auto simp: act_bind_def)
  next
    case (Inr out)
    obtain r2 s2 where rest: "run_stmts run sts c s1 = (r2, s2)" by (cases "run_stmts run sts c s1")
    then have "s' = s2" and "r = (case r2 of Inl e \<Rightarrow> Inl e | Inr outs \<Rightarrow> Inr (out # outs))"
      using Cons.prems one Inr by (auto simp: act_bind_def split: sum.splits)
    with Cons.IH [OF rest [unfolded \<open>s' = s2\<close> [symmetric]]] v1 store_lawsD(10) [OF laws one [unfolded Inr]]
    show ?thesis by (auto simp: res_simps split: sum.splits)
  qed
qed simp

text \<open>All or nothing: either the call fails and nothing is committed, or exactly what all the
  statements make of the committed tables is.\<close>

definition all_or_nothing ::
  "(pystr \<Rightarrow> 'u option) \<Rightarrow> pystr \<Rightarrow> 'u db_stmt list \<Rightarrow> 'u tenant_db \<Rightarrow> exc + 'u shown list \<Rightarrow> 'u tenant_db \<Rightarrow> bool" where
  "all_or_nothing as_uuid t sts before r after \<longleftrightarrow>
     (\<exists>e. r = Inl e) \<and> after = before
   \<or> (\<exists>outs. exec_db_all as_uuid (Some t) sts before = Inr (outs, after) \<and> (\<forall>x. r = Inr x \<longrightarrow> x = outs))"

lemma all_or_nothing_Inl: "all_or_nothing as_uuid t sts db (Inl e) db"
  by (simp add: all_or_nothing_def)

lemma all_or_nothing_fails: "all_or_nothing as_uuid t sts before r after \<Longrightarrow> all_or_nothing as_uuid t sts before (Inl e) after"
  by (auto simp: all_or_nothing_def)

lemma tenant_scope_store:
  assumes pool: "pool_laws api v" and laws: "store_laws as_uuid api v d run"
    and "tenant_scope api t (run_stmts run sts) c s = (r, s')"
  shows "all_or_nothing as_uuid t sts (view_db d s) r (view_db d s')"
proof -
  obtain r1 s1 where st: "tx_start api c s = (r1, s1)" by (cases "tx_start api c s")
  obtain r2 s2 where ex: "conn_execute api c set_tenant_sql [t] s1 = (r2, s2)"
    by (cases "conn_execute api c set_tenant_sql [t] s1")
  obtain r3 s3 where bd: "run_stmts run sts c s2 = (r3, s3)" by (cases "run_stmts run sts c s2")
  obtain r4 s4 where cm: "tx_commit api c s3 = (r4, s4)" by (cases "tx_commit api c s3")
  obtain r5 s5 where rb2: "tx_rollback api c s2 = (r5, s5)" by (cases "tx_rollback api c s2")
  obtain r6 s6 where rb3: "tx_rollback api c s3 = (r6, s6)" by (cases "tx_rollback api c s3")
  note views = store_lawsD(3) [OF laws st] store_lawsD(5) [OF laws ex] run_stmts_store [OF laws bd]
    store_lawsD(8) [OF laws rb2] store_lawsD(8) [OF laws rb3]
  note run = assms(3) [unfolded tenant_scope_def with_transaction_def act_bind_def]
  show ?thesis
  proof (cases "\<exists>u1 u2 outs. r1 = Inr u1 \<and> r2 = Inr u2 \<and> r3 = Inr outs")
    case False
    then have "(\<exists>e. r = Inl e) \<and> view_db d s' = view_db d s"
      using run st ex bd rb2 rb3 views by (auto split: sum.splits)
    then show ?thesis by (auto intro: all_or_nothing_Inl)
  next
    case True
    then obtain u1 u2 outs where ok: "r1 = Inr u1" "r2 = Inr u2" "r3 = Inr outs" by blast
    have "view_tenant v s2 c = Some t" using pool_lawsD(5) [OF pool ex [unfolded ok]] by simp
    moreover have "view_txn_db d s2 c = view_db d s"
      using store_lawsD(4) [OF laws st [unfolded ok]] views by simp
    ultimately have all: "exec_db_all as_uuid (Some t) sts (view_db d s) = Inr (outs, view_txn_db d s3 c)"
      using views ok by simp
    have "s' = s4" and "r = (case r4 of Inl e \<Rightarrow> Inl e | Inr _ \<Rightarrow> Inr outs)"
      using run st ex bd cm ok by (auto simp: act_return_def split: sum.splits)
    then show ?thesis
      using all views store_lawsD(6,7) [OF laws, of c s3] cm
      by (cases r4) (auto simp: all_or_nothing_def)
  qed
qed

text \<open>C15: a tenant transaction is isolated and atomic on the committed tables. Whatever
  statements its body runs on documents and chunks, and wherever a call of the driver fails:
  the rows of all other tenants are as before; if the transaction returns, it returns what
  the statements, run in order under the policies, select, only rows of its tenant, and has
  committed exactly what they make of the tables; if one of the statements fails, the
  transaction fails and nothing is committed; and no other state is ever committed.\<close>

theorem tenant_txn_isolated_and_atomic:
  assumes "pool_laws api v" and "store_laws as_uuid api v d run" and "as_uuid t = Some u"
    and "tenant_txn api t (run_stmts run sts) s = (r, s')"
  shows "others u (view_db d s') = others u (view_db d s)
     \<and> (\<forall>outs. r = Inr outs \<longrightarrow> exec_db_all as_uuid (Some t) sts (view_db d s) = Inr (outs, view_db d s')
          \<and> list_all (shows_only u) outs)
     \<and> (\<forall>e. exec_db_all as_uuid (Some t) sts (view_db d s) = Inl e \<longrightarrow>
          (\<exists>x. r = Inl x) \<and> view_db d s' = view_db d s)
     \<and> all_or_nothing as_uuid t sts (view_db d s) r (view_db d s')"
proof -
  obtain r1 s1 where acq: "pool_acquire api s = (r1, s1)" by (cases "pool_acquire api s")
  note acquired = store_lawsD(1) [OF assms(2) acq]
  have aon: "all_or_nothing as_uuid t sts (view_db d s) r (view_db d s')"
  proof (cases r1)
    case (Inl e)
    with assms(4) acq acquired show ?thesis
      by (auto simp: tenant_txn_def act_bind_def all_or_nothing_Inl)
  next
    case (Inr c)
    obtain r2 s2 where tx: "tenant_scope api t (run_stmts run sts) c s1 = (r2, s2)"
      by (cases "tenant_scope api t (run_stmts run sts) c s1")
    obtain r3 s3 where rel: "pool_release api c s2 = (r3, s3)" by (cases "pool_release api c s2")
    have "s' = s3 \<and> (r = r2 \<or> (\<exists>e. r = Inl e))"
      using assms(4) acq Inr tx rel
      by (auto simp: tenant_txn_def act_bind_def act_finally_def split: sum.splits)
    with tenant_scope_store [OF assms(1,2) tx] acquired store_lawsD(2) [OF assms(2) rel] show ?thesis
      by (auto intro: all_or_nothing_fails)
  qed
  with exec_db_all_isolated [of as_uuid, OF assms(3)] show ?thesis
    unfolding all_or_nothing_def by fastforce
qed

end
