(* ===== verification/Data_Examples.thy ===== *)
theory Data_Examples
  imports Tenant_Data Store_Examples
begin

text \<open>
  A pool of one connection over the two tables, as a concrete instance of theory
  \<open>Tenant_Data\<close>: one transaction that commits and one whose last statement the policy refuses.
\<close>

section \<open>A database behind one connection\<close>

record small_db =
  sd_held :: bool
  sd_tenant :: "pystr option"
  sd_committed :: "nat tenant_db"
  sd_open :: "nat tenant_db"

definition small_db_api :: "(unit, small_db) pool_api" where
  "small_db_api =
     \<lparr>pool_acquire = (\<lambda>s. if sd_held s then (Inl (PyExc (OtherExc (lit ''TimeoutError''))), s)
        else (Inr (), s\<lparr>sd_held := True\<rparr>)),
      pool_release = (\<lambda>c s. (Inr (), s\<lparr>sd_held := False\<rparr>)),
      tx_start = (\<lambda>c s. (Inr (), s\<lparr>sd_open := sd_committed s\<rparr>)),
      tx_commit = (\<lambda>c s. (Inr (), s\<lparr>sd_committed := sd_open s, sd_tenant := None\<rparr>)),
      tx_rollback = (\<lambda>c s. (Inr (), s\<lparr>sd_tenant := None\<rparr>)),
      conn_execute = (\<lambda>c sql args s.
        case args of [t] \<Rightarrow> (Inr (), s\<lparr>sd_tenant := Some t\<rparr>) | _ \<Rightarrow> (Inl (PyExc PostgresError), s))\<rparr>"

definition small_run :: "(unit, small_db, nat) run_stmt" where
  "small_run c st s = (case exec_db small_uuid (sd_tenant s) st (sd_open s) of
     Inl e \<Rightarrow> (Inl (PyExc e), s)
   | Inr (out, db) \<Rightarrow> (Inr out, s\<lparr>sd_open := db\<rparr>))"

definition small_db_view :: "(unit, small_db) pool_view" where
  "small_db_view = \<lparr>view_tenant = (\<lambda>s c. sd_tenant s), view_held = (\<lambda>s c. sd_held s)\<rparr>"

definition small_store_view :: "(unit, small_db, nat) store_view" where
  "small_store_view = \<lparr>view_db = sd_committed, view_txn_db = (\<lambda>s c. sd_open s)\<rparr>"

lemma small_db_laws: "pool_laws small_db_api small_db_view"
  unfolding pool_laws_def by (auto simp: small_db_api_def small_db_view_def fun_eq_iff split: if_splits)

lemma small_store_laws: "store_laws small_uuid small_db_api small_db_view small_store_view small_run"
  unfolding store_laws_def
  by (auto simp: small_db_api_def small_db_view_def small_store_view_def small_run_def
      split: if_splits sum.splits prod.splits)

text \<open>A document of each of two tenants, committed.\<close>

definition two_docs :: small_db where
  "two_docs = \<lparr>sd_held = False, sd_tenant = None,
     sd_committed = \<lparr>db_documents = [doc 7 1, doc 8 2], db_chunks = []\<rparr>,
     sd_open = \<lparr>db_documents = [], db_chunks = []\<rparr>\<rparr>"

definition clear_and_list :: "nat db_stmt list" where
  "clear_and_list = [On_documents (Select (\<lambda>r. True)), On_documents (Delete (\<lambda>r. True))]"

text \<open>The last statement writes a row of the other tenant.\<close>

definition clear_and_forge :: "nat db_stmt list" where
  "clear_and_forge = [On_documents (Delete (\<lambda>r. True)), On_documents (Insert (doc 9 2))]"

lemmas small_run_defs = tenant_txn_def tenant_scope_def with_transaction_def act_bind_def act_finally_def
  act_return_def small_db_api_def small_run_def two_docs_def exec_stmt_def document_policy_def
  tenant_policy_cases doc_def

lemma small_t1: "small_uuid (lit ''t1'') = Some 1"
  by code_simp

lemma clear_and_list_run:
  "\<exists>s'. tenant_txn small_db_api (lit ''t1'') (run_stmts small_run clear_and_list) two_docs
      = (Inr [Documents [doc 7 1], Documents []], s')
    \<and> sd_committed s' = \<lparr>db_documents = [doc 8 2], db_chunks = []\<rparr>"
  by (simp add: small_run_defs clear_and_list_def small_t1)

lemma clear_and_forge_run:
  "\<exists>s'. tenant_txn small_db_api (lit ''t1'') (run_stmts small_run clear_and_forge) two_docs
      = (Inl (PyExc PostgresError), s')"
  by (simp add: small_run_defs clear_and_forge_def small_t1)

lemma clear_and_forge_refused:
  "exec_db_all small_uuid (Some (lit ''t1'')) clear_and_forge (sd_committed two_docs) = Inl PostgresError"
  by (simp add: clear_and_forge_def two_docs_def exec_stmt_def document_policy_def tenant_policy_cases doc_def small_t1)

theorem tenant_txn_isolated_and_atomic_witness:
  "(\<exists>s'. tenant_txn small_db_api (lit ''t1'') (run_stmts small_run clear_and_list) two_docs
        = (Inr [Documents [doc 7 1], Documents []], s')
      \<and> exec_db_all small_uuid (Some (lit ''t1'')) clear_and_list (sd_committed two_docs)
        = Inr ([Documents [doc 7 1], Documents []], sd_committed s')
      \<and> others 1 (sd_committed s') = others 1 (sd_committed two_docs))
 \<and> (\<exists>s'. tenant_txn small_db_api (lit ''t1'') (run_stmts small_run clear_and_forge) two_docs
        = (Inl (PyExc PostgresError), s') \<and> sd_committed s' = sd_committed two_docs)"
proof -
  have db: "view_db small_store_view = sd_committed" by (simp add: small_store_view_def)
  obtain s1 where s1: "tenant_txn small_db_api (lit ''t1'') (run_stmts small_run clear_and_list) two_docs
      = (Inr [Documents [doc 7 1], Documents []], s1)" using clear_and_list_run by blast
  obtain s2 where s2: "tenant_txn small_db_api (lit ''t1'') (run_stmts small_run clear_and_forge) two_docs
      = (Inl (PyExc PostgresError), s2)" using clear_and_forge_run by blast
  note use = tenant_txn_isolated_and_atomic [where as_uuid = small_uuid, OF small_db_laws small_store_laws small_t1]
  show ?thesis using use [OF s1] use [OF s2] s1 s2 clear_and_forge_refused unfolding db by blast
qed

end
