(* ===== verification/Pool_Data.thy ===== *)
theory Pool_Data
  imports Pool_Tasks Tenant_Data
begin

text \<open>
  Transactions of \<open>core/db.py\<close>'s \<open>tenant_txn\<close> that interleave over one pool, and the tables they
  share: what is committed, what each open transaction sees and which rows it has written.
  The interleaving is that of theory \<open>Pool_Tasks\<close>, the statements those of theory
  \<open>Tenant_Data\<close>.
\<close>

section \<open>Rows of either table\<close>

datatype 'u db_row =
    Doc_row "'u document_row"
  | Chunk_row "'u chunk_row"

fun row_owner_id :: "'u db_row \<Rightarrow> 'u" where
  "row_owner_id (Doc_row r) = doc_tenant_id r"
| "row_owner_id (Chunk_row r) = chunk_tenant_id r"

definition keep :: "('u db_row \<Rightarrow> bool) \<Rightarrow> 'u tenant_db \<Rightarrow> 'u tenant_db" where
  "keep Q db = \<lparr>db_documents = filter (\<lambda>r. Q (Doc_row r)) (db_documents db),
     db_chunks = filter (\<lambda>r. Q (Chunk_row r)) (db_chunks db)\<rparr>"

definition own :: "'u \<Rightarrow> 'u tenant_db \<Rightarrow> 'u tenant_db" where
  "own u = keep (\<lambda>r. row_owner_id r = u)"

text \<open>The rows a statement writes: the old and the new versions.\<close>

fun touches :: "('r \<Rightarrow> py_exc + bool) \<Rightarrow> 'r stmt \<Rightarrow> 'r list \<Rightarrow> 'r set" where
  "touches pol (Select p) rows = {}"
| "touches pol (Insert new) rows = {new}"
| "touches pol (Update p f) rows = (let hit = {r \<in> set rows. pol r = Inr True \<and> p r} in hit \<union> f ` hit)"
| "touches pol (Delete p) rows = {r \<in> set rows. pol r = Inr True \<and> p r}"

fun db_touches :: "(pystr \<Rightarrow> 'u option) \<Rightarrow> pystr option \<Rightarrow> 'u db_stmt \<Rightarrow> 'u tenant_db \<Rightarrow> 'u db_row set" where
  "db_touches as_uuid setting (On_documents st) db =
     Doc_row ` touches (document_policy as_uuid setting) st (db_documents db)"
| "db_touches as_uuid setting (On_chunks st) db =
     Chunk_row ` touches (chunk_policy as_uuid setting) st (db_chunks db)"

lemma touches_own:
  assumes "exec_stmt pol conf st rows = Inr (out, rows')" and "r \<in> touches pol st rows"
  shows "pol r = Inr True"
proof (cases st)
  case (Update p f)
  obtain ms where ms: "mark_rows pol p rows = Inr ms"
    and ok: "check_rows pol (map (f \<circ> fst) (filter snd ms)) = Inr ()"
    using assms(1) Update by (auto simp: exec_stmt_def res_simps split: if_splits)
  have marked: "(x, True) \<in> set ms" if "x \<in> set rows" "p x" "pol x = Inr True" for x
    using ms that by (induction rows arbitrary: ms) (auto simp: res_simps)
  have checked: "pol x = Inr True" if "check_rows pol xs = Inr ()" "x \<in> set xs" for x xs
    using that by (induction xs) (auto simp: res_simps split: if_splits)
  show ?thesis
    using assms(2) Update checked [OF ok] marked by (fastforce simp: Let_def)
next
  case (Insert new)
  then show ?thesis using assms by (auto simp: exec_stmt_def res_simps split: if_splits)
qed (use assms(2) in auto)

lemma tenant_policy_True: "tenant_policy as_uuid setting i = Inr True \<longleftrightarrow> (\<exists>t. setting = Some t \<and> as_uuid t = Some i)"
  by (auto simp: tenant_policy_cases split: option.splits)

lemma db_touches_own:
  assumes "exec_db as_uuid (Some t) st db = Inr (out, db')" and "r \<in> db_touches as_uuid (Some t) st db"
  shows "as_uuid t = Some (row_owner_id r)"
proof (cases st)
  case (On_documents x)
  obtain rows' o' where "exec_stmt (document_policy as_uuid (Some t)) document_conflict x (db_documents db) = Inr (o', rows')"
    using assms(1) On_documents by (auto simp: res_simps)
  from touches_own [OF this] show ?thesis
    using assms(2) On_documents by (auto simp: document_policy_def tenant_policy_True)
next
  case (On_chunks x)
  obtain rows' o' where "exec_stmt (chunk_policy as_uuid (Some t)) chunk_conflict x (db_chunks db) = Inr (o', rows')"
    using assms(1) On_chunks by (auto simp: res_simps)
  from touches_own [OF this] show ?thesis
    using assms(2) On_chunks by (auto simp: chunk_policy_def tenant_policy_True)
qed

lemma exec_db_own:
  assumes "as_uuid t = Some u" and "exec_db as_uuid (Some t) st db = Inr (out, db')"
  shows "exec_db as_uuid (Some t) st (own u db) = Inr (out, own u db')"
  using assms(2) documents.exec_stmt_own_rows [of as_uuid, OF assms(1)]
    chunks.exec_stmt_own_rows [of as_uuid, OF assms(1)]
  by (cases st) (auto simp: res_simps own_def keep_def)

lemma exec_db_all_snoc:
  "exec_db_all as_uuid setting sts db = Inr (outs, db1) \<Longrightarrow> exec_db as_uuid setting st db1 = Inr (out, db2)
    \<Longrightarrow> exec_db_all as_uuid setting (sts @ [st]) db = Inr (outs @ [out], db2)"
  by (induction sts arbitrary: db outs) (auto simp: res_simps)

section \<open>What the database promises about concurrent transactions\<close>

text \<open>For every connection: the tables as the next statement of its transaction sees them, and the
  rows, old versions and new, the transaction has written.\<close>

record ('c, 's, 'u) shared_view =
  sv_committed :: "'s \<Rightarrow> 'u tenant_db"
  sv_seen :: "'s \<Rightarrow> 'c \<Rightarrow> 'u tenant_db"
  sv_touched :: "'s \<Rightarrow> 'c \<Rightarrow> 'u db_row set"

text \<open>A step that commits nothing, and concerns the data of at most one connection.\<close>

definition unpublished :: "('c, 's, 'u) shared_view \<Rightarrow> 'c option \<Rightarrow> 's \<Rightarrow> 's \<Rightarrow> bool" where
  "unpublished d conn s s' \<longleftrightarrow> sv_committed d s' = sv_committed d s
     \<and> (\<forall>b. Some b \<noteq> conn \<longrightarrow> sv_seen d s' b = sv_seen d s b \<and> sv_touched d s' b = sv_touched d s b)"

text \<open>A commit: what the transaction saw is what is committed. Another open transaction that has
  touched no row of it goes on seeing the rows this one has not touched.\<close>

definition published :: "('c, 's, 'u) shared_view \<Rightarrow> 'c \<Rightarrow> 's \<Rightarrow> 's \<Rightarrow> bool" where
  "published d c s s' \<longleftrightarrow> sv_committed d s' = sv_seen d s c
     \<and> (\<forall>b. b \<noteq> c \<longrightarrow> sv_touched d s' b = sv_touched d s b
          \<and> (sv_touched d s b \<inter> sv_touched d s c = {} \<longrightarrow>
             (\<forall>Q. (\<forall>r \<in> sv_touched d s c. \<not> Q r) \<longrightarrow> keep Q (sv_seen d s' b) = keep Q (sv_seen d s b))))"

text \<open>PostgreSQL's default isolation, READ COMMITTED: a transaction sees the committed tables but
  for the rows it has written; a statement that returns has been executed under the setting
  of its connection on the tables it saw, and has written the rows it matched; nothing but a
  commit publishes anything, and all of it. Any call may fail; a commit that fails has taken
  effect or not. That a statement works on one state of the tables is an idealisation in one
  case: an UPDATE or DELETE that has waited for a row lock goes on with a mix of its snapshot
  and the newer versions of the rows it waited for. It waits only for transactions that write
  rows of its own tenant, so between tenants, and for the only transaction of a tenant, which
  is what the properties below are about, the case does not arise.\<close>

definition shared_laws ::
  "(pystr \<Rightarrow> 'u option) \<Rightarrow> ('c, 's) pool_api \<Rightarrow> ('c, 's) pool_view \<Rightarrow> ('c, 's, 'u) shared_view
     \<Rightarrow> ('c, 's, 'u) run_stmt \<Rightarrow> bool" where
  "shared_laws as_uuid api v d run \<longleftrightarrow>
     (\<forall>s c Q. (\<forall>r \<in> sv_touched d s c. \<not> Q r) \<longrightarrow> keep Q (sv_seen d s c) = keep Q (sv_committed d s))
   \<and> (\<forall>s r s'. pool_acquire api s = (r, s') \<longrightarrow> unpublished d None s s')
   \<and> (\<forall>c s r s'. pool_release api c s = (r, s') \<longrightarrow> unpublished d None s s')
   \<and> (\<forall>c s r s'. tx_start api c s = (r, s') \<longrightarrow> unpublished d (Some c) s s'
        \<and> (r = Inr () \<longrightarrow> sv_touched d s' c = {}))
   \<and> (\<forall>c t s r s'. conn_execute api c set_tenant_sql [t] s = (r, s') \<longrightarrow> unpublished d None s s')
   \<and> (\<forall>c s r s'. tx_rollback api c s = (r, s') \<longrightarrow> unpublished d (Some c) s s')
   \<and> (\<forall>c s r s'. tx_commit api c s = (r, s') \<longrightarrow> published d c s s' \<or> r \<noteq> Inr () \<and> unpublished d (Some c) s s')
   \<and> (\<forall>c st s r s'. run c st s = (r, s') \<longrightarrow> unpublished d (Some c) s s'
        \<and> view_held v s' = view_held v s \<and> view_tenant v s' = view_tenant v s
        \<and> (\<forall>out. r = Inr out \<longrightarrow>
             exec_db as_uuid (view_tenant v s c) st (sv_seen d s c) = Inr (out, sv_seen d s' c)
           \<and> sv_touched d s' c \<subseteq> sv_touched d s c \<union> db_touches as_uuid (view_tenant v s c) st (sv_seen d s c)))"

lemma shared_lawsD:
  assumes "shared_laws as_uuid api v d run"
  shows "\<forall>r \<in> sv_touched d s c. \<not> Q r \<Longrightarrow> keep Q (sv_seen d s c) = keep Q (sv_committed d s)"
    and "pool_acquire api s = (ra, s') \<Longrightarrow> unpublished d None s s'"
    and "pool_release api c s = (r, s') \<Longrightarrow> unpublished d None s s'"
    and "tx_start api c s = (r, s') \<Longrightarrow> unpublished d (Some c) s s' \<and> (r = Inr () \<longrightarrow> sv_touched d s' c = {})"
    and "conn_execute api c set_tenant_sql [t] s = (r, s') \<Longrightarrow> unpublished d None s s'"
    and "tx_rollback api c s = (r, s') \<Longrightarrow> unpublished d (Some c) s s'"
    and "tx_commit api c s = (r, s') \<Longrightarrow> published d c s s' \<or> r \<noteq> Inr () \<and> unpublished d (Some c) s s'"
    and "run c st s = (rs, s') \<Longrightarrow> unpublished d (Some c) s s'
      \<and> view_held v s' = view_held v s \<and> view_tenant v s' = view_tenant v s"
    and "run c st s = (Inr out, s') \<Longrightarrow>
      exec_db as_uuid (view_tenant v s c) st (sv_seen d s c) = Inr (out, sv_seen d s' c)
      \<and> sv_touched d s' c \<subseteq> sv_touched d s c \<union> db_touches as_uuid (view_tenant v s c) st (sv_seen d s c)"
  using assms by (simp_all add: shared_laws_def)

text \<open>A statement as a call of a body, which does not look at what is shown.\<close>

definition stmt_call :: "('c, 's, 'u) run_stmt \<Rightarrow> 'u db_stmt \<Rightarrow> ('c, 's) txn_call" where
  "stmt_call run st c = act_bind (run c st) (\<lambda>_. act_return ())"

lemma stmt_call_run:
  assumes "stmt_call run st c s = (r, s')"
  obtains q where "run c st s = (q, s')" and "r = (case q of Inl e \<Rightarrow> Inl e | Inr _ \<Rightarrow> Inr ())"
  using assms by (cases "run c st s") (auto simp: stmt_call_def act_bind_def split: sum.splits)

lemma stmt_call_data:
  assumes "shared_laws as_uuid api v d run" and "m \<in> range (stmt_call run)"
  shows "data_call v m"
proof -
  obtain st where m: "m = stmt_call run st" using assms(2) by blast
  show ?thesis
    unfolding data_call_def confined_def m
    by (auto elim!: stmt_call_run dest!: shared_lawsD(8) [OF assms(1)])
qed

section \<open>What an open transaction has touched\<close>

text \<open>Nothing before its first statement, and then only rows of its tenant.\<close>

fun touched_ok :: "(pystr \<Rightarrow> 'u option) \<Rightarrow> ('c, 's, 'u) shared_view \<Rightarrow> 's \<Rightarrow> ('c, 's) txn_point \<Rightarrow> bool" where
  "touched_ok as_uuid d w (Begun t c ms) = (sv_touched d w c = {})"
| "touched_ok as_uuid d w (Inside t c ms) = (\<forall>r \<in> sv_touched d w c. as_uuid t = Some (row_owner_id r))"
| "touched_ok as_uuid d w p = True"

text \<open>A step of a task publishes nothing unless it is the commit of its transaction.\<close>

lemma advance_data:
  assumes laws: "shared_laws as_uuid api v d run" and pool: "pool_laws api v"
    and calls: "calls_of p \<subseteq> range (stmt_call run)" and ok: "point_ok v w p" "touched_ok as_uuid d w p"
    and run: "txn_advance api (p, w) = (p', w')"
  shows "touched_ok as_uuid d w' p' \<and> (unpublished d (conn_of p) w w'
     \<or> (\<exists>t c. p = Inside t c [] \<and> published d c w w'))"
proof (cases p)
  case (Entering t ms)
  then show ?thesis
    using run shared_lawsD(2) [OF laws] by (auto split: prod.splits sum.splits)
next
  case (Acquired t c ms)
  then show ?thesis
    using run shared_lawsD(4) [OF laws] by (fastforce split: prod.splits sum.splits)
next
  case (Begun t c ms)
  obtain r w1 where ex: "conn_execute api c set_tenant_sql [t] w = (r, w1)"
    by (cases "conn_execute api c set_tenant_sql [t] w")
  have "unpublished d None w w1" using shared_lawsD(5) [OF laws ex] .
  then show ?thesis
    using run ex Begun ok by (cases r) (auto simp: unpublished_def)
next
  case (Inside t c ms)
  show ?thesis
  proof (cases ms)
    case Nil
    obtain r w1 where cm: "tx_commit api c w = (r, w1)" by (cases "tx_commit api c w")
    then show ?thesis
      using run Inside Nil shared_lawsD(7) [OF laws cm] by (cases r) auto
  next
    case (Cons m ms')
    obtain r w1 where m: "m c w = (r, w1)" by (cases "m c w")
    obtain st where st: "m = stmt_call run st" using calls Inside Cons by auto
    obtain q where q: "run c st w = (q, w1)" and r: "r = (case q of Inl e \<Rightarrow> Inl e | Inr _ \<Rightarrow> Inr ())"
      using m [unfolded st] by (rule stmt_call_run)
    note one = shared_lawsD(8) [OF laws q]
    show ?thesis
    proof (cases q)
      case (Inl e)
      with run Inside Cons m r one show ?thesis by auto
    next
      case (Inr out)
      have set: "view_tenant v w c = Some t" using ok(1) Inside by (simp add: point_ok_def)
      note two = shared_lawsD(9) [OF laws q [unfolded Inr], unfolded set]
      have "as_uuid t = Some (row_owner_id x)" if "x \<in> sv_touched d w1 c" for x
        using two that ok(2) Inside db_touches_own [of as_uuid t st] by auto
      with run Inside Cons m r one Inr show ?thesis by auto
    qed
  qed
next
  case (Failing t c e)
  then show ?thesis
    using run shared_lawsD(6) [OF laws] by (fastforce split: prod.splits sum.splits)
next
  case (Ended c r)
  then show ?thesis
    using run shared_lawsD(3) [OF laws] by (fastforce simp: unpublished_def split: prod.splits sum.splits)
qed (use run in \<open>auto simp: unpublished_def\<close>)

lemma advance_touches_others:
  assumes "unpublished d (conn_of p) w w' \<or> (\<exists>t c. p = Inside t c [] \<and> published d c w w')"
    and "conn_of p \<noteq> Some b"
  shows "sv_touched d w' b = sv_touched d w b"
  using assms by (auto simp: unpublished_def published_def)

lemma published_others:
  assumes "published d c w w'" and "b \<noteq> c" and "sv_touched d w b \<inter> sv_touched d w c = {}"
    and "\<forall>r \<in> sv_touched d w c. \<not> Q r"
  shows "keep Q (sv_seen d w' b) = keep Q (sv_seen d w b)"
  using assms unfolding published_def by blast

lemma touched_ok_cong:
  assumes "\<And>c. conn_of p = Some c \<Longrightarrow> sv_touched d w' c = sv_touched d w c"
  shows "touched_ok as_uuid d w' p \<longleftrightarrow> touched_ok as_uuid d w p"
  using assms by (cases p) auto

section \<open>All tasks\<close>

definition data_ok ::
  "(pystr \<Rightarrow> 'u option) \<Rightarrow> ('c, 's, 'u) shared_view \<Rightarrow> ('c, 's, 'u) run_stmt \<Rightarrow> ('c, 's) tasks \<Rightarrow> bool" where
  "data_ok as_uuid d run k \<longleftrightarrow> (\<forall>i. calls_of (tk_point k i) \<subseteq> range (stmt_call run)
     \<and> touched_ok as_uuid d (tk_world k) (tk_point k i))"

lemma tasks_ok_points:
  assumes "tasks_ok v h k"
  shows "point_ok v (tk_world k) (tk_point k i)" and "pool_clean v (tk_world k)" and "point_calls_ok v (tk_point k i)"
    and "conn_of (tk_point k i) = Some c \<Longrightarrow> conn_of (tk_point k j) = Some c \<Longrightarrow> i = j"
  using assms unfolding tasks_ok_def by blast+

lemma advance_calls:
  "txn_advance api (p, w) = (p', w') \<Longrightarrow> calls_of p' \<subseteq> calls_of p"
  by (cases "(api, (p, w))" rule: txn_advance.cases) (auto split: prod.splits sum.splits)

text \<open>What the step of a task does to the data.\<close>

lemma step_data:
  assumes "shared_laws as_uuid api v d run" and "pool_laws api v"
    and "tasks_ok v h k" and "data_ok as_uuid d run k"
    and "txn_advance api (tk_point k i, tk_world k) = (p', w')"
  shows "touched_ok as_uuid d w' p'" and "unpublished d (conn_of (tk_point k i)) (tk_world k) w'
     \<or> (\<exists>t c. tk_point k i = Inside t c [] \<and> published d c (tk_world k) w')"
  using advance_data [OF assms(1,2) _ tasks_ok_points(1) [OF assms(3)] _ assms(5)] assms(4)
  unfolding data_ok_def by blast+

lemma data_ok_step:
  assumes "shared_laws as_uuid api v d run" and "pool_laws api v"
    and "tasks_step api (range (stmt_call run)) k l" and "tasks_ok v h k" and "data_ok as_uuid d run k"
  shows "data_ok as_uuid d run l"
  using assms(3)
proof (cases rule: tasks_step.cases)
  case (begin_txn i r ms t)
  then show ?thesis using assms(5) by (auto simp: data_ok_def)
next
  case (advance i p w)
  note step = step_data [OF assms(1,2,4,5) advance(2)]
  have calls: "calls_of p \<subseteq> range (stmt_call run)"
    using advance_calls [OF advance(2)] assms(5) unfolding data_ok_def by blast
  have "touched_ok as_uuid d w (tk_point k j)" if "j \<noteq> i" for j
  proof -
    have "touched_ok as_uuid d w (tk_point k j) = touched_ok as_uuid d (tk_world k) (tk_point k j)"
    proof (rule touched_ok_cong)
      fix c assume "conn_of (tk_point k j) = Some c"
      with that have "conn_of (tk_point k i) \<noteq> Some c" using tasks_ok_points(4) [OF assms(4)] by blast
      then show "sv_touched d w c = sv_touched d (tk_world k) c" by (rule advance_touches_others [OF step(2)])
    qed
    then show ?thesis using assms(5) by (simp add: data_ok_def)
  qed
  then show ?thesis using advance(1) step(1) calls assms(5) by (auto simp: data_ok_def)
qed

lemma tasks_reach_data:
  assumes "shared_laws as_uuid api v d run" and "pool_laws api v"
    and "tasks_reach api (range (stmt_call run)) (idle_tasks w) k" and "pool_clean v w"
  shows "tasks_ok v (view_held v w) k" and "data_ok as_uuid d run k"
proof -
  have ok: "tasks_ok v (view_held v w) k" if "tasks_reach api (range (stmt_call run)) (idle_tasks w) k" for k
    by (rule tasks_reach_ok [OF assms(2) stmt_call_data [OF assms(1)] that assms(4)])
  then show "tasks_ok v (view_held v w) k" using assms(3) .
  show "data_ok as_uuid d run k"
    using assms(3)
  proof induction
    case start
    show ?case by (simp add: data_ok_def idle_tasks_def)
  next
    case (step k l)
    then show ?case using data_ok_step [OF assms(1,2) _ ok] by blast
  qed
qed

text \<open>A commit under another tenant keeps a tenant's committed rows.\<close>

lemma published_keeps:
  assumes "shared_laws as_uuid api v d run" and "published d c w w'"
    and "\<forall>r \<in> sv_touched d w c. as_uuid t = Some (row_owner_id r)" and "as_uuid t \<noteq> Some u"
  shows "own u (sv_committed d w') = own u (sv_committed d w)"
proof -
  have "\<forall>r \<in> sv_touched d w c. row_owner_id r \<noteq> u" using assms(3,4) by auto
  from shared_lawsD(1) [OF assms(1) this] show ?thesis
    using assms(2) by (simp add: published_def own_def)
qed

text \<open>C3: only a tenant's own transactions change or see its rows. However tenant transactions
  interleave over the pool, a step after which the committed rows of a tenant differ, in
  content or order, is the commit of a transaction of that very tenant; and a statement a
  task runs in the body of its transaction shows it only rows of its tenant.\<close>

theorem interleaved_commits_isolated:
  assumes "shared_laws as_uuid api v d run" and "pool_laws api v" and "pool_clean v w"
    and "tasks_reach api (range (stmt_call run)) (idle_tasks w) k"
    and "tasks_step api (range (stmt_call run)) k l"
  shows "(\<forall>u. own u (sv_committed d (tk_world l)) \<noteq> own u (sv_committed d (tk_world k)) \<longrightarrow>
          (\<exists>i t c. tk_point k i = Inside t c [] \<and> as_uuid t = Some u
            \<and> l = \<lparr>tk_world = snd (tx_commit api c (tk_world k)), tk_point = (tk_point k)(i := tk_point l i)\<rparr>))
     \<and> (\<forall>i t c ms st out w' u. tk_point k i = Inside t c ms \<and> run c st (tk_world k) = (Inr out, w')
          \<and> as_uuid t = Some u \<longrightarrow> shows_only u out)"
proof -
  note ok = tasks_reach_data [OF assms(1,2,4,3)]
  have commits: "\<exists>i t c. tk_point k i = Inside t c [] \<and> as_uuid t = Some u
      \<and> l = \<lparr>tk_world = snd (tx_commit api c (tk_world k)), tk_point = (tk_point k)(i := tk_point l i)\<rparr>"
    if differ: "own u (sv_committed d (tk_world l)) \<noteq> own u (sv_committed d (tk_world k))" for u
    using assms(5)
  proof (cases rule: tasks_step.cases)
    case (begin_txn i r ms t)
    with differ show ?thesis by simp
  next
    case (advance i p x)
    from step_data(2) [OF assms(1,2) ok advance(2)] differ advance(1)
    obtain t c where at: "tk_point k i = Inside t c []" and pub: "published d c (tk_world k) x"
      by (auto simp: unpublished_def)
    have "\<forall>r \<in> sv_touched d (tk_world k) c. as_uuid t = Some (row_owner_id r)"
      using ok(2) at unfolding data_ok_def by (metis touched_ok.simps(2))
    then have "as_uuid t = Some u"
      using published_keeps [OF assms(1) pub] differ advance(1) by auto
    moreover have "x = snd (tx_commit api c (tk_world k))"
      using advance(2) at by (auto split: prod.splits sum.splits)
    ultimately show ?thesis using at advance(1) by (intro exI [of _ i] exI [of _ t] exI [of _ c]) simp
  qed
  have shown: "shows_only u out"
    if "tk_point k i = Inside t c ms" "run c st (tk_world k) = (Inr out, w')" "as_uuid t = Some u"
    for i t c ms st out w' u
  proof -
    have "view_tenant v (tk_world k) c = Some t"
      using tasks_ok_points(1) [OF ok(1), of i] that(1) by (simp add: point_ok_def)
    then show ?thesis
      using shared_lawsD(9) [OF assms(1) that(2)] exec_db_isolated [of as_uuid, OF that(3)] by metis
  qed
  show ?thesis using commits shown by blast
qed

section \<open>A tenant's only transaction\<close>

text \<open>A run in which the transaction a task is in is, until it finishes, the only one of its
  tenant.\<close>

fun tenant_at :: "('c, 's) txn_point \<Rightarrow> pystr option" where
  "tenant_at (Entering t ms) = Some t"
| "tenant_at (Acquired t c ms) = Some t"
| "tenant_at (Begun t c ms) = Some t"
| "tenant_at (Inside t c ms) = Some t"
| "tenant_at _ = None"

definition alone :: "(pystr \<Rightarrow> 'u option) \<Rightarrow> 'u \<Rightarrow> nat \<Rightarrow> ('c, 's) tasks \<Rightarrow> bool" where
  "alone as_uuid u i k \<longleftrightarrow> (\<forall>j t. j \<noteq> i \<longrightarrow> tenant_at (tk_point k j) = Some t \<longrightarrow> as_uuid t \<noteq> Some u)"

fun is_finished :: "('c, 's) txn_point \<Rightarrow> bool" where
  "is_finished (Finished r) = True"
| "is_finished _ = False"

inductive run_alone ::
  "(pystr \<Rightarrow> 'u option) \<Rightarrow> 'u \<Rightarrow> nat \<Rightarrow> ('c, 's) pool_api \<Rightarrow> ('c, 's) txn_call set
     \<Rightarrow> ('c, 's) tasks \<Rightarrow> ('c, 's) tasks \<Rightarrow> bool" for as_uuid u i api calls k0 where
  start: "alone as_uuid u i k0 \<Longrightarrow> run_alone as_uuid u i api calls k0 k0"
| step: "run_alone as_uuid u i api calls k0 k \<Longrightarrow> \<not> is_finished (tk_point k i)
    \<Longrightarrow> tasks_step api calls k l \<Longrightarrow> alone as_uuid u i l \<Longrightarrow> run_alone as_uuid u i api calls k0 l"

text \<open>Where its transaction stands, when \<open>sts\<close> are its statements and \<open>rows\<close> its tenant's committed
  rows at the start.\<close>

fun serial_at ::
  "(pystr \<Rightarrow> 'u option) \<Rightarrow> ('c, 's, 'u) shared_view \<Rightarrow> ('c, 's, 'u) run_stmt \<Rightarrow> pystr \<Rightarrow> 'u \<Rightarrow> 'u db_stmt list
     \<Rightarrow> 'u tenant_db \<Rightarrow> 's \<Rightarrow> ('c, 's) txn_point \<Rightarrow> bool" where
  "serial_at as_uuid d run t u sts rows w (Entering t' ms) \<longleftrightarrow>
     t' = t \<and> ms = map (stmt_call run) sts \<and> own u (sv_committed d w) = rows"
| "serial_at as_uuid d run t u sts rows w (Acquired t' c ms) \<longleftrightarrow>
     t' = t \<and> ms = map (stmt_call run) sts \<and> own u (sv_committed d w) = rows"
| "serial_at as_uuid d run t u sts rows w (Begun t' c ms) \<longleftrightarrow>
     t' = t \<and> ms = map (stmt_call run) sts \<and> own u (sv_committed d w) = rows"
| "serial_at as_uuid d run t u sts rows w (Inside t' c ms) \<longleftrightarrow>
     t' = t \<and> own u (sv_committed d w) = rows
     \<and> (\<exists>past rest outs. sts = past @ rest \<and> ms = map (stmt_call run) rest
          \<and> exec_db_all as_uuid (Some t) past rows = Inr (outs, own u (sv_seen d w c)))"
| "serial_at as_uuid d run t u sts rows w (Failing t' c e) \<longleftrightarrow> own u (sv_committed d w) = rows"
| "serial_at as_uuid d run t u sts rows w (Ended c r) \<longleftrightarrow>
     (\<exists>e. r = Inl e) \<and> own u (sv_committed d w) = rows
     \<or> (\<exists>outs. exec_db_all as_uuid (Some t) sts rows = Inr (outs, own u (sv_committed d w)))"
| "serial_at as_uuid d run t u sts rows w (Finished r) \<longleftrightarrow>
     (\<exists>e. r = Inl e) \<and> own u (sv_committed d w) = rows
     \<or> (\<exists>outs. exec_db_all as_uuid (Some t) sts rows = Inr (outs, own u (sv_committed d w)))"
| "serial_at as_uuid d run t u sts rows w Outside \<longleftrightarrow> False"

text \<open>It depends on the tenant's committed rows and on those its own connection sees.\<close>

lemma serial_at_cong:
  assumes "own u (sv_committed d w') = own u (sv_committed d w)"
    and "\<And>t c ms. p = Inside t c ms \<Longrightarrow> own u (sv_seen d w' c) = own u (sv_seen d w c)"
  shows "serial_at as_uuid d run t u sts rows w' p \<longleftrightarrow> serial_at as_uuid d run t u sts rows w p"
  using assms by (cases p) auto

text \<open>The transaction's own steps.\<close>

lemma serial_advance:
  assumes laws: "shared_laws as_uuid api v d run" and pool: "pool_laws api v" and u: "as_uuid t = Some u"
    and ok: "point_ok v w p" "touched_ok as_uuid d w p" and now: "serial_at as_uuid d run t u sts rows w p"
    and run: "txn_advance api (p, w) = (p', w')"
  shows "serial_at as_uuid d run t u sts rows w' p'"
proof (cases p)
  case (Entering t' ms)
  then show ?thesis
    using run now shared_lawsD(2) [OF laws] by (fastforce simp: unpublished_def split: prod.splits sum.splits)
next
  case (Acquired t' c ms)
  then show ?thesis
    using run now shared_lawsD(4) [OF laws] by (fastforce simp: unpublished_def split: prod.splits sum.splits)
next
  case (Begun t' c ms)
  obtain r w1 where ex: "conn_execute api c set_tenant_sql [t'] w = (r, w1)"
    by (cases "conn_execute api c set_tenant_sql [t'] w")
  have quiet: "unpublished d None w w1" using shared_lawsD(5) [OF laws ex] .
  have "own u (sv_seen d w c) = own u (sv_committed d w)"
    using shared_lawsD(1) [OF laws] ok(2) Begun by (simp add: own_def)
  then have "exec_db_all as_uuid (Some t) [] rows = Inr ([], own u (sv_seen d w c))"
    using now Begun by simp
  then have "\<exists>past rest outs. sts = past @ rest \<and> map (stmt_call run) sts = map (stmt_call run) rest
      \<and> exec_db_all as_uuid (Some t) past rows = Inr (outs, own u (sv_seen d w c))"
    by (intro exI [of _ "[]"] exI [of _ sts]) simp
  then show ?thesis
    using run ex Begun now quiet by (cases r) (fastforce simp: unpublished_def)+
next
  case (Inside t' c ms)
  obtain past rest outs where split: "sts = past @ rest" "ms = map (stmt_call run) rest"
    and sofar: "exec_db_all as_uuid (Some t) past rows = Inr (outs, own u (sv_seen d w c))"
    and t': "t' = t" and db: "own u (sv_committed d w) = rows"
    using now Inside by auto
  show ?thesis
  proof (cases rest)
    case Nil
    obtain r w1 where cm: "tx_commit api c w = (r, w1)" by (cases "tx_commit api c w")
    then show ?thesis
      using run Inside Nil split sofar db shared_lawsD(7) [OF laws cm]
      by (cases r) (auto simp: published_def unpublished_def)
  next
    case (Cons st rest')
    obtain r w1 where m: "stmt_call run st c w = (r, w1)" by (cases "stmt_call run st c w")
    obtain q where q: "run c st w = (q, w1)" and r: "r = (case q of Inl e \<Rightarrow> Inl e | Inr _ \<Rightarrow> Inr ())"
      using m by (rule stmt_call_run)
    note one = shared_lawsD(8) [OF laws q]
    show ?thesis
    proof (cases q)
      case (Inl e)
      with run Inside Cons split m r one db show ?thesis by (auto simp: unpublished_def)
    next
      case (Inr out)
      have "view_tenant v w c = Some t" using ok(1) Inside t' by (simp add: point_ok_def)
      with shared_lawsD(9) [OF laws q [unfolded Inr]]
      have "exec_db as_uuid (Some t) st (sv_seen d w c) = Inr (out, sv_seen d w1 c)" by simp
      from exec_db_all_snoc [OF sofar exec_db_own [of as_uuid, OF u this]]
      have "exec_db_all as_uuid (Some t) (past @ [st]) rows = Inr (outs @ [out], own u (sv_seen d w1 c))" .
      then have "\<exists>past rest outs. sts = past @ rest \<and> map (stmt_call run) rest' = map (stmt_call run) rest
          \<and> exec_db_all as_uuid (Some t) past rows = Inr (outs, own u (sv_seen d w1 c))"
        by (intro exI [of _ "past @ [st]"] exI [of _ rest'] exI [of _ "outs @ [out]"]) (simp add: split Cons)
      moreover have "p' = Inside t c (map (stmt_call run) rest')" and "w' = w1"
        using run Inside Cons split m r Inr t' by simp_all
      ultimately show ?thesis using one db by (simp add: unpublished_def)
    qed
  qed
next
  case (Failing t' c e)
  then show ?thesis
    using run now shared_lawsD(6) [OF laws] by (fastforce simp: unpublished_def split: prod.splits sum.splits)
next
  case (Ended c r)
  then show ?thesis
    using run now shared_lawsD(3) [OF laws] by (fastforce simp: unpublished_def split: prod.splits sum.splits)
qed (use run now in auto)

text \<open>The steps of the other tasks, which are of other tenants.\<close>

lemma serial_others:
  assumes laws: "shared_laws as_uuid api v d run" and pool: "pool_laws api v" and u: "as_uuid t = Some u"
    and tasks: "tasks_ok v h k" and data: "data_ok as_uuid d run k" and alone: "alone as_uuid u i k" and "j \<noteq> i"
    and now: "serial_at as_uuid d run t u sts rows (tk_world k) (tk_point k i)"
    and run: "txn_advance api (tk_point k j, tk_world k) = (p', w')"
  shows "serial_at as_uuid d run t u sts rows w' (tk_point k i)"
proof -
  have apart: "conn_of (tk_point k j) \<noteq> Some c" if "conn_of (tk_point k i) = Some c" for c
    using tasks_ok_points(4) [OF tasks] that \<open>j \<noteq> i\<close> by blast
  have "own u (sv_committed d w') = own u (sv_committed d (tk_world k))
    \<and> (\<forall>t' c ms. tk_point k i = Inside t' c ms \<longrightarrow> own u (sv_seen d w' c) = own u (sv_seen d (tk_world k) c))"
    using step_data(2) [OF laws pool tasks data run]
  proof
    assume "unpublished d (conn_of (tk_point k j)) (tk_world k) w'"
    then show ?thesis using apart by (auto simp: unpublished_def)
  next
    assume "\<exists>t c. tk_point k j = Inside t c [] \<and> published d c (tk_world k) w'"
    then obtain t1 b where at: "tk_point k j = Inside t1 b []" and pub: "published d b (tk_world k) w'" by blast
    have foreign: "as_uuid t1 \<noteq> Some u" using alone at \<open>j \<noteq> i\<close> by (auto simp: alone_def)
    have mine: "\<forall>r \<in> sv_touched d (tk_world k) b. as_uuid t1 = Some (row_owner_id r)"
      using data at unfolding data_ok_def by (metis touched_ok.simps(2))
    then have avoid: "\<forall>r \<in> sv_touched d (tk_world k) b. row_owner_id r \<noteq> u" using foreign by auto
    have "own u (sv_seen d w' c) = own u (sv_seen d (tk_world k) c)" if pi: "tk_point k i = Inside t' c ms" for t' c ms
    proof -
      have "t' = t" using now pi by simp
      then have "\<forall>r \<in> sv_touched d (tk_world k) c. row_owner_id r = u"
        using data pi u unfolding data_ok_def by (metis option.inject touched_ok.simps(2))
      with avoid have "sv_touched d (tk_world k) c \<inter> sv_touched d (tk_world k) b = {}" by blast
      moreover have "c \<noteq> b" using apart [of c] pi at by simp
      ultimately show ?thesis using published_others [OF pub _ _ avoid] by (simp add: own_def)
    qed
    with published_keeps [OF laws pub mine foreign] show ?thesis by blast
  qed
  then have "serial_at as_uuid d run t u sts rows w' (tk_point k i)
      = serial_at as_uuid d run t u sts rows (tk_world k) (tk_point k i)"
    by (intro serial_at_cong) simp_all
  with now show ?thesis by simp
qed

lemma run_alone_serial:
  assumes laws: "shared_laws as_uuid api v d run" and pool: "pool_laws api v" and clean: "pool_clean v w"
    and u: "as_uuid t = Some u" and reach0: "tasks_reach api (range (stmt_call run)) (idle_tasks w) k0"
    and begun: "tk_point k0 i = Entering t (map (stmt_call run) sts)"
    and "run_alone as_uuid u i api (range (stmt_call run)) k0 k"
  shows "tasks_reach api (range (stmt_call run)) (idle_tasks w) k \<and> alone as_uuid u i k
    \<and> serial_at as_uuid d run t u sts (own u (sv_committed d (tk_world k0))) (tk_world k) (tk_point k i)"
  using assms(7)
proof induction
  case start
  then show ?case using reach0 begun by simp
next
  case (step k l)
  note reach = conjunct1 [OF step.IH] and alone = conjunct1 [OF conjunct2 [OF step.IH]]
    and now = conjunct2 [OF conjunct2 [OF step.IH]]
  note ok = tasks_reach_data [OF laws pool reach clean]
  have "serial_at as_uuid d run t u sts (own u (sv_committed d (tk_world k0))) (tk_world l) (tk_point l i)"
    using step.hyps(3)
  proof (cases rule: tasks_step.cases)
    case (begin_txn j r ms t')
    have "j \<noteq> i" using begin_txn(2) step.hyps(2) now by (cases "tk_point k i") auto
    then show ?thesis using now begin_txn(1) by simp
  next
    case (advance j p w')
    have at: "touched_ok as_uuid d (tk_world k) (tk_point k i)" using ok(2) by (simp add: data_ok_def)
    show ?thesis
    proof (cases "j = i")
      case True
      with serial_advance [OF laws pool u tasks_ok_points(1) [OF ok(1)] at now] advance show ?thesis by simp
    next
      case False
      with serial_others [OF laws pool u ok alone False now advance(2)] advance(1) show ?thesis by simp
    qed
  qed
  with reach alone step.hyps(3,4) show ?case by (blast intro: tasks_reach.step)
qed

text \<open>C4: transactions of different tenants do not disturb each other. Take any state of the pool's
  tasks in which one is about to begin a transaction, and let it and all others go on in any
  interleaving until it has finished, none of the others being of its tenant. Then its
  tenant's committed rows are as if it had run alone: what its statements, in order, make of
  the rows committed at the start, or, when a call failed, those very rows; and if it has
  finished without an exception they are the former.\<close>

theorem interleaved_txn_serial:
  assumes "shared_laws as_uuid api v d run" and "pool_laws api v" and "pool_clean v w" and "as_uuid t = Some u"
    and "tasks_reach api (range (stmt_call run)) (idle_tasks w) k0"
    and "tk_point k0 i = Entering t (map (stmt_call run) sts)"
    and "run_alone as_uuid u i api (range (stmt_call run)) k0 k" and "tk_point k i = Finished r"
  shows "(\<exists>e. r = Inl e) \<and> own u (sv_committed d (tk_world k)) = own u (sv_committed d (tk_world k0))
     \<or> (\<exists>outs. exec_db_all as_uuid (Some t) sts (own u (sv_committed d (tk_world k0)))
          = Inr (outs, own u (sv_committed d (tk_world k))))"
  using run_alone_serial [OF assms(1-7)] assms(8) by simp

end
