(* ===== verification/Pool_Data_Examples.thy ===== *)
theory Pool_Data_Examples
  imports Pool_Data Pool_Examples
begin

text \<open>
  Two connections over one documents table, with versions of rows per transaction, as a concrete
  instance of theory \<open>Pool_Data\<close>: what a transaction does to each committed row it has seen, and
  what it has added. Statements on chunks are refused.
\<close>

section \<open>A table with open transactions\<close>

type_synonym small_doc = "nat document_row"

record small_pool =
  sp_free :: "nat list"
  sp_tenant :: "nat \<Rightarrow> pystr option"
  sp_docs :: "small_doc list"
  sp_change :: "nat \<Rightarrow> small_doc \<Rightarrow> small_doc list"
  sp_added :: "nat \<Rightarrow> small_doc list"

text \<open>The documents a transaction with these changes and additions sees.\<close>

definition merged :: "('r \<Rightarrow> 'r list) \<Rightarrow> 'r list \<Rightarrow> 'r list \<Rightarrow> 'r list" where
  "merged change added rows = concat (map change rows) @ added"

definition written :: "('r \<Rightarrow> 'r list) \<Rightarrow> 'r list \<Rightarrow> 'r set" where
  "written change added = {r. change r \<noteq> [r]} \<union> (\<Union>r \<in> {r. change r \<noteq> [r]}. set (change r)) \<union> set added"

lemma written_nothing [simp]: "written (\<lambda>r. [r]) [] = {}"
  by (simp add: written_def)

definition docs_seen :: "small_pool \<Rightarrow> nat \<Rightarrow> small_doc list" where
  "docs_seen s c = merged (sp_change s c) (sp_added s c) (sp_docs s)"

definition small_pool_api :: "(nat, small_pool) pool_api" where
  "small_pool_api =
     \<lparr>pool_acquire = (\<lambda>s. case sp_free s of
          [] \<Rightarrow> (Inl (PyExc (OtherExc (lit ''TimeoutError''))), s)
        | c # cs \<Rightarrow> (Inr c, s\<lparr>sp_free := removeAll c cs\<rparr>)),
      pool_release = (\<lambda>c s. (Inr (), s\<lparr>sp_free := c # removeAll c (sp_free s)\<rparr>)),
      tx_start = (\<lambda>c s. (Inr (), s\<lparr>sp_change := (sp_change s)(c := \<lambda>r. [r]), sp_added := (sp_added s)(c := [])\<rparr>)),
      tx_commit = (\<lambda>c s. (Inr (), s\<lparr>sp_docs := docs_seen s c, sp_tenant := (sp_tenant s)(c := None)\<rparr>)),
      tx_rollback = (\<lambda>c s. (Inr (), s\<lparr>sp_tenant := (sp_tenant s)(c := None)\<rparr>)),
      conn_execute = (\<lambda>c sql args s.
        case args of [t] \<Rightarrow> (Inr (), s\<lparr>sp_tenant := (sp_tenant s)(c := Some t)\<rparr>)
        | _ \<Rightarrow> (Inl (PyExc PostgresError), s))\<rparr>"

text \<open>What a statement does to each row, and what it adds.\<close>

fun stmt_rows :: "('r \<Rightarrow> py_exc + bool) \<Rightarrow> 'r stmt \<Rightarrow> 'r \<Rightarrow> 'r list" where
  "stmt_rows pol (Update p f) r = (if pol r = Inr True \<and> p r then [f r] else [r])"
| "stmt_rows pol (Delete p) r = (if pol r = Inr True \<and> p r then [] else [r])"
| "stmt_rows pol _ r = [r]"

fun stmt_adds :: "'r stmt \<Rightarrow> 'r list" where
  "stmt_adds (Insert new) = [new]"
| "stmt_adds _ = []"

fun small_pool_run :: "nat \<Rightarrow> nat db_stmt \<Rightarrow> (small_pool, exc, nat shown) action" where
  "small_pool_run c (On_chunks st) s = (Inl (PyExc PostgresError), s)"
| "small_pool_run c (On_documents st) s =
     (let pol = document_policy small_uuid (sp_tenant s c) in
      case exec_stmt pol document_conflict st (docs_seen s c) of
        Inl e \<Rightarrow> (Inl (PyExc e), s)
      | Inr (out, _) \<Rightarrow> (Inr (Documents out), s\<lparr>
          sp_change := (sp_change s)(c := \<lambda>r. if r \<in> set (sp_docs s)
             then concat (map (stmt_rows pol st) (sp_change s c r)) else sp_change s c r),
          sp_added := (sp_added s)(c := concat (map (stmt_rows pol st) (sp_added s c)) @ stmt_adds st)\<rparr>))"

definition small_pool_view :: "(nat, small_pool) pool_view" where
  "small_pool_view = \<lparr>view_tenant = sp_tenant, view_held = (\<lambda>s c. c \<notin> set (sp_free s))\<rparr>"

definition small_shared_view :: "(nat, small_pool, nat) shared_view" where
  "small_shared_view =
     \<lparr>sv_committed = (\<lambda>s. \<lparr>db_documents = sp_docs s, db_chunks = []\<rparr>),
      sv_seen = (\<lambda>s c. \<lparr>db_documents = docs_seen s c, db_chunks = []\<rparr>),
      sv_touched = (\<lambda>s c. Doc_row ` written (sp_change s c) (sp_added s c))\<rparr>"

section \<open>It keeps the promises\<close>

lemma small_pool_laws: "pool_laws small_pool_api small_pool_view"
  unfolding pool_laws_def
  by (auto simp: small_pool_api_def small_pool_view_def fun_eq_iff split: list.splits)

lemma filter_concat_empty: "(\<And>r x. r \<in> set rows \<Longrightarrow> x \<in> set (g r) \<Longrightarrow> \<not> Q x) \<Longrightarrow> filter Q (concat (map g rows)) = []"
  by (auto simp: filter_empty_conv)

text \<open>Rows a transaction has not written are seen as committed.\<close>

lemma merged_unwritten:
  assumes "\<And>r. r \<in> written change added \<Longrightarrow> \<not> Q r"
  shows "filter Q (merged change added rows) = filter Q rows"
proof -
  have one: "filter Q (change r) = filter Q [r]" for r
  proof (cases "change r = [r]")
    case False
    then have "\<not> Q r" and "\<forall>x \<in> set (change r). \<not> Q x" using assms by (auto simp: written_def)
    then show ?thesis by simp
  qed simp
  have "filter Q (concat (map change rows)) = filter Q rows"
    by (induction rows) (auto simp: one)
  moreover have "filter Q added = []" using assms by (auto simp: written_def)
  ultimately show ?thesis by (simp add: merged_def)
qed

text \<open>Two transactions that have written no row in common: the commit of one changes nothing else
  for the other.\<close>

lemma merged_merged:
  assumes "written g' a' \<inter> written g a = {}" and avoid: "\<And>r. r \<in> written g a \<Longrightarrow> \<not> Q r"
  shows "filter Q (merged g' a' (merged g a rows)) = filter Q (merged g' a' rows)"
proof -
  have same: "g' x = [x]" if "x \<in> written g a" for x using that assms(1) by (auto simp: written_def)
  have one: "filter Q (concat (map g' (g r))) = filter Q (g' r)" for r
  proof (cases "g r = [r]")
    case False
    then have r: "r \<in> written g a" and xs: "\<And>x. x \<in> set (g r) \<Longrightarrow> x \<in> written g a" by (auto simp: written_def)
    have "filter Q (concat (map g' (g r))) = []"
      by (rule filter_concat_empty) (use same xs avoid in auto)
    then show ?thesis using same [OF r] avoid [OF r] by simp
  qed simp
  have "filter Q (concat (map g' (concat (map g rows)))) = filter Q (concat (map g' rows))"
    by (induction rows) (simp_all add: one)
  moreover have "filter Q (concat (map g' a)) = []"
    by (rule filter_concat_empty) (use same avoid in \<open>auto simp: written_def\<close>)
  ultimately show ?thesis by (simp add: merged_def)
qed

text \<open>A statement that succeeds does to the table what it does to each row.\<close>

lemma mark_rows_all: "mark_rows pol p rows = Inr ms \<Longrightarrow> ms = map (\<lambda>r. (r, pol r = Inr True \<and> p r)) rows"
  by (induction rows arbitrary: ms) (auto simp: res_simps split: if_splits)

lemma exec_stmt_rows:
  assumes "exec_stmt pol conf st rows = Inr (out, rows')"
  shows "rows' = concat (map (stmt_rows pol st) rows) @ stmt_adds st"
proof -
  have rows: "concat (map (stmt_rows pol st) rows) = (case st of
      Update p f \<Rightarrow> map (\<lambda>r. if pol r = Inr True \<and> p r then f r else r) rows
    | Delete p \<Rightarrow> filter (\<lambda>r. pol r = Inr True \<longrightarrow> \<not> p r) rows | _ \<Rightarrow> rows)"
    by (induction rows) (auto split: stmt.split)
  show ?thesis
    using assms unfolding rows
    by (cases st) (auto simp: exec_stmt_def res_simps Let_def filter_map comp_def
        dest!: mark_rows_all split: if_splits)
qed

text \<open>It writes only the rows it matches.\<close>

lemma stmt_rows_touches:
  assumes "x \<in> set (stmt_rows pol st r)" and "r \<in> set rows" and "x \<noteq> r \<or> stmt_rows pol st r \<noteq> [r]"
  shows "x \<in> touches pol st rows" and "r \<in> touches pol st rows"
  using assms by (cases st; auto simp: Let_def split: if_splits)+

lemma stmt_rows_gone:
  assumes "stmt_rows pol st r \<noteq> [r]" and "r \<in> set rows"
  shows "r \<in> touches pol st rows"
  using assms by (cases st) (auto simp: Let_def split: if_splits)

lemma written_step:
  assumes seen: "rows = merged g a committed"
  shows "written (\<lambda>r. if r \<in> set committed then concat (map (stmt_rows pol st) (g r)) else g r)
      (concat (map (stmt_rows pol st) a) @ stmt_adds st) \<subseteq> written g a \<union> touches pol st rows"
proof
  fix x
  let ?h = "stmt_rows pol st" and ?g = "\<lambda>r. if r \<in> set committed then concat (map (stmt_rows pol st) (g r)) else g r"
  assume "x \<in> written ?g (concat (map ?h a) @ stmt_adds st)"
  then consider (old) "?g x \<noteq> [x]" | (new) r where "?g r \<noteq> [r]" "x \<in> set (?g r)"
    | (add) "x \<in> set (concat (map ?h a))" | (ins) "x \<in> set (stmt_adds st)"
    unfolding written_def by auto
  then show "x \<in> written g a \<union> touches pol st rows"
  proof cases
    case old
    show ?thesis
    proof (cases "g x = [x]")
      case True
      with old have "x \<in> set committed" "?h x \<noteq> [x]" by (auto split: if_splits)
      moreover from this True have "x \<in> set rows" unfolding seen merged_def by force
      ultimately show ?thesis using stmt_rows_gone [of pol st x rows] by simp
    qed (simp add: written_def)
  next
    case new
    show ?thesis
    proof (cases "r \<in> set committed")
      case False
      with new show ?thesis by (auto simp: written_def)
    next
      case True
      with new(2) obtain y where y: "y \<in> set (g r)" "x \<in> set (?h y)" by auto
      have row: "y \<in> set rows" using y True by (auto simp: seen merged_def)
      show ?thesis
      proof (cases "x \<noteq> y \<or> ?h y \<noteq> [y]")
        case True
        then show ?thesis using stmt_rows_touches(1) [OF y(2) row] by blast
      next
        case same: False
        show ?thesis
        proof (cases "g r = [r]")
          case True
          with y(1) same new(1) \<open>r \<in> set committed\<close> show ?thesis by simp
        next
          case False
          with y(1) same show ?thesis by (auto simp: written_def)
        qed
      qed
    qed
  next
    case add
    then obtain y where y: "y \<in> set a" "x \<in> set (?h y)" by auto
    have row: "y \<in> set rows" using y by (auto simp: seen merged_def)
    show ?thesis
    proof (cases "x \<noteq> y \<or> ?h y \<noteq> [y]")
      case True
      then show ?thesis using stmt_rows_touches(1) [OF y(2) row] by blast
    qed (use y(1) in \<open>auto simp: written_def\<close>)
  next
    case ins
    then show ?thesis by (cases st) auto
  qed
qed

lemma merged_step:
  assumes "exec_stmt pol conf st (merged g a committed) = Inr (out, rows')"
  shows "merged (\<lambda>r. if r \<in> set committed then concat (map (stmt_rows pol st) (g r)) else g r)
      (concat (map (stmt_rows pol st) a) @ stmt_adds st) committed = rows'"
proof -
  have "concat (map (stmt_rows pol st) (concat (map g committed)))
      = concat (map (\<lambda>r. if r \<in> set committed then concat (map (stmt_rows pol st) (g r)) else g r) committed)"
  proof -
    have "concat (map h (concat (map g xs))) = concat (map (\<lambda>r. concat (map h (g r))) xs)"
      for h :: "'a \<Rightarrow> 'a list" and xs
      by (induction xs) simp_all
    also have "concat (map (\<lambda>r. concat (map (stmt_rows pol st) (g r))) committed)
        = concat (map (\<lambda>r. if r \<in> set committed then concat (map (stmt_rows pol st) (g r)) else g r) committed)"
      by (rule arg_cong [where f = concat], rule map_cong) simp_all
    finally show ?thesis .
  qed
  with exec_stmt_rows [OF assms] show ?thesis by (simp add: merged_def)
qed

lemmas small_pool_defs = small_pool_api_def small_pool_view_def small_shared_view_def

lemma small_published:
  "published small_shared_view c s (s\<lparr>sp_docs := docs_seen s c, sp_tenant := m\<rparr>)"
proof -
  have "filter P (merged (sp_change s b) (sp_added s b) (docs_seen s c)) = filter P (docs_seen s b)"
    if "written (sp_change s b) (sp_added s b) \<inter> written (sp_change s c) (sp_added s c) = {}"
      and "\<forall>r \<in> written (sp_change s c) (sp_added s c). \<not> P r" for b P
    using merged_merged [of "sp_change s b" "sp_added s b" "sp_change s c" "sp_added s c" P] that
    by (simp add: docs_seen_def)
  moreover have "docs_seen (s\<lparr>sp_docs := docs_seen s c, sp_tenant := m\<rparr>) b
      = merged (sp_change s b) (sp_added s b) (docs_seen s c)" for b
    by (simp add: docs_seen_def)
  moreover have "written (sp_change s b) (sp_added s b) \<inter> written (sp_change s c) (sp_added s c) = {}"
    if "Doc_row ` written (sp_change s b) (sp_added s b) \<inter> Doc_row ` written (sp_change s c) (sp_added s c) = {}" for b
    using that by blast
  ultimately show ?thesis by (simp add: published_def small_shared_view_def keep_def)
qed

lemma small_run_law:
  assumes "small_pool_run c st s = (r, s')"
  shows "unpublished small_shared_view (Some c) s s'
    \<and> view_held small_pool_view s' = view_held small_pool_view s
    \<and> view_tenant small_pool_view s' = view_tenant small_pool_view s
    \<and> (\<forall>out. r = Inr out \<longrightarrow>
         exec_db small_uuid (view_tenant small_pool_view s c) st (sv_seen small_shared_view s c)
           = Inr (out, sv_seen small_shared_view s' c)
       \<and> sv_touched small_shared_view s' c \<subseteq> sv_touched small_shared_view s c
           \<union> db_touches small_uuid (view_tenant small_pool_view s c) st (sv_seen small_shared_view s c))"
proof (cases st)
  case (On_chunks x)
  with assms show ?thesis by (auto simp: unpublished_def)
next
  case (On_documents x)
  let ?pol = "document_policy small_uuid (sp_tenant s c)"
  show ?thesis
  proof (cases "exec_stmt ?pol document_conflict x (docs_seen s c)")
    case (Inl e)
    with assms On_documents show ?thesis by (auto simp: unpublished_def)
  next
    case (Inr or)
    obtain out rows where run: "exec_stmt ?pol document_conflict x (docs_seen s c) = Inr (out, rows)"
      using Inr by (cases or) simp
    have s': "s' = s\<lparr>sp_change := (sp_change s)(c := \<lambda>r. if r \<in> set (sp_docs s)
             then concat (map (stmt_rows ?pol x) (sp_change s c r)) else sp_change s c r),
          sp_added := (sp_added s)(c := concat (map (stmt_rows ?pol x) (sp_added s c)) @ stmt_adds x)\<rparr>"
      and r: "r = Inr (Documents out)"
      using assms On_documents run by (simp_all add: Let_def)
    have seen: "docs_seen s' c = rows"
      using merged_step [OF run [unfolded docs_seen_def]] by (simp add: s' docs_seen_def)
    have "written (sp_change s' c) (sp_added s' c)
        \<subseteq> written (sp_change s c) (sp_added s c) \<union> touches ?pol x (docs_seen s c)"
      using written_step [OF docs_seen_def [of s c], of ?pol x] by (simp add: s')
    then have touched: "Doc_row ` written (sp_change s' c) (sp_added s' c)
        \<subseteq> Doc_row ` written (sp_change s c) (sp_added s c) \<union> Doc_row ` touches ?pol x (docs_seen s c)"
      by blast
    have quiet: "unpublished small_shared_view (Some c) s s'"
      by (simp add: unpublished_def small_shared_view_def s' docs_seen_def)
    show ?thesis
      using quiet run seen touched r On_documents by (simp add: small_pool_view_def small_shared_view_def s')
  qed
qed

lemma small_shared_laws:
  "shared_laws small_uuid small_pool_api small_pool_view small_shared_view small_pool_run"
proof -
  have seen: "keep Q (sv_seen small_shared_view s c) = keep Q (sv_committed small_shared_view s)"
    if "\<forall>r \<in> sv_touched small_shared_view s c. \<not> Q r" for s c and Q :: "nat db_row \<Rightarrow> bool"
    using that merged_unwritten [of "sp_change s c" "sp_added s c" "\<lambda>r. Q (Doc_row r)" "sp_docs s"]
    by (simp add: small_shared_view_def keep_def docs_seen_def)
  have commit: "published small_shared_view c s s'" if "tx_commit small_pool_api c s = (r, s')" for c s r s'
    using that small_published by (auto simp: small_pool_api_def)
  have acquire: "unpublished small_shared_view None s s'" if "pool_acquire small_pool_api s = (r, s')" for s r s'
    using that by (auto simp: unpublished_def small_pool_defs docs_seen_def split: list.splits)
  have release: "unpublished small_shared_view None s s'" if "pool_release small_pool_api c s = (r, s')" for c s r s'
    using that by (auto simp: unpublished_def small_pool_defs docs_seen_def)
  have begins: "unpublished small_shared_view (Some c) s s' \<and> sv_touched small_shared_view s' c = {}"
    if "tx_start small_pool_api c s = (r, s')" for c s r s'
    using that by (auto simp: unpublished_def small_pool_defs docs_seen_def)
  have set: "unpublished small_shared_view None s s'"
    if "conn_execute small_pool_api c set_tenant_sql [t] s = (r, s')" for c t s r s'
    using that by (auto simp: unpublished_def small_pool_defs docs_seen_def)
  have rollback: "unpublished small_shared_view (Some c) s s'"
    if "tx_rollback small_pool_api c s = (r, s')" for c s r s'
    using that by (auto simp: unpublished_def small_pool_defs docs_seen_def)
  show ?thesis
    unfolding shared_laws_def
    by (intro conjI, use seen in blast, use acquire in blast, use release in blast, use begins in blast,
        use set in blast, use rollback in blast, use commit in blast, use small_run_law in blast)
qed

section \<open>Two tenants at once\<close>

text \<open>A schedule that ends with the transaction of one task.\<close>

fun run_until ::
  "nat \<Rightarrow> ('c, 's) pool_api \<Rightarrow> (nat \<times> pystr \<times> ('c, 's) txn_call list) list \<Rightarrow> ('c, 's) tasks \<Rightarrow> ('c, 's) tasks" where
  "run_until i api [] k = k"
| "run_until i api (e # sched) k =
     (if is_finished (tk_point k i) then k else run_until i api sched (run_schedule api [e] k))"

lemma advance_tenant_at: "txn_advance api (p, w) = (p', w') \<Longrightarrow> tenant_at p' = Some t \<Longrightarrow> tenant_at p = Some t"
  by (cases "(api, (p, w))" rule: txn_advance.cases) (auto split: prod.splits sum.splits)

lemma schedule_step:
  assumes "set ms \<subseteq> calls"
  shows "tasks_step api calls k (run_schedule api [(i, t, ms)] k)"
proof (cases "is_Outside (tk_point k i)")
  case True
  then have "tk_point k i \<in> {Outside, Finished (Inr ())}" by (cases "tk_point k i") auto
  from tasks_step.begin_txn [OF this assms] True show ?thesis by simp
next
  case False
  obtain p w where "txn_advance api (tk_point k i, tk_world k) = (p, w)"
    by (cases "txn_advance api (tk_point k i, tk_world k)")
  from tasks_step.advance [OF this] False this show ?thesis by simp
qed

lemma alone_schedule_step:
  assumes "alone as_uuid u i k" and "j \<noteq> i \<longrightarrow> as_uuid t \<noteq> Some u"
  shows "alone as_uuid u i (run_schedule api [(j, t, ms)] k)"
  using assms advance_tenant_at [of api "tk_point k j" "tk_world k"]
  by (fastforce simp: alone_def split: prod.splits if_splits)

lemma run_until_alone:
  assumes "run_alone as_uuid u i api calls k0 k" and "alone as_uuid u i k"
    and "\<forall>(j, t, ms) \<in> set sched. set ms \<subseteq> calls \<and> (j \<noteq> i \<longrightarrow> as_uuid t \<noteq> Some u)"
  shows "run_alone as_uuid u i api calls k0 (run_until i api sched k)"
  using assms
proof (induction sched arbitrary: k)
  case (Cons e sched)
  obtain j t ms where e: "e = (j, t, ms)" by (cases e)
  show ?case
  proof (cases "is_finished (tk_point k i)")
    case False
    have "alone as_uuid u i (run_schedule api [e] k)"
      unfolding e by (rule alone_schedule_step [OF Cons.prems(2)]) (use Cons.prems(3) e in auto)
    moreover have "tasks_step api calls k (run_schedule api [e] k)"
      unfolding e by (rule schedule_step) (use Cons.prems(3) e in auto)
    ultimately have "run_alone as_uuid u i api calls k0 (run_until i api sched (run_schedule api [e] k))"
      using Cons.prems False by (intro Cons.IH) (auto intro: run_alone.step)
    with False show ?thesis by simp
  qed (use Cons.prems in simp)
qed simp

definition two_tenants :: small_pool where
  "two_tenants = \<lparr>sp_free = [0, 1], sp_tenant = (\<lambda>_. None), sp_docs = [doc 7 1, doc 8 2],
     sp_change = (\<lambda>_ r. [r]), sp_added = (\<lambda>_. [])\<rparr>"

abbreviation replace_all :: "nat db_stmt list" where
  "replace_all \<equiv> [On_documents (Delete (\<lambda>r. True)), On_documents (Insert (doc 9 1))]"

abbreviation mark_all :: "nat db_stmt list" where
  "mark_all \<equiv> [On_documents (Update (\<lambda>r. True) (doc_status_update (\<lambda>_. lit ''done'')))]"

abbreviation small_calls :: "nat db_stmt list \<Rightarrow> (nat, small_pool) txn_call list" where
  "small_calls \<equiv> map (stmt_call small_pool_run)"

text \<open>Task 0 is about to begin for \<open>t1\<close>; task 1 works and commits for \<open>t2\<close> between its statements.\<close>

definition t1_begins :: "(nat, small_pool) tasks" where
  "t1_begins = run_schedule small_pool_api [(0, lit ''t1'', small_calls replace_all)] (idle_tasks two_tenants)"

definition both_work :: "(nat \<times> pystr \<times> (nat, small_pool) txn_call list) list" where
  "both_work = [(1, lit ''t2'', small_calls mark_all), (0, [], []), (1, [], []), (0, [], []), (1, [], []),
     (0, [], []), (1, [], []), (0, [], []), (1, [], []), (1, [], []), (0, [], []), (0, [], []), (0, [], [])]"

definition t1_done :: "(nat, small_pool) tasks" where
  "t1_done = run_until 0 small_pool_api both_work t1_begins"

lemma t1_begins_point: "tk_point t1_begins 0 = Entering (lit ''t1'') (small_calls replace_all)"
  by (simp add: t1_begins_def idle_tasks_def)

lemma t1_begins_docs: "sv_committed small_shared_view (tk_world t1_begins) = \<lparr>db_documents = [doc 7 1, doc 8 2], db_chunks = []\<rparr>"
  by (simp add: t1_begins_def idle_tasks_def two_tenants_def small_shared_view_def)

lemma t1_done_run:
  "(case tk_point t1_done 0 of Finished (Inr _) \<Rightarrow> True | _ \<Rightarrow> False)
 \<and> sp_docs (tk_world t1_done) = [doc_status_update (\<lambda>_. lit ''done'') (doc 8 2), doc 9 1]"
  by code_simp

lemma two_tenants_clean: "pool_clean small_pool_view two_tenants"
  by (simp add: pool_clean_def small_pool_view_def two_tenants_def)

lemma small_calls_range: "set (small_calls sts) \<subseteq> range (stmt_call small_pool_run)"
  by auto

lemma both_work_calls:
  "\<forall>(j, t, ms) \<in> set both_work. set ms \<subseteq> range (stmt_call small_pool_run) \<and> (j \<noteq> 0 \<longrightarrow> small_uuid t \<noteq> Some 1)"
proof -
  have "small_uuid (lit ''t2'') \<noteq> Some 1" and "small_uuid [] \<noteq> Some 1" by code_simp+
  then show ?thesis by (auto simp: both_work_def)
qed

lemma t1_begins_reach:
  "tasks_reach small_pool_api (range (stmt_call small_pool_run)) (idle_tasks two_tenants) t1_begins"
  unfolding t1_begins_def by (rule run_schedule_reach [OF tasks_reach.start]) auto

lemma t1_done_alone:
  "run_alone small_uuid 1 0 small_pool_api (range (stmt_call small_pool_run)) t1_begins t1_done"
proof -
  have "alone small_uuid 1 0 t1_begins" by (auto simp: alone_def t1_begins_def idle_tasks_def)
  then show ?thesis
    unfolding t1_done_def using both_work_calls by (intro run_until_alone run_alone.start)
qed

theorem interleaved_txn_serial_witness:
  "\<exists>outs. exec_db_all small_uuid (Some (lit ''t1'')) replace_all \<lparr>db_documents = [doc 7 1], db_chunks = []\<rparr>
     = Inr (outs, own 1 (sv_committed small_shared_view (tk_world t1_done)))
   \<and> db_documents (sv_committed small_shared_view (tk_world t1_done))
     = [doc_status_update (\<lambda>_. lit ''done'') (doc 8 2), doc 9 1]"
proof -
  have u: "small_uuid (lit ''t1'') = Some 1" by code_simp
  obtain r where fin: "tk_point t1_done 0 = Finished (Inr r)"
    using t1_done_run by (auto split: txn_point.splits sum.splits)
  have rows: "own 1 (sv_committed small_shared_view (tk_world t1_begins)) = \<lparr>db_documents = [doc 7 1], db_chunks = []\<rparr>"
    unfolding t1_begins_docs by (simp add: own_def keep_def doc_def)
  show ?thesis
    using interleaved_txn_serial [OF small_shared_laws small_pool_laws two_tenants_clean u t1_begins_reach
        t1_begins_point t1_done_alone fin] t1_done_run
    unfolding rows by (simp add: small_shared_view_def)
qed

text \<open>Task 0 just before its commit, and after it.\<close>

definition t1_commits :: "(nat, small_pool) tasks" where
  "t1_commits = run_schedule small_pool_api (take 11 both_work) t1_begins"

definition t1_committed :: "(nat, small_pool) tasks" where
  "t1_committed = run_schedule small_pool_api [(0, [], [])] t1_commits"

lemma t1_commits_docs:
  "sp_docs (tk_world t1_commits) = [doc 7 1, doc_status_update (\<lambda>_. lit ''done'') (doc 8 2)]
 \<and> sp_docs (tk_world t1_committed) = [doc_status_update (\<lambda>_. lit ''done'') (doc 8 2), doc 9 1]"
  by code_simp

theorem interleaved_commits_isolated_witness:
  "own 1 (sv_committed small_shared_view (tk_world t1_committed))
     \<noteq> own 1 (sv_committed small_shared_view (tk_world t1_commits))
 \<and> (\<exists>i t c. tk_point t1_commits i = Inside t c [] \<and> small_uuid t = Some 1)"
proof -
  have reach: "tasks_reach small_pool_api (range (stmt_call small_pool_run)) (idle_tasks two_tenants) t1_commits"
    unfolding t1_commits_def using both_work_calls
    by (intro run_schedule_reach [OF t1_begins_reach]) (fastforce dest: in_set_takeD)
  have step: "tasks_step small_pool_api (range (stmt_call small_pool_run)) t1_commits t1_committed"
    unfolding t1_committed_def by (rule schedule_step) simp
  have differ: "own 1 (sv_committed small_shared_view (tk_world t1_committed))
      \<noteq> own 1 (sv_committed small_shared_view (tk_world t1_commits))"
    using t1_commits_docs by (simp add: own_def keep_def small_shared_view_def doc_def)
  show ?thesis
    using interleaved_commits_isolated [OF small_shared_laws small_pool_laws two_tenants_clean reach step] differ
    by blast
qed

end
