(* ===== verification/Catalog.thy ===== *)
theory Catalog
  imports Rls
begin

text \<open>
  The database catalog the migrations build: \<open>supabase/migrations/0001_app_user.sql\<close> to
  \<open>0004_widget_keys.sql\<close> as lists of statements, executed on roles, tables, policies, grants and
  indexes. That the connected role may run such statements is taken as given (the comment of
  0001 says what it may not).
\<close>

section \<open>The catalog\<close>

datatype privilege = Priv_select | Priv_insert | Priv_update | Priv_delete | Priv_usage | Priv_connect

datatype db_object = On_table pystr | On_schema pystr | On_database pystr

datatype sql_type = Type_uuid | Type_text | Type_int | Type_timestamptz | Type_vector nat | Type_text_array

datatype sql_default = Gen_random_uuid | Now | Text_const pystr | Empty_array

record column =
  col_name :: pystr
  col_type :: sql_type
  col_not_null :: bool
  col_default :: "sql_default option"

record table_def =
  td_columns :: "column list"
  td_primary_key :: "pystr list"
  td_unique :: "pystr list list"

text \<open>\<open>column = (SELECT current_setting(name)::uuid)\<close>.\<close>

datatype policy_expr = Column_is_setting pystr pystr

record policy =
  po_to :: pystr
  po_using :: policy_expr
  po_with_check :: policy_expr

record role =
  rl_login :: bool
  rl_superuser :: bool
  rl_bypassrls :: bool

record table =
  tb_def :: table_def
  tb_owner :: pystr
  tb_enable_rls :: bool
  tb_force_rls :: bool
  tb_policies :: "pystr \<Rightarrow> policy option"

record catalog =
  cat_roles :: "pystr \<Rightarrow> role option"
  cat_objects :: "db_object set"
  cat_tables :: "pystr \<Rightarrow> table option"
  cat_indexes :: "pystr \<Rightarrow> (pystr \<times> pystr list) option"
  cat_grants :: "(pystr \<times> db_object \<times> privilege) set"
  cat_available :: "pystr set"
  cat_extensions :: "pystr set"

section \<open>Statements\<close>

datatype ddl =
    Create_role_if_missing pystr
  | Grant "privilege list" db_object pystr
  | Create_extension_if_missing pystr
  | Create_table_if_missing pystr table_def
  | Create_index_if_missing pystr pystr "pystr list"
  | Enable_rls pystr
  | Force_rls pystr
  | Drop_policy_if_exists pystr pystr
  | Create_policy pystr pystr policy

fun object_exists :: "catalog \<Rightarrow> db_object \<Rightarrow> bool" where
  "object_exists cat (On_table t) = (cat_tables cat t \<noteq> None)"
| "object_exists cat ob = (ob \<in> cat_objects cat)"

text \<open>The type \<open>vector\<close> comes with the extension of that name.\<close>

fun type_known :: "catalog \<Rightarrow> sql_type \<Rightarrow> bool" where
  "type_known cat (Type_vector n) = (lit ''vector'' \<in> cat_extensions cat)"
| "type_known cat _ = True"

definition has_columns :: "table_def \<Rightarrow> pystr list \<Rightarrow> bool" where
  "has_columns d cols = (set cols \<subseteq> col_name ` set (td_columns d))"

text \<open>\<open>CREATE ROLE name LOGIN\<close>: every attribute that is not named is off.\<close>

definition login_role :: role where
  "login_role = \<lparr>rl_login = True, rl_superuser = False, rl_bypassrls = False\<rparr>"

definition fresh_table :: "pystr \<Rightarrow> table_def \<Rightarrow> table" where
  "fresh_table owner d = \<lparr>tb_def = d, tb_owner = owner, tb_enable_rls = False, tb_force_rls = False,
     tb_policies = (\<lambda>_. None)\<rparr>"

definition alter_table ::
  "pystr \<Rightarrow> (table \<Rightarrow> table) \<Rightarrow> catalog \<Rightarrow> py_exc + catalog" where
  "alter_table t f cat = (case cat_tables cat t of
     None \<Rightarrow> Inl PostgresError
   | Some tb \<Rightarrow> Inr (cat\<lparr>cat_tables := (cat_tables cat)(t \<mapsto> f tb)\<rparr>))"

text \<open>One statement run by \<open>me\<close>.\<close>

fun exec_ddl :: "pystr \<Rightarrow> ddl \<Rightarrow> catalog \<Rightarrow> py_exc + catalog" where
  "exec_ddl me (Create_role_if_missing r) cat = Inr (case cat_roles cat r of
       Some _ \<Rightarrow> cat | None \<Rightarrow> cat\<lparr>cat_roles := (cat_roles cat)(r \<mapsto> login_role)\<rparr>)"
| "exec_ddl me (Grant ps ob r) cat =
     (if object_exists cat ob \<and> cat_roles cat r \<noteq> None
      then Inr (cat\<lparr>cat_grants := cat_grants cat \<union> {(r, ob, p) |p. p \<in> set ps}\<rparr>) else Inl PostgresError)"
| "exec_ddl me (Create_extension_if_missing x) cat =
     (if x \<in> cat_extensions cat then Inr cat
      else if x \<in> cat_available cat then Inr (cat\<lparr>cat_extensions := insert x (cat_extensions cat)\<rparr>)
      else Inl PostgresError)"
| "exec_ddl me (Create_table_if_missing t d) cat = (case cat_tables cat t of
       Some _ \<Rightarrow> Inr cat
     | None \<Rightarrow> if list_all (\<lambda>c. type_known cat (col_type c)) (td_columns d)
         then Inr (cat\<lparr>cat_tables := (cat_tables cat)(t \<mapsto> fresh_table me d)\<rparr>) else Inl PostgresError)"
| "exec_ddl me (Create_index_if_missing i t cols) cat = (case cat_tables cat t of
       None \<Rightarrow> Inl PostgresError
     | Some tb \<Rightarrow> if cat_indexes cat i \<noteq> None then Inr cat
         else if has_columns (tb_def tb) cols
         then Inr (cat\<lparr>cat_indexes := (cat_indexes cat)(i \<mapsto> (t, cols))\<rparr>) else Inl PostgresError)"
| "exec_ddl me (Enable_rls t) cat = alter_table t (\<lambda>tb. tb\<lparr>tb_enable_rls := True\<rparr>) cat"
| "exec_ddl me (Force_rls t) cat = alter_table t (\<lambda>tb. tb\<lparr>tb_force_rls := True\<rparr>) cat"
| "exec_ddl me (Drop_policy_if_exists n t) cat = (case cat_tables cat t of
       None \<Rightarrow> Inr cat
     | Some tb \<Rightarrow> Inr (cat\<lparr>cat_tables := (cat_tables cat)(t \<mapsto> tb\<lparr>tb_policies := (tb_policies tb)(n := None)\<rparr>)\<rparr>))"
| "exec_ddl me (Create_policy n t po) cat = (case cat_tables cat t of
       None \<Rightarrow> Inl PostgresError
     | Some tb \<Rightarrow> if tb_policies tb n \<noteq> None \<or> cat_roles cat (po_to po) = None then Inl PostgresError
         else Inr (cat\<lparr>cat_tables := (cat_tables cat)(t \<mapsto> tb\<lparr>tb_policies := (tb_policies tb)(n \<mapsto> po)\<rparr>)\<rparr>))"

text \<open>The statements of one file are one implicit transaction: it takes effect as a whole or not
  at all.\<close>

fun exec_ddls :: "pystr \<Rightarrow> ddl list \<Rightarrow> catalog \<Rightarrow> py_exc + catalog" where
  "exec_ddls me [] cat = Inr cat"
| "exec_ddls me (st # sts) cat = bind_res (exec_ddl me st cat) (exec_ddls me sts)"

section \<open>The migration files\<close>

definition migration_0001 :: "ddl list" where
  "migration_0001 =
     [Create_role_if_missing (lit ''app_user''),
      Grant [Priv_connect] (On_database (lit ''postgres'')) (lit ''app_user''),
      Grant [Priv_usage] (On_schema (lit ''public'')) (lit ''app_user'')]"

definition col :: "string \<Rightarrow> sql_type \<Rightarrow> bool \<Rightarrow> sql_default option \<Rightarrow> column" where
  "col n ty nn df = \<lparr>col_name = lit n, col_type = ty, col_not_null = nn, col_default = df\<rparr>"

definition documents_table :: table_def where
  "documents_table =
     \<lparr>td_columns =
        [col ''id'' Type_uuid True (Some Gen_random_uuid),
         col ''tenant_id'' Type_uuid True None,
         col ''object_key'' Type_text True None,
         col ''content_hash'' Type_text True None,
         col ''status'' Type_text True (Some (Text_const (lit ''queued''))),
         col ''failure_reason'' Type_text False None,
         col ''created_at'' Type_timestamptz True (Some Now)],
      td_primary_key = [lit ''id''],
      td_unique = [[lit ''tenant_id'', lit ''content_hash'']]\<rparr>"

text \<open>The policy both tenant tables carry.\<close>

definition tenant_isolation :: policy where
  "tenant_isolation =
     \<lparr>po_to = lit ''app_user'',
      po_using = Column_is_setting (lit ''tenant_id'') (lit ''app.tenant_id''),
      po_with_check = Column_is_setting (lit ''tenant_id'') (lit ''app.tenant_id'')\<rparr>"

definition crud :: "privilege list" where
  "crud = [Priv_select, Priv_insert, Priv_update, Priv_delete]"

definition migration_0002 :: "ddl list" where
  "migration_0002 =
     [Create_table_if_missing (lit ''documents'') documents_table,
      Create_index_if_missing (lit ''documents_tenant_idx'') (lit ''documents'') [lit ''tenant_id'', lit ''created_at''],
      Enable_rls (lit ''documents''),
      Force_rls (lit ''documents''),
      Drop_policy_if_exists (lit ''tenant_isolation'') (lit ''documents''),
      Create_policy (lit ''tenant_isolation'') (lit ''documents'') tenant_isolation,
      Grant crud (On_table (lit ''documents'')) (lit ''app_user'')]"

definition chunks_table :: table_def where
  "chunks_table =
     \<lparr>td_columns =
        [col ''id'' Type_uuid True (Some Gen_random_uuid),
         col ''tenant_id'' Type_uuid True None,
         col ''document_id'' Type_uuid True None,
         col ''chunk_index'' Type_int True None,
         col ''text'' Type_text True None,
         col ''section'' Type_text False None,
         col ''content_hash'' Type_text True None,
         col ''embedding'' (Type_vector 768) True None,
         col ''created_at'' Type_timestamptz True (Some Now)],
      td_primary_key = [lit ''id''],
      td_unique = [[lit ''tenant_id'', lit ''document_id'', lit ''chunk_index'']]\<rparr>"

definition migration_0003 :: "ddl list" where
  "migration_0003 =
     [Create_extension_if_missing (lit ''vector''),
      Create_table_if_missing (lit ''chunks'') chunks_table,
      Create_index_if_missing (lit ''chunks_tenant_doc_idx'') (lit ''chunks'') [lit ''tenant_id'', lit ''document_id''],
      Enable_rls (lit ''chunks''),
      Force_rls (lit ''chunks''),
      Drop_policy_if_exists (lit ''tenant_isolation'') (lit ''chunks''),
      Create_policy (lit ''tenant_isolation'') (lit ''chunks'') tenant_isolation,
      Grant crud (On_table (lit ''chunks'')) (lit ''app_user'')]"

definition widget_keys_table :: table_def where
  "widget_keys_table =
     \<lparr>td_columns =
        [col ''key'' Type_text True None,
         col ''tenant_id'' Type_text True None,
         col ''allowed_hosts'' Type_text_array True (Some Empty_array)],
      td_primary_key = [lit ''key''],
      td_unique = []\<rparr>"

definition migration_0004 :: "ddl list" where
  "migration_0004 =
     [Create_table_if_missing (lit ''widget_keys'') widget_keys_table,
      Grant [Priv_select] (On_table (lit ''widget_keys'')) (lit ''app_user'')]"

text \<open>The statement the seed script runs before its upserts, for a database that was not migrated.\<close>

definition seed_create_table :: ddl where
  "seed_create_table = Create_table_if_missing (lit ''widget_keys'')
     \<lparr>td_columns =
        [col ''key'' Type_text True None,
         col ''tenant_id'' Type_text True None,
         col ''allowed_hosts'' Type_text_array True (Some Empty_array)],
      td_primary_key = [lit ''key''],
      td_unique = []\<rparr>"

definition migration_files :: "(pystr \<times> ddl list) list" where
  "migration_files =
     [(lit ''0001_app_user.sql'', migration_0001), (lit ''0002_documents.sql'', migration_0002),
      (lit ''0003_chunks.sql'', migration_0003), (lit ''0004_widget_keys.sql'', migration_0004)]"

section \<open>What a role may do\<close>

text \<open>Which rows of a table a role reaches: all of them, when it is exempt from row-level
  security, or those some policy for it lets through, none without such a policy.\<close>

definition bypasses :: "catalog \<Rightarrow> pystr \<Rightarrow> bool" where
  "bypasses cat r \<longleftrightarrow> (case cat_roles cat r of None \<Rightarrow> False | Some rl \<Rightarrow> rl_superuser rl \<or> rl_bypassrls rl)"

definition exempt :: "catalog \<Rightarrow> pystr \<Rightarrow> table \<Rightarrow> bool" where
  "exempt cat r tb \<longleftrightarrow> \<not> tb_enable_rls tb
     \<or> (r = tb_owner tb \<and> \<not> tb_force_rls tb) \<or> bypasses cat r"

definition policies_for :: "pystr \<Rightarrow> table \<Rightarrow> policy set" where
  "policies_for r tb = {po. \<exists>n. tb_policies tb n = Some po \<and> po_to po = r}"

definition may :: "catalog \<Rightarrow> pystr \<Rightarrow> privilege \<Rightarrow> pystr \<Rightarrow> bool" where
  "may cat r p t \<longleftrightarrow> (r, On_table t, p) \<in> cat_grants cat
     \<or> (case cat_tables cat t of None \<Rightarrow> False | Some tb \<Rightarrow> tb_owner tb = r)
     \<or> (case cat_roles cat r of None \<Rightarrow> False | Some rl \<Rightarrow> rl_superuser rl)"

section \<open>Rows as the database has them\<close>

text \<open>A row as its cells; an absent cell is NULL.\<close>

datatype 'u cell = Cell_uuid 'u | Cell_text pystr | Cell_int int | Cell_time int | Cell_vector "pyfloat list"

definition document_cells :: "'u document_row \<Rightarrow> pystr \<Rightarrow> 'u cell option" where
  "document_cells r name = (case map_of
     [(lit ''id'', Some (Cell_uuid (doc_id r))), (lit ''tenant_id'', Some (Cell_uuid (doc_tenant_id r))),
      (lit ''object_key'', Some (Cell_text (doc_object_key r))),
      (lit ''content_hash'', Some (Cell_text (doc_content_hash r))), (lit ''status'', Some (Cell_text (doc_status r))),
      (lit ''failure_reason'', map_option Cell_text (doc_failure_reason r)),
      (lit ''created_at'', Some (Cell_time (doc_created_at r)))] name of Some v \<Rightarrow> v | None \<Rightarrow> None)"

definition chunk_cells :: "'u chunk_row \<Rightarrow> pystr \<Rightarrow> 'u cell option" where
  "chunk_cells r name = (case map_of
     [(lit ''id'', Some (Cell_uuid (chunk_id r))), (lit ''tenant_id'', Some (Cell_uuid (chunk_tenant_id r))),
      (lit ''document_id'', Some (Cell_uuid (chunk_document_id r))),
      (lit ''chunk_index'', Some (Cell_int (chunk_chunk_index r))), (lit ''text'', Some (Cell_text (chunk_text r))),
      (lit ''section'', map_option Cell_text (chunk_section r)),
      (lit ''content_hash'', Some (Cell_text (chunk_content_hash r))),
      (lit ''embedding'', Some (Cell_vector (chunk_embedding r))),
      (lit ''created_at'', Some (Cell_time (chunk_created_at r)))] name of Some v \<Rightarrow> v | None \<Rightarrow> None)"

text \<open>A policy expression on a row, given the session's settings: an unset setting, a string that is
  no uuid, and a column that is no uuid are errors.\<close>

fun eval_policy_expr ::
  "(pystr \<Rightarrow> 'u option) \<Rightarrow> (pystr \<Rightarrow> pystr option) \<Rightarrow> (pystr \<Rightarrow> 'u cell option) \<Rightarrow> policy_expr \<Rightarrow> py_exc + bool" where
  "eval_policy_expr as_uuid session row (Column_is_setting c n) =
     (case (row c, session n) of
        (Some (Cell_uuid x), Some t) \<Rightarrow> (case as_uuid t of None \<Rightarrow> Inl PostgresError | Some u \<Rightarrow> Inr (x = u))
      | _ \<Rightarrow> Inl PostgresError)"

text \<open>Two rows a table's primary key or one of its UNIQUE constraints does not let stand together:
  they agree, on values that are not NULL, in all columns of it.\<close>

definition keys_clash :: "table_def \<Rightarrow> (pystr \<Rightarrow> 'u cell option) \<Rightarrow> (pystr \<Rightarrow> 'u cell option) \<Rightarrow> bool" where
  "keys_clash d a b \<longleftrightarrow>
     (\<exists>cols \<in> set (td_primary_key d # td_unique d). \<forall>c \<in> set cols. a c = b c \<and> a c \<noteq> None)"

end
