(* ===== verification/Migrations.thy ===== *)
theory Migrations
  imports Settings_Core "HOL-Library.List_Lexorder" "HOL-Library.Multiset"
begin

text \<open>
  \<open>backend/scripts/apply_migrations.py\<close>: the migration files, executed in the order of their
  names over the owner's connection. The directory listing, the files and the driver are
  parameters.
\<close>

section \<open>The script\<close>

record ('c, 's) migration_api =
  mg_connect :: "pystr \<Rightarrow> ('s, exc, 'c) action"
  mg_execute :: "'c \<Rightarrow> pystr \<Rightarrow> ('s, exc, unit) action"
  mg_close :: "'c \<Rightarrow> ('s, exc, unit) action"

text \<open>\<open>path.read_text(encoding="utf-8")\<close> is \<open>read\<close>; it may raise.\<close>

fun apply_each ::
  "('c, 's) migration_api \<Rightarrow> (pystr \<Rightarrow> exc + pystr) \<Rightarrow> 'c \<Rightarrow> pystr list \<Rightarrow> ('s, exc, unit) action" where
  "apply_each api read conn [] = act_return ()"
| "apply_each api read conn (path # paths) =
     act_bind (act_lift (read path)) (\<lambda>sql.
     act_bind (mg_execute api conn sql) (\<lambda>_. apply_each api read conn paths))"

definition apply_migrations ::
  "('c, 's) migration_api \<Rightarrow> (pystr \<Rightarrow> exc + pystr) \<Rightarrow> settings \<Rightarrow> pystr list \<Rightarrow> ('s, exc, unit) action" where
  "apply_migrations api read settings listing =
     act_bind (mg_connect api (database_url settings)) (\<lambda>conn.
       act_finally (apply_each api read conn (sort listing)) (mg_close api conn))"

section \<open>Facts\<close>

text \<open>What a state remembers of the statements that took effect.\<close>

definition logs_statements :: "('c, 's) migration_api \<Rightarrow> ('s \<Rightarrow> pystr list) \<Rightarrow> bool" where
  "logs_statements api logged \<longleftrightarrow>
     (\<forall>dsn s r s'. mg_connect api dsn s = (r, s') \<longrightarrow> logged s' = logged s)
   \<and> (\<forall>c s r s'. mg_close api c s = (r, s') \<longrightarrow> logged s' = logged s)
   \<and> (\<forall>c sql s r s'. mg_execute api c sql s = (r, s') \<longrightarrow>
        logged s' = (case r of Inr u \<Rightarrow> logged s @ [sql] | Inl e \<Rightarrow> logged s))"

lemma apply_each_log:
  assumes "logs_statements api logged" and "apply_each api read c paths s = (r, s')"
  shows "\<exists>k sqls. k \<le> length paths \<and> map read (take k paths) = map Inr sqls \<and> logged s' = logged s @ sqls
    \<and> (\<forall>u. r = Inr u \<longrightarrow> k = length paths)"
  using assms(2)
proof (induction paths arbitrary: s)
  case (Cons p ps)
  have stop: ?case if "logged s' = logged s" and "\<And>u. r \<noteq> Inr u"
    using that by (intro exI [of _ 0] exI [of _ "[]"]) simp
  show ?case
  proof (cases "read p")
    case (Inl e)
    with Cons.prems show ?thesis by (intro stop) (auto simp: act_bind_lift)
  next
    case (Inr sql)
    obtain q t where ex: "mg_execute api c sql s = (q, t)" by (cases "mg_execute api c sql s")
    then have log_t: "logged t = (case q of Inr u \<Rightarrow> logged s @ [sql] | Inl e \<Rightarrow> logged s)"
      using assms(1) unfolding logs_statements_def by blast
    show ?thesis
    proof (cases q)
      case (Inl e)
      with Cons.prems \<open>read p = Inr sql\<close> ex log_t show ?thesis
        by (intro stop) (auto simp: act_bind_lift act_bind_def)
    next
      case (Inr u)
      with Cons.prems \<open>read p = Inr sql\<close> ex have "apply_each api read c ps t = (r, s')"
        by (simp add: act_bind_lift act_bind_def)
      from Cons.IH [OF this] obtain k sqls where k: "k \<le> length ps" "map read (take k ps) = map Inr sqls"
        "logged s' = logged t @ sqls" "\<forall>u. r = Inr u \<longrightarrow> k = length ps" by blast
      with log_t Inr \<open>read p = Inr sql\<close> show ?thesis
        by (intro exI [of _ "Suc k"] exI [of _ "sql # sqls"]) simp
    qed
  qed
qed simp

text \<open>Migrations run in ascending order of their file names, whatever order the directory
  lists them in. The statements that took effect are those of an initial part of the sorted
  list, of all of it when the script succeeds; two listings of the same files give the same
  run.\<close>

theorem migrations_in_order:
  assumes "logs_statements api logged" and "apply_migrations api read settings listing s = (r, s')"
  shows "(\<exists>k sqls. map read (take k (sort listing)) = map Inr sqls \<and> logged s' = logged s @ sqls
      \<and> (\<forall>u. r = Inr u \<longrightarrow> length listing \<le> k))
   \<and> sorted (sort listing) \<and> mset (sort listing) = mset listing
   \<and> (\<forall>listing'. mset listing' = mset listing \<longrightarrow>
        apply_migrations api read settings listing' s = (r, s'))"
proof -
  obtain q t where con: "mg_connect api (database_url settings) s = (q, t)"
    by (cases "mg_connect api (database_url settings) s")
  then have log_t: "logged t = logged s" using assms(1) unfolding logs_statements_def by blast
  have run: "\<exists>k sqls. map read (take k (sort listing)) = map Inr sqls \<and> logged s' = logged s @ sqls
      \<and> (\<forall>u. r = Inr u \<longrightarrow> length listing \<le> k)"
  proof (cases q)
    case (Inl e)
    with con assms(2) log_t show ?thesis
      by (intro exI [of _ 0] exI [of _ "[]"]) (auto simp: apply_migrations_def act_bind_def)
  next
    case (Inr c)
    obtain q2 t2 where each: "apply_each api read c (sort listing) t = (q2, t2)"
      by (cases "apply_each api read c (sort listing) t")
    obtain q3 t3 where cl: "mg_close api c t2 = (q3, t3)" by (cases "mg_close api c t2")
    then have "logged t3 = logged t2" using assms(1) unfolding logs_statements_def by blast
    moreover have "s' = t3" and "\<forall>u. r = Inr u \<longrightarrow> (\<exists>w. q2 = Inr w)"
      using assms(2) con Inr each cl
      by (auto simp: apply_migrations_def act_bind_def act_finally_def split: sum.splits)
    moreover obtain k sqls where "map read (take k (sort listing)) = map Inr sqls" "logged t2 = logged t @ sqls"
        "\<forall>u. q2 = Inr u \<longrightarrow> k = length (sort listing)"
      using apply_each_log [OF assms(1) each] by blast
    ultimately show ?thesis using log_t by (intro exI [of _ k] exI [of _ sqls]) auto
  qed
  have "apply_migrations api read settings listing' s = (r, s')"
    if same: "mset listing' = mset listing" for listing'
  proof -
    have "sort listing' = sort listing"
      using same by (metis properties_for_sort sorted_sort mset_sort)
    with assms(2) show ?thesis unfolding apply_migrations_def by simp
  qed
  note same = this
  show ?thesis by (intro conjI run allI impI same) simp_all
qed

definition log_api :: "(unit, pystr list) migration_api" where
  "log_api = \<lparr>mg_connect = (\<lambda>dsn s. (Inr (), s)), mg_execute = (\<lambda>c sql s. (Inr (), s @ [sql])),
     mg_close = (\<lambda>c s. (Inr (), s))\<rparr>"

theorem migrations_in_order_witness:
  "\<forall>settings. apply_migrations log_api Inr settings [lit ''0002_b.sql'', lit ''0001_a.sql''] []
       = (Inr (), [lit ''0001_a.sql'', lit ''0002_b.sql''])
     \<and> apply_migrations log_api Inr settings [lit ''0001_a.sql'', lit ''0002_b.sql''] []
       = (Inr (), [lit ''0001_a.sql'', lit ''0002_b.sql''])"
proof
  fix settings
  let ?files = "[lit ''0002_b.sql'', lit ''0001_a.sql'']"
  have laws: "logs_statements log_api (\<lambda>s. s)" by (simp add: logs_statements_def log_api_def)
  have le: "\<not> lit ''0002_b.sql'' \<le> lit ''0001_a.sql''" by (simp add: lit_def)
  have run: "apply_migrations log_api Inr settings ?files [] = (Inr (), [lit ''0001_a.sql'', lit ''0002_b.sql''])"
    by (simp add: apply_migrations_def log_api_def act_bind_def act_finally_def le)
  have "mset [lit ''0001_a.sql'', lit ''0002_b.sql''] = mset ?files" by simp
  then have "apply_migrations log_api Inr settings [lit ''0001_a.sql'', lit ''0002_b.sql''] []
      = (Inr (), [lit ''0001_a.sql'', lit ''0002_b.sql''])"
    using migrations_in_order [OF laws run] by blast
  with run show "apply_migrations log_api Inr settings ?files [] = (Inr (), [lit ''0001_a.sql'', lit ''0002_b.sql''])
    \<and> apply_migrations log_api Inr settings [lit ''0001_a.sql'', lit ''0002_b.sql''] []
      = (Inr (), [lit ''0001_a.sql'', lit ''0002_b.sql''])"
    by (rule conjI)
qed

end
