(* ===== verification/Catalog_Facts.thy ===== *)
theory Catalog_Facts
  imports Catalog Migrations Db
begin

text \<open>
  What the migrations of theory \<open>Catalog\<close> establish: that they can be run again, also after a
  run that stopped half way, and what the application role can reach afterwards.
\<close>

section \<open>Settled statements\<close>

text \<open>A statement is settled where its effect is already there.\<close>

fun settled :: "ddl \<Rightarrow> catalog \<Rightarrow> bool" where
  "settled (Create_role_if_missing r) cat = (cat_roles cat r \<noteq> None)"
| "settled (Grant ps ob r) cat = (object_exists cat ob \<and> cat_roles cat r \<noteq> None
     \<and> {(r, ob, p) |p. p \<in> set ps} \<subseteq> cat_grants cat)"
| "settled (Create_extension_if_missing x) cat = (x \<in> cat_extensions cat)"
| "settled (Create_table_if_missing t d) cat = (cat_tables cat t \<noteq> None)"
| "settled (Create_index_if_missing i t cols) cat = (cat_tables cat t \<noteq> None \<and> cat_indexes cat i \<noteq> None)"
| "settled (Enable_rls t) cat = (\<exists>tb. cat_tables cat t = Some tb \<and> tb_enable_rls tb)"
| "settled (Force_rls t) cat = (\<exists>tb. cat_tables cat t = Some tb \<and> tb_force_rls tb)"
| "settled (Drop_policy_if_exists n t) cat = True"
| "settled (Create_policy n t po) cat =
     (cat_roles cat (po_to po) \<noteq> None \<and> (\<exists>tb. cat_tables cat t = Some tb \<and> tb_policies tb n = Some po))"

fun clash :: "ddl \<Rightarrow> ddl \<Rightarrow> bool" where
  "clash (Drop_policy_if_exists n t) (Create_policy n' t' po) = (n = n' \<and> t = t')"
| "clash _ _ = False"

text \<open>A list that can be run twice: each policy is dropped right before it is created and not
  touched again.\<close>

fun reruns :: "ddl list \<Rightarrow> bool" where
  "reruns [] = True"
| "reruns (st # sts) = (case st of
       Create_policy n t po \<Rightarrow> False
     | Drop_policy_if_exists n t \<Rightarrow> (case sts of
         Create_policy n' t' po # r \<Rightarrow> n' = n \<and> t' = t \<and> Drop_policy_if_exists n t \<notin> set r \<and> reruns r
       | _ \<Rightarrow> False)
     | _ \<Rightarrow> reruns sts)"

lemma exec_settles: "exec_ddl me st cat = Inr cat' \<Longrightarrow> settled st cat'"
proof (cases st)
  case (Grant ps ob r)
  then show "exec_ddl me st cat = Inr cat' \<Longrightarrow> settled st cat'"
    by (cases ob) (auto split: if_splits)
qed (auto simp: alter_table_def split: option.splits if_splits)

lemma objects_grow: "exec_ddl me st cat = Inr cat' \<Longrightarrow> object_exists cat ob \<Longrightarrow> object_exists cat' ob"
  by (cases st; cases ob) (auto simp: alter_table_def split: option.splits if_splits)

lemma roles_grow: "exec_ddl me st cat = Inr cat' \<Longrightarrow> cat_roles cat r = Some rl \<Longrightarrow> cat_roles cat' r = Some rl"
  by (cases st) (auto simp: alter_table_def split: option.splits if_splits)

lemma tables_grow:
  assumes "exec_ddl me st cat = Inr cat'" and "cat_tables cat t = Some tb"
  obtains tb' where "cat_tables cat' t = Some tb'" and "tb_def tb' = tb_def tb" and "tb_owner tb' = tb_owner tb"
    and "tb_enable_rls tb \<Longrightarrow> tb_enable_rls tb'" and "tb_force_rls tb \<Longrightarrow> tb_force_rls tb'"
    and "\<And>n po. tb_policies tb n = Some po \<Longrightarrow> st \<noteq> Drop_policy_if_exists n t \<Longrightarrow> tb_policies tb' n = Some po"
  using assms by (cases st) (fastforce simp: alter_table_def split: option.splits if_splits)+

lemma settled_mono:
  assumes "exec_ddl me st cat = Inr cat'" and "settled st' cat" and "\<not> clash st st'"
  shows "settled st' cat'"
proof (cases st')
  case (Grant ps ob r)
  have "cat_grants cat \<subseteq> cat_grants cat'"
    using assms(1) by (cases st) (auto simp: alter_table_def split: option.splits if_splits)
  then show ?thesis
    using assms(2) Grant objects_grow [OF assms(1), of ob] roles_grow [OF assms(1), of r] by auto
next
  case (Create_policy n t po)
  then have "st \<noteq> Drop_policy_if_exists n t" using assms(3) by auto
  then show ?thesis
    using assms(2) Create_policy roles_grow [OF assms(1), of "po_to po"] by (auto elim!: tables_grow [OF assms(1)])
next
  case (Create_extension_if_missing x)
  then show ?thesis
    using assms by (cases st) (auto simp: alter_table_def split: option.splits if_splits)
next
  case (Create_index_if_missing i t cols)
  have "cat_indexes cat i \<noteq> None \<Longrightarrow> cat_indexes cat' i \<noteq> None"
    using assms(1) by (cases st) (auto simp: alter_table_def split: option.splits if_splits)
  then show ?thesis
    using assms(2) Create_index_if_missing by (auto elim!: tables_grow [OF assms(1)])
qed (use assms(2) roles_grow [OF assms(1)] in \<open>auto elim!: tables_grow [OF assms(1)]\<close>)

lemma settled_mono_all:
  assumes "exec_ddls me sts cat = Inr cat'" and "settled st' cat" and "\<forall>st \<in> set sts. \<not> clash st st'"
  shows "settled st' cat'"
  using assms by (induction sts arbitrary: cat) (auto simp: bind_res_Inr_iff intro: settled_mono)

lemma alter_same: "cat_tables cat t = Some tb \<Longrightarrow> f tb = tb \<Longrightarrow> alter_table t f cat = Inr cat"
  by (simp add: alter_table_def fun_upd_idem)

lemma settled_again:
  assumes "settled st cat" and "\<forall>n t. st \<noteq> Drop_policy_if_exists n t" and "\<forall>n t po. st \<noteq> Create_policy n t po"
  shows "exec_ddl me st cat = Inr cat"
proof (cases st)
  case (Grant ps ob r)
  then have "cat_grants cat \<union> {(r, ob, p) |p. p \<in> set ps} = cat_grants cat" using assms(1) by auto
  with Grant assms(1) show ?thesis by auto
qed (use assms in \<open>auto simp: alter_same split: option.splits\<close>)

lemma replace_again:
  assumes "settled (Create_policy n t po) cat"
  shows "bind_res (exec_ddl me (Drop_policy_if_exists n t) cat) (exec_ddl me (Create_policy n t po)) = Inr cat"
  using assms by (auto simp: fun_upd_idem)

text \<open>A list that can be run again is empty, begins with a replaced policy, or with a statement that
  is neither half of one.\<close>

lemma reruns_cases:
  assumes "reruns sts"
  obtains "sts = []"
  | n t po r where "sts = Drop_policy_if_exists n t # Create_policy n t po # r"
      and "Drop_policy_if_exists n t \<notin> set r" and "reruns r"
  | st r where "sts = st # r" and "\<forall>n t. st \<noteq> Drop_policy_if_exists n t"
      and "\<forall>n t po. st \<noteq> Create_policy n t po" and "reruns r"
proof (cases sts)
  case (Cons st r)
  with assms that show thesis by (cases st) (auto split: list.splits ddl.splits)
qed (use that in blast)

lemma clash_create: "clash st st' \<longleftrightarrow> (\<exists>n t po. st = Drop_policy_if_exists n t \<and> st' = Create_policy n t po)"
  by (cases st; cases st') auto

lemma all_settled:
  assumes "reruns sts" and "exec_ddls me sts cat = Inr cat'" and "st \<in> set sts"
  shows "settled st cat'"
  using assms
proof (induction sts arbitrary: cat rule: length_induct)
  case (1 sts)
  from 1(2) show ?case
  proof (cases rule: reruns_cases)
    case (2 n t po r)
    then obtain cat1 cat2 where cr: "exec_ddl me (Create_policy n t po) cat1 = Inr cat2"
      and rest: "exec_ddls me r cat2 = Inr cat'"
      using 1(3) by (auto simp: bind_res_Inr_iff)
    have "settled (Create_policy n t po) cat'"
      using settled_mono_all [OF rest exec_settles [OF cr]] 2(2) by (auto simp: clash_create)
    moreover have "settled st cat'" if "st \<in> set r"
      by (rule 1(1) [rule_format, of r cat2]) (use 2(1,3) rest that in simp_all)
    ultimately show ?thesis using 1(4) 2(1) by (auto simp del: settled.simps(1-7,9))
  next
    case (3 s r)
    then obtain cat1 where one: "exec_ddl me s cat = Inr cat1" and rest: "exec_ddls me r cat1 = Inr cat'"
      using 1(3) by (auto simp: bind_res_Inr_iff)
    have "settled s cat'"
      using settled_mono_all [OF rest exec_settles [OF one]] 3(3) by (auto simp: clash_create)
    moreover have "settled st cat'" if "st \<in> set r"
      by (rule 1(1) [rule_format, of r cat1]) (use 3(1,4) rest that in simp_all)
    ultimately show ?thesis using 1(4) 3(1) by auto
  qed (use 1(4) in simp)
qed

lemma settled_rerun:
  assumes "reruns sts" and "\<And>st. st \<in> set sts \<Longrightarrow> settled st cat"
  shows "exec_ddls me sts cat = Inr cat"
  using assms
proof (induction sts rule: length_induct)
  case (1 sts)
  from 1(2) show ?case
  proof (cases rule: reruns_cases)
    case (2 n t po r)
    have "exec_ddls me sts cat = bind_res (bind_res (exec_ddl me (Drop_policy_if_exists n t) cat)
        (exec_ddl me (Create_policy n t po))) (exec_ddls me r)"
      unfolding 2(1)
      by (cases "exec_ddl me (Drop_policy_if_exists n t) cat") (simp_all del: exec_ddl.simps)
    also have "\<dots> = exec_ddls me r cat"
      using replace_again [of n t po cat me] 1(3) [of "Create_policy n t po"] 2(1)
      by (simp del: exec_ddl.simps settled.simps)
    also have "\<dots> = Inr cat" using 1(1,3) 2(1,3) by (simp del: settled.simps)
    finally show ?thesis .
  next
    case (3 s r)
    have "exec_ddl me s cat = Inr cat" using settled_again [of s cat me] 1(3) [of s] 3 by simp
    moreover have "exec_ddls me r cat = Inr cat" using 1(1,3) 3(1,4) by (simp del: settled.simps)
    ultimately show ?thesis using 3(1) by simp
  qed simp
qed

lemma exec_ddls_append: "exec_ddls me (xs @ ys) cat = bind_res (exec_ddls me xs cat) (exec_ddls me ys)"
proof (induction xs arbitrary: cat)
  case (Cons x xs)
  then show ?case by (cases "exec_ddl me x cat") (simp_all del: exec_ddl.simps)
qed simp

section \<open>The script on a catalog\<close>

text \<open>The driver as the script sees it, over a catalog: the statements of a file take effect as a
  whole or not at all. How a text is read as statements is the parameter \<open>ddl_of\<close>.\<close>

definition catalog_api :: "(pystr \<Rightarrow> ddl list) \<Rightarrow> pystr \<Rightarrow> (unit, catalog) migration_api" where
  "catalog_api ddl_of me =
     \<lparr>mg_connect = (\<lambda>dsn. act_return ()),
      mg_execute = (\<lambda>c sql cat. case exec_ddls me (ddl_of sql) cat of
          Inr cat' \<Rightarrow> (Inr (), cat') | Inl e \<Rightarrow> (Inl (PyExc e), cat)),
      mg_close = (\<lambda>c. act_return ())\<rparr>"

definition files_readable :: "(pystr \<Rightarrow> exc + pystr) \<Rightarrow> (pystr \<Rightarrow> ddl list) \<Rightarrow> bool" where
  "files_readable read ddl_of \<longleftrightarrow>
     (\<forall>f \<in> set migration_files. \<exists>sql. read (fst f) = Inr sql \<and> ddl_of sql = snd f)"

fun exec_files :: "pystr \<Rightarrow> ddl list list \<Rightarrow> catalog \<Rightarrow> (exc + unit) \<times> catalog" where
  "exec_files me [] cat = (Inr (), cat)"
| "exec_files me (d # ds) cat = (case exec_ddls me d cat of
     Inl e \<Rightarrow> (Inl (PyExc e), cat) | Inr cat' \<Rightarrow> exec_files me ds cat')"

lemma apply_each_files:
  assumes "\<And>f. f \<in> set files \<Longrightarrow> \<exists>sql. read (fst f) = Inr sql \<and> ddl_of sql = snd f"
  shows "apply_each (catalog_api ddl_of me) read c (map fst files) cat = exec_files me (map snd files) cat"
  using assms
proof (induction files arbitrary: cat)
  case (Cons f files)
  then obtain sql where "read (fst f) = Inr sql" "ddl_of sql = snd f" by (meson list.set_intros(1))
  moreover have "apply_each (catalog_api ddl_of me) read c (map fst files) cat' = exec_files me (map snd files) cat'" for cat'
    using Cons by simp
  ultimately show ?case
    by (simp add: act_bind_lift act_bind_def catalog_api_def split: sum.split)
qed simp

lemma sorted_files: "sorted (map fst migration_files)"
  by (simp add: migration_files_def lit_def)

lemma apply_migrations_catalog:
  assumes "files_readable read ddl_of" and "mset listing = mset (map fst migration_files)"
  shows "apply_migrations (catalog_api ddl_of me) read settings listing cat
    = exec_files me (map snd migration_files) cat"
proof -
  have "sort listing = map fst migration_files"
    using assms(2) sorted_files by (metis properties_for_sort)
  moreover have "apply_each (catalog_api ddl_of me) read c (map fst migration_files) cat
      = exec_files me (map snd migration_files) cat" for c
    using apply_each_files [of migration_files read ddl_of me c cat] assms(1) unfolding files_readable_def by blast
  ultimately show ?thesis
    by (simp add: apply_migrations_def act_bind_def act_finally_def catalog_api_def split: prod.split)
qed

section \<open>Running them again\<close>

lemma exec_files_prefix:
  assumes "exec_files me ds cat = (r, cat1)"
  shows "\<exists>xs ys. ds = xs @ ys \<and> exec_ddls me (concat xs) cat = Inr cat1 \<and> exec_files me ys cat1 = (r, cat1)"
  using assms
proof (induction ds arbitrary: cat)
  case (Cons d ds)
  show ?case
  proof (cases "exec_ddls me d cat")
    case (Inl e)
    with Cons.prems have "cat1 = cat" by simp
    with Cons.prems show ?thesis by (intro exI [of _ "[]"] exI [of _ "d # ds"]) simp
  next
    case (Inr cat2)
    with Cons.prems have "exec_files me ds cat2 = (r, cat1)" by simp
    from Cons.IH [OF this] obtain xs ys where "ds = xs @ ys" "exec_ddls me (concat xs) cat2 = Inr cat1"
      "exec_files me ys cat1 = (r, cat1)" by blast
    with Inr show ?thesis by (intro exI [of _ "d # xs"] exI [of _ ys]) (simp add: exec_ddls_append)
  qed
qed simp

lemma exec_files_unchanged:
  "(\<And>d. d \<in> set xs \<Longrightarrow> exec_ddls me d cat = Inr cat) \<Longrightarrow> exec_files me (xs @ ys) cat = exec_files me ys cat"
  by (induction xs) simp_all

lemma exec_files_again:
  assumes "exec_files me ds cat = (r, cat1)"
    and "\<And>xs ys. ds = xs @ ys \<Longrightarrow> reruns (concat xs)" and "\<And>d. d \<in> set ds \<Longrightarrow> reruns d"
  shows "exec_files me ds cat1 = (r, cat1)"
proof -
  obtain xs ys where split: "ds = xs @ ys" and run: "exec_ddls me (concat xs) cat = Inr cat1"
    and rest: "exec_files me ys cat1 = (r, cat1)"
    using exec_files_prefix [OF assms(1)] by blast
  have "exec_ddls me d cat1 = Inr cat1" if "d \<in> set xs" for d
  proof (rule settled_rerun)
    show "reruns d" using assms(3) that split by simp
    show "settled st cat1" if "st \<in> set d" for st
      using all_settled [OF assms(2) [OF split] run] \<open>d \<in> set xs\<close> that by auto
  qed
  with rest show ?thesis unfolding split by (simp add: exec_files_unchanged)
qed

lemmas migration_defs = migration_0001_def migration_0002_def migration_0003_def migration_0004_def

lemma files_rerun: "d \<in> set (map snd migration_files) \<Longrightarrow> reruns d"
  by (auto simp: migration_files_def migration_defs inj_lit)

lemma prefixes_rerun:
  assumes "map snd migration_files = xs @ ys"
  shows "reruns (concat xs)"
proof -
  have "xs = take (length xs) (map snd migration_files)" using assms by simp
  moreover have "reruns (concat (take n (map snd migration_files)))" for n
  proof -
    consider "n = 0" | "n = 1" | "n = 2" | "n = 3" | "n \<ge> 4" by linarith
    then show ?thesis
      by cases (simp_all add: migration_files_def migration_defs inj_lit numeral_2_eq_2 numeral_3_eq_3)
  qed
  ultimately show ?thesis by metis
qed

text \<open>C20: the migrations can be run again, from any database and however far the last run came. If a
  run of the script ends with an outcome and a catalog, another run on that catalog ends with
  the same outcome and leaves the catalog as it is; it does not matter in which order the
  directory lists the files.\<close>

theorem migrations_rerunnable:
  assumes "files_readable read ddl_of"
    and "mset listing = mset (map fst migration_files)" and "mset listing' = mset (map fst migration_files)"
    and "apply_migrations (catalog_api ddl_of me) read settings listing cat = (r, cat1)"
  shows "apply_migrations (catalog_api ddl_of me) read settings listing' cat1 = (r, cat1)"
proof -
  have "exec_files me (map snd migration_files) cat = (r, cat1)"
    using assms(4) by (simp only: apply_migrations_catalog [OF assms(1,2)])
  from exec_files_again [OF this prefixes_rerun files_rerun] show ?thesis
    by (simp only: apply_migrations_catalog [OF assms(1,3)])
qed

section \<open>What the migrations build\<close>

text \<open>A database as the hosting service hands it over: the database and the schema are there, the
  extension can be installed, the application role is absent or a plain one, and neither the
  three tables nor anything that goes with them exists, except that the seed script may
  already have created widget_keys.\<close>

definition bare :: "pystr \<Rightarrow> catalog \<Rightarrow> bool" where
  "bare me cat \<longleftrightarrow> On_database (lit ''postgres'') \<in> cat_objects cat \<and> On_schema (lit ''public'') \<in> cat_objects cat
     \<and> lit ''vector'' \<in> cat_available cat \<union> cat_extensions cat
     \<and> cat_roles cat (lit ''app_user'') \<in> {None, Some login_role}
     \<and> cat_tables cat (lit ''documents'') = None \<and> cat_tables cat (lit ''chunks'') = None
     \<and> cat_tables cat (lit ''widget_keys'') \<in> {None, Some (fresh_table me widget_keys_table)}
     \<and> (\<forall>t \<in> {lit ''documents'', lit ''chunks'', lit ''widget_keys''}. \<forall>r p. (r, On_table t, p) \<notin> cat_grants cat)
     \<and> (\<forall>i \<in> {lit ''documents_tenant_idx'', lit ''chunks_tenant_doc_idx''}. cat_indexes cat i = None)"

definition tenant_table_of :: "pystr \<Rightarrow> table_def \<Rightarrow> table" where
  "tenant_table_of me d = \<lparr>tb_def = d, tb_owner = me, tb_enable_rls = True, tb_force_rls = True,
     tb_policies = [lit ''tenant_isolation'' \<mapsto> tenant_isolation]\<rparr>"

definition built :: "pystr \<Rightarrow> catalog \<Rightarrow> catalog \<Rightarrow> bool" where
  "built me cat cat' \<longleftrightarrow>
     cat_tables cat' = (cat_tables cat)(lit ''documents'' \<mapsto> tenant_table_of me documents_table,
        lit ''chunks'' \<mapsto> tenant_table_of me chunks_table,
        lit ''widget_keys'' \<mapsto> fresh_table me widget_keys_table)
   \<and> cat_roles cat' = (cat_roles cat)(lit ''app_user'' \<mapsto> login_role)
   \<and> cat_grants cat' = cat_grants cat
        \<union> {(lit ''app_user'', On_database (lit ''postgres''), Priv_connect),
           (lit ''app_user'', On_schema (lit ''public''), Priv_usage),
           (lit ''app_user'', On_table (lit ''widget_keys''), Priv_select)}
        \<union> {(lit ''app_user'', On_table t, p) |t p. t \<in> {lit ''documents'', lit ''chunks''} \<and> p \<in> set crud}
   \<and> cat_extensions cat' = insert (lit ''vector'') (cat_extensions cat)
   \<and> cat_indexes cat' = (cat_indexes cat)
        (lit ''documents_tenant_idx'' \<mapsto> (lit ''documents'', [lit ''tenant_id'', lit ''created_at'']),
         lit ''chunks_tenant_doc_idx'' \<mapsto> (lit ''chunks'', [lit ''tenant_id'', lit ''document_id'']))"

lemma bareD:
  assumes "bare me cat"
  shows "On_database (lit ''postgres'') \<in> cat_objects cat" "On_schema (lit ''public'') \<in> cat_objects cat"
    "lit ''vector'' \<notin> cat_extensions cat \<Longrightarrow> lit ''vector'' \<in> cat_available cat"
    "cat_roles cat (lit ''app_user'') = None \<or> cat_roles cat (lit ''app_user'') = Some login_role"
    "cat_tables cat (lit ''documents'') = None" "cat_tables cat (lit ''chunks'') = None"
    "cat_tables cat (lit ''widget_keys'') = None \<or> cat_tables cat (lit ''widget_keys'') = Some (fresh_table me widget_keys_table)"
    "cat_indexes cat (lit ''documents_tenant_idx'') = None" "cat_indexes cat (lit ''chunks_tenant_doc_idx'') = None"
  using assms by (auto simp: bare_def)

lemma run_0001:
  assumes "bare me cat"
  shows "exec_ddls me migration_0001 cat = Inr (cat\<lparr>
     cat_roles := (cat_roles cat)(lit ''app_user'' \<mapsto> login_role),
     cat_grants := cat_grants cat \<union> {(lit ''app_user'', On_database (lit ''postgres''), Priv_connect),
        (lit ''app_user'', On_schema (lit ''public''), Priv_usage)}\<rparr>)"
  using bareD [OF assms] by (auto simp: migration_0001_def fun_upd_idem insert_commute)

lemma run_tenant_table:
  assumes "cat_tables cat t = None" and "cat_indexes cat i = None" and "cat_roles cat (lit ''app_user'') \<noteq> None"
    and "list_all (\<lambda>c. type_known cat (col_type c)) (td_columns d)" and "has_columns d cols"
  shows "exec_ddls me [Create_table_if_missing t d, Create_index_if_missing i t cols, Enable_rls t, Force_rls t,
       Drop_policy_if_exists (lit ''tenant_isolation'') t,
       Create_policy (lit ''tenant_isolation'') t tenant_isolation, Grant crud (On_table t) (lit ''app_user'')] cat
   = Inr (cat\<lparr>cat_tables := (cat_tables cat)(t \<mapsto> tenant_table_of me d),
       cat_indexes := (cat_indexes cat)(i \<mapsto> (t, cols)),
       cat_grants := cat_grants cat \<union> {(lit ''app_user'', On_table t, p) |p. p \<in> set crud}\<rparr>)"
  using assms by (simp add: alter_table_def fresh_table_def tenant_table_of_def tenant_isolation_def)

lemma extension_again: "lit ''vector'' \<in> cat_extensions cat \<Longrightarrow> cat\<lparr>cat_extensions := insert (lit ''vector'') (cat_extensions cat)\<rparr> = cat"
  by (simp add: insert_absorb)

lemma run_0003_extension:
  assumes "lit ''vector'' \<notin> cat_extensions cat \<Longrightarrow> lit ''vector'' \<in> cat_available cat"
  shows "exec_ddls me migration_0003 cat
    = exec_ddls me (tl migration_0003) (cat\<lparr>cat_extensions := insert (lit ''vector'') (cat_extensions cat)\<rparr>)"
proof -
  have "exec_ddl me (Create_extension_if_missing (lit ''vector'')) cat
      = Inr (cat\<lparr>cat_extensions := insert (lit ''vector'') (cat_extensions cat)\<rparr>)"
    using assms extension_again [of cat] by (cases "lit ''vector'' \<in> cat_extensions cat") simp_all
  moreover have "migration_0003 = Create_extension_if_missing (lit ''vector'') # tl migration_0003"
    by (simp add: migration_0003_def)
  ultimately show ?thesis by (metis exec_ddls.simps(2) bind_res_simps(2))
qed

lemma has_table_columns:
  "has_columns documents_table [lit ''tenant_id'', lit ''created_at'']"
  "has_columns chunks_table [lit ''tenant_id'', lit ''document_id'']"
  "list_all (\<lambda>c. type_known cat (col_type c)) (td_columns documents_table)"
  "lit ''vector'' \<in> cat_extensions cat \<Longrightarrow> list_all (\<lambda>c. type_known cat (col_type c)) (td_columns chunks_table)"
  "list_all (\<lambda>c. type_known cat (col_type c)) (td_columns widget_keys_table)"
  by (simp_all add: has_columns_def documents_table_def chunks_table_def widget_keys_table_def col_def)

lemma migrations_build:
  assumes "bare me cat"
  shows "\<exists>cat'. exec_files me (map snd migration_files) cat = (Inr (), cat') \<and> built me cat cat'"
proof -
  note b = bareD [OF assms]
  let ?app = "lit ''app_user''" and ?d = "lit ''documents''" and ?c = "lit ''chunks''" and ?k = "lit ''widget_keys''"
  define cat1 where "cat1 = cat\<lparr>cat_roles := (cat_roles cat)(?app \<mapsto> login_role),
     cat_grants := cat_grants cat \<union> {(?app, On_database (lit ''postgres''), Priv_connect),
        (?app, On_schema (lit ''public''), Priv_usage)}\<rparr>"
  define cat2 where "cat2 = cat1\<lparr>cat_tables := (cat_tables cat1)(?d \<mapsto> tenant_table_of me documents_table),
     cat_indexes := (cat_indexes cat1)(lit ''documents_tenant_idx'' \<mapsto> (?d, [lit ''tenant_id'', lit ''created_at''])),
     cat_grants := cat_grants cat1 \<union> {(?app, On_table ?d, p) |p. p \<in> set crud}\<rparr>"
  define cat2v where "cat2v = cat2\<lparr>cat_extensions := insert (lit ''vector'') (cat_extensions cat2)\<rparr>"
  define cat3 where "cat3 = cat2v\<lparr>cat_tables := (cat_tables cat2v)(?c \<mapsto> tenant_table_of me chunks_table),
     cat_indexes := (cat_indexes cat2v)(lit ''chunks_tenant_doc_idx'' \<mapsto> (?c, [lit ''tenant_id'', lit ''document_id''])),
     cat_grants := cat_grants cat2v \<union> {(?app, On_table ?c, p) |p. p \<in> set crud}\<rparr>"
  define cat4 where "cat4 = cat3\<lparr>cat_tables := (cat_tables cat3)(?k \<mapsto> fresh_table me widget_keys_table),
     cat_grants := cat_grants cat3 \<union> {(?app, On_table ?k, Priv_select)}\<rparr>"
  note defs = cat4_def cat3_def cat2v_def cat2_def cat1_def
  have one: "exec_ddls me migration_0001 cat = Inr cat1" unfolding cat1_def by (rule run_0001 [OF assms])
  have two: "exec_ddls me migration_0002 cat1 = Inr cat2"
    unfolding migration_0002_def cat2_def
    by (rule run_tenant_table) (simp_all add: cat1_def b has_table_columns)
  have "exec_ddls me migration_0003 cat2 = exec_ddls me (tl migration_0003) cat2v"
    unfolding cat2v_def by (rule run_0003_extension) (use b(3) in \<open>simp add: cat2_def cat1_def\<close>)
  also have "\<dots> = Inr cat3"
    unfolding migration_0003_def list.sel cat3_def
    by (rule run_tenant_table)
       (simp_all add: cat2v_def cat2_def cat1_def b has_table_columns inj_lit)
  finally have three: "exec_ddls me migration_0003 cat2 = Inr cat3" .
  have four: "exec_ddls me migration_0004 cat3 = Inr cat4"
    using b(7) by (elim disjE) (simp_all add: migration_0004_def defs has_table_columns inj_lit fun_upd_idem fun_upd_twist)
  have "exec_files me (map snd migration_files) cat = (Inr (), cat4)"
    by (simp add: migration_files_def one two three four)
  moreover have "built me cat cat4"
    unfolding built_def by (intro conjI) (auto simp: defs)
  ultimately show ?thesis by blast
qed

lemma built_tables:
  assumes "built me cat cat'"
  shows "cat_tables cat' (lit ''documents'') = Some (tenant_table_of me documents_table)"
    and "cat_tables cat' (lit ''chunks'') = Some (tenant_table_of me chunks_table)"
    and "cat_tables cat' (lit ''widget_keys'') = Some (fresh_table me widget_keys_table)"
    and "cat_roles cat' (lit ''app_user'') = Some login_role"
  using assms by (simp_all add: built_def inj_lit)

lemma built_may:
  assumes "built me cat cat'" and "bare me cat" and "me \<noteq> lit ''app_user''"
    and "t \<in> {lit ''documents'', lit ''chunks'', lit ''widget_keys''}"
  shows "may cat' (lit ''app_user'') p t \<longleftrightarrow> (if t = lit ''widget_keys'' then p = Priv_select else p \<in> set crud)"
proof -
  have none: "(lit ''app_user'', On_table t, p) \<notin> cat_grants cat" using assms(2,4) unfolding bare_def by blast
  have "may cat' (lit ''app_user'') p t \<longleftrightarrow> (lit ''app_user'', On_table t, p) \<in> cat_grants cat'"
    using assms(3,4) built_tables [OF assms(1)]
    by (auto simp: may_def login_role_def tenant_table_of_def fresh_table_def)
  also have "\<dots> \<longleftrightarrow> (if t = lit ''widget_keys'' then p = Priv_select else p \<in> set crud)"
    using none assms(1,4) by (auto simp: built_def inj_lit)
  finally show ?thesis .
qed

lemma tenant_table_access:
  "exempt cat r (tenant_table_of me d) \<longleftrightarrow> bypasses cat r"
  "policies_for r (tenant_table_of me d) = (if r = lit ''app_user'' then {tenant_isolation} else {})"
  by (auto simp: exempt_def policies_for_def tenant_table_of_def tenant_isolation_def split: if_splits)

lemma tenant_table_of_def_fields: "tb_def (tenant_table_of me d) = d"
  by (simp add: tenant_table_of_def)

lemma fresh_table_access: "exempt cat r (fresh_table me d)"
  by (simp add: exempt_def fresh_table_def)

lemma policy_on_rows:
  "eval_policy_expr as_uuid session (document_cells r) (po_using tenant_isolation)
     = document_policy as_uuid (session (lit ''app.tenant_id'')) r"
  "eval_policy_expr as_uuid session (chunk_cells c) (po_using tenant_isolation)
     = chunk_policy as_uuid (session (lit ''app.tenant_id'')) c"
  "po_with_check tenant_isolation = po_using tenant_isolation"
  by (simp_all add: tenant_isolation_def document_cells_def chunk_cells_def document_policy_def
      chunk_policy_def tenant_policy_cases inj_lit split: option.splits)

lemma clashes_are_conflicts:
  "keys_clash documents_table (document_cells a) (document_cells b) \<longleftrightarrow> document_conflict a b"
  "keys_clash chunks_table (chunk_cells c) (chunk_cells d) \<longleftrightarrow> chunk_conflict c d"
  by (simp_all add: keys_clash_def documents_table_def chunks_table_def document_cells_def chunk_cells_def
      document_conflict_def chunk_conflict_def inj_lit)

text \<open>C10: what the migrations build. On a bare database the script succeeds, whatever the order of
  the listing, and afterwards: nobody but a superuser or a role with BYPASSRLS is exempt from
  the policies of documents and chunks, the owner of the tables included; the one policy there
  is lets the application role through where \<open>document_policy\<close> and \<open>chunk_policy\<close> do, for reading
  and writing, under the very setting \<open>tenant_txn\<close> makes, and no other role at all; the keys of
  the two tables are \<open>document_conflict\<close> and \<open>chunk_conflict\<close>; and the application role may read
  and write the two tables, only read widget_keys, which needs no tenant, and bypasses
  nothing.\<close>

theorem migrations_seal_tenant_tables:
  assumes "files_readable read ddl_of" and "mset listing = mset (map fst migration_files)"
    and "bare me cat" and "me \<noteq> lit ''app_user''"
  shows "\<exists>cat' D C K. apply_migrations (catalog_api ddl_of me) read settings listing cat = (Inr (), cat')
     \<and> cat_tables cat' (lit ''documents'') = Some D \<and> cat_tables cat' (lit ''chunks'') = Some C
     \<and> cat_tables cat' (lit ''widget_keys'') = Some K \<and> exempt cat' (lit ''app_user'') K
     \<and> (\<forall>a b. keys_clash (tb_def D) (document_cells a) (document_cells b) \<longleftrightarrow> document_conflict (a :: 'u document_row) b)
     \<and> (\<forall>a b. keys_clash (tb_def C) (chunk_cells a) (chunk_cells b) \<longleftrightarrow> chunk_conflict (a :: 'u chunk_row) b)
     \<and> (\<forall>r. (exempt cat' r D \<longleftrightarrow> bypasses cat' r) \<and> (exempt cat' r C \<longleftrightarrow> bypasses cat' r))
     \<and> (\<forall>r. policies_for r D = (if r = lit ''app_user'' then {tenant_isolation} else {})
          \<and> policies_for r C = (if r = lit ''app_user'' then {tenant_isolation} else {}))
     \<and> po_with_check tenant_isolation = po_using tenant_isolation
     \<and> (\<forall>as_uuid session row.
          eval_policy_expr as_uuid session (document_cells row) (po_using tenant_isolation)
            = document_policy as_uuid (session (lit ''app.tenant_id'')) (row :: 'u document_row))
     \<and> (\<forall>as_uuid session row.
          eval_policy_expr as_uuid session (chunk_cells row) (po_using tenant_isolation)
            = chunk_policy as_uuid (session (lit ''app.tenant_id'')) (row :: 'u chunk_row))
     \<and> set_tenant_sql = lit ''SELECT set_config('' @ [39] @ lit ''app.tenant_id'' @ [39] @ lit '', $1, true)''
     \<and> \<not> bypasses cat' (lit ''app_user'')
     \<and> (\<forall>p. may cat' (lit ''app_user'') p (lit ''documents'') \<longleftrightarrow> p \<in> set crud)
     \<and> (\<forall>p. may cat' (lit ''app_user'') p (lit ''chunks'') \<longleftrightarrow> p \<in> set crud)
     \<and> (\<forall>p. may cat' (lit ''app_user'') p (lit ''widget_keys'') \<longleftrightarrow> p = Priv_select)"
proof -
  obtain cat' where run: "exec_files me (map snd migration_files) cat = (Inr (), cat')" and b: "built me cat cat'"
    using migrations_build [OF assms(3)] by blast
  note may = built_may [OF b assms(3,4)]
  have "apply_migrations (catalog_api ddl_of me) read settings listing cat = (Inr (), cat')"
    using run by (simp only: apply_migrations_catalog [OF assms(1,2)])
  moreover have "\<not> bypasses cat' (lit ''app_user'')"
    using built_tables(4) [OF b] by (simp add: bypasses_def login_role_def)
  ultimately show ?thesis
    using built_tables(1-3) [OF b] may [of "lit ''documents''"] may [of "lit ''chunks''"] may [of "lit ''widget_keys''"]
    by (intro exI [of _ cat'] exI [of _ "tenant_table_of me documents_table"]
        exI [of _ "tenant_table_of me chunks_table"] exI [of _ "fresh_table me widget_keys_table"] conjI allI)
       (simp_all add: tenant_table_of_def_fields clashes_are_conflicts fresh_table_access tenant_table_access policy_on_rows set_tenant_sql_def inj_lit)
qed

text \<open>Order matters. While the application role does not exist, each of the later files fails
  and leaves the catalog as it was: run in any order that does not begin with 0001, the
  script stops at its first file without effect.\<close>

theorem migrations_need_app_user_first:
  assumes "(name, ddls) \<in> set (tl migration_files)" and "cat_roles cat (lit ''app_user'') = None"
    and "read name = Inr sql" and "ddl_of sql = ddls"
  shows "\<exists>e. apply_each (catalog_api ddl_of me) read c (name # rest) cat = (Inl (PyExc e), cat)"
proof -
  have no_role: "cat_roles cat1 (lit ''app_user'') = None"
    if "exec_ddl me st cat2 = Inr cat1" "cat_roles cat2 (lit ''app_user'') = None" "st \<noteq> Create_role_if_missing (lit ''app_user'')"
    for st cat1 cat2
    using that by (cases st) (auto simp: alter_table_def split: option.splits if_splits)
  have fails: "\<exists>e. exec_ddls me sts cat2 = Inl e"
    if "Grant ps ob (lit ''app_user'') \<in> set sts" "Create_role_if_missing (lit ''app_user'') \<notin> set sts"
      "cat_roles cat2 (lit ''app_user'') = None" for sts ps ob cat2
    using that
  proof (induction sts arbitrary: cat2)
    case (Cons st sts)
    show ?case
    proof (cases "exec_ddl me st cat2")
      case (Inr cat1)
      then have "st \<noteq> Grant ps ob (lit ''app_user'')" using Cons.prems(3) by auto
      moreover have "cat_roles cat1 (lit ''app_user'') = None" using no_role [OF Inr] Cons.prems by auto
      ultimately show ?thesis using Cons Inr by simp
    qed simp
  qed simp
  have "\<exists>ps ob. Grant ps ob (lit ''app_user'') \<in> set ddls" "Create_role_if_missing (lit ''app_user'') \<notin> set ddls"
    using assms(1) by (auto simp: migration_files_def migration_defs)
  then obtain e where "exec_ddls me ddls cat = Inl e" using fails assms(2) by blast
  then show ?thesis
    using assms(3,4) by (simp add: act_bind_lift act_bind_def catalog_api_def)
qed

text \<open>The seed script and the migrations agree about widget_keys: run before them, its statement
  makes the very table the migrations would and they still do all of their work; run after
  them, it changes nothing.\<close>

lemma seed_table_agrees: "seed_create_table = Create_table_if_missing (lit ''widget_keys'') widget_keys_table"
  by (simp add: seed_create_table_def widget_keys_table_def)

theorem seed_and_migrations_commute:
  assumes "bare me cat"
  shows "\<exists>cat0 cat1 cat2. exec_ddl me seed_create_table cat = Inr cat0
     \<and> exec_files me (map snd migration_files) cat0 = (Inr (), cat1) \<and> built me cat cat1
     \<and> exec_files me (map snd migration_files) cat = (Inr (), cat2) \<and> built me cat cat2
     \<and> exec_ddl me seed_create_table cat2 = Inr cat2"
proof -
  obtain cat0 where seed: "exec_ddl me seed_create_table cat = Inr cat0"
    and same: "cat0 = cat\<lparr>cat_tables := (cat_tables cat)(lit ''widget_keys'' \<mapsto> fresh_table me widget_keys_table)\<rparr>"
    using bareD(7) [OF assms]
    by (elim disjE) (simp_all add: seed_table_agrees has_table_columns fun_upd_idem)
  have "bare me cat0" using assms by (auto simp: same bare_def inj_lit)
  then obtain cat1 where one: "exec_files me (map snd migration_files) cat0 = (Inr (), cat1)" and b1: "built me cat0 cat1"
    using migrations_build by blast
  obtain cat2 where two: "exec_files me (map snd migration_files) cat = (Inr (), cat2)" and b2: "built me cat cat2"
    using migrations_build [OF assms] by blast
  have "built me cat cat1" using b1 by (auto simp: built_def same fun_upd_twist inj_lit)
  moreover have "exec_ddl me seed_create_table cat2 = Inr cat2"
    using built_tables(3) [OF b2] by (simp add: seed_table_agrees)
  ultimately show ?thesis using seed one two b2 by blast
qed

section \<open>A database\<close>

definition bare_catalog :: catalog where
  "bare_catalog = \<lparr>cat_roles = (\<lambda>_. None), cat_objects = {On_database (lit ''postgres''), On_schema (lit ''public'')},
     cat_tables = (\<lambda>_. None), cat_indexes = (\<lambda>_. None), cat_grants = {}, cat_available = {lit ''vector''},
     cat_extensions = {}\<rparr>"

definition by_name :: "pystr \<Rightarrow> ddl list" where
  "by_name sql = (case map_of migration_files sql of None \<Rightarrow> [] | Some d \<Rightarrow> d)"

lemma by_name_readable: "files_readable Inr by_name"
  by (auto simp: files_readable_def migration_files_def by_name_def inj_lit)

lemma bare_catalog_bare: "bare me bare_catalog"
  by (simp add: bare_def bare_catalog_def)

theorem migrations_seal_tenant_tables_witness:
  "\<forall>settings. \<exists>cat'. apply_migrations (catalog_api by_name (lit ''postgres'')) Inr settings
       (rev (map fst migration_files)) bare_catalog = (Inr (), cat')
     \<and> may cat' (lit ''app_user'') Priv_delete (lit ''chunks'')
     \<and> \<not> may cat' (lit ''app_user'') Priv_insert (lit ''widget_keys'')"
proof
  fix settings
  have me: "lit ''postgres'' \<noteq> lit ''app_user''" by (simp add: inj_lit)
  have perm: "mset (rev (map fst migration_files)) = mset (map fst migration_files)" by simp
  show "\<exists>cat'. apply_migrations (catalog_api by_name (lit ''postgres'')) Inr settings
       (rev (map fst migration_files)) bare_catalog = (Inr (), cat')
     \<and> may cat' (lit ''app_user'') Priv_delete (lit ''chunks'')
     \<and> \<not> may cat' (lit ''app_user'') Priv_insert (lit ''widget_keys'')"
    using migrations_seal_tenant_tables [OF by_name_readable perm bare_catalog_bare me, of settings]
    by (auto simp: crud_def)
qed

theorem migrations_rerunnable_witness:
  "\<forall>settings. \<exists>cat'. apply_migrations (catalog_api by_name (lit ''postgres'')) Inr settings
       (map fst migration_files) bare_catalog = (Inr (), cat')
     \<and> apply_migrations (catalog_api by_name (lit ''postgres'')) Inr settings
       (rev (map fst migration_files)) cat' = (Inr (), cat')"
proof
  fix settings
  let ?run = "apply_migrations (catalog_api by_name (lit ''postgres'')) Inr settings"
  have perm: "mset (rev (map fst migration_files)) = mset (map fst migration_files)" by simp
  obtain cat' where "?run (map fst migration_files) bare_catalog = (Inr (), cat')"
    using migrations_build [OF bare_catalog_bare] apply_migrations_catalog [OF by_name_readable refl] by fastforce
  with migrations_rerunnable [OF by_name_readable refl perm this]
  show "\<exists>cat'. ?run (map fst migration_files) bare_catalog = (Inr (), cat')
     \<and> ?run (rev (map fst migration_files)) cat' = (Inr (), cat')" by blast
qed

theorem migrations_need_app_user_first_witness:
  "\<exists>e. apply_each (catalog_api by_name (lit ''postgres'')) Inr () [lit ''0004_widget_keys.sql'', lit ''0001_app_user.sql'']
     bare_catalog = (Inl (PyExc e), bare_catalog)"
proof -
  have mem: "(lit ''0004_widget_keys.sql'', migration_0004) \<in> set (tl migration_files)"
    by (simp add: migration_files_def)
  have role: "cat_roles bare_catalog (lit ''app_user'') = None" by (simp add: bare_catalog_def)
  have name: "by_name (lit ''0004_widget_keys.sql'') = migration_0004"
    by (simp add: by_name_def migration_files_def inj_lit)
  have content: "Inr (lit ''0004_widget_keys.sql'') = (Inr (lit ''0004_widget_keys.sql'') :: exc + pystr)" by simp
  show ?thesis by (rule migrations_need_app_user_first [where read = Inr and ddl_of = by_name, OF mem role content name])
qed

theorem seed_and_migrations_commute_witness:
  "\<exists>cat0. exec_ddl (lit ''postgres'') seed_create_table bare_catalog = Inr cat0"
  using seed_and_migrations_commute [OF bare_catalog_bare [of "lit ''postgres''"]] by blast

end
