(* ===== verification/Mcp_Tokens.thy ===== *)
theory Mcp_Tokens
  imports Jwt_Api Contexts
begin

text \<open>
  \<open>backend/src/app/mcp/tokens.py\<close>: the verifier of the MCP caller's token and the function
  that mints one, on the JWT library of theory \<open>Jwt_Api\<close>.
\<close>

section \<open>The verifier\<close>

definition MCP_ALGORITHM :: pystr where
  "MCP_ALGORITHM = lit ''HS256''"

definition DEFAULT_TTL_SECONDS :: int where
  "DEFAULT_TTL_SECONDS = 3600"

record mcp_verifier =
  mv_secret :: pystr
  mv_issuer :: pystr
  mv_audience :: pystr

definition mcp_options :: "mcp_verifier \<Rightarrow> decode_options" where
  "mcp_options v = pinned_options [MCP_ALGORITHM] (mv_issuer v) (mv_audience v)"

definition mcp_verify :: "'k jwt_api \<Rightarrow> mcp_verifier \<Rightarrow> pyfloat \<Rightarrow> pystr \<Rightarrow> exc + caller_ctx" where
  "mcp_verify api v now token =
     bind_res (guard_jwt ''mcp token verification failed''
         (jwt_decode api now token (SecretKey (mv_secret v)) (mcp_options v))) (\<lambda>claims.
       case nonempty_str (dict_get claims (lit ''tenant_id'')) of
         None \<Rightarrow> raise_app AuthenticationError ''mcp token has no tenant''
       | Some tenant_id \<Rightarrow> Inr \<lparr>caller_tenant_id = tenant_id\<rparr>)"

section \<open>Minting\<close>

definition mcp_claims :: "pystr \<Rightarrow> pystr \<Rightarrow> pystr \<Rightarrow> int \<Rightarrow> int \<Rightarrow> pydict" where
  "mcp_claims issuer audience tenant_id ttl_seconds now =
     [(lit ''iss'', JStr issuer), (lit ''aud'', JStr audience), (lit ''tenant_id'', JStr tenant_id),
      (lit ''iat'', JInt now), (lit ''exp'', JInt (now + ttl_seconds))]"

definition mint_mcp_token ::
  "'k jwt_api \<Rightarrow> rat \<Rightarrow> pystr \<Rightarrow> pystr \<Rightarrow> pystr \<Rightarrow> pystr \<Rightarrow> int \<Rightarrow> exc + pystr" where
  "mint_mcp_token api time secret issuer audience tenant_id ttl_seconds =
     map_err PyExc (jwt_encode api
       (mcp_claims issuer audience tenant_id ttl_seconds (py_trunc time))
       (SecretKey secret) MCP_ALGORITHM)"

section \<open>Verification\<close>

lemma mcp_verify_Inr_iff:
  "mcp_verify api v now token = Inr ctx \<longleftrightarrow>
     (\<exists>claims. jwt_decode api now token (SecretKey (mv_secret v)) (mcp_options v) = Inr claims
        \<and> dict_get claims (lit ''tenant_id'') = Some (JStr (caller_tenant_id ctx))
        \<and> caller_tenant_id ctx \<noteq> [])"
proof -
  have "(case nonempty_str v of None \<Rightarrow> raise_app AuthenticationError d | Some t \<Rightarrow> Inr \<lparr>caller_tenant_id = t\<rparr>) = Inr ctx
      \<longleftrightarrow> v = Some (JStr (caller_tenant_id ctx)) \<and> caller_tenant_id ctx \<noteq> []" for v d
    by (cases ctx) (auto simp flip: nonempty_str_Some_iff split: option.split)
  then show ?thesis by (simp add: mcp_verify_def res_simps)
qed

lemma mcp_verify_Inl:
  "mcp_verify api v now token = Inl e \<Longrightarrow>
     (\<exists>a. e = AppExc a \<and> err_class a = AuthenticationError)
   \<or> (\<exists>x. e = PyExc x \<and> x \<noteq> PyJWTError
        \<and> jwt_decode api now token (SecretKey (mv_secret v)) (mcp_options v) = Inl x)"
  by (cases e)
     (auto simp: mcp_verify_def res_simps guard_jwt_PyExc_iff guard_jwt_AppExc_iff split: option.splits)

lemma mcp_verify_genuine:
  assumes "decode_sound api signed" and "mcp_verify api v now token = Inr ctx"
  shows "\<exists>claims. signed token (lit ''HS256'') (SecretKey (mv_secret v)) claims
     \<and> dict_get claims (lit ''iss'') = Some (JStr (mv_issuer v))
     \<and> names_audience claims (mv_audience v)
     \<and> not_expired claims now CLOCK_SKEW_LEEWAY_SECONDS
     \<and> dict_get claims (lit ''tenant_id'') = Some (JStr (caller_tenant_id ctx)) \<and> caller_tenant_id ctx \<noteq> []"
proof -
  obtain claims where dec: "jwt_decode api now token (SecretKey (mv_secret v)) (mcp_options v) = Inr claims"
    and "dict_get claims (lit ''tenant_id'') = Some (JStr (caller_tenant_id ctx))" "caller_tenant_id ctx \<noteq> []"
    using assms(2) by (auto simp: mcp_verify_Inr_iff)
  then show ?thesis
    using decode_soundD [OF assms(1) dec] by (auto simp: mcp_options_def pinned_options_def MCP_ALGORITHM_def)
qed


section \<open>Round trip\<close>

text \<open>The documented counterpart of \<open>decode_sound\<close>: a token \<open>encode\<close> made under a secret and an
  algorithm is decoded to its claims under the same secret when the algorithm is on the
  list, the issuer and audience are those asked for, it has not expired, it was not issued in
  the future, and it carries none of the other registered claims.\<close>

definition claims_current :: "pydict \<Rightarrow> pyfloat \<Rightarrow> decode_options \<Rightarrow> bool" where
  "claims_current claims now opts \<longleftrightarrow>
     dict_get claims (lit ''iss'') = Some (JStr (do_issuer opts))
   \<and> names_audience claims (do_audience opts)
   \<and> not_expired claims now (do_leeway opts)
   \<and> (case dict_get claims (lit ''iat'') of
        Some (JInt n) \<Rightarrow> \<not> float_gt (FFin (of_int (n - do_leeway opts))) now
      | _ \<Rightarrow> False)
   \<and> dict_get claims (lit ''nbf'') = None \<and> dict_get claims (lit ''sub'') = None
   \<and> dict_get claims (lit ''jti'') = None
   \<and> (\<forall>name \<in> set (do_require opts). dict_get claims name \<noteq> None)"

definition decode_complete :: "'k jwt_api \<Rightarrow> bool" where
  "decode_complete api \<longleftrightarrow>
     (\<forall>claims secret alg token now opts.
        jwt_encode api claims (SecretKey secret) alg = Inr token
      \<and> alg \<in> set (do_algorithms opts) \<and> claims_current claims now opts
      \<longrightarrow> jwt_decode api now token (SecretKey secret) opts = Inr claims)"

lemma mcp_claims_get:
  "dict_get (mcp_claims i a t ttl n) k =
     (if k = lit ''iss'' then Some (JStr i) else if k = lit ''aud'' then Some (JStr a)
      else if k = lit ''tenant_id'' then Some (JStr t) else if k = lit ''iat'' then Some (JInt n)
      else if k = lit ''exp'' then Some (JInt (n + ttl)) else None)"
  by (auto simp: mcp_claims_def inj_lit)

lemma mcp_claims_current:
  assumes "of_int n \<le> q + 10" and "q < of_int (n + ttl) + 10"
  shows "claims_current (mcp_claims (mv_issuer v) (mv_audience v) t ttl n) (FFin q) (mcp_options v)"
  using assms
  by (simp add: claims_current_def mcp_claims_get mcp_options_def pinned_options_def inj_lit
      names_audience_def not_expired_def CLOCK_SKEW_LEEWAY_SECONDS_def REQUIRED_CLAIMS_def)

text \<open>C28: minting and verifying are inverse. A token minted for a tenant with the verifier's own
  secret, issuer and audience is verified to exactly that tenant at every moment from ten
  seconds before the second it was issued up to ten seconds past its lifetime.\<close>

theorem mint_verify_roundtrip:
  assumes "decode_complete api"
    and "mint_mcp_token api time (mv_secret v) (mv_issuer v) (mv_audience v) tenant_id ttl = Inr token"
    and "tenant_id \<noteq> []"
    and "of_int (py_trunc time) \<le> q + 10" and "q < of_int (py_trunc time + ttl) + 10"
  shows "mcp_verify api v (FFin q) token = Inr \<lparr>caller_tenant_id = tenant_id\<rparr>"
proof -
  let ?claims = "mcp_claims (mv_issuer v) (mv_audience v) tenant_id ttl (py_trunc time)"
  have "jwt_encode api ?claims (SecretKey (mv_secret v)) MCP_ALGORITHM = Inr token"
    using assms(2) by (simp add: mint_mcp_token_def)
  moreover have "MCP_ALGORITHM \<in> set (do_algorithms (mcp_options v))"
    by (simp add: mcp_options_def pinned_options_def)
  ultimately have "jwt_decode api (FFin q) token (SecretKey (mv_secret v)) (mcp_options v) = Inr ?claims"
    using assms(1) mcp_claims_current [OF assms(4,5)] unfolding decode_complete_def by blast
  then show ?thesis
    using assms(3) by (simp add: mcp_verify_Inr_iff mcp_claims_get inj_lit)
qed

end
