(* ===== verification/Mcp_Server.thy ===== *)
theory Mcp_Server
  imports Mcp_Tokens Origins Settings_Core Agent Py_Json
begin

text \<open>
  \<open>backend/src/app/mcp/server.py\<close>: the security middleware around the MCP application, the
  context variable through which it hands the verified caller to the one tool, and the
  allowlists built from the settings. The MCP library's application is a parameter.
\<close>

section \<open>Scopes and headers\<close>

record asgi_scope =
  sc_type :: pystr
  sc_headers :: "(bytes \<times> bytes) list"
  sc_path :: "pystr option"

text \<open>\<open>bytes.decode()\<close>: strict UTF-8.\<close>

definition py_decode :: "bytes \<Rightarrow> exc + pystr" where
  "py_decode b = (case utf8_decode False b of
       Some s \<Rightarrow> Inr s | None \<Rightarrow> Inl (PyExc UnicodeDecodeError))"

fun decode_pairs :: "(bytes \<times> bytes) list \<Rightarrow> exc + (pystr \<times> pystr) list" where
  "decode_pairs [] = Inr []"
| "decode_pairs ((k, v) # rest) =
     bind_res (py_decode k) (\<lambda>name.
     bind_res (py_decode v) (\<lambda>val.
     bind_res (decode_pairs rest) (\<lambda>ps. Inr ((py_lower name, val) # ps))))"

definition decode_headers :: "(bytes \<times> bytes) list \<Rightarrow> exc + (pystr, pystr) dict" where
  "decode_headers hs = bind_res (decode_pairs hs) (\<lambda>ps. Inr (dict_of_pairs ps))"

section \<open>The middleware\<close>

record mcp_security =
  ms_verifier :: mcp_verifier
  ms_origin_hosts :: "pystr set"
  ms_request_hosts :: "pystr set"

definition mcp_check_host :: "mcp_security \<Rightarrow> pystr option \<Rightarrow> exc + unit" where
  "mcp_check_host m host =
     (case host of
        None \<Rightarrow> raise_app TenantAccessError ''host not allowed''
      | Some h \<Rightarrow>
          bind_res (map_err PyExc (authority_allowed h (ms_request_hosts m))) (\<lambda>ok.
            if \<not> ok then raise_app TenantAccessError ''host not allowed'' else Inr ()))"

definition mcp_check_origin :: "mcp_security \<Rightarrow> pystr option \<Rightarrow> exc + unit" where
  "mcp_check_origin m origin =
     (case origin of
        None \<Rightarrow> Inr ()
      | Some v \<Rightarrow>
          bind_res (map_err PyExc (host_allowed v (ms_origin_hosts m))) (\<lambda>ok.
            if \<not> ok then raise_app TenantAccessError ''origin not allowed'' else Inr ()))"

text \<open>The body of the \<open>try\<close> block: host, origin, token.\<close>

definition mcp_admit ::
  "'k jwt_api \<Rightarrow> mcp_security \<Rightarrow> pyfloat \<Rightarrow> (pystr, pystr) dict \<Rightarrow> exc + caller_ctx" where
  "mcp_admit api m now headers =
     bind_res (mcp_check_host m (dict_get headers (lit ''host''))) (\<lambda>_.
     bind_res (mcp_check_origin m (dict_get headers (lit ''origin''))) (\<lambda>_.
     bind_res (parse_bearer (dict_get headers (lit ''authorization''))) (\<lambda>token.
       mcp_verify api (ms_verifier m) now token)))"

text \<open>The state is the context variable \<open>_external_caller\<close> and the rest of the world. A reply
  is a problem response of the middleware or what the application sends.\<close>

record 'w mcp_state =
  mcp_external_caller :: "caller_ctx option"
  mcp_world :: 'w

datatype 'r mcp_reply = Problem response | AppReply 'r

type_synonym ('w, 'r) asgi_app = "asgi_scope \<Rightarrow> ('w mcp_state, exc, 'r) action"

text \<open>\<open>set\<close> remembers the old value in the token that \<open>reset\<close> restores it from.\<close>

definition with_caller ::
  "caller_ctx \<Rightarrow> ('w mcp_state, exc, 'a) action \<Rightarrow> ('w mcp_state, exc, 'a) action" where
  "with_caller ctx body = (\<lambda>s.
     let old = mcp_external_caller s in
     act_finally body (\<lambda>s'. (Inr (), s'\<lparr>mcp_external_caller := old\<rparr>))
       (s\<lparr>mcp_external_caller := Some ctx\<rparr>))"

definition map_reply :: "('a \<Rightarrow> 'b) \<Rightarrow> ('s, 'e, 'a) action \<Rightarrow> ('s, 'e, 'b) action" where
  "map_reply f a = act_bind a (\<lambda>x. act_return (f x))"

definition mcp_middleware ::
  "'k jwt_api \<Rightarrow> mcp_security \<Rightarrow> pyfloat \<Rightarrow> ('w, 'r) asgi_app \<Rightarrow> asgi_scope
     \<Rightarrow> ('w mcp_state, exc, 'r mcp_reply) action" where
  "mcp_middleware api m now app scope =
     (if sc_type scope \<noteq> lit ''http'' then map_reply AppReply (app scope)
      else
        (case decode_headers (sc_headers scope) of
           Inl e \<Rightarrow> act_raise e
         | Inr headers \<Rightarrow>
             (let inst = (case sc_path scope of Some p \<Rightarrow> p | None \<Rightarrow> lit ''/mcp'') in
              case mcp_admit api m now headers of
                Inl (AppExc e) \<Rightarrow> act_return (Problem (app_error_response e inst))
              | Inl (PyExc x) \<Rightarrow> act_raise (PyExc x)
              | Inr context \<Rightarrow> map_reply AppReply (with_caller context (app scope)))))"

section \<open>The tool\<close>

text \<open>\<open>answer(query)\<close> of the server: it reads the context variable.\<close>

definition mcp_answer_tool :: "answering_core \<Rightarrow> pystr \<Rightarrow> ('w mcp_state, exc, json) action" where
  "mcp_answer_tool core query = (\<lambda>s.
     case mcp_external_caller s of
       None \<Rightarrow> (raise_app AuthenticationError ''mcp caller was not verified'', s)
     | Some context \<Rightarrow> (Inr (dump_answer (answer_for_external_caller core context query)), s))"

section \<open>Construction from the settings\<close>

fun origin_hosts :: "pystr list \<Rightarrow> py_exc + pystr option list" where
  "origin_hosts [] = Inr []"
| "origin_hosts (o1 # os) =
     bind_res (origin_host o1) (\<lambda>h. bind_res (origin_hosts os) (\<lambda>hs. Inr (h # hs)))"

definition mcp_allowed_origin_hosts :: "settings \<Rightarrow> py_exc + pystr set" where
  "mcp_allowed_origin_hosts s =
     bind_res (origin_hosts (mcp_allowed_origins s)) (\<lambda>hs. Inr {h. Some h \<in> set hs})"

lemma mcp_allowed_origin_hosts_code [code]:
  "mcp_allowed_origin_hosts s =
     bind_res (origin_hosts (mcp_allowed_origins s)) (\<lambda>hs. Inr (set (List.map_filter id hs)))"
proof -
  have "{h. Some h \<in> set hs} = set (List.map_filter id hs)" for hs :: "pystr option list"
    by (induction hs) (auto simp: List.map_filter_def)
  then show ?thesis by (simp add: mcp_allowed_origin_hosts_def)
qed

definition mcp_request_hosts :: "settings \<Rightarrow> pystr set" where
  "mcp_request_hosts s = set (map py_lower (mcp_allowed_hosts s))"

definition build_mcp_verifier :: "settings \<Rightarrow> mcp_verifier" where
  "build_mcp_verifier s =
     \<lparr>mv_secret = mcp_signing_secret s, mv_issuer = mcp_token_issuer s, mv_audience = mcp_token_audience s\<rparr>"

definition mcp_security_of :: "settings \<Rightarrow> py_exc + mcp_security" where
  "mcp_security_of s =
     bind_res (mcp_allowed_origin_hosts s) (\<lambda>hosts.
       Inr \<lparr>ms_verifier = build_mcp_verifier s, ms_origin_hosts = hosts,
            ms_request_hosts = mcp_request_hosts s\<rparr>)"

section \<open>Facts\<close>

lemma decode_headers_get:
  "decode_headers hs = Inr d \<Longrightarrow> decode_pairs hs = Inr ps \<Longrightarrow> dict_get d k = map_of (rev ps) k"
  by (auto simp: decode_headers_def res_simps dict_get_of_pairs)

lemma mcp_check_host_Inr_iff:
  "mcp_check_host m host = Inr u \<longleftrightarrow>
     (\<exists>h. host = Some h \<and> (\<exists>a \<in> ms_request_hosts m. authority_host h = Inr (Some a)))"
  by (auto simp: mcp_check_host_def res_simps authority_allowed_True_iff split: option.splits if_splits)

lemma mcp_check_origin_Inr_iff:
  "mcp_check_origin m origin = Inr u \<longleftrightarrow>
     (case origin of None \<Rightarrow> True
      | Some v \<Rightarrow> \<exists>a \<in> ms_origin_hosts m. origin_host v = Inr (Some a))"
  by (auto simp: mcp_check_origin_def res_simps host_allowed_True_iff split: option.splits if_splits)

lemma mcp_admit_Inr_iff:
  "mcp_admit api m now headers = Inr ctx \<longleftrightarrow>
     (\<exists>h. dict_get headers (lit ''host'') = Some h
        \<and> (\<exists>a \<in> ms_request_hosts m. authority_host h = Inr (Some a)))
   \<and> (case dict_get headers (lit ''origin'') of None \<Rightarrow> True
      | Some v \<Rightarrow> \<exists>a \<in> ms_origin_hosts m. origin_host v = Inr (Some a))
   \<and> (\<exists>token. parse_bearer (dict_get headers (lit ''authorization'')) = Inr token
        \<and> mcp_verify api (ms_verifier m) now token = Inr ctx)"
  unfolding mcp_admit_def by (simp add: res_simps mcp_check_host_Inr_iff mcp_check_origin_Inr_iff)

lemma with_caller_run:
  "body (s\<lparr>mcp_external_caller := Some ctx\<rparr>) = (r, s') \<Longrightarrow>
     with_caller ctx body s = (r, s'\<lparr>mcp_external_caller := mcp_external_caller s\<rparr>)"
  by (simp add: with_caller_def Let_def act_finally_def)

lemma map_reply_run: "map_reply f a s = (case a s of (r, s') \<Rightarrow> (map_sum id f r, s'))"
  by (cases "a s"; cases "fst (a s)") (auto simp: map_reply_def act_bind_def)

lemma origin_hosts_mem:
  "origin_hosts os = Inr hs \<Longrightarrow> Some h \<in> set hs \<longleftrightarrow> (\<exists>v \<in> set os. origin_host v = Inr (Some h))"
  by (induction os arbitrary: hs) (auto simp: res_simps)

lemma mcp_security_of_Inr_iff:
  "mcp_security_of s = Inr m \<longleftrightarrow>
     (\<exists>hosts. mcp_allowed_origin_hosts s = Inr hosts \<and> m = \<lparr>ms_verifier = build_mcp_verifier s,
        ms_origin_hosts = hosts, ms_request_hosts = mcp_request_hosts s\<rparr>)"
  by (auto simp: mcp_security_of_def res_simps)

lemma mcp_allowed_origin_hosts_mem:
  "mcp_allowed_origin_hosts s = Inr H \<Longrightarrow>
     h \<in> H \<longleftrightarrow> (\<exists>v \<in> set (mcp_allowed_origins s). origin_host v = Inr (Some h))"
  by (auto simp: mcp_allowed_origin_hosts_def res_simps origin_hosts_mem)

end
