(* ===== verification/App_Main.thy ===== *)
theory App_Main
  imports Gate_Http Owner_Facts Mcp_Server Db
begin

text \<open>
  \<open>backend/src/app/main.py\<close>, \<open>tenants/widget_router.py\<close> and the routers: the routes under
  their prefixes, the order of the layers around an endpoint, the gate built from the
  application state, and the lifespan that opens and closes the pool.
\<close>

section \<open>Routes\<close>

datatype endpoint = OwnerMe | WidgetAnswer

record router =
  rt_prefix :: pystr
  rt_routes :: "(pystr \<times> pystr \<times> endpoint) list"

definition tenants_router :: router where
  "tenants_router = \<lparr>rt_prefix = lit ''/tenants'', rt_routes = [(lit ''GET'', lit ''/me'', OwnerMe)]\<rparr>"

definition widget_router :: router where
  "widget_router = \<lparr>rt_prefix = lit ''/widget'', rt_routes = [(lit ''POST'', lit ''/answer'', WidgetAnswer)]\<rparr>"

definition ingestion_router :: router where
  "ingestion_router = \<lparr>rt_prefix = lit ''/ingestion'', rt_routes = []\<rparr>"

definition agent_router :: router where
  "agent_router = \<lparr>rt_prefix = lit ''/agent'', rt_routes = []\<rparr>"

definition retrieval_router :: router where
  "retrieval_router = \<lparr>rt_prefix = lit ''/retrieval'', rt_routes = []\<rparr>"

definition guardrails_router :: router where
  "guardrails_router = \<lparr>rt_prefix = lit ''/guardrails'', rt_routes = []\<rparr>"

definition eval_router :: router where
  "eval_router = \<lparr>rt_prefix = lit ''/eval'', rt_routes = []\<rparr>"

definition DOMAIN_ROUTERS :: "router list" where
  "DOMAIN_ROUTERS = [tenants_router, ingestion_router, agent_router, retrieval_router,
     guardrails_router, eval_router, widget_router]"

definition include_router :: "pystr \<Rightarrow> router \<Rightarrow> (pystr \<times> pystr \<times> endpoint) list" where
  "include_router prefix r =
     map (\<lambda>(verb, path, e). (verb, prefix @ rt_prefix r @ path, e)) (rt_routes r)"

definition app_routes :: "(pystr \<times> pystr \<times> endpoint) list" where
  "app_routes = concat (map (include_router (lit ''/v1'')) DOMAIN_ROUTERS)"

section \<open>Endpoints\<close>

definition widget_answer :: "answering_core \<Rightarrow> visitor_ctx option \<Rightarrow> exc + answer_result" where
  "widget_answer core context = (case context of
       None \<Rightarrow> raise_app AuthenticationError ''visitor gate did not run''
     | Some ctx \<Rightarrow> Inr (answer_in_process core ctx))"

definition ok_response :: "json \<Rightarrow> response" where
  "ok_response content =
     \<lparr>resp_status = 200, resp_media_type = lit ''application/json'', resp_content = content\<rparr>"

definition dump_identity :: "owner_identity \<Rightarrow> json" where
  "dump_identity i = JObj [(lit ''tenant_id'', JStr (oi_tenant_id i)), (lit ''user_id'', JStr (oi_user_id i))]"

text \<open>The framework's router is the parameter \<open>select\<close>, which names the endpoint of a request;
  \<open>other\<close> is what answers the rest: the mounted MCP application and the default 404. An
  AppError raised inside is answered by the registered handler.\<close>

definition handled :: "pystr \<Rightarrow> (exc + response) \<times> 's \<Rightarrow> (exc + response) \<times> 's" where
  "handled path out = (case out of
       (Inl e, s) \<Rightarrow> (handle_app_error path e, s)
     | (Inr r, s) \<Rightarrow> (Inr r, s))"

definition run_endpoint ::
  "answering_core \<Rightarrow> (http_request \<Rightarrow> ('s, exc, owner_ctx) action) \<Rightarrow> http_request \<Rightarrow> endpoint \<Rightarrow> ('s, exc, response) action" where
  "run_endpoint core owner request e = (case e of
       WidgetAnswer \<Rightarrow>
         act_bind (act_lift (widget_answer core (rq_visitor_context request))) (\<lambda>a.
           act_return (ok_response (dump_answer a)))
     | OwnerMe \<Rightarrow>
         act_bind (owner request) (\<lambda>ctx.
           act_return (ok_response (dump_identity (read_owner_identity ctx)))))"

definition inner_app ::
  "answering_core \<Rightarrow> (http_request \<Rightarrow> endpoint option) \<Rightarrow> (http_request \<Rightarrow> ('s, exc, owner_ctx) action)
     \<Rightarrow> (http_request \<Rightarrow> ('s, exc, response) action) \<Rightarrow> http_request \<Rightarrow> ('s, exc, response) action" where
  "inner_app core select owner other request = (\<lambda>s.
     handled (rq_path request)
       (case select request of
          None \<Rightarrow> other request s
        | Some e \<Rightarrow> run_endpoint core owner request e s))"

section \<open>The application\<close>

record 's app_attributes =
  aa_widget_key_store :: "key_lookup option"
  aa_rate_limiter :: "'s limiter option"

text \<open>\<open>_visitor_gate\<close>: reading an attribute the lifespan has not set is an AttributeError.\<close>

definition attribute :: "'a option \<Rightarrow> exc + 'a" where
  "attribute v = (case v of Some x \<Rightarrow> Inr x | None \<Rightarrow> Inl (PyExc (OtherExc (lit ''AttributeError''))))"

definition visitor_gate_of :: "'s app_attributes \<Rightarrow> settings \<Rightarrow> exc + 's visitor_gate" where
  "visitor_gate_of attrs settings =
     bind_res (attribute (aa_widget_key_store attrs)) (\<lambda>store.
     bind_res (attribute (aa_rate_limiter attrs)) (\<lambda>rl.
       Inr \<lparr>g_store = store, g_rate_limiter = rl, g_max_body_bytes = visitor_max_body_bytes settings\<rparr>))"

text \<open>What the lifespan stores in \<open>app.state\<close> for a pool whose \<open>fetchrow\<close> is \<open>fetch\<close>.\<close>

definition lifespan_attributes :: "fetchrow \<Rightarrow> 's app_attributes" where
  "lifespan_attributes fetch =
     \<lparr>aa_widget_key_store = Some (postgres_lookup fetch), aa_rate_limiter = Some allow_all_check\<rparr>"

text \<open>The application of \<open>create_app\<close>: the visitor gate around the rest, with \<open>provide_gate\<close>
  called on the widget path only.\<close>

definition app_handle ::
  "answering_core \<Rightarrow> nat \<Rightarrow> (exc + 's visitor_gate) \<Rightarrow> (http_request \<Rightarrow> endpoint option)
     \<Rightarrow> (http_request \<Rightarrow> ('s, exc, owner_ctx) action) \<Rightarrow> (http_request \<Rightarrow> ('s, exc, response) action)
     \<Rightarrow> http_request \<Rightarrow> ('s, exc, response) action" where
  "app_handle core limit provided select owner other request =
     (if \<not> py_startswith (rq_path request) WIDGET_PATH_PREFIX
      then inner_app core select owner other request
      else (case provided of
              Inl e \<Rightarrow> act_raise e
            | Inr gate \<Rightarrow> visitor_gate_middleware limit gate request (inner_app core select owner other)))"

section \<open>The lifespan\<close>

text \<open>\<open>publish\<close> stores the pool and the objects made from it in \<open>app.state\<close>; \<open>enter\<close> and \<open>leave\<close>
  are the two ends of \<open>session_manager.run()\<close>; \<open>serve\<close> is the time the application runs.\<close>

definition lifespan ::
  "('s, exc, settings) action \<Rightarrow> (pool_config \<Rightarrow> ('s, exc, 'p) action) \<Rightarrow> ('p \<Rightarrow> ('s, exc, unit) action)
     \<Rightarrow> ('p \<Rightarrow> 's \<Rightarrow> 's) \<Rightarrow> ('s, exc, unit) action \<Rightarrow> ('s, exc, unit) action
     \<Rightarrow> ('s, exc, unit) action \<Rightarrow> ('s, exc, unit) action" where
  "lifespan load create_pool close_pool publish enter leave serve =
     act_bind load (\<lambda>settings.
     act_bind (create_db_pool create_pool settings) (\<lambda>pool s.
     act_bind enter (\<lambda>_. act_finally (act_finally serve (close_db_pool close_pool pool)) leave) (publish pool s)))"

end
