(* ===== verification/App_Facts.thy ===== *)
theory App_Facts
  imports App_Main Gate_Examples
begin

text \<open>
  What holds of the assembled application: every route of the widget lies under the gate's
  prefix, an answer of the widget belongs to the tenant of the presented key, no AppError
  escapes, and when the pool is closed.
\<close>

section \<open>The widget pipeline\<close>

text \<open>The framework sends a request to an endpoint only if the endpoint is registered for the
  request's path.\<close>

definition routes_exactly :: "(http_request \<Rightarrow> endpoint option) \<Rightarrow> bool" where
  "routes_exactly select \<longleftrightarrow>
     (\<forall>r e. select r = Some e \<longrightarrow> (\<exists>verb. (verb, rq_path r, e) \<in> set app_routes))"

lemma app_routes_eval:
  "app_routes = [(lit ''GET'', lit ''/v1/tenants/me'', OwnerMe), (lit ''POST'', lit ''/v1/widget/answer'', WidgetAnswer)]"
  by code_simp

lemma widget_route_gated:
  assumes "routes_exactly select" and "select r = Some WidgetAnswer"
  shows "gated r"
proof -
  have "rq_path r = lit ''/v1/widget/answer''"
    using assms by (force simp: routes_exactly_def app_routes_eval)
  moreover have "py_startswith (lit ''/v1/widget/answer'') WIDGET_PATH_PREFIX" by code_simp
  ultimately show ?thesis by (simp add: gated_def)
qed

lemma owner_route_ungated:
  assumes "routes_exactly select" and "select r = Some OwnerMe"
  shows "\<not> gated r"
proof -
  have "rq_path r = lit ''/v1/tenants/me''"
    using assms by (force simp: routes_exactly_def app_routes_eval)
  moreover have "\<not> py_startswith (lit ''/v1/tenants/me'') WIDGET_PATH_PREFIX" by code_simp
  ultimately show ?thesis by (simp add: gated_def)
qed

lemma app_handle_gated:
  "gated r \<Longrightarrow> app_handle core limit (Inr gate) select owner other r
     = visitor_gate_middleware limit gate r (inner_app core select owner other)"
  by (simp add: app_handle_def gated_def)

lemma app_handle_ungated:
  "\<not> gated r \<Longrightarrow> app_handle core limit provided select owner other r = inner_app core select owner other r"
  by (simp add: app_handle_def gated_def)

lemma shipped_gate:
  "visitor_gate_of (lifespan_attributes fetch) settings =
     Inr \<lparr>g_store = postgres_lookup fetch, g_rate_limiter = allow_all_check,
          g_max_body_bytes = visitor_max_body_bytes settings\<rparr>"
  by (simp add: visitor_gate_of_def lifespan_attributes_def attribute_def)

lemma app_error_response_not_ok: "app_error_response e p \<noteq> ok_response c"
  by (simp add: app_error_response_def problem_response_def ok_response_def Let_def lit_def)

lemma select_ignores_context:
  assumes "routes_exactly select" and "select (r\<lparr>rq_visitor_context := c\<rparr>) = Some WidgetAnswer"
  shows "gated r"
  using widget_route_gated [OF assms] by (simp add: gated_def)

text \<open>The widget endpoint behind the shipped gate, as one equation.\<close>

definition shipped_visitor_gate :: "fetchrow \<Rightarrow> settings \<Rightarrow> 's visitor_gate" where
  "shipped_visitor_gate fetch settings = \<lparr>g_store = postgres_lookup fetch, g_rate_limiter = allow_all_check,
     g_max_body_bytes = visitor_max_body_bytes settings\<rparr>"

lemma widget_app_handle:
  fixes s :: 's
  assumes "routes_exactly select" and "\<And>c. select (request\<lparr>rq_visitor_context := c\<rparr>) = Some WidgetAnswer"
  shows "app_handle core limit (visitor_gate_of (lifespan_attributes fetch) settings) select owner other request s =
    (case declared_too_large (visitor_max_body_bytes settings) (rq_header request (lit ''content-length'')) of
       Inl x \<Rightarrow> (Inl (PyExc x), s)
     | Inr True \<Rightarrow> (Inr (app_error_response \<lparr>err_class = PayloadTooLargeError,
         err_detail = lit ''declared body exceeds the visitor limit''\<rparr> (rq_path request)), s)
     | Inr False \<Rightarrow>
         (case rq_body request of
            Inl e \<Rightarrow> (Inl e, s)
          | Inr body \<Rightarrow>
              (case authorize limit (shipped_visitor_gate fetch settings) (visit_of request body) s of
                 (Inl (AppExc e), s') \<Rightarrow> (Inr (app_error_response e (rq_path request)), s')
               | (Inl (PyExc x), s') \<Rightarrow> (Inl (PyExc x), s')
               | (Inr ctx, s') \<Rightarrow>
                   (Inr (ok_response (dump_answer (core (visitor_tenant_id ctx) (visitor_query ctx)))), s'))))"
proof -
  let ?gate = "shipped_visitor_gate fetch settings :: 's visitor_gate"
  have g: "gated request" using select_ignores_context [OF assms(1) assms(2)] .
  have max: "g_max_body_bytes ?gate = visitor_max_body_bytes settings" by (simp add: shipped_visitor_gate_def)
  have run: "app_handle core limit (visitor_gate_of (lifespan_attributes fetch) settings) select owner other request s
      = visitor_gate_middleware limit ?gate request (inner_app core select owner other) s"
    by (simp add: shipped_gate app_handle_gated [OF g] shipped_visitor_gate_def)
  have inner: "inner_app core select owner other (request\<lparr>rq_visitor_context := Some ctx\<rparr>) t
      = (Inr (ok_response (dump_answer (core (visitor_tenant_id ctx) (visitor_query ctx)))), t)" for ctx t
    using assms(2)
    by (simp add: inner_app_def handled_def run_endpoint_def widget_answer_def act_bind_lift answer_in_process_def)
  note mw = middleware_declared_invalid [OF g, of ?gate, unfolded max]
    middleware_declared_large [OF g, of ?gate, unfolded max] middleware_gated [OF g, of ?gate, unfolded max]
  show ?thesis
    by (cases "declared_too_large (visitor_max_body_bytes settings) (rq_header request (lit ''content-length''))"
          rule: sum_bool_cases)
       (simp_all add: run mw inner split: sum.split prod.split exc.split)
qed

text \<open>C2: the widget, end to end. In the application as \<open>create_app\<close> and the lifespan assemble it,
  a request to the widget path that the router sends to the widget endpoint and that is
  answered is answered either with a problem response, or with what the core (whatever function
  of a tenant and a query it is) gives for the tenant of the row the presented widget key
  selects and the query of the body; a context the request might already carry is never used.\<close>

theorem widget_answers_for_key_tenant:
  fixes s :: 's
  assumes "routes_exactly select" and "\<And>c. select (request\<lparr>rq_visitor_context := c\<rparr>) = Some WidgetAnswer"
    and "app_handle core limit (visitor_gate_of (lifespan_attributes fetch) settings) select owner other request s
      = (Inr resp, s')"
  shows "(\<exists>e. resp = app_error_response e (rq_path request))
   \<or> (\<exists>k body (ctx :: visitor_ctx). rq_header request WIDGET_KEY_HEADER = Some k
        \<and> rq_body request = Inr body
        \<and> row_owner fetch k = Some (visitor_tenant_id ctx)
        \<and> sanitize_query limit body = Inr (visitor_query ctx)
        \<and> resp = ok_response (dump_answer (core (visitor_tenant_id ctx) (visitor_query ctx))))"
proof -
  consider body a s1 where "rq_body request = Inr body"
    and "authorize limit (shipped_visitor_gate fetch settings) (visit_of request body) s = (a, s1)"
    and "(\<exists>e. resp = app_error_response e (rq_path request)) \<or>
      (\<exists>ctx. a = Inr ctx \<and> resp = ok_response (dump_answer (core (visitor_tenant_id ctx) (visitor_query ctx))))"
  | e where "resp = app_error_response e (rq_path request)"
    using assms(3) unfolding widget_app_handle [OF assms(1,2)]
    by (auto split: sum.splits bool.splits prod.splits exc.splits)
  then show ?thesis
  proof cases
    case (1 body a s1)
    from 1(3) show ?thesis
    proof (elim disjE exE conjE)
      fix ctx
      assume ctx: "a = Inr ctx"
        and ok: "resp = ok_response (dump_answer (core (visitor_tenant_id ctx) (visitor_query ctx)))"
      obtain k where "v_widget_key (visit_of request body) = Some k"
        and "row_owner fetch k = Some (visitor_tenant_id ctx)"
        using postgres.authorize_tenant [of "shipped_visitor_gate fetch settings" fetch limit "visit_of request body" s ctx s1]
          1(2) ctx by (auto simp: shipped_visitor_gate_def)
      moreover have "sanitize_query limit body = Inr (visitor_query ctx)"
        using 1(2) ctx by (auto simp: authorize_Inr_iff visit_of_def)
      ultimately show ?thesis using 1(1) ok by (auto simp: visit_of_def)
    qed blast
  qed blast
qed

section \<open>Errors of the application\<close>

lemma handle_app_error_cases: "handle_app_error path e \<noteq> Inl (AppExc a)"
  by (cases e) (simp_all add: handle_app_error_def)

lemma inner_app_no_AppExc: "fst (inner_app core select owner other request s) \<noteq> Inl (AppExc a)"
  by (auto simp: inner_app_def handled_def handle_app_error_cases split: prod.splits sum.splits)

text \<open>C36: no AppError escapes the application. Whatever the router, the owner dependency and the
  mounted applications do, and whatever the gate's store raises, a request ends in a
  response or in an exception that is no AppError, as long as the gate can be built and the
  body read without one.\<close>

theorem app_errors_are_answered:
  assumes "provided \<noteq> Inl (AppExc a)" and "rq_body request \<noteq> Inl (AppExc a)"
  shows "fst (app_handle core limit provided select owner other request s) \<noteq> Inl (AppExc a)"
proof (cases "gated request")
  case False
  then show ?thesis by (simp add: app_handle_ungated inner_app_no_AppExc)
next
  case g: True
  show ?thesis
  proof (cases provided)
    case (Inl e)
    with assms(1) g show ?thesis by (simp add: app_handle_def gated_def)
  next
    case (Inr gate)
    let ?d = "declared_too_large (g_max_body_bytes gate) (rq_header request (lit ''content-length''))"
    show ?thesis
    proof (cases ?d rule: sum_bool_cases)
      case (1 x)
      with Inr show ?thesis by (simp add: app_handle_gated [OF g] middleware_declared_invalid [OF g])
    next
      case 2
      with Inr show ?thesis by (simp add: app_handle_gated [OF g] middleware_declared_large [OF g])
    next
      case 3
      with Inr assms(2) show ?thesis
        using inner_app_no_AppExc [of core select owner other]
        by (auto simp: app_handle_gated [OF g] middleware_gated [OF g 3] split: sum.split prod.split exc.split)
    qed
  qed
qed

section \<open>The owner route\<close>

text \<open>The owner route answers only a verified owner. A response of the owner endpoint is a
  problem response for the error the owner dependency raised, or the identity of the context
  it returned; without such a context nothing is served.\<close>

theorem owner_route_serves_identity:
  assumes "routes_exactly select" and "select request = Some OwnerMe"
    and "app_handle core limit provided select owner other request s = (Inr resp, s')"
  shows "(\<exists>e. owner request s = (Inl (AppExc e), s') \<and> resp = app_error_response e (rq_path request))
   \<or> (\<exists>ctx. owner request s = (Inr ctx, s')
        \<and> resp = ok_response (JObj [(lit ''tenant_id'', JStr (owner_tenant_id ctx)),
                                    (lit ''user_id'', JStr (owner_user_id ctx))]))"
proof -
  have "\<not> gated request" by (rule owner_route_ungated [OF assms(1,2)])
  then have run: "handled (rq_path request) (run_endpoint core owner request OwnerMe s) = (Inr resp, s')"
    using assms(2,3) by (simp add: app_handle_ungated inner_app_def)
  obtain r t where o: "owner request s = (r, t)" by (cases "owner request s")
  show ?thesis
  proof (cases r)
    case (Inl e)
    with run o show ?thesis
      by (cases e) (auto simp: run_endpoint_def act_bind_def handled_def handle_app_error_def)
  next
    case (Inr ctx)
    with run o show ?thesis
      by (auto simp: run_endpoint_def act_bind_def handled_def read_owner_identity_def dump_identity_def)
  qed
qed

section \<open>The lifespan\<close>

text \<open>When the session manager starts, the pool is closed exactly once, after serving and
  before the session manager stops, also when serving raises. When it does not start, the
  pool that was just opened is never closed: the outcome does not depend on what closing
  would do.\<close>

theorem lifespan_closes_pool_if_started:
  assumes "load s = (Inr settings, s1)" and "create_pool (db_pool_config settings) s1 = (Inr pool, s2)"
    and "enter (publish pool s2) = (started, s3)" and "serve s3 = (r, s4)"
    and "close_pool pool s4 = (Inr (), s5)" and "leave s5 = (Inr (), s6)"
  shows "lifespan load create_pool close_pool publish enter leave serve s =
    (case started of Inr u \<Rightarrow> (r, s6) | Inl e \<Rightarrow> (Inl e, s3))"
  using assms
  by (cases started) (simp_all add: lifespan_def close_db_pool_def create_db_pool_def act_bind_def act_finally_def)

section \<open>Instances\<close>

definition path_select :: "http_request \<Rightarrow> endpoint option" where
  "path_select r = (if rq_path r = lit ''/v1/widget/answer'' then Some WidgetAnswer
     else if rq_path r = lit ''/v1/tenants/me'' then Some OwnerMe else None)"

lemma path_select_exact: "routes_exactly path_select"
  by (auto simp: routes_exactly_def path_select_def app_routes_eval)

definition example_owner :: "http_request \<Rightarrow> (nat, exc, owner_ctx) action" where
  "example_owner request = act_return \<lparr>owner_tenant_id = lit ''tenant-a'', owner_user_id = lit ''u1''\<rparr>"

definition not_found :: "http_request \<Rightarrow> (nat, exc, response) action" where
  "not_found request = act_raise (AppExc \<lparr>err_class = NotFoundError, err_detail = lit ''not found''\<rparr>)"

definition small_settings :: settings where
  "small_settings = \<lparr>database_url = [], app_database_url = [], embedding_dim = 768, weaviate_url = [],
     vertex_credentials_path = None, gemini_model = [], supabase_url = None, supabase_anon_key = None,
     supabase_service_role_key = None, supabase_jwt_issuer = [], supabase_jwks_url = [],
     supabase_jwt_audience = [], mcp_signing_secret = [], mcp_token_issuer = [], mcp_token_audience = [],
     mcp_allowed_origins = [], mcp_allowed_hosts = [], visitor_max_body_bytes = 40, logfire_token = None,
     sentry_dsn = None, widget_public_key = None\<rparr>"

theorem widget_answers_for_key_tenant_witness:
  "\<exists>resp. app_handle echo_core 5 (visitor_gate_of (lifespan_attributes example_fetch) small_settings) path_select
       example_owner not_found (example_request ''/v1/widget/answer'' ''https://example.com'' hello) 3 = (Inr resp, 3)
     \<and> resp = ok_response (dump_answer (echo_core (lit ''tenant-a'') (lit ''hello'')))"
proof -
  let ?r = "example_request ''/v1/widget/answer'' ''https://example.com'' hello"
  have sel: "path_select (?r\<lparr>rq_visitor_context := c\<rparr>) = Some WidgetAnswer" for c
    by (simp add: path_select_def example_request_def)
  have run: "app_handle echo_core 5 (visitor_gate_of (lifespan_attributes example_fetch) small_settings) path_select
       example_owner not_found ?r 3 = (Inr (ok_response (dump_answer (echo_core (lit ''tenant-a'') (lit ''hello'')))), 3)"
    by code_simp
  show ?thesis
    using widget_answers_for_key_tenant [OF path_select_exact sel run] run by blast
qed

theorem app_errors_are_answered_witness:
  "fst (app_handle echo_core 5 (Inr example_gate) path_select example_owner not_found
     (example_request ''/other'' ''https://example.com'' hello) 3)
   \<noteq> Inl (AppExc \<lparr>err_class = NotFoundError, err_detail = lit ''not found''\<rparr>)"
  by (rule app_errors_are_answered) (simp_all add: example_request_def)

theorem owner_route_serves_identity_witness:
  "\<exists>resp ctx. app_handle echo_core 5 (Inr example_gate) path_select example_owner not_found
       (example_request ''/v1/tenants/me'' ''https://example.com'' hello) 3 = (Inr resp, 3)
     \<and> example_owner (example_request ''/v1/tenants/me'' ''https://example.com'' hello) 3 = (Inr ctx, 3)"
proof -
  let ?r = "example_request ''/v1/tenants/me'' ''https://example.com'' hello"
  have sel: "path_select ?r = Some OwnerMe" by code_simp
  obtain resp where run: "app_handle echo_core 5 (Inr example_gate) path_select example_owner not_found ?r 3 = (Inr resp, 3)"
    by (auto simp: app_handle_def inner_app_def handled_def run_endpoint_def example_owner_def sel
        example_request_def py_startswith_def WIDGET_PATH_PREFIX_def lit_def path_select_def)
  show ?thesis
    using owner_route_serves_identity [OF path_select_exact sel run] run by (auto simp: example_owner_def)
qed

theorem lifespan_closes_pool_if_started_witness:
  "lifespan (\<lambda>s. (Inr small_settings, s)) (\<lambda>c s. (Inr (), s)) (\<lambda>p s. (Inr (), s + 1 :: nat)) (\<lambda>p s. s)
     (\<lambda>s. (Inr (), s)) (\<lambda>s. (Inr (), s)) (\<lambda>s. (Inr (), s)) 0 = (Inr (), 1)
 \<and> lifespan (\<lambda>s. (Inr small_settings, s)) (\<lambda>c s. (Inr (), s)) (\<lambda>p s. (Inr (), s + 1 :: nat)) (\<lambda>p s. s)
     (\<lambda>s. (Inl (PyExc RuntimeError), s)) (\<lambda>s. (Inr (), s)) (\<lambda>s. (Inr (), s)) 0 = (Inl (PyExc RuntimeError), 0)"
  by (simp add: lifespan_closes_pool_if_started [where settings = small_settings])

end
