(* ===== verification/Observability.thy ===== *)
theory Observability
  imports Settings_Core
begin

text \<open>
  \<open>backend/src/app/core/observability.py\<close> and \<open>core/logging.py\<close>: the calls that configure
  tracing and error reporting, the chain of log processors, and the request context that log
  lines carry. The tracing libraries are a parameter; any of the calls to them may raise.
\<close>

section \<open>Tracing and error reporting\<close>

text \<open>The calls to the tracing libraries, which may raise: \<open>logfire.configure(token=...)\<close>,
  \<open>logfire.instrument_fastapi(app)\<close> and \<open>sentry_sdk.init(dsn=..., traces_sample_rate=...)\<close>.\<close>

record 't tracing =
  logfire_configure :: "pystr \<Rightarrow> ('t, exc, unit) action"
  logfire_instrument_fastapi :: "('t, exc, unit) action"
  sentry_init :: "pystr \<Rightarrow> rat \<Rightarrow> ('t, exc, unit) action"

definition SENTRY_TRACES_SAMPLE_RATE :: rat where
  "SENTRY_TRACES_SAMPLE_RATE = 1 / 20"

definition configure_observability :: "'t tracing \<Rightarrow> settings \<Rightarrow> ('t, exc, unit) action" where
  "configure_observability tracing s =
     act_bind
       (case logfire_token s of
          Some token \<Rightarrow> act_bind (logfire_configure tracing token) (\<lambda>_. logfire_instrument_fastapi tracing)
        | None \<Rightarrow> act_return ())
       (\<lambda>_. case sentry_dsn s of
          Some dsn \<Rightarrow> sentry_init tracing dsn SENTRY_TRACES_SAMPLE_RATE
        | None \<Rightarrow> act_return ())"

text \<open>While both settings are unset nothing is called.\<close>

lemma observability_inert:
  "logfire_token s = None \<Longrightarrow> sentry_dsn s = None \<Longrightarrow> configure_observability tracing s t = (Inr (), t)"
  by (simp add: configure_observability_def)

section \<open>Logging\<close>

datatype log_processor =
    MergeContextvars | AddLogLevel | TimeStamper | StackInfoRenderer | FormatExcInfo
  | JSONRenderer | ConsoleRenderer

definition log_processors :: "bool \<Rightarrow> log_processor list" where
  "log_processors json_logs =
     [MergeContextvars, AddLogLevel, TimeStamper, StackInfoRenderer, FormatExcInfo]
       @ [if json_logs then JSONRenderer else ConsoleRenderer]"

record logging_config =
  lc_processors :: "log_processor list"
  lc_level :: int
  lc_print_logger :: bool
  lc_cache_on_first_use :: bool

text \<open>\<open>logging.INFO\<close> is 20.\<close>

definition configure_logging :: "bool \<Rightarrow> logging_config" where
  "configure_logging json_logs =
     \<lparr>lc_processors = log_processors json_logs, lc_level = 20, lc_print_logger = True,
      lc_cache_on_first_use = True\<rparr>"

text \<open>The context variables of the logger. Clearing comes before binding.\<close>

type_synonym log_context = "(pystr, pystr) dict"

definition bind_contextvars :: "log_context \<Rightarrow> log_context \<Rightarrow> log_context" where
  "bind_contextvars new ctx = foldl (\<lambda>d (k, v). dict_set d k v) ctx new"

definition bind_request_context :: "pystr \<Rightarrow> pystr \<Rightarrow> pystr \<Rightarrow> log_context \<Rightarrow> log_context" where
  "bind_request_context tenant_id request_id trace_id ctx =
     (let cleared = [] in bind_contextvars
        [(lit ''tenant_id'', tenant_id), (lit ''request_id'', request_id), (lit ''trace_id'', trace_id)] cleared)"

text \<open>The context of a request holds its own three ids and nothing of the request before it.\<close>

lemma bind_request_context_get:
  "dict_get (bind_request_context t r x ctx) k =
     (if k = lit ''tenant_id'' then Some t else if k = lit ''request_id'' then Some r
      else if k = lit ''trace_id'' then Some x else None)"
  by (simp add: bind_request_context_def bind_contextvars_def inj_lit)

lemma bind_request_context_no_leak:
  "bind_request_context t r x (bind_request_context t' r' x' ctx) = bind_request_context t r x []"
  by (simp add: bind_request_context_def)

end
