(* ===== verification/App_Startup.thy ===== *)
theory App_Startup
  imports App_Facts Observability
begin

text \<open>
  Starting the service: \<open>build_mcp_server\<close> of \<open>mcp/server.py\<close>, which configures the MCP
  library, and \<open>create_app\<close> of \<open>main.py\<close>, from the environment to the application that
  theory \<open>App_Main\<close> runs, with the failures on the way.
\<close>

section \<open>The MCP server's configuration\<close>

definition TOOL_DESCRIPTION :: pystr where
  "TOOL_DESCRIPTION = lit ''Answer a question for the caller'' @ [39]
     @ lit ''s tenant, fused with an honesty verdict.''"

record mcp_server_options =
  so_name :: pystr
  so_stateless_http :: bool
  so_streamable_http_path :: pystr
  so_dns_rebinding_protection :: bool
  so_tools :: "(pystr \<times> pystr) list"

definition build_mcp_server :: mcp_server_options where
  "build_mcp_server =
     \<lparr>so_name = lit ''honest-agent'', so_stateless_http = True, so_streamable_http_path = lit ''/'',
      so_dns_rebinding_protection = False, so_tools = [(lit ''answer'', TOOL_DESCRIPTION)]\<rparr>"

section \<open>create_app\<close>

text \<open>What \<open>create_app\<close> has put together: the log processors, the routes, the settings the gate is
  built from on each request, and the mount of the MCP application behind its middleware.\<close>

record app_config =
  ac_title :: pystr
  ac_version :: pystr
  ac_logging :: logging_config
  ac_gate_settings :: settings
  ac_routes :: "(pystr \<times> pystr \<times> endpoint) list"
  ac_mount :: "pystr \<times> mcp_server_options \<times> mcp_security"

text \<open>The state of the process: the cache of \<open>get_settings\<close>, and that of the tracing libraries.\<close>

record 't process =
  pr_settings :: "settings option"
  pr_tracing :: 't

definition cached_settings :: "environment \<Rightarrow> ('t process, exc, settings) action" where
  "cached_settings env = (\<lambda>p. case get_settings env (pr_settings p) of
     (r, cache) \<Rightarrow> (r, p\<lparr>pr_settings := cache\<rparr>))"

definition traced :: "('t, exc, 'a) action \<Rightarrow> ('t process, exc, 'a) action" where
  "traced a = (\<lambda>p. case a (pr_tracing p) of (r, t) \<Rightarrow> (r, p\<lparr>pr_tracing := t\<rparr>))"

definition create_app :: "'t tracing \<Rightarrow> environment \<Rightarrow> ('t process, exc, app_config) action" where
  "create_app tracing env =
     act_bind (cached_settings env) (\<lambda>settings.
     act_bind (traced (configure_observability tracing settings)) (\<lambda>_.
     act_bind (act_lift (map_err PyExc (mcp_security_of settings))) (\<lambda>security.
       act_return
         \<lparr>ac_title = lit ''Honest Agent'', ac_version = lit ''0.1.0'',
          ac_logging = configure_logging True,
          ac_gate_settings = settings,
          ac_routes = app_routes,
          ac_mount = (lit ''/mcp'', build_mcp_server, security)\<rparr>)))"

section \<open>When it starts\<close>

lemma origin_hosts_Inr_iff:
  "(\<exists>hs. origin_hosts os = Inr hs) \<longleftrightarrow> (\<forall>v \<in> set os. \<exists>h. origin_host v = Inr h)"
  by (induction os) (auto simp: res_simps)

lemma origin_hosts_Inl: "origin_hosts os = Inl x \<Longrightarrow> \<exists>v \<in> set os. origin_host v = Inl x"
  by (induction os) (auto simp: res_simps)

lemma mcp_security_of_Inl: "mcp_security_of s = Inl x \<Longrightarrow> \<exists>v \<in> set (mcp_allowed_origins s). origin_host v = Inl x"
  by (auto simp: mcp_security_of_def mcp_allowed_origin_hosts_def res_simps dest: origin_hosts_Inl)

lemma mcp_security_of_exists:
  "(\<exists>m. mcp_security_of s = Inr m) \<longleftrightarrow> (\<forall>v \<in> set (mcp_allowed_origins s). \<exists>h. origin_host v = Inr h)"
  using origin_hosts_Inr_iff [of "mcp_allowed_origins s"]
  by (auto simp: mcp_security_of_Inr_iff mcp_allowed_origin_hosts_def res_simps)

text \<open>The steps of a call that has its settings.\<close>

lemma create_app_run:
  assumes "get_settings env cache = (Inr s, cache')"
  shows "create_app tracing env \<lparr>pr_settings = cache, pr_tracing = t\<rparr> =
     (case configure_observability tracing s t of
        (Inl e, t') \<Rightarrow> (Inl e, \<lparr>pr_settings = cache', pr_tracing = t'\<rparr>)
      | (Inr u, t') \<Rightarrow>
          (case mcp_security_of s of
             Inl x \<Rightarrow> (Inl (PyExc x), \<lparr>pr_settings = cache', pr_tracing = t'\<rparr>)
           | Inr security \<Rightarrow>
               (Inr \<lparr>ac_title = lit ''Honest Agent'', ac_version = lit ''0.1.0'',
                  ac_logging = configure_logging True, ac_gate_settings = s, ac_routes = app_routes,
                  ac_mount = (lit ''/mcp'', build_mcp_server, security)\<rparr>,
                \<lparr>pr_settings = cache', pr_tracing = t'\<rparr>)))"
  using assms
  by (auto simp: create_app_def act_bind_def cached_settings_def traced_def split: sum.split prod.split)

lemma create_app_unsettled:
  assumes "load_settings env = Inl e"
  shows "create_app tracing env \<lparr>pr_settings = None, pr_tracing = t\<rparr>
    = (Inl e, \<lparr>pr_settings = None, pr_tracing = t\<rparr>)"
  using assms by (simp add: create_app_def act_bind_def cached_settings_def get_settings_def)

lemma configure_observability_raises:
  "configure_observability tracing s t = (Inl e, t') \<Longrightarrow> logfire_token s \<noteq> None \<or> sentry_dsn s \<noteq> None"
  using observability_inert [of s tracing t] by auto

lemma mcp_security_parts:
  assumes "mcp_security_of s = Inr m"
  shows "m = \<lparr>ms_verifier = \<lparr>mv_secret = mcp_signing_secret s, mv_issuer = mcp_token_issuer s,
      mv_audience = mcp_token_audience s\<rparr>,
    ms_origin_hosts = {h. \<exists>v. v \<in> set (mcp_allowed_origins s) \<and> origin_host v = Inr (Some h)},
    ms_request_hosts = py_lower ` set (mcp_allowed_hosts s)\<rparr>"
proof -
  obtain H where H: "mcp_allowed_origin_hosts s = Inr H"
    and m: "m = \<lparr>ms_verifier = build_mcp_verifier s, ms_origin_hosts = H, ms_request_hosts = mcp_request_hosts s\<rparr>"
    using assms by (auto simp: mcp_security_of_Inr_iff)
  have "H = {h. \<exists>v. v \<in> set (mcp_allowed_origins s) \<and> origin_host v = Inr (Some h)}"
    using mcp_allowed_origin_hosts_mem [OF H] by blast
  with m show ?thesis by (simp add: build_mcp_verifier_def mcp_request_hosts_def)
qed

text \<open>C26: when the service starts, and as what. In a fresh process \<open>create_app\<close> returns exactly when
  reading the environment raises nothing, the six required settings are given and no other is
  malformed, the calls to the tracing libraries that the settings ask for return, and every
  allowed MCP origin can be parsed. Otherwise it raises the error of reading or the validation
  error, with no settings cached; what a tracing call raised, which takes a Logfire token or a
  Sentry DSN; or the parser's error of one of the origins. The application it returns guards
  the widget path by the settings it was built from and the MCP mount by a middleware with this
  deployment's secret, issuer and audience, the hosts of its allowed origins and its request
  hosts in lower case; the MCP library's own origin check is off, so that middleware is the
  only one. A second call in the process gives the same application whatever the environment
  has become, if the tracing calls return again.\<close>

theorem create_app_starts_iff:
  "case create_app tracing env \<lparr>pr_settings = None, pr_tracing = t\<rparr> of
     (Inr app, p) \<Rightarrow> env_fault env = None \<and> valid_fields env
        \<and> (\<exists>s t1. load_settings env = Inr s \<and> configure_observability tracing s t = (Inr (), t1)
          \<and> p = \<lparr>pr_settings = Some s, pr_tracing = t1\<rparr> \<and> ac_gate_settings app = s
          \<and> (\<forall>v. v \<in> set (mcp_allowed_origins s) \<longrightarrow> (\<exists>h. origin_host v = Inr h))
          \<and> ac_mount app = (lit ''/mcp'', build_mcp_server,
               \<lparr>ms_verifier = \<lparr>mv_secret = mcp_signing_secret s, mv_issuer = mcp_token_issuer s,
                  mv_audience = mcp_token_audience s\<rparr>,
                ms_origin_hosts = {h. \<exists>v. v \<in> set (mcp_allowed_origins s) \<and> origin_host v = Inr (Some h)},
                ms_request_hosts = py_lower ` set (mcp_allowed_hosts s)\<rparr>)
          \<and> \<not> so_dns_rebinding_protection build_mcp_server
          \<and> (\<forall>env'. create_app tracing env' p =
               (case configure_observability tracing s t1 of
                  (Inl e, t2) \<Rightarrow> (Inl e, \<lparr>pr_settings = Some s, pr_tracing = t2\<rparr>)
                | (Inr u, t2) \<Rightarrow> (Inr app, \<lparr>pr_settings = Some s, pr_tracing = t2\<rparr>))))
   | (Inl e, p) \<Rightarrow>
        p = \<lparr>pr_settings = None, pr_tracing = t\<rparr>
          \<and> (case env_fault env of
               Some x \<Rightarrow> e = PyExc x
             | None \<Rightarrow> e = PyExc (OtherExc (lit ''ValidationError'')) \<and> \<not> valid_fields env)
      \<or> (\<exists>s t1. load_settings env = Inr s \<and> configure_observability tracing s t = (Inl e, t1)
           \<and> p = \<lparr>pr_settings = Some s, pr_tracing = t1\<rparr> \<and> (logfire_token s \<noteq> None \<or> sentry_dsn s \<noteq> None))
      \<or> (\<exists>s t1 v x. load_settings env = Inr s \<and> configure_observability tracing s t = (Inr (), t1)
           \<and> p = \<lparr>pr_settings = Some s, pr_tracing = t1\<rparr> \<and> v \<in> set (mcp_allowed_origins s)
           \<and> origin_host v = Inl x \<and> e = PyExc x)"
proof (cases "load_settings env")
  case (Inl e)
  then have "case env_fault env of Some x \<Rightarrow> e = PyExc x | None \<Rightarrow> \<not> valid_fields env \<and> e = VALIDATION_ERROR"
    by (simp add: load_settings_Inl_iff)
  with create_app_unsettled [OF Inl, of tracing t] show ?thesis
    by (simp add: VALIDATION_ERROR_def split: option.splits)
next
  case (Inr s)
  have env: "env_fault env = None" "valid_fields env" using Inr load_settings_Inr_iff [of env] by auto
  have "get_settings env None = (Inr s, Some s)" using Inr by (simp add: get_settings_def)
  note run = create_app_run [OF this, of tracing t]
  have "get_settings env' (Some s) = (Inr s, Some s)" for env' by (simp add: get_settings_def)
  note again = create_app_run [OF this, of tracing]
  obtain r t1 where obs: "configure_observability tracing s t = (r, t1)"
    by (cases "configure_observability tracing s t")
  show ?thesis
  proof (cases r)
    case (Inl e)
    then show ?thesis using Inr obs configure_observability_raises [of tracing s t] by (simp add: run)
  next
    case (Inr u)
    show ?thesis
    proof (cases "mcp_security_of s")
      case (Inl x)
      then show ?thesis
        using \<open>load_settings env = Inr s\<close> obs Inr mcp_security_of_Inl [OF Inl] by (auto simp: run)
    next
      case sec: (Inr m)
      have dns: "\<not> so_dns_rebinding_protection build_mcp_server" by (simp add: build_mcp_server_def)
      have "\<forall>v. v \<in> set (mcp_allowed_origins s) \<longrightarrow> (\<exists>h. origin_host v = Inr h)"
        using sec mcp_security_of_exists [of s] by blast
      then show ?thesis
        using \<open>load_settings env = Inr s\<close> obs Inr env sec mcp_security_parts [OF sec]
        by (simp add: run again dns split: prod.split sum.split)
    qed
  qed
qed

lemma create_app_parts:
  assumes "create_app tracing env \<lparr>pr_settings = None, pr_tracing = t\<rparr> = (Inr app, p)"
  shows "load_settings env = Inr (ac_gate_settings app)"
    and "mcp_security_of (ac_gate_settings app) = Inr (snd (snd (ac_mount app)))"
  using assms
  by (auto simp: create_app_def act_bind_def cached_settings_def get_settings_def traced_def
      split: sum.splits prod.splits)

section \<open>Instances\<close>

text \<open>An allowed origin with an unbalanced bracket keeps the service from starting, after the tracing
  libraries have been called.\<close>

definition bracket_env :: environment where
  "bracket_env = \<lparr>env_fault = None, env_str = (\<lambda>name. Given (lit ''x'')), env_int = (\<lambda>name. Unset),
     env_strs = (\<lambda>name. Given [lit ''https://[''])\<rparr>"

definition counting_tracing :: "nat tracing" where
  "counting_tracing = \<lparr>logfire_configure = (\<lambda>token n. (Inr (), Suc n)),
     logfire_instrument_fastapi = (\<lambda>n. (Inr (), Suc n)), sentry_init = (\<lambda>dsn rate n. (Inr (), Suc n))\<rparr>"

theorem create_app_starts_iff_witness:
  "create_app counting_tracing bracket_env \<lparr>pr_settings = None, pr_tracing = 0\<rparr>
     = (Inl (PyExc ValueError),
        snd (create_app counting_tracing bracket_env \<lparr>pr_settings = None, pr_tracing = 0\<rparr>))
 \<and> (\<exists>s v. load_settings bracket_env = Inr s \<and> v \<in> set (mcp_allowed_origins s) \<and> origin_host v = Inl ValueError
      \<and> configure_observability counting_tracing s 0 = (Inr (), 3))"
proof -
  have run: "fst (create_app counting_tracing bracket_env \<lparr>pr_settings = None, pr_tracing = 0\<rparr>) = Inl (PyExc ValueError)"
    by code_simp
  then obtain p where p: "create_app counting_tracing bracket_env \<lparr>pr_settings = None, pr_tracing = 0\<rparr>
      = (Inl (PyExc ValueError), p)"
    by (cases "create_app counting_tracing bracket_env \<lparr>pr_settings = None, pr_tracing = 0\<rparr>") simp
  have valid: "valid_fields bracket_env" "env_fault bracket_env = None"
    by (simp_all add: valid_fields_def bracket_env_def)
  have three: "\<exists>s. load_settings bracket_env = Inr s \<and> configure_observability counting_tracing s 0 = (Inr (), 3)"
    by (simp add: load_settings_def validate_settings_def bracket_env_def required_field_def with_default_def
        or_none_def configure_observability_def counting_tracing_def act_bind_def)
  show ?thesis
    using create_app_starts_iff [where tracing = counting_tracing and env = bracket_env and t = 0] p valid three by auto
qed

end
