(* ===== verification/App_Types.thy ===== *)
theory App_Types
  imports App_Facts
begin

text \<open>
  The types of the application's responses: the JSON schemas of the response models and of
  the problem details, as executable checks, and that every endpoint answers within them.
\<close>

section \<open>Schemas\<close>

text \<open>An object with exactly the given members, in order, each of its own schema.\<close>

definition object_of :: "(string \<times> (json \<Rightarrow> bool)) list \<Rightarrow> json \<Rightarrow> bool" where
  "object_of members j = (case j of
       JObj d \<Rightarrow> list_all2 (\<lambda>(k, v) (name, schema). k = lit name \<and> schema v) d members
     | _ \<Rightarrow> False)"

definition array_of :: "(json \<Rightarrow> bool) \<Rightarrow> json \<Rightarrow> bool" where
  "array_of schema j = (case j of JArr xs \<Rightarrow> list_all schema xs | _ \<Rightarrow> False)"

definition string_schema :: "json \<Rightarrow> bool" where
  "string_schema j = (case j of JStr s \<Rightarrow> True | _ \<Rightarrow> False)"

definition float_schema :: "json \<Rightarrow> bool" where
  "float_schema j = (case j of JFloat f \<Rightarrow> True | _ \<Rightarrow> False)"

definition literal_schema :: "string \<Rightarrow> json \<Rightarrow> bool" where
  "literal_schema text j \<longleftrightarrow> j = JStr (lit text)"

definition source_schema :: "json \<Rightarrow> bool" where
  "source_schema = object_of
     [(''document_id'', string_schema), (''chunk_id'', string_schema), (''score'', float_schema)]"

definition verdict_schema :: "json \<Rightarrow> bool" where
  "verdict_schema j \<longleftrightarrow>
     object_of [(''kind'', literal_schema ''grounded''), (''answer'', string_schema),
       (''sources'', array_of source_schema)] j
   \<or> object_of [(''kind'', literal_schema ''refusal''), (''reason'', string_schema)] j"

definition answer_schema :: "json \<Rightarrow> bool" where
  "answer_schema = object_of [(''answer'', string_schema), (''verdict'', verdict_schema)]"

definition identity_schema :: "json \<Rightarrow> bool" where
  "identity_schema = object_of [(''tenant_id'', string_schema), (''user_id'', string_schema)]"

text \<open>The status of a problem is that of the status line and of an error class of the program.\<close>

definition problem_schema :: "pystr \<Rightarrow> int \<Rightarrow> json \<Rightarrow> bool" where
  "problem_schema path status j \<longleftrightarrow> (\<exists>c :: app_error_class. status = status_code c
     \<and> object_of [(''type'', \<lambda>v. v = JStr (problem_type c)), (''title'', \<lambda>v. v = JStr (err_title c)),
         (''status'', \<lambda>v. v = JInt status), (''detail'', string_schema), (''instance'', \<lambda>v. v = JStr path)] j)"

fun endpoint_schema :: "endpoint \<Rightarrow> json \<Rightarrow> bool" where
  "endpoint_schema WidgetAnswer = answer_schema"
| "endpoint_schema OwnerMe = identity_schema"

definition well_typed :: "pystr \<Rightarrow> endpoint \<Rightarrow> response \<Rightarrow> bool" where
  "well_typed path e r \<longleftrightarrow>
     resp_status r = 200 \<and> resp_media_type r = lit ''application/json'' \<and> endpoint_schema e (resp_content r)
   \<or> resp_media_type r = lit ''application/problem+json'' \<and> problem_schema path (resp_status r) (resp_content r)"

section \<open>Dumped values conform\<close>

lemma dump_source_typed: "source_schema (dump_source s)"
  by (simp add: source_schema_def object_of_def dump_source_def string_schema_def float_schema_def)

lemma dump_verdict_typed: "verdict_schema (dump_verdict v)"
  by (cases v)
     (auto simp: verdict_schema_def object_of_def literal_schema_def string_schema_def array_of_def
       list_all_iff dump_source_typed)

lemma dump_answer_typed: "answer_schema (dump_answer r)"
  by (simp add: answer_schema_def object_of_def dump_answer_def string_schema_def dump_verdict_typed)

lemma dump_identity_typed: "identity_schema (dump_identity i)"
  by (simp add: identity_schema_def object_of_def dump_identity_def string_schema_def)

lemma app_error_response_typed: "well_typed path e (app_error_response a path)"
  by (auto simp: well_typed_def problem_schema_def object_of_def app_error_response_def problem_response_def
      dump_problem_def string_schema_def Let_def)

lemma inner_app_typed:
  assumes "select request = Some e" and "inner_app core select owner other request s = (Inr resp, s')"
  shows "well_typed (rq_path request) e resp"
proof -
  obtain r t where run: "run_endpoint core owner request e s = (r, t)" by (cases "run_endpoint core owner request e s")
  have ok: "well_typed (rq_path request) e x" if "r = Inr x" for x
    using run that
    by (cases e)
       (auto simp: run_endpoint_def well_typed_def ok_response_def dump_answer_typed dump_identity_typed
         act_bind_lift elim!: act_bind_InrE split: sum.splits)
  show ?thesis
    using assms run ok app_error_response_typed
    by (cases r) (auto simp: inner_app_def handled_def handle_app_error_def split: exc.splits)
qed

lemma middleware_typed:
  assumes "visitor_gate_middleware limit gate request next s = (Inr resp, s')"
    and "\<And>c t r t'. next (request\<lparr>rq_visitor_context := c\<rparr>) t = (Inr r, t') \<Longrightarrow> well_typed (rq_path request) e r"
  shows "well_typed (rq_path request) e resp"
proof (cases "gated request")
  case False
  have "next (request\<lparr>rq_visitor_context := rq_visitor_context request\<rparr>) s = (Inr resp, s')"
    using assms(1) by (simp add: middleware_ungated [OF False])
  then show ?thesis by (rule assms(2))
next
  case g: True
  show ?thesis
    by (cases "declared_too_large (g_max_body_bytes gate) (rq_header request (lit ''content-length''))"
          rule: sum_bool_cases)
       (use assms(1) in \<open>auto simp: middleware_declared_invalid [OF g] middleware_declared_large [OF g]
          middleware_gated [OF g] app_error_response_typed
          intro: assms(2) split: sum.splits prod.splits exc.splits\<close>)
qed

text \<open>C37: the application is typed. A request the router sends to an endpoint is answered, whatever
  gate, owner dependency and store are behind it, either with status 200 and JSON of exactly
  the endpoint's response model, or with a problem document whose type, title and status are
  those of one of the program's error classes, whose status is the one of the status line,
  and whose instance is the path of the request.\<close>

theorem app_responses_well_typed:
  assumes "\<And>c. select (request\<lparr>rq_visitor_context := c\<rparr>) = Some e"
    and "app_handle core limit provided select owner other request s = (Inr resp, s')"
  shows "well_typed (rq_path request) e resp"
proof -
  have inner: "well_typed (rq_path request) e r"
    if "inner_app core select owner other (request\<lparr>rq_visitor_context := c\<rparr>) t = (Inr r, t')" for c t r t'
    using inner_app_typed [OF assms(1) that] by simp
  show ?thesis
  proof (cases "gated request")
    case False
    then show ?thesis
      using assms(2) inner [of "rq_visitor_context request" s] by (simp add: app_handle_ungated)
  next
    case True
    then show ?thesis
      using assms(2) middleware_typed [OF _ inner]
      by (cases provided) (auto simp: app_handle_def gated_def)
  qed
qed

theorem app_responses_well_typed_witness:
  "\<exists>resp. app_handle echo_core 5 (Inr example_gate) path_select example_owner not_found
       (example_request ''/v1/widget/answer'' ''https://evil.com'' hello) 3 = (Inr resp, 3)
     \<and> well_typed (lit ''/v1/widget/answer'') WidgetAnswer resp"
proof -
  let ?r = "example_request ''/v1/widget/answer'' ''https://evil.com'' hello"
  have sel: "path_select (?r\<lparr>rq_visitor_context := c\<rparr>) = Some WidgetAnswer" for c
    by (simp add: path_select_def example_request_def)
  have run: "app_handle echo_core 5 (Inr example_gate) path_select example_owner not_found ?r 3
      = (Inr (app_error_response \<lparr>err_class = TenantAccessError, err_detail = lit ''origin not allowed''\<rparr>
          (lit ''/v1/widget/answer'')), 3)"
    by code_simp
  show ?thesis
    using app_responses_well_typed [OF sel run] run by (simp add: example_request_def)
qed

end
