(* ===== verification/Mcp_Facts.thy ===== *)
theory Mcp_Facts
  imports Mcp_Server
begin

text \<open>
  What the MCP door guarantees: who is admitted and why others are refused, that the
  application runs only for a verified caller and never keeps the caller past the request,
  and whose answer the tool gives. The witnesses use a JWT library with one minted token.
\<close>

section \<open>Admission\<close>

text \<open>C19: with the middleware built from the settings, a request is admitted exactly when its Host
  header names, up to port, case and trailing dots, one of the configured hosts, its Origin,
  if it has one, has the host of one of the configured origins, and its bearer token is
  accepted by the verifier of the configured secret, issuer and audience; the caller is the
  verifier's.\<close>

theorem mcp_admits_iff:
  assumes "mcp_security_of settings = Inr m"
  shows "mcp_admit api m now headers = Inr ctx \<longleftrightarrow>
     (\<exists>h a. dict_get headers (lit ''host'') = Some h \<and> a \<in> set (mcp_allowed_hosts settings)
        \<and> authority_host h = Inr (Some (py_lower a)))
   \<and> (dict_get headers (lit ''origin'') = None
      \<or> (\<exists>v w a. dict_get headers (lit ''origin'') = Some v \<and> w \<in> set (mcp_allowed_origins settings)
           \<and> origin_host v = Inr (Some a) \<and> origin_host w = Inr (Some a)))
   \<and> (\<exists>token. parse_bearer (dict_get headers (lit ''authorization'')) = Inr token
        \<and> mcp_verify api \<lparr>mv_secret = mcp_signing_secret settings, mv_issuer = mcp_token_issuer settings,
             mv_audience = mcp_token_audience settings\<rparr> now token = Inr ctx)"
proof -
  obtain H where H: "mcp_allowed_origin_hosts settings = Inr H" and m: "m = \<lparr>ms_verifier = build_mcp_verifier settings,
      ms_origin_hosts = H, ms_request_hosts = mcp_request_hosts settings\<rparr>"
    using assms by (auto simp: mcp_security_of_Inr_iff)
  show ?thesis
    unfolding mcp_admit_Inr_iff m
    by (auto simp: mcp_request_hosts_def build_mcp_verifier_def mcp_allowed_origin_hosts_mem [OF H]
        split: option.split)
qed

lemma mcp_check_host_Inl:
  "mcp_check_host m host = Inl e \<Longrightarrow>
     e = PyExc ValueError \<and> (\<exists>h. host = Some h \<and> authority_host h = Inl ValueError)
   \<or> e = AppExc \<lparr>err_class = TenantAccessError, err_detail = lit ''host not allowed''\<rparr>"
  by (auto simp: mcp_check_host_def res_simps authority_allowed_Inl_iff split: option.splits if_splits
      dest: authority_host_error)

lemma mcp_check_origin_Inl:
  "mcp_check_origin m origin = Inl e \<Longrightarrow>
     e = PyExc ValueError \<and> (\<exists>v. origin = Some v \<and> origin_host v = Inl ValueError)
   \<or> e = AppExc \<lparr>err_class = TenantAccessError, err_detail = lit ''origin not allowed''\<rparr>"
  by (auto simp: mcp_check_origin_def res_simps host_allowed_Inl_iff split: option.splits if_splits
      dest: origin_host_error)

lemma parse_bearer_Inl: "parse_bearer h = Inl e \<Longrightarrow> \<exists>a. e = AppExc a \<and> err_class a = AuthenticationError"
  using parse_bearer_total [of h] by auto

text \<open>A refusal tells which check failed, in their order. TenantAccessError (403) means the Host
  or the Origin check failed and no token was looked at; AuthenticationError (401) that both
  passed and the token did not; no other AppError occurs. The remaining exceptions are
  ValueErrors of a malformed Host or Origin and what the JWT library raises outside its own
  error class.\<close>

theorem mcp_refusals:
  assumes "mcp_admit api m now headers = Inl e"
  shows "case e of
     AppExc a \<Rightarrow>
       (if err_class a = TenantAccessError
        then (\<forall>u. mcp_check_host m (dict_get headers (lit ''host'')) \<noteq> Inr u)
           \<or> (\<forall>u. mcp_check_origin m (dict_get headers (lit ''origin'')) \<noteq> Inr u)
        else err_class a = AuthenticationError
           \<and> mcp_check_host m (dict_get headers (lit ''host'')) = Inr ()
           \<and> mcp_check_origin m (dict_get headers (lit ''origin'')) = Inr ())
   | PyExc x \<Rightarrow>
       x = ValueError \<and> ((\<exists>h. dict_get headers (lit ''host'') = Some h \<and> authority_host h = Inl ValueError)
          \<or> (\<exists>v. dict_get headers (lit ''origin'') = Some v \<and> origin_host v = Inl ValueError))
     \<or> (\<exists>token. x \<noteq> PyJWTError \<and> jwt_decode api now token (SecretKey (mv_secret (ms_verifier m)))
            (mcp_options (ms_verifier m)) = Inl x)"
proof -
  let ?h = "mcp_check_host m (dict_get headers (lit ''host''))"
  let ?o = "mcp_check_origin m (dict_get headers (lit ''origin''))"
  consider "?h = Inl e" | "?h = Inr ()" "?o = Inl e"
    | "?h = Inr ()" "?o = Inr ()" "parse_bearer (dict_get headers (lit ''authorization'')) = Inl e"
    | token where "?h = Inr ()" "?o = Inr ()"
        "parse_bearer (dict_get headers (lit ''authorization'')) = Inr token"
        "mcp_verify api (ms_verifier m) now token = Inl e"
    using assms by (auto simp: mcp_admit_def bind_res_Inl_iff)
  then show ?thesis
  proof cases
    case 1
    then show ?thesis using mcp_check_host_Inl [OF 1] by auto
  next
    case 2
    then show ?thesis using mcp_check_origin_Inl [OF 2(2)] by auto
  next
    case 3
    then show ?thesis using parse_bearer_Inl [OF 3(3)] by auto
  next
    case (4 token)
    then show ?thesis using mcp_verify_Inl [OF 4(4)] by auto
  qed
qed

section \<open>The application behind the middleware\<close>

lemma middleware_admitted:
  assumes "sc_type scope = lit ''http''" and "decode_headers (sc_headers scope) = Inr headers"
    and "mcp_admit api m now headers = Inr ctx"
  shows "mcp_middleware api m now app scope s =
    (case app scope (s\<lparr>mcp_external_caller := Some ctx\<rparr>) of
       (r, s') \<Rightarrow> (map_sum id AppReply r, s'\<lparr>mcp_external_caller := mcp_external_caller s\<rparr>))"
proof (cases "app scope (s\<lparr>mcp_external_caller := Some ctx\<rparr>)")
  case (Pair r s')
  then show ?thesis
    using assms by (simp add: mcp_middleware_def map_reply_run with_caller_def Let_def act_finally_def)
qed

lemma middleware_refused:
  assumes "sc_type scope = lit ''http''"
    and "\<nexists>headers ctx. decode_headers (sc_headers scope) = Inr headers \<and> mcp_admit api m now headers = Inr ctx"
  shows "\<exists>r. (\<forall>x. r \<noteq> Inr (AppReply x)) \<and> (\<forall>app s. mcp_middleware api m now app scope s = (r, s))"
proof (cases "decode_headers (sc_headers scope)")
  case (Inl e)
  with assms(1) show ?thesis
    by (intro exI [of _ "Inl e"]) (simp add: mcp_middleware_def)
next
  case (Inr headers)
  with assms(2) obtain e where e: "mcp_admit api m now headers = Inl e"
    by (cases "mcp_admit api m now headers") auto
  let ?inst = "case sc_path scope of Some p \<Rightarrow> p | None \<Rightarrow> lit ''/mcp''"
  show ?thesis
  proof (cases e)
    case (AppExc a)
    with assms(1) Inr e show ?thesis
      by (intro exI [of _ "Inr (Problem (app_error_response a ?inst))"]) (simp add: mcp_middleware_def)
  next
    case (PyExc x)
    with assms(1) Inr e show ?thesis
      by (intro exI [of _ "Inl (PyExc x)"]) (simp add: mcp_middleware_def)
  qed
qed

text \<open>For an HTTP request the application runs only for a verified caller. Either the request
  is admitted, and then the application runs once with the context variable set to that
  caller, and the variable has its old value afterwards whether the application returned or
  raised; or it does not run at all and nothing changes.\<close>

theorem mcp_app_runs_for_verified_caller:
  assumes "sc_type scope = lit ''http''"
  shows "(\<exists>headers ctx. decode_headers (sc_headers scope) = Inr headers
        \<and> mcp_admit api m now headers = Inr ctx
        \<and> (\<forall>app s. mcp_middleware api m now app scope s =
             (case app scope (s\<lparr>mcp_external_caller := Some ctx\<rparr>) of
                (r, s') \<Rightarrow> (map_sum id AppReply r, s'\<lparr>mcp_external_caller := mcp_external_caller s\<rparr>))))
   \<or> (\<exists>r. (\<forall>x. r \<noteq> Inr (AppReply x)) \<and> (\<forall>app s. mcp_middleware api m now app scope s = (r, s)))"
proof (cases "\<exists>headers ctx. decode_headers (sc_headers scope) = Inr headers \<and> mcp_admit api m now headers = Inr ctx")
  case True
  then show ?thesis using middleware_admitted [OF assms] by blast
next
  case False
  then show ?thesis using middleware_refused [OF assms False] by blast
qed

lemma mcp_tool_answers:
  assumes "mcp_external_caller s = None"
    and "mcp_middleware api m now (\<lambda>_. mcp_answer_tool core query) scope s = (Inr (AppReply j), s')"
  shows "sc_type scope = lit ''http'' \<and> mcp_external_caller s' = None
     \<and> (\<exists>headers ctx. decode_headers (sc_headers scope) = Inr headers
          \<and> mcp_admit api m now headers = Inr ctx
          \<and> j = dump_answer (core (caller_tenant_id ctx) query))"
proof (cases "sc_type scope = lit ''http''")
  case False
  with assms show ?thesis
    by (simp add: mcp_middleware_def map_reply_run mcp_answer_tool_def raise_app_def)
next
  case http: True
  show ?thesis
  proof (cases "\<exists>headers ctx. decode_headers (sc_headers scope) = Inr headers \<and> mcp_admit api m now headers = Inr ctx")
    case True
    then obtain headers ctx where adm: "decode_headers (sc_headers scope) = Inr headers"
      "mcp_admit api m now headers = Inr ctx" by blast
    have "j = dump_answer (core (caller_tenant_id ctx) query)" and "mcp_external_caller s' = None"
      using assms by (auto simp: middleware_admitted [OF http adm] mcp_answer_tool_def answer_for_external_caller_def)
    with http adm show ?thesis by blast
  next
    case False
    with middleware_refused [OF http False] assms(2) show ?thesis by (metis prod.inject)
  qed
qed

text \<open>C5: whatever kind of connection it comes in on, the tool answers only a verified caller, and
  for that caller's tenant. If the context variable is unset when a connection arrives, an
  answer of the tool means that the connection is an HTTP request that was admitted, that
  the answer is what the core, whatever function of a tenant and a query it is, gives for the
  admitted caller's tenant and the query of the call, and that the variable is unset again.\<close>

theorem mcp_tool_answers_verified_tenant:
  assumes "mcp_external_caller s = None"
    and "mcp_middleware api m now (\<lambda>_. mcp_answer_tool core query) scope s = (Inr (AppReply j), s')"
  shows "sc_type scope = lit ''http'' \<and> mcp_external_caller s' = None
     \<and> (\<exists>headers ctx. decode_headers (sc_headers scope) = Inr headers
          \<and> mcp_admit api m now headers = Inr ctx
          \<and> j = dump_answer (core (caller_tenant_id ctx) query))"
  using assms by (rule mcp_tool_answers)

lemma decode_pairs_error:
  "(k, v) \<in> set hs \<Longrightarrow> utf8_decode False k = None \<or> utf8_decode False v = None \<Longrightarrow>
     decode_pairs hs = Inl (PyExc UnicodeDecodeError)"
proof (induction hs rule: decode_pairs.induct)
  case (2 k' v' rest)
  have "(\<exists>s. py_decode b = Inr s) \<or> py_decode b = Inl (PyExc UnicodeDecodeError)" for b
    by (simp add: py_decode_def split: option.split)
  then show ?case using 2 by (cases "(k, v) = (k', v')") (auto simp: py_decode_def split: option.splits)
qed simp

text \<open>A request with any header that is not UTF-8 is not answered with a problem response: a
  UnicodeDecodeError escapes before the Host check, and the application does not run.\<close>

theorem mcp_undecodable_header_escapes:
  assumes "sc_type scope = lit ''http''" and "(name, val) \<in> set (sc_headers scope)"
    and "utf8_decode False name = None \<or> utf8_decode False val = None"
  shows "mcp_middleware api m now app scope s = (Inl (PyExc UnicodeDecodeError), s)"
  using assms(1) decode_pairs_error [OF assms(2,3)] by (simp add: mcp_middleware_def decode_headers_def)

section \<open>A small JWT library\<close>

definition minted_claims :: pydict where
  "minted_claims = mcp_claims (lit ''honest-agent'') (lit ''honest-agent-mcp'') (lit ''tenant-a'') 3600 1000"

definition hs_decode :: "pyfloat \<Rightarrow> pystr \<Rightarrow> nat jwt_key \<Rightarrow> decode_options \<Rightarrow> py_exc + pydict" where
  "hs_decode now token key opts =
     (if token = lit ''tok'' \<and> key = SecretKey (lit ''s3cret'') \<and> lit ''HS256'' \<in> set (do_algorithms opts)
         \<and> claims_current minted_claims now opts
      then Inr minted_claims else Inl PyJWTError)"

definition hs_jwt :: "nat jwt_api" where
  "hs_jwt =
     \<lparr>unverified_header = (\<lambda>token. Inl PyJWTError),
      jwt_decode = hs_decode,
      jwt_encode = (\<lambda>claims key alg.
        if claims = minted_claims \<and> key = SecretKey (lit ''s3cret'') \<and> alg = lit ''HS256''
        then Inr (lit ''tok'') else Inl PyJWTError),
      jwk_from_dict = (\<lambda>entry. Inl PyJWTError)\<rparr>"

definition hs_signed :: "pystr \<Rightarrow> pystr \<Rightarrow> nat jwt_key \<Rightarrow> pydict \<Rightarrow> bool" where
  "hs_signed token alg key claims \<longleftrightarrow> token = lit ''tok'' \<and> alg = lit ''HS256''
     \<and> key = SecretKey (lit ''s3cret'') \<and> claims = minted_claims"

lemma hs_decode_sound: "decode_sound hs_jwt hs_signed"
  by (auto simp: decode_sound_def hs_jwt_def hs_decode_def hs_signed_def claims_current_def split: if_splits)

lemma hs_decode_complete: "decode_complete hs_jwt"
  by (auto simp: decode_complete_def hs_jwt_def hs_decode_def split: if_splits)

definition demo_verifier :: mcp_verifier where
  "demo_verifier = \<lparr>mv_secret = lit ''s3cret'', mv_issuer = lit ''honest-agent'', mv_audience = lit ''honest-agent-mcp''\<rparr>"

lemma demo_mint:
  "mint_mcp_token hs_jwt 1000 (mv_secret demo_verifier) (mv_issuer demo_verifier) (mv_audience demo_verifier)
     (lit ''tenant-a'') 3600 = Inr (lit ''tok'')"
  by (simp add: mint_mcp_token_def hs_jwt_def minted_claims_def demo_verifier_def py_trunc_def MCP_ALGORITHM_def)

theorem mint_verify_roundtrip_witness:
  "mcp_verify hs_jwt demo_verifier (FFin 2000) (lit ''tok'') = Inr \<lparr>caller_tenant_id = lit ''tenant-a''\<rparr>"
  by (rule mint_verify_roundtrip [OF hs_decode_complete demo_mint])
     (simp_all add: lit_def py_trunc_def)

lemma demo_verify:
  "mcp_verify hs_jwt demo_verifier (FFin 2000) (lit ''tok'') = Inr \<lparr>caller_tenant_id = lit ''tenant-a''\<rparr>"
  by code_simp


section \<open>Instances\<close>

definition demo_env :: environment where
  "demo_env = \<lparr>env_fault = None, env_str = (\<lambda>name. if name = lit ''mcp_signing_secret'' then Given (lit ''s3cret'')
       else if name \<in> {lit ''database_url'', lit ''app_database_url'', lit ''weaviate_url'',
           lit ''supabase_jwt_issuer'', lit ''supabase_jwks_url''} then Given (lit ''x'') else Unset),
     env_int = (\<lambda>name. Unset),
     env_strs = (\<lambda>name. if name = lit ''mcp_allowed_origins'' then Given [lit ''https://claude.ai''] else Unset)\<rparr>"

definition demo_settings :: settings where
  "demo_settings = (case load_settings demo_env of Inr s \<Rightarrow> s | Inl e \<Rightarrow> undefined)"

definition demo_security :: mcp_security where
  "demo_security = \<lparr>ms_verifier = demo_verifier, ms_origin_hosts = {lit ''claude.ai''},
     ms_request_hosts = {lit ''127.0.0.1'', lit ''localhost''}\<rparr>"

definition demo_scope :: "string \<Rightarrow> string \<Rightarrow> asgi_scope" where
  "demo_scope host token =
     \<lparr>sc_type = lit ''http'',
      sc_headers = [(lit ''Host'', lit host), (lit ''Origin'', lit ''https://claude.ai''),
        (lit ''Authorization'', lit (''Bearer '' @ token))],
      sc_path = None\<rparr>"

definition demo_headers :: "string \<Rightarrow> string \<Rightarrow> (pystr, pystr) dict" where
  "demo_headers host token =
     [(lit ''host'', lit host), (lit ''origin'', lit ''https://claude.ai''),
      (lit ''authorization'', lit (''Bearer '' @ token))]"

lemma demo_security_of: "mcp_security_of demo_settings = Inr demo_security"
proof -
  have "mcp_signing_secret demo_settings = lit ''s3cret''"
    and "mcp_allowed_origins demo_settings = [lit ''https://claude.ai'']"
    and "mcp_token_issuer demo_settings = lit ''honest-agent''"
    and "mcp_token_audience demo_settings = lit ''honest-agent-mcp''"
    and "mcp_allowed_hosts demo_settings = [lit ''127.0.0.1'', lit ''localhost'']"
    by (simp_all add: demo_settings_def load_settings_def validate_settings_def demo_env_def required_field_def or_none_def inj_lit with_default_def)
  moreover have "origin_host (lit ''https://claude.ai'') = Inr (Some (lit ''claude.ai''))" by code_simp
  moreover have "py_lower (lit ''127.0.0.1'') = lit ''127.0.0.1''" "py_lower (lit ''localhost'') = lit ''localhost''"
    by code_simp+
  ultimately show ?thesis
    by (auto simp: mcp_security_of_def mcp_allowed_origin_hosts_def mcp_request_hosts_def build_mcp_verifier_def
        demo_security_def demo_verifier_def)
qed

lemma demo_admit:
  "mcp_admit hs_jwt demo_security (FFin 2000) (demo_headers ''LocalHost:8000'' ''tok'')
   = Inr \<lparr>caller_tenant_id = lit ''tenant-a''\<rparr>"
  by code_simp

lemma demo_decode: "decode_headers (sc_headers (demo_scope ''LocalHost:8000'' ''tok''))
    = Inr (demo_headers ''LocalHost:8000'' ''tok'')"
  by code_simp

theorem mcp_admits_iff_witness:
  "\<exists>a. a \<in> set (mcp_allowed_hosts demo_settings)
     \<and> authority_host (lit ''LocalHost:8000'') = Inr (Some (py_lower a))"
  using mcp_admits_iff [OF demo_security_of, of hs_jwt "FFin 2000" "demo_headers ''LocalHost:8000'' ''tok''"
      "\<lparr>caller_tenant_id = lit ''tenant-a''\<rparr>"] demo_admit
  by (auto simp: demo_headers_def inj_lit)

theorem mcp_refusals_witness:
  "\<exists>a. mcp_admit hs_jwt demo_security (FFin 2000) (demo_headers ''evil.com'' ''tok'') = Inl (AppExc a)
     \<and> (\<forall>u. mcp_check_host demo_security (Some (lit ''evil.com'')) \<noteq> Inr u)"
proof -
  have run: "mcp_admit hs_jwt demo_security (FFin 2000) (demo_headers ''evil.com'' ''tok'')
      = Inl (AppExc \<lparr>err_class = TenantAccessError, err_detail = lit ''host not allowed''\<rparr>)" by code_simp
  have "mcp_check_origin demo_security (Some (lit ''https://claude.ai'')) = Inr ()" by code_simp
  then show ?thesis
    using mcp_refusals [OF run] run by (auto simp: demo_headers_def inj_lit)
qed

theorem mcp_app_runs_for_verified_caller_witness:
  "mcp_middleware hs_jwt demo_security (FFin 2000) (\<lambda>_ s. (Inr (mcp_external_caller s), s))
     (demo_scope ''LocalHost:8000'' ''tok'') \<lparr>mcp_external_caller = None, mcp_world = (0 :: nat)\<rparr>
   = (Inr (AppReply (Some \<lparr>caller_tenant_id = lit ''tenant-a''\<rparr>)), \<lparr>mcp_external_caller = None, mcp_world = 0\<rparr>)"
proof -
  have http: "sc_type (demo_scope ''LocalHost:8000'' ''tok'') = lit ''http''" by (simp add: demo_scope_def)
  have "mcp_middleware hs_jwt demo_security (FFin 2000) (\<lambda>_ s. (Inr (), s)) (demo_scope ''LocalHost:8000'' ''tok'')
      \<lparr>mcp_external_caller = None, mcp_world = (0 :: nat)\<rparr> = (Inr (AppReply ()), \<lparr>mcp_external_caller = None, mcp_world = 0\<rparr>)"
    by (simp add: middleware_admitted [OF http demo_decode demo_admit])
  show ?thesis
    using mcp_app_runs_for_verified_caller [OF http, where api = hs_jwt and m = demo_security and now = "FFin 2000"]
      demo_decode demo_admit
    by (auto simp: middleware_admitted [OF http demo_decode demo_admit])
qed

theorem mcp_tool_answers_verified_tenant_witness:
  "\<exists>j. mcp_middleware hs_jwt demo_security (FFin 2000) (\<lambda>_. mcp_answer_tool echo_core (lit ''hi''))
       (demo_scope ''LocalHost:8000'' ''tok'') \<lparr>mcp_external_caller = None, mcp_world = ()\<rparr>
     = (Inr (AppReply j), \<lparr>mcp_external_caller = None, mcp_world = ()\<rparr>)
   \<and> j = dump_answer (echo_core (lit ''tenant-a'') (lit ''hi''))"
proof -
  have http: "sc_type (demo_scope ''LocalHost:8000'' ''tok'') = lit ''http''" by (simp add: demo_scope_def)
  obtain j where run: "mcp_middleware hs_jwt demo_security (FFin 2000) (\<lambda>_. mcp_answer_tool echo_core (lit ''hi''))
       (demo_scope ''LocalHost:8000'' ''tok'') \<lparr>mcp_external_caller = None, mcp_world = ()\<rparr>
     = (Inr (AppReply j), \<lparr>mcp_external_caller = None, mcp_world = ()\<rparr>)"
    by (simp add: middleware_admitted [OF http demo_decode demo_admit] mcp_answer_tool_def)
  then show ?thesis
    using mcp_tool_answers_verified_tenant [OF _ run] demo_decode demo_admit by auto
qed

theorem mcp_undecodable_header_escapes_witness:
  "mcp_middleware hs_jwt demo_security (FFin 2000) (\<lambda>_. mcp_answer_tool echo_core (lit ''hi''))
     \<lparr>sc_type = lit ''http'', sc_headers = [(lit ''x-note'', [255])], sc_path = None\<rparr>
     \<lparr>mcp_external_caller = None, mcp_world = ()\<rparr>
   = (Inl (PyExc UnicodeDecodeError), \<lparr>mcp_external_caller = None, mcp_world = ()\<rparr>)"
  by (rule mcp_undecodable_header_escapes [where name = "lit ''x-note''" and val = "[255]"]) simp_all

end
