(* ===== verification/Mcp_Tasks.thy ===== *)
theory Mcp_Tasks
  imports Mcp_Facts
begin

text \<open>
  MCP requests are served at the same time. Each runs in a task with a context of its own, and
  the MCP library may run the tool in a task it spawns, which starts with a copy of the
  spawning task's context and may outlive the request. This theory models
  \<open>McpSecurityMiddleware.__call__\<close> and the tool of \<open>mcp/server.py\<close> as steps of such tasks; the
  value of \<open>_external_caller\<close> belongs to each task's context.
\<close>

section \<open>The steps\<close>

text \<open>A request as the middleware sees it, and the time it is verified at.\<close>

record mcp_request =
  mr_headers :: "(pystr, pystr) dict"
  mr_now :: pyfloat

text \<open>A request task is past its headers, inside the \<open>try\<close> block around the application (with the
  value to reset to), or done. A tool task belongs to the request it was spawned for, or to
  none when the server itself spawned it.\<close>

datatype mcp_point =
    Unused
  | Arrived mcp_request
  | Serving mcp_request "caller_ctx option"
  | Done
  | Tool_ready "mcp_request option" pystr
  | Tool_result "mcp_request option" pystr "exc + json"

record mcp_tasks =
  mt_point :: "nat \<Rightarrow> mcp_point"
  mt_caller :: "nat \<Rightarrow> caller_ctx option"

definition become :: "nat \<Rightarrow> mcp_point \<Rightarrow> caller_ctx option \<Rightarrow> mcp_tasks \<Rightarrow> mcp_tasks" where
  "become i p v k = \<lparr>mt_point = (mt_point k)(i := p), mt_caller = (mt_caller k)(i := v)\<rparr>"

definition run_tool :: "answering_core \<Rightarrow> pystr \<Rightarrow> caller_ctx option \<Rightarrow> exc + json" where
  "run_tool core query v = fst (mcp_answer_tool core query \<lparr>mcp_external_caller = v, mcp_world = ()\<rparr>)"

inductive mcp_step :: "answering_core \<Rightarrow> 'k jwt_api \<Rightarrow> mcp_security \<Rightarrow> mcp_tasks \<Rightarrow> mcp_tasks \<Rightarrow> bool" for core api m where
  arrive: "mt_point k i = Unused \<Longrightarrow> mcp_step core api m k (become i (Arrived r) None k)"
| admit: "mt_point k i = Arrived r \<Longrightarrow> mcp_admit api m (mr_now r) (mr_headers r) = Inr c
    \<Longrightarrow> mcp_step core api m k (become i (Serving r (mt_caller k i)) (Some c) k)"
| refuse: "mt_point k i = Arrived r \<Longrightarrow> mcp_admit api m (mr_now r) (mr_headers r) = Inl e
    \<Longrightarrow> mcp_step core api m k (become i Done (mt_caller k i) k)"
| leave: "mt_point k i = Serving r old \<Longrightarrow> mcp_step core api m k (become i Done old k)"
| spawn_tool: "mt_point k i = Serving r old \<Longrightarrow> mt_point k j = Unused
    \<Longrightarrow> mcp_step core api m k (become j (Tool_ready (Some r) query) (mt_caller k i) k)"
| stray_tool: "mt_point k j = Unused \<Longrightarrow> mcp_step core api m k (become j (Tool_ready None query) None k)"
| tool: "mt_point k j = Tool_ready r query
    \<Longrightarrow> mcp_step core api m k (become j (Tool_result r query (run_tool core query (mt_caller k j))) (mt_caller k j) k)"

inductive mcp_reach :: "answering_core \<Rightarrow> 'k jwt_api \<Rightarrow> mcp_security \<Rightarrow> mcp_tasks \<Rightarrow> bool" for core api m where
  init: "mcp_reach core api m \<lparr>mt_point = (\<lambda>_. Unused), mt_caller = (\<lambda>_. None)\<rparr>"
| step: "mcp_reach core api m k \<Longrightarrow> mcp_step core api m k l \<Longrightarrow> mcp_reach core api m l"

section \<open>The invariant\<close>

definition admitted :: "'k jwt_api \<Rightarrow> mcp_security \<Rightarrow> mcp_request \<Rightarrow> caller_ctx \<Rightarrow> bool" where
  "admitted api m r c \<longleftrightarrow> mcp_admit api m (mr_now r) (mr_headers r) = Inr c"

text \<open>What a task's context may hold at its point, and what a finished tool has answered.\<close>

fun task_ok :: "answering_core \<Rightarrow> 'k jwt_api \<Rightarrow> mcp_security \<Rightarrow> mcp_point \<Rightarrow> caller_ctx option \<Rightarrow> bool" where
  "task_ok core api m (Serving r old) v = (old = None \<and> (\<exists>c. admitted api m r c \<and> v = Some c))"
| "task_ok core api m (Tool_ready (Some r) q) v = (\<exists>c. admitted api m r c \<and> v = Some c)"
| "task_ok core api m (Tool_result (Some r) q res) v =
     (\<exists>c. admitted api m r c \<and> v = Some c \<and> res = Inr (dump_answer (core (caller_tenant_id c) q)))"
| "task_ok core api m (Tool_result None q res) v =
     (v = None \<and> res = raise_app AuthenticationError ''mcp caller was not verified'')"
| "task_ok core api m _ v = (v = None)"

lemma run_tool_simps:
  "run_tool core q None = raise_app AuthenticationError ''mcp caller was not verified''"
  "run_tool core q (Some c) = Inr (dump_answer (core (caller_tenant_id c) q))"
  by (simp_all add: run_tool_def mcp_answer_tool_def answer_for_external_caller_def)

lemma become_ok:
  "\<forall>i. task_ok core api m (mt_point k i) (mt_caller k i) \<Longrightarrow> task_ok core api m p v
     \<Longrightarrow> task_ok core api m (mt_point (become j p v k) i) (mt_caller (become j p v k) i)"
  by (simp add: become_def)

lemma mcp_step_ok:
  assumes "mcp_step core api m k l" and ok: "\<forall>i. task_ok core api m (mt_point k i) (mt_caller k i)"
  shows "\<forall>i. task_ok core api m (mt_point l i) (mt_caller l i)"
  using assms(1)
proof (cases rule: mcp_step.cases)
  case (admit i r c)
  then have "mt_caller k i = None" using ok by (metis task_ok.simps(6))
  with admit show ?thesis by (auto intro!: become_ok [OF ok] simp: admitted_def)
next
  case (refuse i r e)
  then have "mt_caller k i = None" using ok by (metis task_ok.simps(6))
  with refuse show ?thesis by (auto intro!: become_ok [OF ok])
next
  case (leave i r old)
  then have "old = None" using ok by (metis task_ok.simps(1))
  with leave show ?thesis by (auto intro!: become_ok [OF ok])
next
  case (spawn_tool i r old j q)
  then have "\<exists>c. admitted api m r c \<and> mt_caller k i = Some c" using ok by (metis task_ok.simps(1))
  with spawn_tool show ?thesis by (auto intro!: become_ok [OF ok])
next
  case (tool j r q)
  then have at: "task_ok core api m (Tool_ready r q) (mt_caller k j)" using ok by metis
  have "task_ok core api m (Tool_result r q (run_tool core q (mt_caller k j))) (mt_caller k j)"
    using at by (cases r) (auto simp: run_tool_simps)
  with tool show ?thesis by (auto intro!: become_ok [OF ok])
qed (auto intro!: become_ok [OF ok])

lemma mcp_reach_ok: "mcp_reach core api m k \<Longrightarrow> \<forall>i. task_ok core api m (mt_point k i) (mt_caller k i)"
proof (induction rule: mcp_reach.induct)
  case (step k l)
  show ?case by (rule mcp_step_ok [OF step.hyps(2) step.IH])
qed simp

text \<open>C13: concurrent MCP requests never see each other's caller. However requests arrive, are
  verified, spawn tool tasks and end in between, a tool task that belongs to a request
  answers with what the core, whatever it is, gives for the tenant that very request was
  verified for and the query of the call, also when it runs after the request has ended; a
  tool task that belongs to no request is refused; and a request task that has ended, or was
  refused, is left without a caller.\<close>

theorem concurrent_tools_answer_own_tenant:
  assumes "mcp_reach core api m k"
  shows "(mt_point k j = Tool_result (Some r) query res \<longrightarrow>
            (\<exists>c. mcp_admit api m (mr_now r) (mr_headers r) = Inr c
               \<and> res = Inr (dump_answer (core (caller_tenant_id c) query))))
     \<and> (mt_point k j = Tool_result None query res \<longrightarrow>
            res = raise_app AuthenticationError ''mcp caller was not verified'')
     \<and> (mt_point k j \<in> {Arrived r, Done} \<longrightarrow> mt_caller k j = None)"
proof -
  have at: "task_ok core api m (mt_point k j) (mt_caller k j)" using mcp_reach_ok [OF assms] by blast
  then show ?thesis by (auto simp: admitted_def)
qed

section \<open>A run\<close>

text \<open>A request is admitted and spawns a tool task, a second request arrives and is refused, the
  first ends, and only then its tool runs; another tool task is nobody's.\<close>

definition demo_request :: mcp_request where
  "demo_request = \<lparr>mr_headers = demo_headers ''LocalHost:8000'' ''tok'', mr_now = FFin 2000\<rparr>"

definition bad_request :: mcp_request where
  "bad_request = \<lparr>mr_headers = demo_headers ''evil.com'' ''tok'', mr_now = FFin 2000\<rparr>"

lemma bad_request_refused: "\<exists>e. mcp_admit hs_jwt demo_security (mr_now bad_request) (mr_headers bad_request) = Inl e"
proof -
  have "(case mcp_admit hs_jwt demo_security (FFin 2000) (demo_headers ''evil.com'' ''tok'') of Inl e \<Rightarrow> True | Inr c \<Rightarrow> False)"
    by code_simp
  then show ?thesis by (auto simp: bad_request_def split: sum.splits)
qed

theorem concurrent_tools_answer_own_tenant_witness:
  "\<exists>k res. mcp_reach echo_core hs_jwt demo_security k \<and> mt_point k 0 = Done \<and> mt_point k 5 = Done
     \<and> mt_point k 1 = Tool_result (Some demo_request) (lit ''hi'') res
     \<and> res = Inr (dump_answer (echo_core (lit ''tenant-a'') (lit ''hi'')))"
proof -
  let ?step = "mcp_step echo_core hs_jwt demo_security" and ?reach = "mcp_reach echo_core hs_jwt demo_security"
  let ?a = "\<lparr>caller_tenant_id = lit ''tenant-a''\<rparr>" and ?q = "lit ''hi''"
  define k0 where "k0 = \<lparr>mt_point = (\<lambda>_. Unused), mt_caller = (\<lambda>_. None)\<rparr>"
  define k1 where "k1 = become 0 (Arrived demo_request) None k0"
  define k2 where "k2 = become 5 (Arrived bad_request) None k1"
  define k3 where "k3 = become 0 (Serving demo_request None) (Some ?a) k2"
  define k4 where "k4 = become 1 (Tool_ready (Some demo_request) ?q) (Some ?a) k3"
  define k5 where "k5 = become 5 Done None k4"
  define k6 where "k6 = become 0 Done None k5"
  define k7 where "k7 = become 1 (Tool_result (Some demo_request) ?q (run_tool echo_core ?q (Some ?a))) (Some ?a) k6"
  note defs = k7_def k6_def k5_def k4_def k3_def k2_def k1_def k0_def become_def
  have adm: "mcp_admit hs_jwt demo_security (mr_now demo_request) (mr_headers demo_request) = Inr ?a"
    using demo_admit by (simp add: demo_request_def)
  obtain e where ref: "mcp_admit hs_jwt demo_security (mr_now bad_request) (mr_headers bad_request) = Inl e"
    using bad_request_refused by blast
  have s0: "?reach k0" unfolding k0_def by (rule mcp_reach.init)
  have s1: "?step k0 k1" unfolding k1_def by (rule mcp_step.arrive) (simp add: k0_def)
  have s2: "?step k1 k2" unfolding k2_def by (rule mcp_step.arrive) (simp add: k1_def k0_def become_def)
  have s3: "?step k2 k3"
    using mcp_step.admit [where k = k2 and i = 0, OF _ adm] by (simp add: k3_def) (simp add: defs)
  have s4: "?step k3 k4"
    using mcp_step.spawn_tool [where k = k3 and i = 0 and j = 1 and r = demo_request and old = None and query = ?q]
    by (simp add: k4_def) (simp add: defs)
  have s5: "?step k4 k5"
    using mcp_step.refuse [where k = k4 and i = 5, OF _ ref] by (simp add: k5_def) (simp add: defs)
  have s6: "?step k5 k6"
    using mcp_step.leave [where k = k5 and i = 0 and r = demo_request and old = None] by (simp add: k6_def) (simp add: defs)
  have s7: "?step k6 k7"
    using mcp_step.tool [where k = k6 and j = 1 and r = "Some demo_request" and query = ?q]
    by (simp add: k7_def) (simp add: defs)
  have reach: "?reach k7"
    by (rule mcp_reach.step [OF mcp_reach.step [OF mcp_reach.step [OF mcp_reach.step [OF mcp_reach.step
        [OF mcp_reach.step [OF mcp_reach.step [OF s0 s1] s2] s3] s4] s5] s6] s7])
  have pts: "mt_point k7 1 = Tool_result (Some demo_request) ?q (run_tool echo_core ?q (Some ?a))"
    "mt_point k7 0 = Done" "mt_point k7 5 = Done" by (simp_all add: defs)
  have "\<exists>c. mcp_admit hs_jwt demo_security (mr_now demo_request) (mr_headers demo_request) = Inr c
      \<and> run_tool echo_core ?q (Some ?a) = Inr (dump_answer (echo_core (caller_tenant_id c) ?q))"
    using concurrent_tools_answer_own_tenant [OF reach, of 1] pts(1) by blast
  then have "run_tool echo_core ?q (Some ?a) = Inr (dump_answer (echo_core (lit ''tenant-a'') ?q))" using adm by auto
  then show ?thesis using reach pts by blast
qed

end
