(* ===== verification/Seed.thy ===== *)
theory Seed
  imports App_Facts
begin

text \<open>
  \<open>backend/scripts/seed_local.py\<close>: the demo widget keys and their upsert, the owner users
  and the administration calls that make or update each, and what the gate answers on a
  seeded table. The database driver and the HTTP client are parameters.
\<close>

section \<open>The demo data\<close>

definition WIDGET_KEYS :: "(pystr \<times> pystr \<times> pystr list) list" where
  "WIDGET_KEYS =
     [(lit ''wk_tenant_a_public'', lit ''tenant-a'', [lit ''tenant-a.example.com'', lit ''localhost'']),
      (lit ''wk_tenant_b_public'', lit ''tenant-b'', [lit ''tenant-b.example.com'', lit ''localhost''])]"

definition OWNER_USERS :: "(pystr \<times> pystr) list" where
  "OWNER_USERS = [(lit ''owner-a@example.com'', lit ''tenant-a''), (lit ''owner-b@example.com'', lit ''tenant-b'')]"

definition OWNER_PASSWORD :: pystr where
  "OWNER_PASSWORD = lit ''owner-password-123''"

section \<open>Seeding the keys\<close>

text \<open>The table as a map from keys to rows, and the upsert statement on it.\<close>

type_synonym key_table = "(pystr, key_row) dict"

definition upsert_key :: "pystr \<Rightarrow> pystr \<Rightarrow> pystr list \<Rightarrow> key_table \<Rightarrow> key_table" where
  "upsert_key key tenant_id hosts table =
     dict_set table key \<lparr>row_tenant_id = tenant_id, row_allowed_hosts = hosts\<rparr>"

record ('c, 's) seed_api =
  sd_create_pool :: "pool_config \<Rightarrow> ('s, exc, unit) action"
  sd_acquire :: "('s, exc, 'c) action"
  sd_release :: "'c \<Rightarrow> ('s, exc, unit) action"
  sd_close :: "('s, exc, unit) action"
  sd_create_table :: "'c \<Rightarrow> ('s, exc, unit) action"
  sd_upsert :: "'c \<Rightarrow> pystr \<Rightarrow> pystr \<Rightarrow> pystr list \<Rightarrow> ('s, exc, unit) action"

fun upsert_each ::
  "('c, 's) seed_api \<Rightarrow> 'c \<Rightarrow> (pystr \<times> pystr \<times> pystr list) list \<Rightarrow> ('s, exc, unit) action" where
  "upsert_each api c [] = act_return ()"
| "upsert_each api c ((key, tenant_id, hosts) # rest) =
     act_bind (sd_upsert api c key tenant_id hosts) (\<lambda>_. upsert_each api c rest)"

definition seed_widget_keys :: "('c, 's) seed_api \<Rightarrow> settings \<Rightarrow> ('s, exc, unit) action" where
  "seed_widget_keys api settings =
     act_bind (sd_create_pool api \<lparr>pc_dsn = database_url settings, pc_min_size = 1, pc_max_size = 2\<rparr>) (\<lambda>_.
       act_finally
         (act_bind (sd_acquire api) (\<lambda>c.
            act_finally
              (act_bind (sd_create_table api c) (\<lambda>_. upsert_each api c WIDGET_KEYS))
              (sd_release api c)))
         (sd_close api))"

section \<open>The owner users\<close>

record admin_response =
  ar_status_code :: int
  ar_raise_for_status :: "exc + unit"
  ar_json :: "exc + json"

record 'w admin_http =
  ah_post :: "pystr \<Rightarrow> json \<Rightarrow> ('w, exc, admin_response) action"
  ah_get :: "pystr \<Rightarrow> (pystr \<times> int) list \<Rightarrow> ('w, exc, admin_response) action"
  ah_put :: "pystr \<Rightarrow> json \<Rightarrow> ('w, exc, admin_response) action"

definition attribute_error :: exc where
  "attribute_error = PyExc (OtherExc (lit ''AttributeError''))"

text \<open>Iterating over a JSON value, and \<open>json().get("users", [])\<close>.\<close>

definition py_items :: "json \<Rightarrow> exc + json list" where
  "py_items j = (case j of
       JArr xs \<Rightarrow> Inr xs
     | JObj d \<Rightarrow> Inr (map (JStr \<circ> fst) d)
     | JStr s \<Rightarrow> Inr (map (\<lambda>c. JStr [c]) s)
     | _ \<Rightarrow> Inl (PyExc (OtherExc (lit ''TypeError''))))"

definition listed_users :: "json \<Rightarrow> exc + json list" where
  "listed_users j = (case j of
       JObj d \<Rightarrow> (case dict_get d (lit ''users'') of Some u \<Rightarrow> py_items u | None \<Rightarrow> Inr [])
     | _ \<Rightarrow> Inl attribute_error)"

fun find_user :: "pystr \<Rightarrow> json list \<Rightarrow> exc + pydict option" where
  "find_user email [] = Inr None"
| "find_user email (user # users) = (case user of
     JObj d \<Rightarrow> if dict_get d (lit ''email'') = Some (JStr email) then Inr (Some d) else find_user email users
   | _ \<Rightarrow> Inl attribute_error)"

text \<open>\<open>f"{admin_url}/{match['id']}"\<close>, with \<open>fmt\<close> the formatting of a JSON value.\<close>

definition user_url :: "(json \<Rightarrow> pystr) \<Rightarrow> pystr \<Rightarrow> pydict \<Rightarrow> exc + pystr" where
  "user_url fmt admin_url d = (case dict_get d (lit ''id'') of
       Some i \<Rightarrow> Inr (admin_url @ lit ''/'' @ fmt i)
     | None \<Rightarrow> Inl (PyExc (OtherExc (lit ''KeyError''))))"

definition tenant_metadata :: "pystr \<Rightarrow> json" where
  "tenant_metadata tenant_id = JObj [(lit ''tenant_id'', JStr tenant_id)]"

definition ensure_one_user ::
  "'w admin_http \<Rightarrow> (json \<Rightarrow> pystr) \<Rightarrow> pystr \<Rightarrow> pystr \<Rightarrow> pystr \<Rightarrow> ('w, exc, unit) action" where
  "ensure_one_user http fmt admin_url email tenant_id =
     act_bind (ah_post http admin_url (JObj
         [(lit ''email'', JStr email), (lit ''password'', JStr OWNER_PASSWORD),
          (lit ''email_confirm'', JBool True), (lit ''app_metadata'', tenant_metadata tenant_id)])) (\<lambda>created.
       if ar_status_code created \<in> {200, 201} then act_return ()
       else
         act_bind (ah_get http admin_url [(lit ''page'', 1), (lit ''per_page'', 200)]) (\<lambda>listing.
         act_bind (act_lift (bind_res (ar_raise_for_status listing) (\<lambda>_.
             bind_res (ar_json listing) (\<lambda>j. bind_res (listed_users j) (find_user email))))) (\<lambda>found.
           case found of
             None \<Rightarrow> act_lift (ar_raise_for_status created)
           | Some d \<Rightarrow>
               act_bind (act_lift (user_url fmt admin_url d)) (\<lambda>url.
               act_bind (ah_put http url (JObj
                   [(lit ''app_metadata'', tenant_metadata tenant_id), (lit ''password'', JStr OWNER_PASSWORD),
                    (lit ''email_confirm'', JBool True)])) (\<lambda>updated.
                 act_lift (ar_raise_for_status updated))))))"

fun ensure_each ::
  "'w admin_http \<Rightarrow> (json \<Rightarrow> pystr) \<Rightarrow> pystr \<Rightarrow> (pystr \<times> pystr) list \<Rightarrow> ('w, exc, unit) action" where
  "ensure_each http fmt admin_url [] = act_return ()"
| "ensure_each http fmt admin_url ((email, tenant_id) # rest) =
     act_bind (ensure_one_user http fmt admin_url email tenant_id) (\<lambda>_. ensure_each http fmt admin_url rest)"

text \<open>The headers every call of the client carries, with the service-role key of the settings.\<close>

definition admin_headers :: "pystr \<Rightarrow> (pystr \<times> pystr) list" where
  "admin_headers key = [(lit ''apikey'', key), (lit ''Authorization'', lit ''Bearer '' @ key),
     (lit ''Content-Type'', lit ''application/json'')]"

definition ensure_owner_users ::
  "((pystr \<times> pystr) list \<Rightarrow> 'w admin_http) \<Rightarrow> (json \<Rightarrow> pystr) \<Rightarrow> settings \<Rightarrow> ('w, exc, unit) action" where
  "ensure_owner_users client fmt settings =
     (case supabase_url settings of
        None \<Rightarrow> act_raise (PyExc RuntimeError)
      | Some url \<Rightarrow>
          (case supabase_service_role_key settings of
             None \<Rightarrow> act_raise (PyExc RuntimeError)
           | Some key \<Rightarrow> ensure_each (client (admin_headers key)) fmt (url @ lit ''/auth/v1/admin/users'') OWNER_USERS))"

definition DEMO_TENANTS :: "pystr list" where
  "DEMO_TENANTS = [lit ''tenant-a'', lit ''tenant-b'']"

definition seed_main ::
  "('s, exc, settings) action \<Rightarrow> ('c, 's) seed_api \<Rightarrow> ((pystr \<times> pystr) list \<Rightarrow> 's admin_http) \<Rightarrow> (json \<Rightarrow> pystr)
     \<Rightarrow> ('s, exc, unit) action" where
  "seed_main load api client fmt =
     act_bind load (\<lambda>settings.
     act_bind (seed_widget_keys api settings) (\<lambda>_. ensure_owner_users client fmt settings))"

text \<open>The demo data speaks of the demo tenants only, each of which has one key and one owner.\<close>

lemma demo_tenants: "map (fst \<circ> snd) WIDGET_KEYS = DEMO_TENANTS" "map snd OWNER_USERS = DEMO_TENANTS"
  by (simp_all add: DEMO_TENANTS_def WIDGET_KEYS_def OWNER_USERS_def)

section \<open>Seeding is an upsert of the demo rows\<close>

definition seeded :: "key_table \<Rightarrow> key_table" where
  "seeded table = foldl (\<lambda>t (key, tenant_id, hosts). upsert_key key tenant_id hosts t) table WIDGET_KEYS"

lemma seeded_get:
  "dict_get (seeded table) k =
     (if k = lit ''wk_tenant_b_public'' then Some \<lparr>row_tenant_id = lit ''tenant-b'',
          row_allowed_hosts = [lit ''tenant-b.example.com'', lit ''localhost'']\<rparr>
      else if k = lit ''wk_tenant_a_public'' then Some \<lparr>row_tenant_id = lit ''tenant-a'',
          row_allowed_hosts = [lit ''tenant-a.example.com'', lit ''localhost'']\<rparr>
      else dict_get table k)"
  by (simp add: seeded_def WIDGET_KEYS_def upsert_key_def)

lemma dict_set_same: "dict_get d k = Some v \<Longrightarrow> dict_set d k v = d"
  by (induction d k v rule: dict_set.induct) (auto split: if_splits)

lemma seeded_idem: "seeded (seeded table) = seeded table"
proof -
  have "upsert_key k t h (seeded table) = seeded table" if "(k, t, h) \<in> set WIDGET_KEYS" for k t h
    unfolding upsert_key_def using that by (intro dict_set_same) (auto simp: seeded_get WIDGET_KEYS_def inj_lit)
  then show ?thesis
    by (simp add: seeded_def [of "seeded table"] WIDGET_KEYS_def)
qed

text \<open>What the driver promises about the table a state holds: only the upsert changes it, and as
  the statement says.\<close>

definition keeps_table :: "('s \<Rightarrow> key_table) \<Rightarrow> ('s, exc, 'a) action \<Rightarrow> bool" where
  "keeps_table tbl m \<longleftrightarrow> (\<forall>s r s'. m s = (r, s') \<longrightarrow> tbl s' = tbl s)"

definition seed_laws :: "('c, 's) seed_api \<Rightarrow> ('s \<Rightarrow> key_table) \<Rightarrow> bool" where
  "seed_laws api tbl \<longleftrightarrow>
     (\<forall>cfg. keeps_table tbl (sd_create_pool api cfg)) \<and> keeps_table tbl (sd_acquire api)
   \<and> (\<forall>c. keeps_table tbl (sd_release api c)) \<and> keeps_table tbl (sd_close api)
   \<and> (\<forall>c. keeps_table tbl (sd_create_table api c))
   \<and> (\<forall>c k t h s u s'. sd_upsert api c k t h s = (Inr u, s') \<longrightarrow> tbl s' = upsert_key k t h (tbl s))"

lemma keeps_tableD: "keeps_table tbl m \<Longrightarrow> m s = (r, s') \<Longrightarrow> tbl s' = tbl s"
  unfolding keeps_table_def by blast

lemma seed_lawsD:
  assumes "seed_laws api tbl"
  shows "keeps_table tbl (sd_create_pool api cfg)" and "keeps_table tbl (sd_acquire api)"
    and "keeps_table tbl (sd_release api c)" and "keeps_table tbl (sd_close api)"
    and "keeps_table tbl (sd_create_table api c)"
  using assms unfolding seed_laws_def by blast+

lemma upsert_each_table:
  assumes "seed_laws api tbl" and "upsert_each api c rows s = (Inr u, s')"
  shows "tbl s' = foldl (\<lambda>t (key, tenant_id, hosts). upsert_key key tenant_id hosts t) (tbl s) rows"
  using assms(2)
proof (induction rows arbitrary: s)
  case (Cons row rows)
  obtain k t h where row: "row = (k, t, h)" by (cases row)
  obtain x s1 where up: "sd_upsert api c k t h s = (Inr x, s1)" and rest: "upsert_each api c rows s1 = (Inr u, s')"
    using Cons.prems by (auto simp: row elim: act_bind_InrE)
  have "tbl s1 = upsert_key k t h (tbl s)" using assms(1) up unfolding seed_laws_def by blast
  with Cons.IH [OF rest] show ?case by (simp add: row)
qed simp

lemma act_finally_InrE:
  assumes "act_finally m c s = (Inr x, t)"
  obtains s1 u where "m s = (Inr x, s1)" and "c s1 = (Inr u, t)"
  using assms by (auto simp: act_finally_def split: prod.splits sum.splits)

text \<open>A successful seeding leaves in the table exactly the demo rows over what was there:
  every demo key has its tenant and hosts, every other key keeps its row, and seeding again
  changes nothing.\<close>

theorem seed_widget_keys_upserts:
  assumes "seed_laws api tbl" and "seed_widget_keys api settings s = (Inr u, s')"
  shows "tbl s' = seeded (tbl s) \<and> seeded (tbl s') = tbl s'
     \<and> (\<forall>k. dict_get (tbl s') k =
          (case map_of WIDGET_KEYS k of
             Some (tenant_id, hosts) \<Rightarrow> Some \<lparr>row_tenant_id = tenant_id, row_allowed_hosts = hosts\<rparr>
           | None \<Rightarrow> dict_get (tbl s) k))"
proof -
  obtain x s1 where s1: "sd_create_pool api \<lparr>pc_dsn = database_url settings, pc_min_size = 1, pc_max_size = 2\<rparr> s = (Inr x, s1)"
    and rest: "act_finally (act_bind (sd_acquire api) (\<lambda>c. act_finally
        (act_bind (sd_create_table api c) (\<lambda>_. upsert_each api c WIDGET_KEYS)) (sd_release api c))) (sd_close api) s1 = (Inr u, s')"
    using assms(2) unfolding seed_widget_keys_def by (rule act_bind_InrE)
  obtain s5 y where body: "act_bind (sd_acquire api) (\<lambda>c. act_finally
        (act_bind (sd_create_table api c) (\<lambda>_. upsert_each api c WIDGET_KEYS)) (sd_release api c)) s1 = (Inr u, s5)"
    and s6: "sd_close api s5 = (Inr y, s')" using rest by (rule act_finally_InrE)
  obtain c s2 where s2: "sd_acquire api s1 = (Inr c, s2)"
    and inner: "act_finally (act_bind (sd_create_table api c) (\<lambda>_. upsert_each api c WIDGET_KEYS)) (sd_release api c) s2 = (Inr u, s5)"
    using body by (rule act_bind_InrE)
  obtain s4 z where stm: "act_bind (sd_create_table api c) (\<lambda>_. upsert_each api c WIDGET_KEYS) s2 = (Inr u, s4)"
    and s5: "sd_release api c s4 = (Inr z, s5)" using inner by (rule act_finally_InrE)
  obtain w s3 where s3: "sd_create_table api c s2 = (Inr w, s3)" and ups: "upsert_each api c WIDGET_KEYS s3 = (Inr u, s4)"
    using stm by (rule act_bind_InrE)
  note laws = seed_lawsD [OF assms(1)]
  have "tbl s4 = seeded (tbl s3)"
    using upsert_each_table [OF assms(1) ups] by (simp add: seeded_def)
  moreover have "tbl s3 = tbl s2" "tbl s2 = tbl s1" "tbl s1 = tbl s" "tbl s5 = tbl s4" "tbl s' = tbl s5"
    using keeps_tableD [OF laws(5) s3] keeps_tableD [OF laws(2) s2] keeps_tableD [OF laws(1) s1]
      keeps_tableD [OF laws(3) s5] keeps_tableD [OF laws(4) s6] by blast+
  ultimately have t: "tbl s' = seeded (tbl s)" by simp
  then show ?thesis by (auto simp: seeded_idem seeded_get WIDGET_KEYS_def inj_lit)
qed

section \<open>The gate on a seeded table\<close>

text \<open>The lookup statement of the key store on a table.\<close>

definition table_fetch :: "key_table \<Rightarrow> fetchrow" where
  "table_fetch table sql args = (case args of
       [k] \<Rightarrow> Inr (dict_get table k) | _ \<Rightarrow> Inl (PyExc PostgresError))"

definition seeded_gate :: "key_table \<Rightarrow> 's visitor_gate" where
  "seeded_gate table = \<lparr>g_store = postgres_lookup (table_fetch (seeded table)),
     g_rate_limiter = allow_all_check, g_max_body_bytes = 65536\<rparr>"

definition demo_visit :: "string \<Rightarrow> string \<Rightarrow> string \<Rightarrow> visit" where
  "demo_visit key origin query =
     \<lparr>v_widget_key = Some (lit key), v_origin = Some (lit origin), v_referer = None,
      v_client_ip = None, v_body = utf8_encode (query_text (lit query))\<rparr>"

lemma lit_eq_Nil: "lit s = [] \<longleftrightarrow> s = []"
  by (simp add: lit_def)

lemma demo_body: "int (length (v_body (demo_visit k orig ''hi''))) \<le> 65536"
  "int (length (v_body (demo_visit k orig ''how do I rotate a key?''))) \<le> 65536"
  by (simp_all add: demo_visit_def query_text_def lit_def utf8_encode_cp_def)

lemma demo_hosts:
  "origin_host (lit ''https://tenant-a.example.com'') = Inr (Some (lit ''tenant-a.example.com''))"
  "origin_host (lit ''https://evil.com'') = Inr (Some (lit ''evil.com''))"
  "py_lower (lit ''tenant-a.example.com'') = lit ''tenant-a.example.com''"
  "py_lower (lit ''tenant-b.example.com'') = lit ''tenant-b.example.com''"
  "py_lower (lit ''localhost'') = lit ''localhost''"
  by code_simp+

lemma demo_query: "sanitize_query (Suc d) (utf8_encode (query_text (lit ''how do I rotate a key?'')))
    = Inr (lit ''how do I rotate a key?'')"
  by (rule sanitize_plain_query [where c = 104]) (simp_all add: plain_text_def lit_def is_space_def)

text \<open>What the end-to-end script expects of the visitor door holds on every seeded table: the
  demo key of tenant A with its own origin reaches the core as tenant A with the query
  unchanged; from another site it is refused with 403, whichever tenant's key it is; and a
  key that is in no table is refused with 401.\<close>

theorem seeded_visitor_door:
  assumes "dict_get table (lit ''wk_unknown'') = None"
  shows "authorize (Suc d) (seeded_gate table)
       (demo_visit ''wk_tenant_a_public'' ''https://tenant-a.example.com'' ''how do I rotate a key?'') s
     = (Inr \<lparr>visitor_tenant_id = lit ''tenant-a'', visitor_query = lit ''how do I rotate a key?''\<rparr>, s)
   \<and> authorize (Suc d) (seeded_gate table) (demo_visit ''wk_tenant_a_public'' ''https://evil.com'' ''hi'') s
     = (raise_app TenantAccessError ''origin not allowed'', s)
   \<and> authorize (Suc d) (seeded_gate table) (demo_visit ''wk_tenant_b_public'' ''https://tenant-a.example.com'' ''hi'') s
     = (raise_app TenantAccessError ''origin not allowed'', s)
   \<and> authorize (Suc d) (seeded_gate table) (demo_visit ''wk_unknown'' ''https://tenant-a.example.com'' ''hi'') s
     = (raise_app AuthenticationError ''unknown widget key'', s)"
proof -
  have look: "g_store (seeded_gate table) k =
      (case dict_get (seeded table) k of None \<Rightarrow> Inr None
       | Some r \<Rightarrow> Inr (Some \<lparr>wk_tenant_id = row_tenant_id r,
           wk_allowed_hosts = set (map py_lower (row_allowed_hosts r))\<rparr>))" for k
    by (simp add: seeded_gate_def postgres_lookup_def table_fetch_def split: option.split)
  have fields: "g_max_body_bytes (seeded_gate table) = 65536" "g_rate_limiter (seeded_gate table) = allow_all_check"
    by (simp_all add: seeded_gate_def)
  note facts = authorize_def look fields demo_body seeded_get demo_hosts demo_query inj_lit
    check_origin_def check_listed_def host_allowed_def allow_all.check_eq raise_app_def Let_def
  have "authorize (Suc d) (seeded_gate table)
       (demo_visit ''wk_tenant_a_public'' ''https://tenant-a.example.com'' ''how do I rotate a key?'') s
     = (Inr \<lparr>visitor_tenant_id = lit ''tenant-a'', visitor_query = lit ''how do I rotate a key?''\<rparr>, s)"
    using demo_body(2) [of "''wk_tenant_a_public''" "''https://tenant-a.example.com''"]
    by (simp add: facts demo_visit_def lit_eq_Nil)
  moreover have "authorize (Suc d) (seeded_gate table) (demo_visit ''wk_tenant_a_public'' ''https://evil.com'' ''hi'') s
     = (raise_app TenantAccessError ''origin not allowed'', s)"
    using demo_body(1) [of "''wk_tenant_a_public''" "''https://evil.com''"]
    by (simp add: facts demo_visit_def lit_eq_Nil)
  moreover have "authorize (Suc d) (seeded_gate table)
       (demo_visit ''wk_tenant_b_public'' ''https://tenant-a.example.com'' ''hi'') s
     = (raise_app TenantAccessError ''origin not allowed'', s)"
    using demo_body(1) [of "''wk_tenant_b_public''" "''https://tenant-a.example.com''"]
    by (simp add: facts demo_visit_def lit_eq_Nil)
  moreover have "authorize (Suc d) (seeded_gate table) (demo_visit ''wk_unknown'' ''https://tenant-a.example.com'' ''hi'') s
     = (raise_app AuthenticationError ''unknown widget key'', s)"
    using assms demo_body(1) [of "''wk_unknown''" "''https://tenant-a.example.com''"]
    by (simp add: facts demo_visit_def lit_eq_Nil)
  ultimately show ?thesis by blast
qed

theorem seeded_visitor_door_witness:
  "authorize 1 (seeded_gate []) (demo_visit ''wk_unknown'' ''https://tenant-a.example.com'' ''hi'') (0 :: nat)
     = (raise_app AuthenticationError ''unknown widget key'', 0)"
  using seeded_visitor_door [of "[]" 0 "0 :: nat"] by simp

definition table_api :: "(unit, key_table) seed_api" where
  "table_api = \<lparr>sd_create_pool = (\<lambda>cfg s. (Inr (), s)), sd_acquire = (\<lambda>s. (Inr (), s)),
     sd_release = (\<lambda>c s. (Inr (), s)), sd_close = (\<lambda>s. (Inr (), s)), sd_create_table = (\<lambda>c s. (Inr (), s)),
     sd_upsert = (\<lambda>c k t h s. (Inr (), upsert_key k t h s))\<rparr>"

theorem seed_widget_keys_upserts_witness:
  "\<exists>s'. seed_widget_keys table_api small_settings [] = (Inr (), s')
     \<and> dict_get s' (lit ''wk_tenant_b_public'') = Some \<lparr>row_tenant_id = lit ''tenant-b'',
          row_allowed_hosts = [lit ''tenant-b.example.com'', lit ''localhost'']\<rparr>"
proof -
  have laws: "seed_laws table_api (\<lambda>s. s)" by (simp add: seed_laws_def keeps_table_def table_api_def)
  obtain s' where run: "seed_widget_keys table_api small_settings [] = (Inr (), s')"
    by (simp add: seed_widget_keys_def table_api_def WIDGET_KEYS_def act_bind_def act_finally_def)
  then show ?thesis
    using seed_widget_keys_upserts [OF laws run] by (auto simp: seeded_get)
qed

end
