(* ===== verification/E2e.thy ===== *)
theory E2e
  imports Seed Mcp_Facts
begin

text \<open>
  \<open>backend/scripts/e2e_doors.py\<close>: the end-to-end checks of the three doors, the tally they
  keep, and the exit code. The HTTP and MCP clients are parameters; \<open>'w\<close> is the state they
  act on. Console output is left out.
\<close>

section \<open>Clients and the tally\<close>

record e2e_response =
  er_status :: int
  er_raise_for_status :: "exc + unit"
  er_json :: "exc + json"

type_synonym headers = "(pystr \<times> pystr) list"

text \<open>The HTTP requests take the base URL first; the MCP client's calls take the URL and the headers
  of the session they belong to. A tool result is \<open>None\<close> or something.\<close>

record 'w e2e_client =
  ec_token_post :: "pystr \<Rightarrow> pystr \<Rightarrow> json \<Rightarrow> ('w, exc, e2e_response) action"
  ec_get :: "pystr \<Rightarrow> pystr \<Rightarrow> headers \<Rightarrow> ('w, exc, e2e_response) action"
  ec_post :: "pystr \<Rightarrow> pystr \<Rightarrow> headers \<Rightarrow> json \<Rightarrow> ('w, exc, e2e_response) action"
  ec_open :: "pystr \<Rightarrow> headers \<Rightarrow> ('w, exc, unit) action"
  ec_close :: "pystr \<Rightarrow> headers \<Rightarrow> ('w, exc, unit) action"
  ec_initialize :: "pystr \<Rightarrow> headers \<Rightarrow> ('w, exc, unit) action"
  ec_list_tools :: "pystr \<Rightarrow> headers \<Rightarrow> ('w, exc, pystr list) action"
  ec_call_tool :: "pystr \<Rightarrow> headers \<Rightarrow> pystr \<Rightarrow> pydict \<Rightarrow> ('w, exc, json option) action"

definition BASE_URL :: "(pystr \<Rightarrow> pystr option) \<Rightarrow> pystr" where
  "BASE_URL environ = (case environ (lit ''E2E_BASE_URL'') of
     Some u \<Rightarrow> u | None \<Rightarrow> lit ''http://127.0.0.1:8000'')"

text \<open>The module's list \<open>_results\<close> beside the world.\<close>

record 'w e2e_state =
  e2e_results :: "(bool \<times> pystr) list"
  e2e_world :: 'w

definition e2e_check :: "bool \<Rightarrow> pystr \<Rightarrow> ('w e2e_state, exc, unit) action" where
  "e2e_check passed label = (\<lambda>s. (Inr (), s\<lparr>e2e_results := e2e_results s @ [(passed, label)]\<rparr>))"

definition e2e_call :: "('w, exc, 'a) action \<Rightarrow> ('w e2e_state, exc, 'a) action" where
  "e2e_call m = (\<lambda>s. case m (e2e_world s) of (r, w) \<Rightarrow> (r, s\<lparr>e2e_world := w\<rparr>))"

text \<open>Decimal digits of a status code, for the labels.\<close>

function decimal :: "int \<Rightarrow> pystr" where
  "decimal n = (if n < 0 then 45 # decimal (- n) else if n < 10 then [48 + n] else decimal (n div 10) @ [48 + n mod 10])"
  by pat_completeness auto
termination
  by (relation "measures [\<lambda>n. nat \<bar>n\<bar>, \<lambda>n. if n < 0 then 1 else 0]") auto

declare decimal.simps [simp del]

definition labelled :: "string \<Rightarrow> e2e_response \<Rightarrow> pystr" where
  "labelled text r = lit text @ lit '' ('' @ decimal (er_status r) @ lit '')''"

text \<open>\<open>x.get(name)\<close> and \<open>x.get(name, {})\<close> on a JSON value.\<close>

definition json_get :: "json \<Rightarrow> string \<Rightarrow> json \<Rightarrow> exc + json" where
  "json_get j name dflt = (case j of
       JObj d \<Rightarrow> Inr (case dict_get d (lit name) of Some v \<Rightarrow> v | None \<Rightarrow> dflt)
     | _ \<Rightarrow> Inl attribute_error)"

definition json_index :: "json \<Rightarrow> string \<Rightarrow> exc + json" where
  "json_index j name = (case j of
       JObj d \<Rightarrow> (case dict_get d (lit name) of
          Some v \<Rightarrow> Inr v | None \<Rightarrow> Inl (PyExc (OtherExc (lit ''KeyError''))))
     | _ \<Rightarrow> Inl (PyExc (OtherExc (lit ''TypeError''))))"

section \<open>The doors\<close>

text \<open>The token is annotated as a string; what the identity service sends is not checked.\<close>

definition supabase_owner_token ::
  "'w e2e_client \<Rightarrow> settings \<Rightarrow> pystr \<Rightarrow> ('w e2e_state, exc, json) action" where
  "supabase_owner_token client settings email =
     act_bind (e2e_call (ec_token_post client
         ((case supabase_url settings of Some u \<Rightarrow> u | None \<Rightarrow> lit ''None'') @ lit ''/auth/v1/token'')
         (case supabase_anon_key settings of Some k \<Rightarrow> k | None \<Rightarrow> [])
         (JObj [(lit ''email'', JStr email), (lit ''password'', JStr OWNER_PASSWORD)]))) (\<lambda>response.
       act_lift (bind_res (er_raise_for_status response) (\<lambda>_.
         bind_res (er_json response) (\<lambda>j. json_index j ''access_token''))))"

definition owner_door :: "'w e2e_client \<Rightarrow> pystr \<Rightarrow> (json \<Rightarrow> pystr) \<Rightarrow> settings \<Rightarrow> ('w e2e_state, exc, unit) action" where
  "owner_door client base fmt settings =
     act_bind (supabase_owner_token client settings (lit ''owner-a@example.com'')) (\<lambda>token.
     act_bind (e2e_call (ec_get client base (lit ''/v1/tenants/me'')
         [(lit ''Authorization'', lit ''Bearer '' @ fmt token)])) (\<lambda>ok.
     act_bind (act_lift (if er_status ok = 200
         then bind_res (er_json ok) (\<lambda>j. bind_res (json_get j ''tenant_id'' JNull) (\<lambda>t.
                Inr (t = JStr (lit ''tenant-a''))))
         else Inr False)) (\<lambda>passed.
     act_bind (e2e_check passed (labelled ''valid Supabase token accepted, tenant resolved'' ok)) (\<lambda>_.
     act_bind (e2e_call (ec_get client base (lit ''/v1/tenants/me'') [])) (\<lambda>none.
     act_bind (e2e_check (er_status none = 401) (labelled ''no token rejected'' none)) (\<lambda>_.
     act_bind (e2e_call (ec_get client base (lit ''/v1/tenants/me'')
         [(lit ''Authorization'', lit ''Bearer not-a-jwt'')])) (\<lambda>junk.
       e2e_check (er_status junk = 401) (labelled ''garbage token rejected'' junk))))))))"

definition widget_post ::
  "'w e2e_client \<Rightarrow> pystr \<Rightarrow> string \<Rightarrow> string \<Rightarrow> string \<Rightarrow> ('w e2e_state, exc, e2e_response) action" where
  "widget_post client base key origin query =
     e2e_call (ec_post client base (lit ''/v1/widget/answer'')
       [(lit ''X-Widget-Key'', lit key), (lit ''Origin'', lit origin)]
       (JObj [(lit ''query'', JStr (lit query))]))"

definition visitor_door :: "'w e2e_client \<Rightarrow> pystr \<Rightarrow> ('w e2e_state, exc, unit) action" where
  "visitor_door client base =
     act_bind (widget_post client base ''wk_tenant_a_public'' ''https://tenant-a.example.com'' ''how do I rotate a key?'') (\<lambda>good.
     act_bind (act_lift (if er_status good = 200 then er_json good else Inr (JObj []))) (\<lambda>body.
     act_bind (act_lift (if er_status good = 200
         then bind_res (json_get body ''verdict'' (JObj [])) (\<lambda>v. bind_res (json_get v ''kind'' JNull) (\<lambda>k.
                Inr (k = JStr (lit ''grounded''))))
         else Inr False)) (\<lambda>passed.
     act_bind (e2e_check passed (labelled ''allowed key + origin reaches core, verdict fused'' good)) (\<lambda>_.
     act_bind (widget_post client base ''wk_tenant_a_public'' ''https://evil.com'' ''hi'') (\<lambda>bad_origin.
     act_bind (e2e_check (er_status bad_origin = 403) (labelled ''disallowed origin 403'' bad_origin)) (\<lambda>_.
     act_bind (widget_post client base ''wk_unknown'' ''https://tenant-a.example.com'' ''hi'') (\<lambda>unknown.
       e2e_check (er_status unknown = 401) (labelled ''unknown key rejected'' unknown))))))))"

text \<open>\<open>try: ... except Exception: ...\<close>\<close>

definition try_except ::
  "('s, exc, 'a) action \<Rightarrow> ('a \<Rightarrow> ('s, exc, 'b) action) \<Rightarrow> (exc \<Rightarrow> ('s, exc, 'b) action) \<Rightarrow> ('s, exc, 'b) action" where
  "try_except m ok bad = (\<lambda>s. case m s of (Inr x, s') \<Rightarrow> ok x s' | (Inl e, s') \<Rightarrow> bad e s')"

text \<open>The session's headers, and the calls made inside it.\<close>

definition mcp_headers :: "pystr \<Rightarrow> pystr \<Rightarrow> headers" where
  "mcp_headers token origin = [(lit ''Authorization'', lit ''Bearer '' @ token), (lit ''Origin'', origin)]"

definition mcp_call ::
  "'w e2e_client \<Rightarrow> pystr \<Rightarrow> pystr \<Rightarrow> pystr \<Rightarrow> ('w, exc, pystr list \<times> json option) action" where
  "mcp_call client base token origin =
     (let url = base @ lit ''/mcp''; headers = mcp_headers token origin in
      act_bind (ec_open client url headers) (\<lambda>_.
        act_finally
          (act_bind (ec_initialize client url headers) (\<lambda>_.
           act_bind (ec_list_tools client url headers) (\<lambda>tools.
           act_bind (ec_call_tool client url headers (lit ''answer'') [(lit ''query'', JStr (lit ''what is MCP?''))]) (\<lambda>result.
             act_return (tools, result)))))
          (ec_close client url headers)))"

definition mcp_refused :: "'w e2e_client \<Rightarrow> pystr \<Rightarrow> pystr \<Rightarrow> string \<Rightarrow> string \<Rightarrow> string \<Rightarrow> ('w e2e_state, exc, unit) action" where
  "mcp_refused client base token origin fail pass =
     try_except (e2e_call (mcp_call client base token (lit origin)))
       (\<lambda>_. e2e_check False (lit fail)) (\<lambda>_. e2e_check True (lit pass))"

definition mcp_door ::
  "'w e2e_client \<Rightarrow> pystr \<Rightarrow> 'k jwt_api \<Rightarrow> rat \<Rightarrow> (exc \<Rightarrow> pystr) \<Rightarrow> settings \<Rightarrow> ('w e2e_state, exc, unit) action" where
  "mcp_door client base api time repr settings =
     act_bind (act_lift (mint_mcp_token api time (mcp_signing_secret settings) (mcp_token_issuer settings)
         (mcp_token_audience settings) (lit ''tenant-a'') DEFAULT_TTL_SECONDS)) (\<lambda>good_token.
     act_bind (try_except (e2e_call (mcp_call client base good_token (lit ''https://claude.ai'')))
         (\<lambda>(tools, result). e2e_check (lit ''answer'' \<in> set tools \<and> result \<noteq> None)
            (lit ''valid token + origin: listed and called the tool''))
         (\<lambda>e. e2e_check False (lit ''valid token + origin should succeed but raised: '' @ repr e))) (\<lambda>_.
     act_bind (mcp_refused client base (lit ''not-a-real-token'') ''https://claude.ai''
         ''bad token should be refused'' ''bad token refused'') (\<lambda>_.
       mcp_refused client base good_token ''https://evil.com''
         ''disallowed origin should be refused'' ''disallowed origin refused'')))"

definition e2e_main ::
  "'w e2e_client \<Rightarrow> pystr \<Rightarrow> 'k jwt_api \<Rightarrow> rat \<Rightarrow> (json \<Rightarrow> pystr) \<Rightarrow> (exc \<Rightarrow> pystr) \<Rightarrow> settings \<Rightarrow> ('w e2e_state, exc, int) action" where
  "e2e_main client base api time fmt repr settings =
     act_bind (owner_door client base fmt settings) (\<lambda>_.
     act_bind (visitor_door client base) (\<lambda>_.
     act_bind (mcp_door client base api time repr settings) (\<lambda>_ s.
       let failures = map snd (filter (\<lambda>(passed, label). \<not> passed) (e2e_results s))
       in (Inr (if failures \<noteq> [] then 1 else 0), s))))"

section \<open>The tally\<close>

text \<open>An action that records exactly \<open>n\<close> checks when it returns.\<close>

definition records :: "nat \<Rightarrow> ('w e2e_state, exc, 'a) action \<Rightarrow> bool" where
  "records n m \<longleftrightarrow> (\<forall>s x s'. m s = (Inr x, s') \<longrightarrow>
     (\<exists>new. length new = n \<and> e2e_results s' = e2e_results s @ new))"

lemma recordsI:
  assumes "\<And>s x s'. m s = (Inr x, s') \<Longrightarrow> \<exists>new. length new = n \<and> e2e_results s' = e2e_results s @ new"
  shows "records n m"
  using assms unfolding records_def by blast

lemma recordsD: "records n m \<Longrightarrow> m s = (Inr x, s') \<Longrightarrow> \<exists>new. length new = n \<and> e2e_results s' = e2e_results s @ new"
  unfolding records_def by blast

lemma records_check: "records 1 (e2e_check b l)"
  by (rule recordsI) (auto simp: e2e_check_def)

lemma records_call: "records 0 (e2e_call m)"
  by (rule recordsI) (auto simp: e2e_call_def split: prod.splits)

lemma records_lift: "records 0 (act_lift r)"
  by (rule recordsI) simp

lemma records_bind:
  assumes "records a m" and "\<And>x. records b (f x)"
  shows "records (a + b) (act_bind m f)"
proof (rule recordsI)
  fix s y s'
  assume "act_bind m f s = (Inr y, s')"
  then obtain x s1 where m: "m s = (Inr x, s1)" and f: "f x s1 = (Inr y, s')" by (rule act_bind_InrE)
  from recordsD [OF assms(1) m] recordsD [OF assms(2) f]
  show "\<exists>new. length new = a + b \<and> e2e_results s' = e2e_results s @ new"
    by (metis append_assoc length_append)
qed

lemma records_bind_eq:
  "records a m \<Longrightarrow> (\<And>x. records b (f x)) \<Longrightarrow> n = a + b \<Longrightarrow> records n (act_bind m f)"
  using records_bind by blast

lemma records_try:
  assumes "\<And>s r s'. m s = (r, s') \<Longrightarrow> e2e_results s' = e2e_results s"
    and "\<And>x. records n (ok x)" and "\<And>e. records n (bad e)"
  shows "records n (try_except m ok bad)"
proof (rule recordsI)
  fix s y s'
  assume run: "try_except m ok bad s = (Inr y, s')"
  obtain r s1 where m: "m s = (r, s1)" by (cases "m s")
  have "e2e_results s1 = e2e_results s" by (rule assms(1) [OF m])
  show "\<exists>new. length new = n \<and> e2e_results s' = e2e_results s @ new"
  proof (cases r)
    case (Inl e)
    with run m have "bad e s1 = (Inr y, s')" by (simp add: try_except_def)
    from recordsD [OF assms(3) this] show ?thesis using \<open>e2e_results s1 = e2e_results s\<close> by simp
  next
    case (Inr x)
    with run m have "ok x s1 = (Inr y, s')" by (simp add: try_except_def)
    from recordsD [OF assms(2) this] show ?thesis using \<open>e2e_results s1 = e2e_results s\<close> by simp
  qed
qed

lemma e2e_call_results: "e2e_call m s = (r, s') \<Longrightarrow> e2e_results s' = e2e_results s"
  by (auto simp: e2e_call_def split: prod.splits)

lemmas records_rules = records_check records_call records_lift

lemma records_owner_token: "records 0 (supabase_owner_token client settings email)"
  unfolding supabase_owner_token_def by (rule records_bind_eq [OF records_call records_lift]) simp

lemma records_owner_door: "records 3 (owner_door client base fmt settings)"
  unfolding owner_door_def
  by (rule records_bind_eq [OF records_owner_token], rule records_bind_eq [OF records_call],
      rule records_bind_eq [OF records_lift], rule records_bind_eq [OF records_check],
      rule records_bind_eq [OF records_call], rule records_bind_eq [OF records_check],
      rule records_bind_eq [OF records_call], rule records_check) simp_all

lemma records_visitor_door: "records 3 (visitor_door client base)"
  unfolding visitor_door_def widget_post_def
  by (rule records_bind_eq [OF records_call], rule records_bind_eq [OF records_lift],
      rule records_bind_eq [OF records_lift], rule records_bind_eq [OF records_check],
      rule records_bind_eq [OF records_call], rule records_bind_eq [OF records_check],
      rule records_bind_eq [OF records_call], rule records_check) simp_all

lemma records_mcp_refused: "records 1 (mcp_refused client base token origin fail pass)"
  unfolding mcp_refused_def by (rule records_try) (auto simp: e2e_call_results records_check [unfolded One_nat_def])

lemma records_mcp_first:
  "records 1 (try_except (e2e_call m) (\<lambda>(tools, called). e2e_check (P tools called) l) (\<lambda>e. e2e_check False (g e)))"
  by (rule records_try) (auto simp: e2e_call_results records_check [unfolded One_nat_def] split: prod.split)

lemma records_mcp_door: "records 3 (mcp_door client base api time repr settings)"
  unfolding mcp_door_def
  by (rule records_bind_eq [OF records_lift], rule records_bind_eq [OF records_mcp_first],
      rule records_bind_eq [OF records_mcp_refused], rule records_mcp_refused) simp_all

text \<open>The exit code of the end-to-end script is the truth about its checks. When it returns it
  has recorded nine further checks, three for each door, and its exit code is 0 if every
  check it and its predecessors recorded passed and 1 otherwise; no check is lost.\<close>

theorem e2e_exit_code:
  assumes "e2e_main client base api time fmt repr settings s = (Inr code, s')"
  shows "(\<exists>new. length new = 9 \<and> e2e_results s' = e2e_results s @ new)
     \<and> code = (if \<forall>passed label. (passed, label) \<in> set (e2e_results s') \<longrightarrow> passed then 0 else 1)"
proof -
  obtain u s1 where o: "owner_door client base fmt settings s = (Inr u, s1)"
    and r1: "act_bind (visitor_door client base) (\<lambda>_. act_bind (mcp_door client base api time repr settings) (\<lambda>_ s.
       let failures = map snd (filter (\<lambda>(passed, label). \<not> passed) (e2e_results s))
       in (Inr (if failures \<noteq> [] then 1 else 0), s))) s1 = (Inr code, s')"
    using assms unfolding e2e_main_def by (rule act_bind_InrE)
  obtain v s2 where v: "visitor_door client base s1 = (Inr v, s2)"
    and r2: "act_bind (mcp_door client base api time repr settings) (\<lambda>_ s.
       let failures = map snd (filter (\<lambda>(passed, label). \<not> passed) (e2e_results s))
       in (Inr (if failures \<noteq> [] then 1 else 0), s)) s2 = (Inr code, s')"
    using r1 by (rule act_bind_InrE)
  obtain w where m: "mcp_door client base api time repr settings s2 = (Inr w, s')"
    and code: "code = (if filter (\<lambda>(passed, label). \<not> passed) (e2e_results s') \<noteq> [] then 1 else 0)"
    using r2 by (auto simp: Let_def elim!: act_bind_InrE)
  obtain n1 n2 n3 where "length n1 = 3" "e2e_results s1 = e2e_results s @ n1" "length n2 = 3"
      "e2e_results s2 = e2e_results s1 @ n2" "length n3 = 3" "e2e_results s' = e2e_results s2 @ n3"
    using recordsD [OF records_owner_door o] recordsD [OF records_visitor_door v] recordsD [OF records_mcp_door m]
    by blast
  then have "length (n1 @ n2 @ n3) = 9 \<and> e2e_results s' = e2e_results s @ (n1 @ n2 @ n3)" by simp
  then have "\<exists>new. length new = 9 \<and> e2e_results s' = e2e_results s @ new" by blast
  then show ?thesis using code by (auto simp: filter_empty_conv)
qed

section \<open>A passing run\<close>

definition answered :: "int \<Rightarrow> json \<Rightarrow> e2e_response" where
  "answered status j = \<lparr>er_status = status, er_raise_for_status = Inr (), er_json = Inr j\<rparr>"

definition canned_client :: "unit e2e_client" where
  "canned_client =
     \<lparr>ec_token_post = (\<lambda>url key body w. (Inr (answered 200 (JObj [(lit ''access_token'', JStr (lit ''t''))])), w)),
      ec_get = (\<lambda>base path hs w. (Inr (if hs = [(lit ''Authorization'', lit ''Bearer t'')]
         then answered 200 (JObj [(lit ''tenant_id'', JStr (lit ''tenant-a''))]) else answered 401 JNull), w)),
      ec_post = (\<lambda>base path hs body w. (Inr (
         if hs = [(lit ''X-Widget-Key'', lit ''wk_unknown''), (lit ''Origin'', lit ''https://tenant-a.example.com'')]
         then answered 401 JNull
         else if hs = [(lit ''X-Widget-Key'', lit ''wk_tenant_a_public''), (lit ''Origin'', lit ''https://evil.com'')]
         then answered 403 JNull
         else answered 200 (dump_answer (answer (lit ''tenant-a'') (lit ''q'')))), w)),
      ec_open = (\<lambda>url hs w.
         if hs = mcp_headers (lit ''tok'') (lit ''https://claude.ai'') then (Inr (), w)
         else (Inl (PyExc (OtherExc [])), w)),
      ec_close = (\<lambda>url hs w. (Inr (), w)), ec_initialize = (\<lambda>url hs w. (Inr (), w)),
      ec_list_tools = (\<lambda>url hs w. (Inr [lit ''answer''], w)),
      ec_call_tool = (\<lambda>url hs name args w. (Inr (Some JNull), w))\<rparr>"

definition json_text :: "json \<Rightarrow> pystr" where
  "json_text j = (case j of JStr s \<Rightarrow> s | _ \<Rightarrow> [])"

definition e2e_settings :: settings where
  "e2e_settings = small_settings\<lparr>mcp_signing_secret := lit ''s3cret'',
     mcp_token_issuer := lit ''honest-agent'', mcp_token_audience := lit ''honest-agent-mcp''\<rparr>"

definition passed_checks :: "(bool \<times> pystr) list \<Rightarrow> bool" where
  "passed_checks rs \<longleftrightarrow> (\<forall>r \<in> set rs. fst r)"

lemma canned_owner:
  "\<exists>rs. owner_door canned_client [] json_text e2e_settings \<lparr>e2e_results = [], e2e_world = ()\<rparr>
      = (Inr (), \<lparr>e2e_results = rs, e2e_world = ()\<rparr>) \<and> passed_checks rs"
  by (simp add: owner_door_def supabase_owner_token_def canned_client_def e2e_call_def e2e_check_def act_bind_def
      answered_def json_index_def json_get_def json_text_def passed_checks_def lit_def)

lemma canned_visitor:
  "\<exists>rs'. visitor_door canned_client [] \<lparr>e2e_results = rs, e2e_world = ()\<rparr>
      = (Inr (), \<lparr>e2e_results = rs @ rs', e2e_world = ()\<rparr>) \<and> passed_checks rs'"
  by (simp add: visitor_door_def widget_post_def canned_client_def e2e_call_def e2e_check_def act_bind_def
      answered_def json_get_def passed_checks_def dump_answer_def answer_def inj_lit Let_def)

lemma e2e_mint:
  "mint_mcp_token hs_jwt 1000 (mcp_signing_secret e2e_settings) (mcp_token_issuer e2e_settings)
     (mcp_token_audience e2e_settings) (lit ''tenant-a'') DEFAULT_TTL_SECONDS = Inr (lit ''tok'')"
  using demo_mint by (simp add: demo_verifier_def e2e_settings_def DEFAULT_TTL_SECONDS_def)

lemma canned_mcp:
  "\<exists>rs'. mcp_door canned_client [] hs_jwt 1000 (\<lambda>e. []) e2e_settings \<lparr>e2e_results = rs, e2e_world = ()\<rparr>
      = (Inr (), \<lparr>e2e_results = rs @ rs', e2e_world = ()\<rparr>) \<and> passed_checks rs'"
  by (simp add: mcp_door_def e2e_mint mcp_refused_def canned_client_def mcp_call_def mcp_headers_def Let_def
      act_finally_def e2e_call_def e2e_check_def act_bind_def
      try_except_def passed_checks_def inj_lit)

theorem e2e_exit_code_witness:
  "\<exists>s'. e2e_main canned_client [] hs_jwt 1000 json_text (\<lambda>e. []) e2e_settings \<lparr>e2e_results = [], e2e_world = ()\<rparr> = (Inr 0, s')
     \<and> length (e2e_results s') = 9"
proof -
  obtain r1 where o: "owner_door canned_client [] json_text e2e_settings \<lparr>e2e_results = [], e2e_world = ()\<rparr>
      = (Inr (), \<lparr>e2e_results = r1, e2e_world = ()\<rparr>)" "passed_checks r1" using canned_owner by blast
  obtain r2 where v: "visitor_door canned_client [] \<lparr>e2e_results = r1, e2e_world = ()\<rparr>
      = (Inr (), \<lparr>e2e_results = r1 @ r2, e2e_world = ()\<rparr>)" "passed_checks r2" using canned_visitor by blast
  obtain r3 where m: "mcp_door canned_client [] hs_jwt 1000 (\<lambda>e. []) e2e_settings \<lparr>e2e_results = r1 @ r2, e2e_world = ()\<rparr>
      = (Inr (), \<lparr>e2e_results = (r1 @ r2) @ r3, e2e_world = ()\<rparr>)" "passed_checks r3" using canned_mcp by blast
  have "filter (\<lambda>(passed, label). \<not> passed) ((r1 @ r2) @ r3) = []"
    using o(2) v(2) m(2) by (auto simp: passed_checks_def filter_empty_conv)
  then have run: "e2e_main canned_client [] hs_jwt 1000 json_text (\<lambda>e. []) e2e_settings \<lparr>e2e_results = [], e2e_world = ()\<rparr>
      = (Inr 0, \<lparr>e2e_results = (r1 @ r2) @ r3, e2e_world = ()\<rparr>)"
    by (simp add: e2e_main_def act_bind_def o v m del: append_assoc)
  show ?thesis using e2e_exit_code [OF run] run by auto
qed

end
