(* ===== verification/Doors.thy ===== *)
theory Doors
  imports App_Facts Mcp_Facts Seed Gate_Limits Owner_Examples
begin

text \<open>
  The doors together: no token is good at both token doors, every door opens on the same
  core, and the two key stores are interchangeable behind the gate.
\<close>

section \<open>Tokens\<close>

text \<open>A JWT is signed once, with the one algorithm its header names.\<close>

definition one_algorithm :: "(pystr \<Rightarrow> pystr \<Rightarrow> 'k jwt_key \<Rightarrow> pydict \<Rightarrow> bool) \<Rightarrow> bool" where
  "one_algorithm signed \<longleftrightarrow>
     (\<forall>token alg key claims alg' key' claims'.
        signed token alg key claims \<and> signed token alg' key' claims' \<longrightarrow> alg = alg')"

text \<open>C9: no token opens both token doors. Whatever the settings, the cached keys and the times of
  the two verifications, and even if the two doors shared issuer, audience and key material,
  a token the owner door accepts is refused at the MCP door, with a JWT library that keeps
  its promise and tokens that name one algorithm.\<close>

theorem no_token_opens_both_doors:
  assumes "decode_sound api signed" and "one_algorithm signed"
    and "owner_verify api v now token s = (Inr owner, s')"
  shows "\<exists>e. mcp_verify api m later token = Inl e"
proof (cases "mcp_verify api m later token")
  case (Inr caller)
  obtain key claims where es: "signed token (lit ''ES256'') (PublicKey key) claims"
    using owner_verify_genuine [OF assms(1,3)] by blast
  obtain claims' where hs: "signed token (lit ''HS256'') (SecretKey (mv_secret m)) claims'"
    using mcp_verify_genuine [OF assms(1) Inr] by blast
  have "lit ''ES256'' = lit ''HS256''" using assms(2) es hs unfolding one_algorithm_def by blast
  then show ?thesis by (simp add: inj_lit)
qed blast

section \<open>One core\<close>

lemma ok_response_inject: "ok_response a = ok_response b \<longleftrightarrow> a = b"
  by (simp add: ok_response_def)

lemma visit_of_key: "v_widget_key (visit_of request body) = rq_header request WIDGET_KEY_HEADER"
  by (simp add: visit_of_def)

text \<open>What every door that answers has in common: what it serves a request is what the core
  gives for the one tenant and query it resolves the request to.\<close>

locale answering_door =
  fixes core :: answering_core
    and serves :: "'r \<Rightarrow> json \<Rightarrow> bool"
    and resolves :: "'r \<Rightarrow> pystr \<Rightarrow> pystr \<Rightarrow> bool"
  assumes served_resolved: "serves r j \<Longrightarrow> \<exists>t q. resolves r t q \<and> j = dump_answer (core t q)"
    and resolves_once: "resolves r t q \<Longrightarrow> resolves r t' q' \<Longrightarrow> t' = t \<and> q' = q"
begin

lemma served_answer: "serves r j \<Longrightarrow> resolves r t q \<Longrightarrow> j = dump_answer (core t q)"
  using served_resolved resolves_once by blast

lemma serves_once: "serves r j \<Longrightarrow> serves r j' \<Longrightarrow> j' = j"
  using served_resolved served_answer by blast

end

locale two_doors = first: answering_door core serves1 resolves1 + second: answering_door core serves2 resolves2
  for core :: answering_core and serves1 :: "'r \<Rightarrow> json \<Rightarrow> bool" and resolves1 :: "'r \<Rightarrow> pystr \<Rightarrow> pystr \<Rightarrow> bool"
    and serves2 :: "'q \<Rightarrow> json \<Rightarrow> bool" and resolves2 :: "'q \<Rightarrow> pystr \<Rightarrow> pystr \<Rightarrow> bool"
begin

lemma same_answer:
  "serves1 a j1 \<Longrightarrow> serves2 b j2 \<Longrightarrow> resolves1 a t q \<Longrightarrow> resolves2 b t q \<Longrightarrow> j1 = j2"
  using first.served_answer second.served_answer by blast

end

text \<open>The widget: a request, in a state, on a route of the application.\<close>

definition widget_serves ::
  "answering_core \<Rightarrow> nat \<Rightarrow> fetchrow \<Rightarrow> settings \<Rightarrow> (http_request \<Rightarrow> endpoint option) \<Rightarrow> (http_request \<Rightarrow> ('s, exc, owner_ctx) action)
     \<Rightarrow> (http_request \<Rightarrow> ('s, exc, response) action) \<Rightarrow> http_request \<times> 's \<Rightarrow> json \<Rightarrow> bool" where
  "widget_serves core limit fetch settings select owner other = (\<lambda>(request, s) j.
     routes_exactly select \<and> (\<forall>c. select (request\<lparr>rq_visitor_context := c\<rparr>) = Some WidgetAnswer)
     \<and> (\<exists>s'. app_handle core limit (visitor_gate_of (lifespan_attributes fetch) settings) select owner other request s
          = (Inr (ok_response j), s')))"

definition widget_resolves :: "nat \<Rightarrow> fetchrow \<Rightarrow> http_request \<times> 's \<Rightarrow> pystr \<Rightarrow> pystr \<Rightarrow> bool" where
  "widget_resolves limit fetch = (\<lambda>(request, s) t q.
     (\<exists>key. rq_header request WIDGET_KEY_HEADER = Some key \<and> row_owner fetch key = Some t)
     \<and> (\<exists>body. rq_body request = Inr body \<and> sanitize_query limit body = Inr q))"

text \<open>The MCP tool: a request's scope, the query the tool is called with, and a state.\<close>

definition mcp_serves ::
  "answering_core \<Rightarrow> 'k jwt_api \<Rightarrow> mcp_security \<Rightarrow> pyfloat \<Rightarrow> asgi_scope \<times> pystr \<times> 'w mcp_state \<Rightarrow> json \<Rightarrow> bool" where
  "mcp_serves core api m now = (\<lambda>(scope, query, w) j. mcp_external_caller w = None
     \<and> (\<exists>w'. mcp_middleware api m now (\<lambda>_. mcp_answer_tool core query) scope w = (Inr (AppReply j), w')))"

definition mcp_resolves ::
  "'k jwt_api \<Rightarrow> mcp_security \<Rightarrow> pyfloat \<Rightarrow> asgi_scope \<times> pystr \<times> 'w mcp_state \<Rightarrow> pystr \<Rightarrow> pystr \<Rightarrow> bool" where
  "mcp_resolves api m now = (\<lambda>(scope, query, w) t q. q = query
     \<and> (\<exists>headers ctx. decode_headers (sc_headers scope) = Inr headers
          \<and> mcp_admit api m now headers = Inr ctx \<and> t = caller_tenant_id ctx))"

lemma widget_served:
  assumes "routes_exactly select" and "\<And>c. select (request\<lparr>rq_visitor_context := c\<rparr>) = Some WidgetAnswer"
    and "app_handle core limit (visitor_gate_of (lifespan_attributes fetch) settings) select owner other request s
      = (Inr (ok_response j), s')"
  shows "\<exists>t q. widget_resolves limit fetch (request, s) t q \<and> j = dump_answer (core t q)"
proof -
  let ?gate = "shipped_visitor_gate fetch settings :: 's visitor_gate"
  obtain body visitor t where body: "rq_body request = Inr body"
    and a: "authorize limit ?gate (visit_of request body) s = (Inr visitor, t)"
    and j: "j = dump_answer (core (visitor_tenant_id visitor) (visitor_query visitor))"
    using assms(3) unfolding widget_app_handle [OF assms(1,2)]
    by (auto simp: app_error_response_not_ok app_error_response_not_ok [symmetric] ok_response_inject
        split: sum.splits bool.splits prod.splits exc.splits)
  have "\<exists>key. rq_header request WIDGET_KEY_HEADER = Some key \<and> row_owner fetch key = Some (visitor_tenant_id visitor)"
    using postgres.authorize_tenant [of ?gate fetch limit "visit_of request body" s visitor t] a
    by (auto simp: shipped_visitor_gate_def visit_of_key)
  moreover have "sanitize_query limit body = Inr (visitor_query visitor)"
    using a by (auto simp: authorize_Inr_iff visit_of_def)
  ultimately have "widget_resolves limit fetch (request, s) (visitor_tenant_id visitor) (visitor_query visitor)"
    using body by (simp add: widget_resolves_def)
  with j show ?thesis by blast
qed

interpretation doors: two_doors core
  "widget_serves core limit fetch settings select owner other" "widget_resolves limit fetch"
  "mcp_serves core api m now" "mcp_resolves api m now"
  for core limit fetch settings select owner other api m now
proof unfold_locales
  show "\<exists>t q. widget_resolves limit fetch r t q \<and> j = dump_answer (core t q)"
    if "widget_serves core limit fetch settings select owner other r j" for r j
    using that by (cases r) (auto simp: widget_serves_def intro: widget_served)
  show "t' = t \<and> q' = q" if "widget_resolves limit fetch r t q" "widget_resolves limit fetch r t' q'" for r t q t' q'
    using that by (cases r) (auto simp: widget_resolves_def)
  show "\<exists>t q. mcp_resolves api m now r t q \<and> j = dump_answer (core t q)" if served: "mcp_serves core api m now r j" for r j
  proof (cases r)
    case (fields scope query w)
    then obtain w' where "mcp_external_caller w = None"
      and "mcp_middleware api m now (\<lambda>_. mcp_answer_tool core query) scope w = (Inr (AppReply j), w')"
      using served by (auto simp: mcp_serves_def)
    from mcp_tool_answers [OF this] show ?thesis
      unfolding fields mcp_resolves_def split_conv by blast
  qed
  show "t' = t \<and> q' = q" if "mcp_resolves api m now r t q" "mcp_resolves api m now r t' q'" for r t q t' q'
    using that by (cases r) (auto simp: mcp_resolves_def)
qed

text \<open>C6: the doors open on one core. Whatever the core makes of a tenant and a query, for the same
  tenant and the same query the widget and the MCP tool give the same JSON: if the application
  serves a visitor, whose key's row names a tenant, with some content, then the MCP server
  answers an admitted caller of that tenant who asks the same query with exactly that content.\<close>

theorem doors_give_same_answer:
  fixes s :: 's and w :: "'w mcp_state"
  assumes "routes_exactly select" and "\<And>c. select (request\<lparr>rq_visitor_context := c\<rparr>) = Some WidgetAnswer"
    and "app_handle core limit (visitor_gate_of (lifespan_attributes fetch) settings) select owner other request s
      = (Inr (ok_response content), s')"
    and "rq_header request WIDGET_KEY_HEADER = Some key" and "row_owner fetch key = Some (caller_tenant_id ctx)"
    and "rq_body request = Inr body" and "sanitize_query limit body = Inr query"
    and "sc_type scope = lit ''http''" and "decode_headers (sc_headers scope) = Inr headers"
    and "mcp_admit api m now headers = Inr ctx"
  shows "mcp_middleware api m now (\<lambda>_. mcp_answer_tool core query) scope w = (Inr (AppReply content), w)"
proof -
  have "widget_serves core limit fetch settings select owner other (request, s) content"
    using assms(1-3) by (auto simp: widget_serves_def)
  moreover have "widget_resolves limit fetch (request, s) (caller_tenant_id ctx) query"
    using assms(4-7) by (simp add: widget_resolves_def)
  ultimately have "content = dump_answer (core (caller_tenant_id ctx) query)"
    by (rule doors.first.served_answer)
  then show ?thesis
    by (simp add: middleware_admitted [OF assms(8-10)] mcp_answer_tool_def answer_for_external_caller_def)
qed

section \<open>The two key stores\<close>

text \<open>The records the Postgres store makes of the rows of a table.\<close>

definition record_of_row :: "key_row \<Rightarrow> widget_key_record" where
  "record_of_row r = \<lparr>wk_tenant_id = row_tenant_id r,
     wk_allowed_hosts = set (map py_lower (row_allowed_hosts r))\<rparr>"

definition records_of_table :: "key_table \<Rightarrow> (pystr, widget_key_record) dict" where
  "records_of_table table = map (\<lambda>(k, r). (k, record_of_row r)) table"

lemma records_of_table_get: "dict_get (records_of_table table) k = map_option record_of_row (dict_get table k)"
  by (induction table) (auto simp: records_of_table_def)

lemma stores_agree: "in_memory_lookup (records_of_table table) = postgres_lookup (table_fetch table)"
  by (auto simp: in_memory_lookup_def postgres_lookup_def table_fetch_def records_of_table_get
      record_of_row_def fun_eq_iff split: option.split)

text \<open>The in-memory store of the tests stands for the Postgres store: filled with the records of
  a table, it makes the gate answer every request as the store on that table does.\<close>

theorem gate_stores_interchangeable:
  assumes "g_store gate = postgres_lookup (table_fetch table)"
  shows "visitor_gate_middleware limit (gate\<lparr>g_store := in_memory_lookup (records_of_table table)\<rparr>) request next s
     = visitor_gate_middleware limit gate request next s"
  by (simp add: stores_agree flip: assms)

section \<open>Instances\<close>

theorem no_token_opens_both_doors_witness:
  "\<exists>e. mcp_verify example_jwt demo_verifier (FFin 1500) (lit ''good'') = Inl e"
proof -
  have one: "one_algorithm example_signed" by (simp add: one_algorithm_def example_signed_def)
  show ?thesis by (rule no_token_opens_both_doors [OF example_decode_sound one example_owner_accept])
qed

theorem doors_give_same_answer_witness:
  "\<exists>content. mcp_middleware hs_jwt demo_security (FFin 2000) (\<lambda>_. mcp_answer_tool echo_core (lit ''hello''))
       (demo_scope ''LocalHost:8000'' ''tok'') \<lparr>mcp_external_caller = None, mcp_world = ()\<rparr>
     = (Inr (AppReply content), \<lparr>mcp_external_caller = None, mcp_world = ()\<rparr>)"
proof -
  let ?r = "example_request ''/v1/widget/answer'' ''https://example.com'' hello"
  have sel: "path_select (?r\<lparr>rq_visitor_context := c\<rparr>) = Some WidgetAnswer" for c
    by (simp add: path_select_def example_request_def)
  have run: "app_handle echo_core 5 (visitor_gate_of (lifespan_attributes example_fetch) small_settings) path_select
       example_owner not_found ?r 3 = (Inr (ok_response (dump_answer (echo_core (lit ''tenant-a'') (lit ''hello'')))), 3)"
    by code_simp
  have key: "rq_header ?r WIDGET_KEY_HEADER = Some (lit ''wk_a'')" and body: "rq_body ?r = Inr hello"
    by (simp_all add: example_request_def)
  have owner: "row_owner example_fetch (lit ''wk_a'') = Some (caller_tenant_id \<lparr>caller_tenant_id = lit ''tenant-a''\<rparr>)"
    by code_simp
  have query: "sanitize_query 5 hello = Inr (lit ''hello'')" by code_simp
  have http: "sc_type (demo_scope ''LocalHost:8000'' ''tok'') = lit ''http''" by (simp add: demo_scope_def)
  show ?thesis
    using doors_give_same_answer [OF path_select_exact sel run key owner body query http demo_decode demo_admit] by blast
qed

end
