(* ===== verification/E2e_Run.thy ===== *)
theory E2e_Run
  imports E2e Doors App_Startup
begin

text \<open>
  The end-to-end script run against the application as modelled: its HTTP client connected to
  \<open>create_app\<close>'s application on a seeded table, its MCP client to the middleware.
\<close>

section \<open>The script's HTTP client connected to the application\<close>

text \<open>What \<open>httpx\<close> sends for a header dictionary and a JSON body with one string member: header
  names compare without case, the length of the body is declared, and JSON is compact.\<close>

definition sent_body :: "json \<Rightarrow> bytes" where
  "sent_body j = (case json_member j ''query'' of
       Some (JStr q) \<Rightarrow> utf8_encode (query_text q) | _ \<Rightarrow> [])"

definition sent_request :: "pystr \<Rightarrow> headers \<Rightarrow> json \<Rightarrow> http_request" where
  "sent_request path hs j =
     \<lparr>rq_path = path,
      rq_header = (\<lambda>name. map_of ((lit ''content-length'', decimal (int (length (sent_body j))))
         # map (\<lambda>(k, v). (py_lower k, v)) hs) name),
      rq_body = Inr (sent_body j), rq_client_host = Some (lit ''127.0.0.1''), rq_visitor_context = None\<rparr>"

text \<open>What the server sends back: the response, or status 500 for an exception that escapes.\<close>

definition received :: "exc + response \<Rightarrow> e2e_response" where
  "received r = (case r of
       Inr resp \<Rightarrow> answered (resp_status resp) (resp_content resp) | Inl e \<Rightarrow> answered 500 JNull)"

definition connected_post ::
  "(http_request \<Rightarrow> ('w, exc, response) action) \<Rightarrow> pystr \<Rightarrow> pystr \<Rightarrow> headers \<Rightarrow> json \<Rightarrow> ('w, exc, e2e_response) action" where
  "connected_post app base path hs j = (\<lambda>w. case app (sent_request path hs j) w of (r, w') \<Rightarrow> (Inr (received r), w'))"

section \<open>The visitor door\<close>

lemma seeded_lookup:
  "postgres_lookup (table_fetch (seeded table)) k = Inr (map_option record_of_row (dict_get (seeded table) k))"
  by (simp add: postgres_lookup_def table_fetch_def record_of_row_def split: option.split)

lemma seeded_authorize:
  assumes "g_store gate = postgres_lookup (table_fetch (seeded table))"
    and "g_rate_limiter gate = allow_all_check" and "int (length (v_body a)) \<le> g_max_body_bytes gate"
  shows "v_widget_key a = Some (lit ''wk_tenant_a_public'') \<Longrightarrow> v_origin a = Some (lit ''https://tenant-a.example.com'') \<Longrightarrow>
      v_body a = utf8_encode (query_text (lit ''how do I rotate a key?'')) \<Longrightarrow>
      authorize (Suc d) gate a w =
        (Inr \<lparr>visitor_tenant_id = lit ''tenant-a'', visitor_query = lit ''how do I rotate a key?''\<rparr>, w)"
    and "v_widget_key a = Some (lit ''wk_tenant_a_public'') \<Longrightarrow> v_origin a = Some (lit ''https://evil.com'') \<Longrightarrow>
      authorize (Suc d) gate a w = (raise_app TenantAccessError ''origin not allowed'', w)"
    and "v_widget_key a = Some (lit ''wk_unknown'') \<Longrightarrow> dict_get table (lit ''wk_unknown'') = None \<Longrightarrow>
      authorize (Suc d) gate a w = (raise_app AuthenticationError ''unknown widget key'', w)"
  using assms
  by (simp_all add: authorize_def seeded_lookup seeded_get record_of_row_def demo_hosts demo_query inj_lit lit_eq_Nil
      check_origin_def check_listed_def host_allowed_def allow_all.check_eq raise_app_def Let_def)

lemma demo_header_names:
  "py_lower (lit ''X-Widget-Key'') = WIDGET_KEY_HEADER" "py_lower (lit ''Origin'') = lit ''origin''"
  by code_simp+

definition demo_post :: "string \<Rightarrow> string \<Rightarrow> string \<Rightarrow> http_request" where
  "demo_post key origin query = sent_request (lit ''/v1/widget/answer'')
     [(lit ''X-Widget-Key'', lit key), (lit ''Origin'', lit origin)] (JObj [(lit ''query'', JStr (lit query))])"

lemma demo_post_fields:
  "rq_path (demo_post key origin query) = lit ''/v1/widget/answer''"
  "rq_body (demo_post key origin query) = Inr (utf8_encode (query_text (lit query)))"
  "rq_header (demo_post key origin query) (lit ''content-length'')
     = Some (decimal (int (length (utf8_encode (query_text (lit query))))))"
  "v_widget_key (visit_of (demo_post key origin query) b) = Some (lit key)"
  "v_origin (visit_of (demo_post key origin query) b) = Some (lit origin)"
  "v_body (visit_of (demo_post key origin query) b) = b"
  by (simp_all add: demo_post_def sent_request_def visit_of_def sent_body_def json_member_JObj demo_header_names
      WIDGET_KEY_HEADER_def inj_lit)

lemma demo_lengths:
  "length (utf8_encode (query_text (lit ''how do I rotate a key?''))) = 34"
  "length (utf8_encode (query_text (lit ''hi''))) = 14"
  by code_simp+

lemma declared_demo:
  "declared_too_large m (Some (decimal 34)) = Inr (m < 34)"
  "declared_too_large m (Some (decimal 14)) = Inr (m < 14)"
proof -
  have "decimal 34 = lit ''34''" "decimal 14 = lit ''14''" by code_simp+
  moreover have "latin1_isdigit (lit ''34'')" "latin1_isdigit (lit ''14'')"
    "int_of_latin1_digits (lit ''34'') = Inr 34" "int_of_latin1_digits (lit ''14'') = Inr 14" by code_simp+
  ultimately show "declared_too_large m (Some (decimal 34)) = Inr (m < 34)"
    and "declared_too_large m (Some (decimal 14)) = Inr (m < 14)"
    by (simp_all add: declared_too_large_def)
qed

lemma demo_labels:
  "er_status r = 200 \<Longrightarrow> labelled ''allowed key + origin reaches core, verdict fused'' r
     = lit ''allowed key + origin reaches core, verdict fused (200)''"
  "er_status r = 403 \<Longrightarrow> labelled ''disallowed origin 403'' r = lit ''disallowed origin 403 (403)''"
  "er_status r = 401 \<Longrightarrow> labelled ''unknown key rejected'' r = lit ''unknown key rejected (401)''"
proof -
  have "decimal 200 = lit ''200''" "decimal 403 = lit ''403''" "decimal 401 = lit ''401''" by code_simp+
  then show "er_status r = 200 \<Longrightarrow> labelled ''allowed key + origin reaches core, verdict fused'' r
     = lit ''allowed key + origin reaches core, verdict fused (200)''"
    and "er_status r = 403 \<Longrightarrow> labelled ''disallowed origin 403'' r = lit ''disallowed origin 403 (403)''"
    and "er_status r = 401 \<Longrightarrow> labelled ''unknown key rejected'' r = lit ''unknown key rejected (401)''"
    by (simp_all add: labelled_def lit_def)
qed

text \<open>The application on a seeded table, with the shipped store and limiter.\<close>

definition seeded_app ::
  "nat \<Rightarrow> key_table \<Rightarrow> settings \<Rightarrow> (http_request \<Rightarrow> endpoint option) \<Rightarrow> (http_request \<Rightarrow> ('w, exc, owner_ctx) action)
     \<Rightarrow> (http_request \<Rightarrow> ('w, exc, response) action) \<Rightarrow> http_request \<Rightarrow> ('w, exc, response) action" where
  "seeded_app limit table settings select owner other =
     app_handle answer limit (visitor_gate_of (lifespan_attributes (table_fetch (seeded table))) settings) select owner other"

lemma seeded_app_gate:
  fixes w :: 'w
  assumes path: "rq_path r = lit ''/v1/widget/answer''" and body: "rq_body r = Inr b"
    and decl: "declared_too_large (visitor_max_body_bytes settings) (rq_header r (lit ''content-length'')) = Inr False"
    and auth: "\<And>gate :: 'w visitor_gate. g_store gate = postgres_lookup (table_fetch (seeded table)) \<Longrightarrow>
      g_rate_limiter gate = allow_all_check \<Longrightarrow> g_max_body_bytes gate = visitor_max_body_bytes settings \<Longrightarrow>
      authorize limit gate (visit_of r b) w = (res, w)"
  shows "seeded_app limit table settings select owner other r w =
    (case res of
       Inl (AppExc e) \<Rightarrow> (Inr (app_error_response e (rq_path r)), w)
     | Inl (PyExc x) \<Rightarrow> (Inl (PyExc x), w)
     | Inr ctx \<Rightarrow> inner_app answer select owner other (r\<lparr>rq_visitor_context := Some ctx\<rparr>) w)"
proof -
  have "py_startswith (lit ''/v1/widget/answer'') WIDGET_PATH_PREFIX" by code_simp
  then have g: "gated r" by (simp add: gated_def path)
  let ?gate = "\<lparr>g_store = postgres_lookup (table_fetch (seeded table)), g_rate_limiter = allow_all_check,
      g_max_body_bytes = visitor_max_body_bytes settings\<rparr> :: 'w visitor_gate"
  show ?thesis
    using middleware_gated [OF g, of ?gate limit "inner_app answer select owner other" w] decl body auth [of ?gate]
    by (simp add: seeded_app_def shipped_gate app_handle_gated [OF g] split: sum.split exc.split)
qed

text \<open>With the application as \<open>create_app\<close> assembles it on any table the seed script has run on (and
  that holds no key \<open>wk_unknown\<close>) and a body limit of at least 34 bytes, the visitor door
  records its three checks, all passed.\<close>

lemma visitor_door_passes:
  assumes "ec_post client = connected_post (seeded_app (Suc d) table settings select owner other)"
    and "\<And>r. rq_path r = lit ''/v1/widget/answer'' \<Longrightarrow> select r = Some WidgetAnswer"
    and "dict_get table (lit ''wk_unknown'') = None" and "34 \<le> visitor_max_body_bytes settings"
  shows "visitor_door client base s = (Inr (), s\<lparr>e2e_results := e2e_results s @
     [(True, lit ''allowed key + origin reaches core, verdict fused (200)''),
      (True, lit ''disallowed origin 403 (403)''), (True, lit ''unknown key rejected (401)'')]\<rparr>)"
proof -
  let ?app = "seeded_app (Suc d) table settings select owner other"
  let ?good = "demo_post ''wk_tenant_a_public'' ''https://tenant-a.example.com'' ''how do I rotate a key?''"
  let ?evil = "demo_post ''wk_tenant_a_public'' ''https://evil.com'' ''hi''"
  let ?unknown = "demo_post ''wk_unknown'' ''https://tenant-a.example.com'' ''hi''"
  note fields = demo_post_fields demo_lengths declared_demo
  have small: "\<not> visitor_max_body_bytes settings < 34" "\<not> visitor_max_body_bytes settings < 14"
    using assms(4) by simp_all
  have good: "?app ?good w = (Inr (ok_response (dump_answer (answer (lit ''tenant-a'') (lit ''how do I rotate a key?'')))), w)" for w
    by (subst seeded_app_gate [where b = "utf8_encode (query_text (lit ''how do I rotate a key?''))"
          and res = "Inr \<lparr>visitor_tenant_id = lit ''tenant-a'', visitor_query = lit ''how do I rotate a key?''\<rparr>"])
       (use small assms(2) in \<open>simp_all add: fields seeded_authorize(1) inner_app_def handled_def run_endpoint_def
          widget_answer_def act_bind_lift answer_in_process_def\<close>)
  have evil: "?app ?evil w = (Inr (app_error_response \<lparr>err_class = TenantAccessError,
      err_detail = lit ''origin not allowed''\<rparr> (lit ''/v1/widget/answer'')), w)" for w
    by (subst seeded_app_gate [where b = "utf8_encode (query_text (lit ''hi''))"
          and res = "raise_app TenantAccessError ''origin not allowed''"])
       (use small in \<open>simp_all add: fields seeded_authorize(2) raise_app_def\<close>)
  have unknown: "?app ?unknown w = (Inr (app_error_response \<lparr>err_class = AuthenticationError,
      err_detail = lit ''unknown widget key''\<rparr> (lit ''/v1/widget/answer'')), w)" for w
    by (subst seeded_app_gate [where b = "utf8_encode (query_text (lit ''hi''))"
          and res = "raise_app AuthenticationError ''unknown widget key''"])
       (use small assms(3) in \<open>simp_all add: fields seeded_authorize(3) raise_app_def\<close>)
  have post: "widget_post client base key origin query t =
      (case ?app (demo_post key origin query) (e2e_world t) of (r, w) \<Rightarrow> (Inr (received r), t\<lparr>e2e_world := w\<rparr>))"
    for key origin query t
    by (simp add: widget_post_def e2e_call_def assms(1) connected_post_def demo_post_def split: prod.split)
  have kind: "json_get (dump_answer (answer t q)) ''verdict'' (JObj []) = Inr (dump_verdict (ar_verdict (answer t q)))"
    "json_get (dump_verdict (ar_verdict (answer t q))) ''kind'' JNull = Inr (JStr (lit ''grounded''))" for t q
    by (simp_all add: json_get_def dump_answer_def answer_def Let_def inj_lit)
  show ?thesis
    by (simp add: visitor_door_def act_bind_def post good evil unknown received_def answered_def
        e2e_check_def kind ok_response_def demo_labels)
qed

section \<open>The MCP door\<close>

text \<open>The script's MCP client connected to the middleware: the headers of its HTTP requests, and
  a failure for everything but a reply. Behind the middleware the MCP library lists the one
  tool and calls it.\<close>

definition sent_scope :: "headers \<Rightarrow> asgi_scope" where
  "sent_scope hs = \<lparr>sc_type = lit ''http'', sc_headers = (lit ''Host'', lit ''127.0.0.1:8000'') # hs,
     sc_path = Some (lit ''/mcp'')\<rparr>"

definition mcp_exchange ::
  "'k jwt_api \<Rightarrow> mcp_security \<Rightarrow> pyfloat \<Rightarrow> ('v, 'r) asgi_app \<Rightarrow> headers \<Rightarrow> ('v mcp_state, exc, 'r) action" where
  "mcp_exchange api m now app hs = (\<lambda>w.
     case mcp_middleware api m now app (sent_scope hs) w of
       (Inr (AppReply x), w') \<Rightarrow> (Inr x, w')
     | (_, w') \<Rightarrow> (Inl (PyExc (OtherExc (lit ''HTTPStatusError''))), w'))"

text \<open>The MCP library behind the middleware: it knows the one tool, and sends what a tool raises as
  a result that says so.\<close>

definition call_tool_app :: "pystr \<Rightarrow> pydict \<Rightarrow> ('v, json option) asgi_app" where
  "call_tool_app name args scope = (\<lambda>s.
     case (case dict_get args (lit ''query'') of
             Some (JStr query) \<Rightarrow>
               if name = lit ''answer'' then mcp_answer_tool answer query s else (Inl (PyExc (OtherExc (lit ''ToolError''))), s)
           | _ \<Rightarrow> (Inl (PyExc (OtherExc (lit ''ToolError''))), s)) of
       (Inr j, s') \<Rightarrow> (Inr (Some j), s')
     | (Inl e, s') \<Rightarrow> (Inr (Some (JObj [(lit ''isError'', JBool True)])), s'))"

definition mcp_connected ::
  "'v mcp_state e2e_client \<Rightarrow> 'k jwt_api \<Rightarrow> mcp_security \<Rightarrow> pyfloat \<Rightarrow> bool" where
  "mcp_connected client api m now \<longleftrightarrow>
     (\<forall>url hs. ec_open client url hs = act_return () \<and> ec_close client url hs = act_return ()
        \<and> ec_initialize client url hs = mcp_exchange api m now (\<lambda>_. act_return ()) hs
        \<and> ec_list_tools client url hs = mcp_exchange api m now (\<lambda>_. act_return [lit ''answer'']) hs
        \<and> (\<forall>name args. ec_call_tool client url hs name args = mcp_exchange api m now (call_tool_app name args) hs))"

definition token_chars :: "pystr \<Rightarrow> bool" where
  "token_chars token \<longleftrightarrow> token \<noteq> [] \<and> (\<forall>c \<in> set token. 33 \<le> c \<and> c \<le> 126)"

lemma ascii_decode: "\<forall>c \<in> set s. 0 \<le> c \<and> c < 128 \<Longrightarrow> py_decode s = Inr s"
proof -
  have "\<forall>c \<in> set s. 0 \<le> c \<and> c < 128 \<Longrightarrow> utf8_decode False s = Some s" by (induction s) auto
  then show "\<forall>c \<in> set s. 0 \<le> c \<and> c < 128 \<Longrightarrow> py_decode s = Inr s" by (simp add: py_decode_def)
qed

lemma parse_bearer_token: "token_chars token \<Longrightarrow> parse_bearer (Some (lit ''Bearer '' @ token)) = Inr token"
proof -
  assume t: "token_chars token"
  have "\<not> is_space c" if "c \<in> set token" for c
    using t that by (auto simp: token_chars_def is_space_def dest!: bspec)
  then have "\<not> is_space (hd token)" "\<not> is_space (last token)" using t by (simp_all add: token_chars_def)
  then have "py_strip token = token" using t by (intro py_strip_id) (simp_all add: token_chars_def)
  moreover have "py_partition 32 (lit ''Bearer '' @ token) = (lit ''Bearer'', True, token)"
    by (simp add: lit_def py_partition_def)
  moreover have "py_lower (lit ''Bearer'') = lit ''bearer''" by code_simp
  ultimately show ?thesis using t by (simp add: parse_bearer_def Let_def token_chars_def)
qed

definition sent_headers :: "pystr \<Rightarrow> pystr \<Rightarrow> (pystr, pystr) dict" where
  "sent_headers token origin =
     [(lit ''host'', lit ''127.0.0.1:8000''), (lit ''authorization'', lit ''Bearer '' @ token), (lit ''origin'', origin)]"

lemma sent_scope_headers:
  assumes "token_chars token" and "py_decode origin = Inr origin"
  shows "decode_headers (sc_headers (sent_scope (mcp_headers token origin))) = Inr (sent_headers token origin)"
proof -
  have bearer: "\<forall>c \<in> set (lit ''Bearer ''). 0 \<le> c \<and> c < 128" by code_simp
  have "\<forall>c \<in> set (lit ''Bearer '' @ token). 0 \<le> c \<and> c < 128"
    using bearer assms(1) by (auto simp: token_chars_def)
  then have "py_decode (lit ''Bearer '' @ token) = Inr (lit ''Bearer '' @ token)" by (rule ascii_decode)
  moreover have "py_decode (lit ''Host'') = Inr (lit ''Host'')" "py_decode (lit ''Authorization'') = Inr (lit ''Authorization'')"
    "py_decode (lit ''Origin'') = Inr (lit ''Origin'')" "py_decode (lit ''127.0.0.1:8000'') = Inr (lit ''127.0.0.1:8000'')"
    "py_lower (lit ''Host'') = lit ''host''" "py_lower (lit ''Authorization'') = lit ''authorization''"
    "py_lower (lit ''Origin'') = lit ''origin''" by code_simp+
  ultimately show ?thesis
    using assms(2)
    by (simp add: sent_scope_def mcp_headers_def decode_headers_def sent_headers_def dict_of_pairs_def inj_lit)
qed

lemma mcp_exchange_admitted:
  assumes "token_chars token" and "py_decode origin = Inr origin"
    and "mcp_admit api m now (sent_headers token origin) = Inr ctx"
  shows "mcp_exchange api m now app (mcp_headers token origin) w =
    (case with_caller ctx (app (sent_scope (mcp_headers token origin))) w of
       (Inr x, w') \<Rightarrow> (Inr x, w') | (Inl e, w') \<Rightarrow> (Inl (PyExc (OtherExc (lit ''HTTPStatusError''))), w'))"
proof -
  have http: "sc_type (sent_scope hs) = lit ''http''" for hs by (simp add: sent_scope_def)
  show ?thesis
    using sent_scope_headers [OF assms(1,2)] assms(3) http
    by (simp add: mcp_exchange_def mcp_middleware_def map_reply_run split: prod.split sum.split)
qed

lemma mcp_exchange_refused:
  assumes "token_chars token" and "py_decode origin = Inr origin"
    and "mcp_admit api m now (sent_headers token origin) = Inl e"
  shows "mcp_exchange api m now app (mcp_headers token origin) w
    = (Inl (PyExc (OtherExc (lit ''HTTPStatusError''))), w)"
proof -
  have "sc_type (sent_scope hs) = lit ''http''" for hs by (simp add: sent_scope_def)
  then show ?thesis
    using sent_scope_headers [OF assms(1,2)] assms(3)
    by (cases e) (simp_all add: mcp_exchange_def mcp_middleware_def)
qed

lemma connected_mcp_admitted:
  assumes "mcp_connected client api m now" and "token_chars token" and "py_decode origin = Inr origin"
    and "mcp_admit api m now (sent_headers token origin) = Inr ctx"
  shows "mcp_call client base token origin w
    = (Inr ([lit ''answer''], Some (dump_answer (answer (caller_tenant_id ctx) (lit ''what is MCP?'')))), w)"
  using assms(1)
  by (simp add: mcp_call_def mcp_connected_def mcp_exchange_admitted [OF assms(2-4)] with_caller_def
      call_tool_app_def mcp_answer_tool_def answer_for_external_caller_def act_bind_def act_finally_def Let_def)

lemma connected_mcp_refused:
  assumes "mcp_connected client api m now" and "token_chars token" and "py_decode origin = Inr origin"
    and "mcp_admit api m now (sent_headers token origin) = Inl e"
  shows "\<exists>x. mcp_call client base token origin w = (Inl x, w)"
  using assms(1)
  by (simp add: mcp_call_def mcp_connected_def mcp_exchange_refused [OF assms(2-4)] act_bind_def act_finally_def Let_def)

lemma script_hosts:
  "authority_host (lit ''127.0.0.1:8000'') = Inr (Some (lit ''127.0.0.1''))"
  "py_lower (lit ''127.0.0.1'') = lit ''127.0.0.1''"
  "origin_host (lit ''https://claude.ai'') = Inr (Some (lit ''claude.ai''))"
  "py_decode (lit ''https://claude.ai'') = Inr (lit ''https://claude.ai'')"
  "py_decode (lit ''https://evil.com'') = Inr (lit ''https://evil.com'')"
  by code_simp+

text \<open>For settings that serve under 127.0.0.1, allow the origin https://claude.ai and no origin of the
  host evil.com, with a JWT library that keeps its promise, mints a token of printable
  characters and rejects \<open>not-a-real-token\<close>, the MCP door, run within the hour, records its
  three checks, all passed.\<close>

lemma mcp_door_passes:
  assumes "mcp_security_of settings = Inr m" and "mcp_connected client api m (FFin now)"
    and "lit ''127.0.0.1'' \<in> set (mcp_allowed_hosts settings)"
    and "lit ''https://claude.ai'' \<in> set (mcp_allowed_origins settings)"
    and "\<And>a. a \<in> set (mcp_allowed_origins settings) \<Longrightarrow> origin_host a \<noteq> Inr (Some (lit ''evil.com''))"
    and "decode_complete api" and "\<And>opts key. jwt_decode api (FFin now) (lit ''not-a-real-token'') key opts = Inl PyJWTError"
    and "mint_mcp_token api time (mcp_signing_secret settings) (mcp_token_issuer settings)
       (mcp_token_audience settings) (lit ''tenant-a'') 3600 = Inr token" and "token_chars token"
    and "of_int (py_trunc time) \<le> now" and "now < of_int (py_trunc time) + 3600"
  shows "mcp_door client base api time repr settings s = (Inr (), s\<lparr>e2e_results := e2e_results s @
     [(True, lit ''valid token + origin: listed and called the tool''),
      (True, lit ''bad token refused''), (True, lit ''disallowed origin refused'')]\<rparr>)"
proof -
  obtain H where H: "mcp_allowed_origin_hosts settings = Inr H" and m: "m = \<lparr>ms_verifier = build_mcp_verifier settings,
      ms_origin_hosts = H, ms_request_hosts = mcp_request_hosts settings\<rparr>"
    using assms(1) by (auto simp: mcp_security_of_Inr_iff)
  have host: "lit ''127.0.0.1'' \<in> mcp_request_hosts settings"
    using assms(3) script_hosts(2) unfolding mcp_request_hosts_def by force
  have claude: "lit ''claude.ai'' \<in> H" and evil: "lit ''evil.com'' \<notin> H"
    using assms(4,5) script_hosts(3) by (auto simp: mcp_allowed_origin_hosts_mem [OF H])
  let ?v = "build_mcp_verifier settings"
  have verified: "mcp_verify api ?v (FFin now) token = Inr \<lparr>caller_tenant_id = lit ''tenant-a''\<rparr>"
  proof -
    have "jwt_encode api (mcp_claims (mv_issuer ?v) (mv_audience ?v) (lit ''tenant-a'') 3600 (py_trunc time))
        (SecretKey (mv_secret ?v)) MCP_ALGORITHM = Inr token"
      using assms(8) by (simp add: mint_mcp_token_def build_mcp_verifier_def)
    moreover have "claims_current (mcp_claims (mv_issuer ?v) (mv_audience ?v) (lit ''tenant-a'') 3600 (py_trunc time))
        (FFin now) (mcp_options ?v)"
      using assms(10,11) by (intro mcp_claims_current) simp_all
    moreover have "MCP_ALGORITHM \<in> set (do_algorithms (mcp_options ?v))"
      by (simp add: mcp_options_def pinned_options_def)
    ultimately have "jwt_decode api (FFin now) token (SecretKey (mv_secret ?v)) (mcp_options ?v)
        = Inr (mcp_claims (mv_issuer ?v) (mv_audience ?v) (lit ''tenant-a'') 3600 (py_trunc time))"
      using assms(6) unfolding decode_complete_def by blast
    then show ?thesis by (simp add: mcp_verify_Inr_iff mcp_claims_get inj_lit lit_eq_Nil)
  qed
  have bad_chars: "token_chars (lit ''not-a-real-token'')" by code_simp
  have good: "mcp_admit api m (FFin now) (sent_headers token (lit ''https://claude.ai''))
      = Inr \<lparr>caller_tenant_id = lit ''tenant-a''\<rparr>"
    unfolding mcp_admit_Inr_iff
    using host claude verified parse_bearer_token [OF assms(9)] script_hosts
    by (simp add: m sent_headers_def inj_lit)
  obtain e1 where bad: "mcp_admit api m (FFin now) (sent_headers (lit ''not-a-real-token'') (lit ''https://claude.ai'')) = Inl e1"
    using assms(7) parse_bearer_token [OF bad_chars]
    by (cases "mcp_admit api m (FFin now) (sent_headers (lit ''not-a-real-token'') (lit ''https://claude.ai''))")
       (auto simp: mcp_admit_Inr_iff mcp_verify_Inr_iff sent_headers_def inj_lit)
  obtain e2 where other: "mcp_admit api m (FFin now) (sent_headers token (lit ''https://evil.com'')) = Inl e2"
    using evil demo_hosts(2)
    by (cases "mcp_admit api m (FFin now) (sent_headers token (lit ''https://evil.com''))")
       (auto simp: mcp_admit_Inr_iff sent_headers_def m inj_lit)
  note c1 = connected_mcp_admitted [OF assms(2,9) script_hosts(4) good, of base]
  note c2 = connected_mcp_refused [OF assms(2) bad_chars script_hosts(4) bad, of base]
  note c3 = connected_mcp_refused [OF assms(2,9) script_hosts(5) other, of base]
  have refused: "mcp_refused client base t site fail pass r = e2e_check True (lit pass) r"
    if "\<exists>x. mcp_call client base t (lit site) (e2e_world r) = (Inl x, e2e_world r)" for t site fail pass r
    using that by (auto simp: mcp_refused_def try_except_def e2e_call_def)
  show ?thesis
    using assms(8)
    by (simp add: mcp_door_def DEFAULT_TTL_SECONDS_def act_bind_def try_except_def e2e_call_def c1
        refused [OF c2] refused [OF c3] e2e_check_def)
qed

section \<open>The owner door\<close>

definition sent_get :: "pystr \<Rightarrow> headers \<Rightarrow> http_request" where
  "sent_get path hs =
     \<lparr>rq_path = path, rq_header = (\<lambda>name. map_of (map (\<lambda>(k, v). (py_lower k, v)) hs) name),
      rq_body = Inr [], rq_client_host = Some (lit ''127.0.0.1''), rq_visitor_context = None\<rparr>"

definition connected_get ::
  "(http_request \<Rightarrow> ('w, exc, response) action) \<Rightarrow> pystr \<Rightarrow> pystr \<Rightarrow> headers \<Rightarrow> ('w, exc, e2e_response) action" where
  "connected_get app base path hs = (\<lambda>w. case app (sent_get path hs) w of (r, w') \<Rightarrow> (Inr (received r), w'))"

text \<open>The dependency of the owner route, on the part of the world that is its own.\<close>

definition owner_dependency ::
  "'k jwt_api \<Rightarrow> environment \<Rightarrow> 'n http_get \<Rightarrow> clock \<Rightarrow> http_request
     \<Rightarrow> (('k, 'n) owner_door mcp_state, exc, owner_ctx) action" where
  "owner_dependency api env http clk request = (\<lambda>w.
     case get_owner_context api env http clk (rq_header request (lit ''authorization'')) (mcp_world w) of
       (r, d) \<Rightarrow> (r, w\<lparr>mcp_world := d\<rparr>))"

text \<open>The identity service's tokens: the key server answers every fetch with a set the library reads,
  the token names a key of it, and the library decodes the token under that key to claims
  that are not issued in the future and name the tenant.\<close>

definition good_owner_token ::
  "'k jwt_api \<Rightarrow> 'n http_get \<Rightarrow> clock \<Rightarrow> settings \<Rightarrow> pystr \<Rightarrow> pystr \<Rightarrow> bool" where
  "good_owner_token api http clk settings tenant_id token \<longleftrightarrow>
     (\<exists>kid key keys claims user entries. key_id api token = Inr kid
        \<and> (\<forall>n. fst (jwks_fetch http (supabase_jwks_url settings) n) = Inr entries)
        \<and> collect_keys api entries [] = Inr keys \<and> published api entries kid = Some key
        \<and> jwt_decode api (at_decode clk) token (PublicKey key) (owner_options (build_owner_verifier http settings)) = Inr claims
        \<and> \<not> issued_in_future (at_check clk) claims
        \<and> names_owner claims \<lparr>owner_tenant_id = tenant_id, owner_user_id = user\<rparr>)"

definition identity_service :: "'w e2e_client \<Rightarrow> settings \<Rightarrow> pystr \<Rightarrow> bool" where
  "identity_service client settings token \<longleftrightarrow>
     (\<forall>w. ec_token_post client
        ((case supabase_url settings of Some u \<Rightarrow> u | None \<Rightarrow> lit ''None'') @ lit ''/auth/v1/token'')
        (case supabase_anon_key settings of Some k \<Rightarrow> k | None \<Rightarrow> [])
        (JObj [(lit ''email'', JStr (lit ''owner-a@example.com'')), (lit ''password'', JStr OWNER_PASSWORD)]) w
      = (Inr (answered 200 (JObj [(lit ''access_token'', JStr token)])), w))"

lemma fresh_owner_accepted:
  assumes "good_owner_token api http clk settings tenant_id token" and "token_chars token"
    and "load_settings env = Inr settings" and "od_settings d = None" and "od_verifier d = None"
  shows "\<exists>user d'. get_owner_context api env http clk (Some (lit ''Bearer '' @ token)) d
      = (Inr \<lparr>owner_tenant_id = tenant_id, owner_user_id = user\<rparr>, d')
     \<and> od_verifier d' = Some (build_owner_verifier http settings)"
proof -
  let ?v = "build_owner_verifier http settings"
  obtain kid key keys claims user entries where good: "key_id api token = Inr kid"
    "\<And>n. fst (jwks_fetch http (supabase_jwks_url settings) n) = Inr entries"
    "collect_keys api entries [] = Inr keys" "published api entries kid = Some key"
    "jwt_decode api (at_decode clk) token (PublicKey key) (owner_options ?v) = Inr claims"
    "\<not> issued_in_future (at_check clk) claims" "names_owner claims \<lparr>owner_tenant_id = tenant_id, owner_user_id = user\<rparr>"
    using assms(1) unfolding good_owner_token_def by blast
  let ?s = "(od_resolver d)\<lparr>rs_keys := []\<rparr>"
  obtain n where "ov_fetch ?v (rs_world ?s) = (Inr entries, n)"
    using good(2) [of "rs_world ?s"]
    by (cases "jwks_fetch http (supabase_jwks_url settings) (rs_world ?s)") (simp add: build_owner_verifier_def)
  then have "resolver_get api (ov_fetch ?v) kid ?s = (Inr key, ?s\<lparr>rs_keys := keys, rs_world := n\<rparr>)"
    using good(3,4) by (simp add: resolver_miss)
  then have "owner_verify api ?v clk token ?s
      = (Inr \<lparr>owner_tenant_id = tenant_id, owner_user_id = user\<rparr>, ?s\<lparr>rs_keys := keys, rs_world := n\<rparr>)"
    unfolding owner_verify_Inr_iff using good by blast
  then show ?thesis
    using assms(3-5) parse_bearer_token [OF assms(2)]
    by (simp add: get_owner_context_def act_bind_def live_verifier_def get_settings_def Let_def)
qed

lemma owner_refusals:
  "get_owner_context api env http clk None d =
     (raise_app AuthenticationError ''missing authorization header'', d)"
  "od_verifier d = Some v \<Longrightarrow> unverified_header api (lit ''not-a-jwt'') = Inl PyJWTError \<Longrightarrow>
     get_owner_context api env http clk (Some (lit ''Bearer not-a-jwt'')) d =
       (raise_app AuthenticationError ''malformed token'', d)"
proof -
  have "parse_bearer (Some (lit ''Bearer not-a-jwt'')) = Inr (lit ''not-a-jwt'')" by code_simp
  then show "od_verifier d = Some v \<Longrightarrow> unverified_header api (lit ''not-a-jwt'') = Inl PyJWTError \<Longrightarrow>
     get_owner_context api env http clk (Some (lit ''Bearer not-a-jwt'')) d =
       (raise_app AuthenticationError ''malformed token'', d)"
    by (simp add: get_owner_context_def act_bind_def live_verifier_def owner_verify_def key_id_def raise_app_def)
qed (simp add: get_owner_context_def act_bind_def parse_bearer_def raise_app_def)

lemma owner_request:
  assumes "\<And>r. rq_path r = lit ''/v1/tenants/me'' \<Longrightarrow> select r = Some OwnerMe"
    and "get_owner_context api env http clk (rq_header (sent_get (lit ''/v1/tenants/me'') hs) (lit ''authorization'')) (mcp_world w)
      = (r, d)"
  shows "connected_get (seeded_app limit table settings select (owner_dependency api env http clk) other) base
      (lit ''/v1/tenants/me'') hs w
    = (Inr (received (case r of
         Inr ctx \<Rightarrow> Inr (ok_response (dump_identity (read_owner_identity ctx)))
       | Inl e \<Rightarrow> handle_app_error (lit ''/v1/tenants/me'') e)), w\<lparr>mcp_world := d\<rparr>)"
proof -
  have "\<not> py_startswith (lit ''/v1/tenants/me'') WIDGET_PATH_PREFIX" by code_simp
  then have "\<not> gated (sent_get (lit ''/v1/tenants/me'') hs)" by (simp add: gated_def sent_get_def)
  moreover have "select (sent_get (lit ''/v1/tenants/me'') hs) = Some OwnerMe"
    by (rule assms(1)) (simp add: sent_get_def)
  moreover have "rq_path (sent_get (lit ''/v1/tenants/me'') hs) = lit ''/v1/tenants/me''" by (simp add: sent_get_def)
  ultimately show ?thesis
    using assms(2)
    by (simp add: connected_get_def seeded_app_def app_handle_ungated inner_app_def run_endpoint_def
        owner_dependency_def act_bind_def handled_def split: sum.split)
qed

lemma received_refusal:
  "\<exists>j. received (case raise_app AuthenticationError m of
       Inr ctx \<Rightarrow> f ctx | Inl e \<Rightarrow> handle_app_error path e) = answered 401 j"
  by (intro exI) (simp add: raise_app_def handle_app_error_def received_def)

lemma owner_labels:
  "er_status r = 200 \<Longrightarrow> labelled ''valid Supabase token accepted, tenant resolved'' r
     = lit ''valid Supabase token accepted, tenant resolved (200)''"
  "er_status r = 401 \<Longrightarrow> labelled ''no token rejected'' r = lit ''no token rejected (401)''"
  "er_status r = 401 \<Longrightarrow> labelled ''garbage token rejected'' r = lit ''garbage token rejected (401)''"
proof -
  have "decimal 200 = lit ''200''" "decimal 401 = lit ''401''" by code_simp+
  then show "er_status r = 200 \<Longrightarrow> labelled ''valid Supabase token accepted, tenant resolved'' r
     = lit ''valid Supabase token accepted, tenant resolved (200)''"
    and "er_status r = 401 \<Longrightarrow> labelled ''no token rejected'' r = lit ''no token rejected (401)''"
    and "er_status r = 401 \<Longrightarrow> labelled ''garbage token rejected'' r = lit ''garbage token rejected (401)''"
    by (simp_all add: labelled_def lit_def)
qed

lemma sent_authorization:
  "rq_header (sent_get path [(lit ''Authorization'', v)]) (lit ''authorization'') = Some v"
  "rq_header (sent_get path []) (lit ''authorization'') = None"
proof -
  have "py_lower (lit ''Authorization'') = lit ''authorization''" by code_simp
  then show "rq_header (sent_get path [(lit ''Authorization'', v)]) (lit ''authorization'') = Some v"
    "rq_header (sent_get path []) (lit ''authorization'') = None"
    by (simp_all add: sent_get_def)
qed

lemma owner_door_passes:
  assumes "ec_get client = connected_get (seeded_app limit table settings select (owner_dependency api env http clk) other)"
    and "\<And>r. rq_path r = lit ''/v1/tenants/me'' \<Longrightarrow> select r = Some OwnerMe"
    and "identity_service client settings token" and "fmt (JStr token) = token"
    and good: "good_owner_token api http clk settings (lit ''tenant-a'') token" "token_chars token"
      "load_settings env = Inr settings"
    and junk: "unverified_header api (lit ''not-a-jwt'') = Inl PyJWTError"
    and fresh: "od_settings (mcp_world (e2e_world s)) = None" "od_verifier (mcp_world (e2e_world s)) = None"
  shows "\<exists>d. owner_door client base fmt settings s = (Inr (), s\<lparr>e2e_results := e2e_results s @
     [(True, lit ''valid Supabase token accepted, tenant resolved (200)''),
      (True, lit ''no token rejected (401)''), (True, lit ''garbage token rejected (401)'')],
      e2e_world := (e2e_world s)\<lparr>mcp_world := d\<rparr>\<rparr>)"
proof -
  obtain user d where ok: "get_owner_context api env http clk (Some (lit ''Bearer '' @ token)) (mcp_world (e2e_world s))
      = (Inr \<lparr>owner_tenant_id = lit ''tenant-a'', owner_user_id = user\<rparr>, d)"
    and v: "od_verifier d = Some (build_owner_verifier http settings)"
    using fresh_owner_accepted [OF good fresh] by blast
  have get: "e2e_call (ec_get client base (lit ''/v1/tenants/me'') hs) t
      = (Inr (received (case r of
         Inr ctx \<Rightarrow> Inr (ok_response (dump_identity (read_owner_identity ctx)))
       | Inl e \<Rightarrow> handle_app_error (lit ''/v1/tenants/me'') e)), t\<lparr>e2e_world := (e2e_world t)\<lparr>mcp_world := d'\<rparr>\<rparr>)"
    if "get_owner_context api env http clk (rq_header (sent_get (lit ''/v1/tenants/me'') hs) (lit ''authorization''))
        (mcp_world (e2e_world t)) = (r, d')" for hs t r d'
    using owner_request [where select = select and limit = limit and table = table and settings = settings
        and other = other and base = base, OF assms(2) that]
    by (simp add: e2e_call_def assms(1))
  have tok: "supabase_owner_token client settings (lit ''owner-a@example.com'') t = (Inr (JStr token), t)" for t
    using assms(3)
    by (simp add: supabase_owner_token_def e2e_call_def identity_service_def act_bind_def answered_def json_index_def)
  have 1: "e2e_call (ec_get client base (lit ''/v1/tenants/me'') [(lit ''Authorization'', lit ''Bearer '' @ token)]) s
      = (Inr (answered 200 (dump_identity \<lparr>oi_tenant_id = lit ''tenant-a'', oi_user_id = user\<rparr>)),
         s\<lparr>e2e_world := (e2e_world s)\<lparr>mcp_world := d\<rparr>\<rparr>)"
    using get [where hs = "[(lit ''Authorization'', lit ''Bearer '' @ token)]" and t = s, unfolded sent_authorization, OF ok]
    by (simp add: received_def ok_response_def read_owner_identity_def)
  have 2: "\<exists>j. e2e_call (ec_get client base (lit ''/v1/tenants/me'') []) t = (Inr (answered 401 j), t)" for t
  proof -
    have "e2e_call (ec_get client base (lit ''/v1/tenants/me'') []) t
      = (Inr (received (case raise_app AuthenticationError ''missing authorization header'' of
         Inr ctx \<Rightarrow> Inr (ok_response (dump_identity (read_owner_identity ctx)))
       | Inl e \<Rightarrow> handle_app_error (lit ''/v1/tenants/me'') e)),
         t\<lparr>e2e_world := (e2e_world t)\<lparr>mcp_world := mcp_world (e2e_world t)\<rparr>\<rparr>)"
      by (rule get) (simp only: sent_authorization owner_refusals(1))
    then show ?thesis
      using received_refusal [where m = "''missing authorization header''" and path = "lit ''/v1/tenants/me''"
          and f = "\<lambda>ctx. Inr (ok_response (dump_identity (read_owner_identity ctx)))"] by auto
  qed
  have 3: "\<exists>j. e2e_call (ec_get client base (lit ''/v1/tenants/me'') [(lit ''Authorization'', lit ''Bearer not-a-jwt'')]) t
      = (Inr (answered 401 j), t)" if "mcp_world (e2e_world t) = d" for t
  proof -
    have "e2e_call (ec_get client base (lit ''/v1/tenants/me'') [(lit ''Authorization'', lit ''Bearer not-a-jwt'')]) t
      = (Inr (received (case raise_app AuthenticationError ''malformed token'' of
         Inr ctx \<Rightarrow> Inr (ok_response (dump_identity (read_owner_identity ctx)))
       | Inl e \<Rightarrow> handle_app_error (lit ''/v1/tenants/me'') e)), t\<lparr>e2e_world := (e2e_world t)\<lparr>mcp_world := d\<rparr>\<rparr>)"
      by (rule get) (simp only: sent_authorization that owner_refusals(2) [OF v junk])
    then show ?thesis
      using received_refusal [where m = "''malformed token''" and path = "lit ''/v1/tenants/me''"
          and f = "\<lambda>ctx. Inr (ok_response (dump_identity (read_owner_identity ctx)))"] that by auto
  qed
  let ?s1 = "s\<lparr>e2e_world := (e2e_world s)\<lparr>mcp_world := d\<rparr>\<rparr>"
  let ?rs1 = "e2e_results s @ [(True, lit ''valid Supabase token accepted, tenant resolved (200)'')]"
  let ?rs2 = "?rs1 @ [(True, lit ''no token rejected (401)'')]"
  obtain j2 where j2: "e2e_call (ec_get client base (lit ''/v1/tenants/me'') []) (?s1\<lparr>e2e_results := ?rs1\<rparr>)
      = (Inr (answered 401 j2), ?s1\<lparr>e2e_results := ?rs1\<rparr>)" using 2 by blast
  obtain j3 where j3: "e2e_call (ec_get client base (lit ''/v1/tenants/me'')
        [(lit ''Authorization'', lit ''Bearer not-a-jwt'')]) (?s1\<lparr>e2e_results := ?rs2\<rparr>)
      = (Inr (answered 401 j3), ?s1\<lparr>e2e_results := ?rs2\<rparr>)"
    using 3 [of "?s1\<lparr>e2e_results := ?rs2\<rparr>"] by auto
  have name: "json_get (dump_identity \<lparr>oi_tenant_id = t, oi_user_id = user\<rparr>) ''tenant_id'' JNull = Inr (JStr t)" for t
    by (simp add: json_get_def dump_identity_def)
  show ?thesis
    using j2 j3
    by (intro exI [of _ d])
       (simp add: owner_door_def act_bind_def tok assms(4) 1 answered_def name e2e_check_def owner_labels)
qed

section \<open>The whole script\<close>

text \<open>C14: the end-to-end script passes. \<open>create_app\<close> has built the application from the environment,
  the script's client is connected to it, the database is seeded, the identity service hands
  out a good owner token, and the server's settings serve under 127.0.0.1, allow https://claude.ai and no origin of
  the host evil.com; the JWT library keeps its promise, mints a token of printable characters
  and rejects the two junk tokens; and the run falls within an hour of minting. Then the
  script exits with 0 and has recorded its nine checks, three for each door, all passed.\<close>

theorem e2e_script_passes:
  assumes built: "create_app tracing env \<lparr>pr_settings = None, pr_tracing = trace0\<rparr> = (Inr cfg, process)" and settings_eq: "settings = ac_gate_settings cfg"
    and app: "app = seeded_app (Suc d) table settings select (owner_dependency api env http clk) other"
    and client: "ec_get client = connected_get app" "ec_post client = connected_post app"
      "mcp_connected client api (snd (snd (ac_mount cfg))) (FFin now)"
    and routes: "\<And>r. rq_path r = lit ''/v1/tenants/me'' \<Longrightarrow> select r = Some OwnerMe"
      "\<And>r. rq_path r = lit ''/v1/widget/answer'' \<Longrightarrow> select r = Some WidgetAnswer"
    and settings: "34 \<le> visitor_max_body_bytes settings" "lit ''127.0.0.1'' \<in> set (mcp_allowed_hosts settings)"
      "lit ''https://claude.ai'' \<in> set (mcp_allowed_origins settings)"
      "\<And>a. a \<in> set (mcp_allowed_origins settings) \<Longrightarrow> origin_host a \<noteq> Inr (Some (lit ''evil.com''))"
    and seeded: "dict_get table (lit ''wk_unknown'') = None"
    and identity: "identity_service client settings token" "fmt (JStr token) = token" "token_chars token"
      "good_owner_token api http clk settings (lit ''tenant-a'') token"
    and library: "decode_complete api" "unverified_header api (lit ''not-a-jwt'') = Inl PyJWTError"
      "\<And>opts key. jwt_decode api (FFin now) (lit ''not-a-real-token'') key opts = Inl PyJWTError"
      "mint_mcp_token api time (mcp_signing_secret settings) (mcp_token_issuer settings)
         (mcp_token_audience settings) (lit ''tenant-a'') 3600 = Inr mcp_token" "token_chars mcp_token"
      "of_int (py_trunc time) \<le> now" "now < of_int (py_trunc time) + 3600"
    and start: "e2e_results s = []" "od_settings (mcp_world (e2e_world s)) = None"
      "od_verifier (mcp_world (e2e_world s)) = None"
  shows "\<exists>s'. e2e_main client base api time fmt repr settings s = (Inr 0, s')
     \<and> map fst (e2e_results s') = replicate 9 True"
proof -
  note parts = create_app_parts [OF built, folded settings_eq]
  obtain o1 where owner: "owner_door client base fmt settings s = (Inr (), s\<lparr>e2e_results := e2e_results s @
     [(True, lit ''valid Supabase token accepted, tenant resolved (200)''),
      (True, lit ''no token rejected (401)''), (True, lit ''garbage token rejected (401)'')],
      e2e_world := (e2e_world s)\<lparr>mcp_world := o1\<rparr>\<rparr>)"
    using owner_door_passes [where base = base and fmt = fmt and token = token and select = select, OF client(1) [unfolded app] routes(1) identity(1,2,4,3)
        parts(1) library(2) start(2,3)] by blast
  note visitor = visitor_door_passes [OF client(2) [unfolded app] routes(2) seeded settings(1), of base]
  note mcp = mcp_door_passes [where base = base and repr = repr, OF parts(2) client(3) settings(2,3,4)
      library(1,3,4,5,6,7)]
  show ?thesis
    by (simp add: e2e_main_def act_bind_def owner visitor mcp start numeral_eq_Suc)
qed

section \<open>A run\<close>

text \<open>One library for both kinds of token: the owner door's keys are public, the MCP door's secret.\<close>

definition both_jwt :: "nat jwt_api" where
  "both_jwt = example_jwt\<lparr>
     jwt_decode := (\<lambda>now token key opts. case key of
        PublicKey k \<Rightarrow> example_decode now token key opts | SecretKey k \<Rightarrow> hs_decode now token key opts),
     jwt_encode := jwt_encode hs_jwt\<rparr>"

definition run_env :: environment where
  "run_env = \<lparr>env_fault = None, env_str = (\<lambda>name. if name = lit ''mcp_signing_secret'' then Given (lit ''s3cret'')
       else if name \<in> {lit ''database_url'', lit ''app_database_url'', lit ''weaviate_url'',
           lit ''supabase_jwt_issuer'', lit ''supabase_jwks_url''} then Given (lit ''iss'') else Unset),
     env_int = (\<lambda>name. Unset),
     env_strs = (\<lambda>name. if name = lit ''mcp_allowed_origins'' then Given [lit ''https://claude.ai''] else Unset)\<rparr>"

definition run_settings :: settings where
  "run_settings = (case load_settings run_env of Inr s \<Rightarrow> s | Inl e \<Rightarrow> undefined)"

type_synonym run_world = "(nat, nat) owner_door mcp_state"

definition run_app :: "http_request \<Rightarrow> (run_world, exc, response) action" where
  "run_app = seeded_app (Suc 0) [] run_settings path_select (owner_dependency both_jwt run_env example_http noon)
     (\<lambda>request. act_raise (AppExc \<lparr>err_class = NotFoundError, err_detail = lit ''not found''\<rparr>))"

definition run_client :: "run_world e2e_client" where
  "run_client =
     \<lparr>ec_token_post = (\<lambda>url key body w. (Inr (answered 200 (JObj [(lit ''access_token'', JStr (lit ''good''))])), w)),
      ec_get = connected_get run_app, ec_post = connected_post run_app,
      ec_open = (\<lambda>url hs. act_return ()), ec_close = (\<lambda>url hs. act_return ()),
      ec_initialize = (\<lambda>url. mcp_exchange both_jwt demo_security (FFin 2000) (\<lambda>_. act_return ())),
      ec_list_tools = (\<lambda>url. mcp_exchange both_jwt demo_security (FFin 2000) (\<lambda>_. act_return [lit ''answer''])),
      ec_call_tool = (\<lambda>url hs name args. mcp_exchange both_jwt demo_security (FFin 2000) (call_tool_app name args) hs)\<rparr>"

definition run_start :: "run_world e2e_state" where
  "run_start = \<lparr>e2e_results = [], e2e_world = \<lparr>mcp_external_caller = None, mcp_world = fresh_door\<rparr>\<rparr>"

lemma run_settings_fields:
  "load_settings run_env = Inr run_settings"
  "mcp_signing_secret run_settings = lit ''s3cret''" "mcp_allowed_origins run_settings = [lit ''https://claude.ai'']"
  "mcp_token_issuer run_settings = lit ''honest-agent''" "mcp_token_audience run_settings = lit ''honest-agent-mcp''"
  "mcp_allowed_hosts run_settings = [lit ''127.0.0.1'', lit ''localhost'']"
  "visitor_max_body_bytes run_settings = 65536" "supabase_jwt_issuer run_settings = lit ''iss''"
  "supabase_jwt_audience run_settings = lit ''authenticated''"
  "logfire_token run_settings = None" "sentry_dsn run_settings = None"
  by (simp_all add: run_settings_def load_settings_def validate_settings_def run_env_def required_field_def or_none_def inj_lit with_default_def)

lemma run_security: "mcp_security_of run_settings = Inr demo_security"
proof -
  have "py_lower (lit ''127.0.0.1'') = lit ''127.0.0.1''" "py_lower (lit ''localhost'') = lit ''localhost''"
    by code_simp+
  then show ?thesis
    using script_hosts(3)
    by (auto simp: mcp_security_of_def mcp_allowed_origin_hosts_def mcp_request_hosts_def build_mcp_verifier_def
        demo_security_def demo_verifier_def run_settings_fields)
qed

lemma run_token: "good_owner_token both_jwt example_http noon run_settings (lit ''tenant-a'') (lit ''good'')"
proof -
  have fetch: "fst (jwks_fetch example_http url n) = Inr [key_entry ''k1'' 1]" for url n
    by (simp add: jwks_fetch_def act_bind_def example_http_def jwks_entries_def dict_entries_def inj_lit as_dict_def
        List.map_filter_def)
  have "key_id both_jwt (lit ''good'') = Inr (lit ''k1'')"
    by (simp add: key_id_Inr_iff both_jwt_def example_jwt_def lit_eq_Nil)
  moreover have "collect_keys both_jwt [key_entry ''k1'' 1] [] = Inr [(lit ''k1'', 1)]"
    "published both_jwt [key_entry ''k1'' 1] (lit ''k1'') = Some 1" by code_simp+
  moreover have "jwt_decode both_jwt (at_decode noon) (lit ''good'') (PublicKey 1)
      (owner_options (build_owner_verifier example_http run_settings)) = Inr example_claims"
    by (simp add: both_jwt_def example_decode_def owner_options_def pinned_options_def build_owner_verifier_def
        run_settings_fields OWNER_ALGORITHMS_def noon_def CLOCK_SKEW_LEEWAY_SECONDS_def)
  moreover have "\<not> issued_in_future (at_check noon) example_claims"
    "names_owner example_claims \<lparr>owner_tenant_id = lit ''tenant-a'', owner_user_id = lit ''u1''\<rparr>"
    by (simp_all add: issued_in_future_def names_owner_def example_claims_def inj_lit lit_eq_Nil)
  ultimately show ?thesis using fetch unfolding good_owner_token_def by blast
qed

theorem e2e_script_passes_witness:
  "\<exists>s'. e2e_main run_client (BASE_URL (\<lambda>_. None)) both_jwt 1000 json_text (\<lambda>e. []) run_settings run_start = (Inr 0, s')
     \<and> map fst (e2e_results s') = replicate 9 True"
proof -
  obtain cfg process where built: "create_app counting_tracing run_env \<lparr>pr_settings = None, pr_tracing = 0\<rparr> = (Inr cfg, process)"
    and parts: "run_settings = ac_gate_settings cfg" "demo_security = snd (snd (ac_mount cfg))"
    by (simp add: create_app_run get_settings_def run_settings_fields run_security observability_inert)
  have conn: "ec_get run_client = connected_get run_app" "ec_post run_client = connected_post run_app"
    "mcp_connected run_client both_jwt (snd (snd (ac_mount cfg))) (FFin 2000)"
    unfolding parts(2) [symmetric] by (simp_all add: run_client_def mcp_connected_def)
  have evil: "a \<in> set (mcp_allowed_origins run_settings) \<Longrightarrow> origin_host a \<noteq> Inr (Some (lit ''evil.com''))" for a
    using script_hosts(3) by (auto simp: run_settings_fields inj_lit)
  have complete: "decode_complete both_jwt"
    using hs_decode_complete
    by (auto simp: decode_complete_def both_jwt_def hs_jwt_def split: jwt_key.split if_splits)
  have junk: "unverified_header both_jwt (lit ''not-a-jwt'') = Inl PyJWTError"
    "jwt_decode both_jwt (FFin 2000) (lit ''not-a-real-token'') key opts = Inl PyJWTError" for key opts
    by (simp_all add: both_jwt_def example_jwt_def example_decode_def hs_decode_def inj_lit split: jwt_key.split)
  have mint: "mint_mcp_token both_jwt 1000 (mcp_signing_secret run_settings) (mcp_token_issuer run_settings)
       (mcp_token_audience run_settings) (lit ''tenant-a'') 3600 = Inr (lit ''tok'')"
    using demo_mint by (simp add: demo_verifier_def run_settings_fields mint_mcp_token_def both_jwt_def)
  have chars: "token_chars (lit ''tok'')" "token_chars (lit ''good'')" by code_simp+
  have now: "py_trunc 1000 = 1000" by (simp add: py_trunc_def)
  have id: "identity_service run_client run_settings (lit ''good'')" "json_text (JStr (lit ''good'')) = lit ''good''"
    by (simp_all add: identity_service_def run_client_def json_text_def)
  show ?thesis
    by (rule e2e_script_passes [where d = 0 and now = 2000 and clk = noon and select = path_select and
          token = "lit ''good''" and mcp_token = "lit ''tok''", OF built parts(1) run_app_def conn])
       (simp_all add: path_select_def run_settings_fields run_security evil id chars run_token complete junk
          mint [unfolded run_settings_fields] now run_start_def fresh_door_def inj_lit)
qed

end
