(* ===== verification/Spec2Isabelle.thy ===== *)
theory Spec2Isabelle
  imports Agent Gate_Limits Owner_Examples Pool_Examples Data_Examples Pool_Data_Examples
    Catalog_Facts App_Startup App_Types Mcp_Tasks E2e_Run
begin

text \<open>
  Verification development of the honest-agent backend (\<open>backend/\<close> and
  \<open>supabase/migrations/\<close>), a multi-tenant question-answering service with three doors in front
  of one core.

  \<^bold>\<open>The program.\<close> A visitor of a customer's site reaches the core through the widget gate, which
  resolves a public widget key to a tenant; an owner reaches the owner routes with a Supabase
  login token; an external AI client reaches the one MCP tool with a token this service mints.
  Each door resolves the tenant from its own credential and passes the core only the tenant
  and the query. Tenant data lies in Postgres tables under row-level security, reached only
  through \<open>tenant_txn\<close>, and in a Weaviate collection with one shard per tenant.

  \<^bold>\<open>What models what.\<close> Names in the theories are the source's; a suffix or prefix is added where
  a name clashes.
  \<^item> \<open>Prelude\<close>, \<open>Py_Str\<close>, \<open>Json\<close>: results with errors, actions (state passing with a result),
    dictionaries in insertion order, Python strings as lists of code points with the string
    methods the program calls, JSON values, floats as the doubles they are.
  \<^item> \<open>Errors\<close> (\<open>core/errors.py\<close>): the AppError classes, the RFC 9457 problem response, the
    handler. \<open>Contexts\<close> (\<open>core/deps.py\<close>, \<open>tenants/contexts.py\<close>, \<open>tenants/schemas.py\<close>).
    \<open>Settings_Core\<close> (\<open>core/settings.py\<close>). \<open>Bearer\<close> (\<open>core/bearer.py\<close>). \<open>Py_Url\<close> and \<open>Origins\<close>
    (\<open>core/origins.py\<close> over \<open>urlsplit\<close>). \<open>Observability\<close> (\<open>core/logging.py\<close>,
    \<open>core/observability.py\<close>). \<open>Db\<close> (\<open>core/db.py\<close>); \<open>Pool_Tasks\<close> splits \<open>tenant_txn\<close> at its
    awaits into steps of tasks that interleave over one pool.
  \<^item> \<open>Py_Json\<close>, \<open>Json_Facts\<close>, \<open>Json_Limits\<close>: \<open>json.loads\<close> on bytes, from the detection of the
    encoding to the scanner, and what bounds it.
  \<^item> \<open>Widget_Keys\<close>, \<open>Rate_Limit\<close>, \<open>Gate\<close> (\<open>tenants/widget_keys.py\<close>, \<open>rate_limit.py\<close>, \<open>gate.py\<close>):
    the key stores, the limiter, \<open>authorize\<close> and the middleware. \<open>Gate_Facts\<close>, \<open>Gate_Http\<close>,
    \<open>Gate_Limits\<close>, \<open>Gate_Examples\<close> hold what is proved of them.
  \<^item> \<open>Jwt_Api\<close>, \<open>Owner_Auth\<close> (\<open>tenants/owner_auth.py\<close>, \<open>tenants/router.py\<close>): the key resolver
    with its cache, the verifier, the dependency. \<open>Owner_Facts\<close> is about one thread;
    \<open>Jwks_Threads\<close> models the shared resolver as interleaved steps of worker threads.
  \<^item> \<open>Mcp_Tokens\<close>, \<open>Mcp_Server\<close>, \<open>Mcp_Facts\<close> (\<open>mcp/tokens.py\<close>, \<open>mcp/server.py\<close>); \<open>Mcp_Tasks\<close>
    models concurrent requests, with the context variable in a context per task.
  \<^item> \<open>Agent\<close> (\<open>agent/schemas.py\<close>, \<open>service.py\<close>, \<open>adapters.py\<close>, \<open>model.py\<close>, \<open>retrieval/service.py\<close>).
    The shipped \<open>answer\<close> is a stub that ignores the tenant and the query, so the adapters and all
    that is built on them take the function they call as the argument \<open>core\<close>: what is shown of the
    doors holds for every core, and says which tenant and which query it is given. The program
    is the instance \<open>core = answer\<close>, which \<open>E2e_Run\<close> runs.
    \<open>Weaviate\<close> (\<open>retrieval/weaviate.py\<close>). \<open>Rls\<close>: the statements of the application role under
    the policies. \<open>Catalog\<close>, \<open>Catalog_Facts\<close> (\<open>0001_app_user.sql\<close> to \<open>0004_widget_keys.sql\<close>):
    the migrations as statements on roles, tables, policies, grants and indexes.
    \<open>Tenant_Data\<close> runs such statements in the body of \<open>tenant_txn\<close>, \<open>Pool_Data\<close> in the tasks of
    \<open>Pool_Tasks\<close> under PostgreSQL's READ COMMITTED. \<open>Store_Examples\<close>, \<open>Pool_Examples\<close>,
    \<open>Data_Examples\<close> and \<open>Pool_Data_Examples\<close> apply the storage theories to small instances.
  \<^item> \<open>App_Main\<close>, \<open>App_Facts\<close> (\<open>main.py\<close>, \<open>tenants/widget_router.py\<close>, the routers): the routes,
    the order of the layers, the lifespan; \<open>App_Types\<close> has the schemas of the responses;
    \<open>App_Startup\<close> builds the application from the environment (\<open>create_app\<close>,
    \<open>build_mcp_server\<close>).
  \<^item> \<open>Migrations\<close>, \<open>Seed\<close>, \<open>E2e\<close> (\<open>scripts/\<close>): the operational scripts. \<open>Doors\<close>: what spans the
    doors. \<open>E2e_Run\<close>: the end-to-end script connected to the modelled application.

  \<^bold>\<open>What is shown.\<close>
  \<^item> The visitor gate: exactly which requests it accepts and with what context, what each
    refusal means, that the limiter is consulted once and only past the earlier checks, that
    the tenant is a function of the key alone, that the application behind it runs only after
    it accepted, that the query is bounded by the body limit, and that a body is read to its
    end when the nesting limit allows as many levels as the body has bytes.
  \<^item> The owner door: exactly which tokens are accepted, that they are genuine and signed with
    ES256, not expired and not from the future, from the request header to the context; the
    cache under any interleaving of threads, that a thread alone does exactly what the
    sequential resolver does, the interleaving that refuses a published key, and the fetches an
    unknown key id causes.
  \<^item> The MCP door: exactly which requests are admitted for the lists of the settings, that the
    tool gives the core the verified caller's tenant and no other and the context variable never outlives the
    request, that concurrent requests never answer for each other's tenant, that minting and
    verifying are inverse, and that no token opens both token doors.
  \<^item> Storage: a tenant transaction leaves no tenant in the pool on any exit, runs its body only under
    its tenant, and commits what its statements make of its own rows or nothing; among
    transactions of other tenants, however they interleave, it has that same effect, and a
    tenant's committed rows change only in commits of its own; transactions that interleave
    never share a connection and never see each other's tenant; under the policies no statement
    of one tenant reads or changes a row of another, what a tenant is shown is a function of its
    own rows, and without a tenant nothing is shown or changed, and a statement that would meet
    a row fails; the migrations build exactly those
    policies, subject the tables' owner to them too, give the application role no more than it
    needs, and can be run again after any partial run; bootstrapping Weaviate is
    idempotent, and a shard gains only what was inserted through handles of ids with its name,
    which are one tenant's as long as the ids have no underscore.
  \<^item> The assembled application: an answer of the widget is the core's for the key's tenant and the query and
    the same the MCP tool gives that tenant, every response has the type of its endpoint or is
    a problem document, no AppError escapes, it starts exactly when the environment can be read, its
    fields are valid, the tracing calls return and the origins parse, and the end-to-end script, all nine checks of it, exits with 0.
  \<^item> Errors: which requests end in an exception that is no problem response.

  \<^bold>\<open>Parameters.\<close> Code outside the repository is an argument of the
  definitions that use it. Where a property needs what its documentation promises, that is a
  named predicate: \<open>decode_sound\<close>, \<open>decode_complete\<close>,
  \<open>one_algorithm\<close> (the JWT library), \<open>pool_laws\<close> (asyncpg and
  \<open>set_config\<close>; after the transaction Postgres leaves the empty string, which
  counts as no tenant), \<open>weaviate_laws\<close>, \<open>shard_laws\<close>,
  \<open>store_laws\<close> and \<open>shared_laws\<close> (what one and what concurrent
  transactions see of the tables), \<open>seed_laws\<close>, \<open>logs_statements\<close> (the
  driver in the scripts), \<open>routes_exactly\<close> (the framework's router),
  \<open>data_call\<close> (a statement that makes no tenant setting),
  \<open>files_readable\<close> (the migration files hold the statements modelled),
  \<open>bare\<close> (the database before the migrations), \<open>good_owner_token\<close>,
  \<open>identity_service\<close>, \<open>mcp_connected\<close> (the services around an
  end-to-end run). Each is shown to hold of a concrete instance in the witnesses. The HTTP
  clients, the clock, the rate limiter's state, the tracing libraries and the application
  behind the MCP middleware are left open. So is what the settings library makes of the
  environment: of each field nothing, a value, or one its validation refuses, and what reading
  raises. \<open>not_expired\<close> takes the expiry as the JWT library does, as what \<open>int\<close> makes of the claim.
  PostgreSQL's plans are left open where they matter: \<open>exec_planned\<close> lets a plan evaluate the
  policy's subselect although the statement meets no row.

  \<^bold>\<open>Interfaces.\<close> The locales \<open>widget_key_store\<close> and \<open>normalized_key_store\<close> (interpreted on both
  stores), \<open>unlimited\<close> (the shipped limiter) and \<open>tenant_table\<close> (both tables) state the
  contracts the gate and the isolation proofs rest on. \<open>answering_door\<close> and \<open>two_doors\<close>
  (interpreted on the widget and the MCP tool, over any core) say that a door answers what the
  core gives for the tenant and the query it resolves its request to.

  \<^bold>\<open>Bounds.\<close> Integers are unbounded as in Python. The nesting limit of the JSON reader is an
  argument (\<open>limit\<close>); \<open>scan_once_mono\<close> shows that a larger one changes no result and
  \<open>scan_once_shallow\<close> that the length of the text is always enough. Conversions between
  digits and integers keep CPython's limit of 4300 digits.

  \<^bold>\<open>Not modelled.\<close> Console output, log lines and what the tracing libraries do with their
  configuration are left out, as are the framework's and the MCP library's internals, the
  parsing of SQL text, what a database role must itself be allowed to do to run the
  migrations, and the tests. \<open>agent/model.py\<close> declares a protocol nothing implements or calls
  yet; only its signature is there.
\<close>

end
